(* ===== verification/Prelude.thy ===== *)
theory Prelude
  imports Complex_Main "HOL-Library.Word" "HOL-Library.Char_ord" "HOL-Library.List_Lexorder"
    "HOL-Library.Product_Lexorder"
begin

text \<open>
  Shared ground of the development: identifiers and clocks, the Rust \<open>Result\<close> / \<open>?\<close>
  discipline over an explicit state, the part of \<open>str\<close> the services use (strings are UTF-8
  byte strings, one \<open>char\<close> per byte, so \<open>length\<close> is \<open>str::len\<close>), floating point numbers as
  far as the code compares them, and JSON values.
\<close>

section \<open>Identifiers, clocks and collections of facts\<close>

type_synonym uuid = "128 word"
type_synonym time = int
type_synonym bytes = string

named_theorems handler_defs \<open>definitions of request handlers and their transaction bodies\<close>
named_theorems sql_defs \<open>definitions of SQL statements and row predicates\<close>
named_theorems elim_tx \<open>elimination rules for successful steps of a transaction\<close>

section \<open>Results: the \<open>?\<close> operator over an explicit state\<close>

text \<open>A fallible, state-passing computation; \<open>Inl\<close> is Rust's \<open>Err\<close>, \<open>Inr\<close> is \<open>Ok\<close>.\<close>

type_synonym ('s, 'e, 'a) comp = "'s \<Rightarrow> ('e + 'a) \<times> 's"

definition ok :: "'a \<Rightarrow> ('s, 'e, 'a) comp" where
  "ok a s = (Inr a, s)"

definition fail :: "'e \<Rightarrow> ('s, 'e, 'a) comp" where
  "fail e s = (Inl e, s)"

text \<open>\<open>tryb m f\<close> is \<open>let x = m?; f(x)\<close>: the first error leaves the function.\<close>

definition tryb :: "('s, 'e, 'a) comp \<Rightarrow> ('a \<Rightarrow> ('s, 'e, 'b) comp) \<Rightarrow> ('s, 'e, 'b) comp" where
  "tryb m f s = (case m s of (Inl e, s') \<Rightarrow> (Inl e, s') | (Inr a, s') \<Rightarrow> f a s')"

text \<open>\<open>from_result r\<close> is \<open>r?\<close> for a pure result.\<close>

definition from_result :: "'e + 'a \<Rightarrow> ('s, 'e, 'a) comp" where
  "from_result r s = (r, s)"

text \<open>\<open>Option::ok_or\<close>.\<close>

definition ok_or :: "'e \<Rightarrow> 'a option \<Rightarrow> 'e + 'a" where
  "ok_or e x = (case x of None \<Rightarrow> Inl e | Some a \<Rightarrow> Inr a)"

definition is_ok :: "'e + 'a \<Rightarrow> bool" where
  "is_ok r = (case r of Inl _ \<Rightarrow> False | Inr _ \<Rightarrow> True)"

lemma is_ok_simps [simp]: "is_ok (Inr a)" "\<not> is_ok (Inl e)"
  by (simp_all add: is_ok_def)

lemma ok_or_simps [simp]: "ok_or e None = Inl e" "ok_or e (Some a) = Inr a"
  by (simp_all add: ok_or_def)

lemma ok_apply [simp]: "ok a s = (Inr a, s)" and fail_apply [simp]: "fail e s = (Inl e, s)"
  by (simp_all add: ok_def fail_def)

lemma from_result_Inr [elim_tx]:
  assumes "from_result r s = (Inr a, s')"
  obtains "r = Inr a" "s' = s"
  using assms by (simp add: from_result_def)

lemma tryb_Inr [elim_tx]:
  assumes "tryb m f s = (Inr b, s')"
  obtains a s1 where "m s = (Inr a, s1)" "f a s1 = (Inr b, s')"
  using assms by (auto simp: tryb_def split: prod.splits sum.splits)

lemma ok_Inr [elim_tx]:
  assumes "ok a s = (Inr b, s')"
  obtains "b = a" "s' = s"
  using assms by simp

lemma fail_Inr [elim_tx]:
  assumes "fail e s = (Inr b, s')"
  obtains "False"
  using assms by simp

lemma ok_or_eq_Inr [simp]: "ok_or e x = Inr a \<longleftrightarrow> x = Some a"
  by (auto simp: ok_or_def split: option.splits)

lemma tryb_run: "m s = (Inr a, s1) \<Longrightarrow> tryb m f s = f a s1"
  and tryb_err: "m s = (Inl e, s1) \<Longrightarrow> tryb m f s = (Inl e, s1)"
  by (simp_all add: tryb_def)

text \<open>A key without duplicates determines the element.\<close>

lemma distinct_key: "distinct (map g xs) \<Longrightarrow> x \<in> set xs \<Longrightarrow> y \<in> set xs \<Longrightarrow> g x = g y \<Longrightarrow> x = y"
  by (auto simp: distinct_map dest: inj_onD)

section \<open>Strings\<close>

definition ascii_lower :: "char \<Rightarrow> bool" where
  "ascii_lower c \<longleftrightarrow> 97 \<le> (of_char c :: nat) \<and> (of_char c :: nat) \<le> 122"

definition ascii_digit :: "char \<Rightarrow> bool" where
  "ascii_digit c \<longleftrightarrow> 48 \<le> (of_char c :: nat) \<and> (of_char c :: nat) \<le> 57"

text \<open>\<open>str::starts_with\<close>, \<open>str::ends_with\<close> with a character, \<open>str::contains\<close> with a
  character, \<open>str::strip_prefix\<close>.\<close>

definition starts_with :: "char \<Rightarrow> string \<Rightarrow> bool" where
  "starts_with c s = (case s of [] \<Rightarrow> False | x # _ \<Rightarrow> x = c)"

definition ends_with :: "char \<Rightarrow> string \<Rightarrow> bool" where
  "ends_with c s \<longleftrightarrow> s \<noteq> [] \<and> last s = c"

fun strip_prefix :: "string \<Rightarrow> string \<Rightarrow> string option" where
  "strip_prefix [] s = Some s"
| "strip_prefix (p # ps) [] = None"
| "strip_prefix (p # ps) (c # cs) = (if p = c then strip_prefix ps cs else None)"

lemma strip_prefix_Some_iff: "strip_prefix p s = Some r \<longleftrightarrow> s = p @ r"
  by (induction p s rule: strip_prefix.induct) auto

lemma strip_prefix_append [simp]: "strip_prefix p (p @ r) = Some r"
  by (simp add: strip_prefix_Some_iff)

text \<open>\<open>str::split\<close> on a character: always at least one piece.\<close>

fun split_on :: "char \<Rightarrow> string \<Rightarrow> string list" where
  "split_on c [] = [[]]"
| "split_on c (x # xs) =
     (if x = c then [] # split_on c xs
      else (case split_on c xs of [] \<Rightarrow> [[x]] | p # ps \<Rightarrow> (x # p) # ps))"

text \<open>\<open>[String]::join\<close>.\<close>

fun join :: "string \<Rightarrow> string list \<Rightarrow> string" where
  "join sep [] = []"
| "join sep [x] = x"
| "join sep (x # y # ys) = x @ sep @ join sep (y # ys)"

lemma split_on_nonempty [simp]: "split_on c s \<noteq> []"
  by (cases s) (auto split: list.splits)

lemma split_on_no_sep: "p \<in> set (split_on c s) \<Longrightarrow> c \<notin> set p"
proof (induction s arbitrary: p)
  case Nil
  then show ?case by simp
next
  case (Cons x xs)
  then show ?case by (cases "split_on c xs") (auto split: if_splits)
qed

lemma join_split_on: "join [c] (split_on c s) = s"
proof (induction s)
  case Nil
  then show ?case by simp
next
  case (Cons x xs)
  show ?case
  proof (cases "split_on c xs")
    case Nil
    then show ?thesis by simp
  next
    case (Cons p ps)
    with Cons.IH show ?thesis by (cases ps) auto
  qed
qed

lemma split_on_none: "c \<notin> set s \<Longrightarrow> split_on c s = [s]"
  by (induction s) auto

lemma split_on_append: "c \<notin> set p \<Longrightarrow> split_on c (p @ c # r) = p # split_on c r"
  by (induction p) auto

lemma split_on_join:
  "ps \<noteq> [] \<Longrightarrow> (\<And>p. p \<in> set ps \<Longrightarrow> c \<notin> set p) \<Longrightarrow> split_on c (join [c] ps) = ps"
proof (induction ps rule: induct_list012)
  case 1
  then show ?case by simp
next
  case (2 x)
  then show ?case by (simp add: split_on_none)
next
  case (3 x y zs)
  then show ?case by (simp add: split_on_append)
qed

lemma set_split_on: "p \<in> set (split_on c s) \<Longrightarrow> set p \<subseteq> set s"
proof (induction s arbitrary: p)
  case Nil
  then show ?case by simp
next
  case (Cons x xs)
  then show ?case
    by (cases "split_on c xs") (auto split: if_splits, fastforce+)
qed

text \<open>\<open>str::replace\<close> of one character by a string.\<close>

definition replace_char :: "char \<Rightarrow> string \<Rightarrow> string \<Rightarrow> string" where
  "replace_char c r s = concat (map (\<lambda>x. if x = c then r else [x]) s)"

lemma replace_char_Nil [simp]: "replace_char c r [] = []"
  and replace_char_Cons [simp]:
    "replace_char c r (x # xs) = (if x = c then r else [x]) @ replace_char c r xs"
  by (simp_all add: replace_char_def)

text \<open>\<open>str::trim_end_matches\<close> with a character.\<close>

definition trim_end_matches :: "char \<Rightarrow> string \<Rightarrow> string" where
  "trim_end_matches c s = rev (dropWhile (\<lambda>x. x = c) (rev s))"

lemma trim_end_matches_no_end: "\<not> ends_with c (trim_end_matches c s)"
proof (cases "dropWhile (\<lambda>x. x = c) (rev s)")
  case Nil
  then show ?thesis by (simp add: trim_end_matches_def ends_with_def)
next
  case (Cons y ys)
  then have "y \<noteq> c"
    using hd_dropWhile [of "\<lambda>x. x = c" "rev s"] by simp
  with Cons show ?thesis by (simp add: trim_end_matches_def ends_with_def)
qed

text \<open>
  \<open>s.trim().is_empty()\<close>: every character of \<open>s\<close> is Unicode white space. Over UTF-8 bytes the
  white space characters are the ASCII ones (9 to 13 and 32), two-byte U+0085 and U+00A0, and
  three-byte U+1680, U+2000 to U+200A, U+2028, U+2029, U+202F, U+205F, U+3000.
\<close>

definition ws1 :: "nat \<Rightarrow> bool" where
  "ws1 a \<longleftrightarrow> (9 \<le> a \<and> a \<le> 13) \<or> a = 32"

definition ws2 :: "nat \<Rightarrow> nat \<Rightarrow> bool" where
  "ws2 a b \<longleftrightarrow> a = 194 \<and> (b = 133 \<or> b = 160)"

definition ws3 :: "nat \<Rightarrow> nat \<Rightarrow> nat \<Rightarrow> bool" where
  "ws3 a b c \<longleftrightarrow>
     (a = 225 \<and> b = 154 \<and> c = 128)
   \<or> (a = 226 \<and> b = 128 \<and> ((128 \<le> c \<and> c \<le> 138) \<or> c = 168 \<or> c = 169 \<or> c = 175))
   \<or> (a = 226 \<and> b = 129 \<and> c = 159)
   \<or> (a = 227 \<and> b = 128 \<and> c = 128)"

fun blank_codes :: "nat list \<Rightarrow> bool" where
  "blank_codes [] = True"
| "blank_codes [a] = ws1 a"
| "blank_codes [a, b] = (if ws1 a then blank_codes [b] else ws2 a b)"
| "blank_codes (a # b # c # cs) =
     (if ws1 a then blank_codes (b # c # cs)
      else if ws2 a b then blank_codes (c # cs)
      else ws3 a b c \<and> blank_codes cs)"

definition blank :: "string \<Rightarrow> bool" where
  "blank s = blank_codes (map of_char s)"

section \<open>Canonical text of a UUID\<close>

text \<open>
  RFC 4122 text, 8-4-4-4-12 lower-case hexadecimal digits: what \<open>Uuid::to_string\<close> prints and
  what the cast \<open>uuid::text\<close> of PostgreSQL prints. Row level security compares the two, so that
  the text determines the identifier is the fact tenant isolation rests on.
\<close>

definition nibble :: "uuid \<Rightarrow> nat \<Rightarrow> nat" where
  "nibble w i = unat (take_bit 4 (drop_bit (4 * i) w))"

definition hex_digit :: "nat \<Rightarrow> char" where
  "hex_digit n = (if n < 10 then char_of (48 + n) else char_of (87 + n))"

definition hex32 :: "uuid \<Rightarrow> string" where
  "hex32 w = map (\<lambda>i. hex_digit (nibble w i)) (rev [0..<32])"

definition hyphenate :: "string \<Rightarrow> string" where
  "hyphenate h = take 8 h @ ''-'' @ take 4 (drop 8 h) @ ''-'' @ take 4 (drop 12 h) @ ''-''
     @ take 4 (drop 16 h) @ ''-'' @ drop 20 h"

definition uuid_text :: "uuid \<Rightarrow> string" where
  "uuid_text w = hyphenate (hex32 w)"

lemma nibble_less: "nibble w i < 16"
proof -
  have "unat (take_bit 4 (drop_bit (4 * i) w)) = take_bit 4 (unat (drop_bit (4 * i) w))"
    by (simp add: unsigned_take_bit_eq)
  then show ?thesis
    by (simp add: nibble_def take_bit_eq_mod)
qed

lemma hex_digit_inj:
  assumes "a < 16" "b < 16" "hex_digit a = hex_digit b"
  shows "a = b"
proof -
  let ?v = "\<lambda>n::nat. if n < 10 then 48 + n else 87 + n"
  have v: "of_char (hex_digit n) = ?v n" if "n < 16" for n :: nat
    using that by (simp add: hex_digit_def)
  from assms(3) have "?v a = ?v b"
    using v [OF assms(1)] v [OF assms(2)] by metis
  with assms(1,2) show ?thesis
    by (auto split: if_splits)
qed

lemma bit_nibble: "bit w n = bit (nibble w (n div 4)) (n mod 4)" for w :: uuid
proof -
  have "bit (nibble w (n div 4)) (n mod 4) = bit (take_bit 4 (drop_bit (4 * (n div 4)) w)) (n mod 4)"
    by (simp add: nibble_def bit_unsigned_iff)
  also have "\<dots> = bit w (4 * (n div 4) + n mod 4)"
    by (simp add: bit_take_bit_iff bit_drop_bit_eq)
  finally show ?thesis by simp
qed

lemma length_hex32 [simp]: "length (hex32 w) = 32"
  by (simp add: hex32_def)

lemma hex32_inj: "hex32 v = hex32 w \<Longrightarrow> v = w"
proof -
  assume eq: "hex32 v = hex32 w"
  have nib: "nibble v i = nibble w i" if "i < 32" for i
  proof -
    have "hex_digit (nibble v i) = hex_digit (nibble w i)"
      using eq that by (simp add: hex32_def)
    then show ?thesis
      by (rule hex_digit_inj [OF nibble_less nibble_less])
  qed
  show "v = w"
  proof (rule bit_word_eqI)
    fix n assume "n < LENGTH(128)"
    then have "n div 4 < 32" by simp
    then show "bit v n = bit w n"
      by (simp add: bit_nibble [of v] bit_nibble [of w] nib)
  qed
qed

lemma hyphenate_inj:
  assumes "length a = 32" "length b = 32" "hyphenate a = hyphenate b"
  shows "a = b"
proof -
  have parts: "take 8 a = take 8 b \<and> take 4 (drop 8 a) = take 4 (drop 8 b)
      \<and> take 4 (drop 12 a) = take 4 (drop 12 b) \<and> take 4 (drop 16 a) = take 4 (drop 16 b)
      \<and> drop 20 a = drop 20 b"
    using assms by (simp add: hyphenate_def)
  have split: "x = take 8 x @ take 4 (drop 8 x) @ take 4 (drop 12 x) @ take 4 (drop 16 x) @ drop 20 x"
    for x :: string
  proof -
    have "drop 16 x = take 4 (drop 16 x) @ drop 20 x"
      using append_take_drop_id [of 4 "drop 16 x"] by simp
    moreover have "drop 12 x = take 4 (drop 12 x) @ drop 16 x"
      using append_take_drop_id [of 4 "drop 12 x"] by simp
    moreover have "drop 8 x = take 4 (drop 8 x) @ drop 12 x"
      using append_take_drop_id [of 4 "drop 8 x"] by simp
    ultimately show ?thesis
      using append_take_drop_id [of 8 x] by metis
  qed
  show ?thesis using parts split [of a] split [of b] by metis
qed

lemma uuid_text_eq_iff [simp]: "uuid_text v = uuid_text w \<longleftrightarrow> v = w"
  using hyphenate_inj [of "hex32 v" "hex32 w"] hex32_inj [of v w] by (auto simp: uuid_text_def)

section \<open>Floating point numbers\<close>

text \<open>
  \<open>f64\<close> (and \<open>f32\<close>) as far as the code uses them: comparisons and \<open>is_finite\<close>. A finite value
  is its exact rational, so comparisons are exact; \<open>-0.0\<close> and \<open>0.0\<close>, which compare equal, are
  one value. How a number is printed is a parameter wherever the code prints one.
\<close>

datatype f64 = Finite rat | PosInf | NegInf | NaN

fun is_finite :: "f64 \<Rightarrow> bool" where
  "is_finite (Finite _) = True"
| "is_finite _ = False"

fun f64_less :: "f64 \<Rightarrow> f64 \<Rightarrow> bool" where
  "f64_less NaN _ = False"
| "f64_less _ NaN = False"
| "f64_less (Finite a) (Finite b) = (a < b)"
| "f64_less NegInf NegInf = False"
| "f64_less NegInf _ = True"
| "f64_less _ PosInf = True"
| "f64_less _ _ = False"

section \<open>JSON values\<close>

text \<open>
  \<open>serde_json::Value\<close> as the \<open>json!\<close> macro builds it. A number that is not finite becomes
  \<open>null\<close>, as \<open>serde_json\<close> has it.
\<close>

datatype json = JNull | JBool bool | JInt int | JNum rat | JStr string
  | JArr "json list" | JObj "(string \<times> json) list"

fun json_f64 :: "f64 \<Rightarrow> json" where
  "json_f64 (Finite r) = JNum r"
| "json_f64 _ = JNull"

end
