(* ===== verification/Database.thy ===== *)
theory Database
  imports Prelude
begin

text \<open>
  \<open>crates/og-db\<close>: sessions and transactions (\<open>db.rs\<close>), the error mapping (\<open>error.rs\<close>) and the
  audit helper (\<open>audit.rs\<close>). A session holds the committed database; a transaction works on a
  private copy that \<open>commit\<close> installs and that dropping the transaction discards. Every round
  trip to the server takes its outcome from an oracle, so a theorem over all oracles covers every
  point at which the connection can fail. Transactions are atomic with respect to each other.
\<close>

section \<open>Round trips\<close>

text \<open>
  \<open>Failed\<close>: the request was not executed. \<open>Lost\<close>: the server executed it, but the connection broke
  before the answer arrived, which for a commit means that the change is durable although the
  client sees an error. An exhausted plan means no further faults.
\<close>

datatype outcome = Done | Failed | Lost

fun next_outcome :: "outcome list \<Rightarrow> outcome \<times> outcome list" where
  "next_outcome [] = (Done, [])"
| "next_outcome (x # xs) = (x, xs)"

section \<open>Errors\<close>

datatype violation = UniqueViolation | CheckViolation | ForeignKeyViolation
  | InsufficientPrivilege \<comment> \<open>row level security, SQLSTATE 42501\<close>
  | InvalidRowCountInLimit \<comment> \<open>SQLSTATE 2201W\<close>

datatype sqlx_error = DbErr violation | Io | RowNotFound | Configuration string | Migrate string

datatype api_error = Unauthorized | NotFound | Conflict string | Validation string | Db sqlx_error

text \<open>\<open>ApiError::status\<close>.\<close>

fun api_status :: "api_error \<Rightarrow> nat" where
  "api_status Unauthorized = 401"
| "api_status NotFound = 404"
| "api_status (Conflict _) = 409"
| "api_status (Validation _) = 422"
| "api_status (Db _) = 500"

text \<open>The \<open>Display\<close> text that \<open>thiserror\<close> derives from the \<open>#[error]\<close> attributes.\<close>

fun api_display :: "api_error \<Rightarrow> string" where
  "api_display Unauthorized = ''unauthorized''"
| "api_display NotFound = ''not found''"
| "api_display (Conflict m) = ''conflict: '' @ m"
| "api_display (Validation m) = ''validation: '' @ m"
| "api_display (Db _) = ''database error''"

text \<open>\<open>IntoResponse for ApiError\<close>: status and the \<open>error\<close> field of the body.\<close>

definition into_response :: "api_error \<Rightarrow> nat \<times> json" where
  "into_response e =
     (let (status, message) =
        (case e of
           Db (DbErr UniqueViolation) \<Rightarrow> (409, ''already exists'')
         | Db x \<Rightarrow> (api_status (Db x), ''internal error'')
         | other \<Rightarrow> (api_status other, api_display other))
      in (status, JObj [(''error'', JStr message)]))"

section \<open>Roles and the start-up guard\<close>

record db_role =
  rolsuper :: bool
  rolbypassrls :: bool

definition privileged :: "db_role \<Rightarrow> bool" where
  "privileged r \<longleftrightarrow> rolsuper r \<or> rolbypassrls r"

definition bool_text :: "bool \<Rightarrow> string" where
  "bool_text b = (if b then ''true'' else ''false'')"

text \<open>
  \<open>Db::assert_rls_safe_role\<close>: the argument \<open>row\<close> is the answer of the \<open>pg_roles\<close> query (an error or
  the two flags), \<open>env\<close> the value of \<open>OPENGROUPWARE_ALLOW_UNSAFE_DB\<close>.
\<close>

definition assert_rls_safe_role :: "sqlx_error + db_role \<Rightarrow> string option \<Rightarrow> sqlx_error + unit" where
  "assert_rls_safe_role row env =
     (case row of
        Inl e \<Rightarrow> Inl e
      | Inr r \<Rightarrow>
          if \<not> (rolsuper r \<or> rolbypassrls r) then Inr ()
          else if env = Some ''1'' then Inr ()
          else Inl (Configuration (''connecting role is privileged (superuser='' @ bool_text (rolsuper r)
                 @ '', bypassrls='' @ bool_text (rolbypassrls r)
                 @ ''); RLS would be bypassed. Connect as a role granted opengroupware_app, or set OPENGROUPWARE_ALLOW_UNSAFE_DB=1 in development only.'')))"

section \<open>Sessions, scopes and transactions\<close>

text \<open>
  The scope of a transaction: the two settings row level security reads (unset, or set by
  \<open>set_config(..., true)\<close> and gone with the transaction), whether the role bypasses row level
  security, and the transaction's \<open>now()\<close>.
\<close>

record scope =
  current_tenant :: "string option"
  platform_admin :: "string option"
  bypass_rls :: bool
  tx_now :: time

record 'd session =
  committed :: 'd
  role :: db_role
  net :: "outcome list"

record 'd work =
  wdb :: 'd
  wscope :: scope
  wplan :: "outcome list"

text \<open>\<open>Db::connect\<close>: the pool, then the guard; no session without it.\<close>

definition connect :: "outcome \<Rightarrow> sqlx_error + db_role \<Rightarrow> string option \<Rightarrow> 'd \<Rightarrow> outcome list
    \<Rightarrow> sqlx_error + 'd session" where
  "connect pool row env d pl =
     (if pool \<noteq> Done then Inl Io
      else (case assert_rls_safe_role row env of
              Inl e \<Rightarrow> Inl e
            | Inr _ \<Rightarrow> (case row of Inl e \<Rightarrow> Inl e
                        | Inr r \<Rightarrow> Inr \<lparr>committed = d, role = r, net = pl\<rparr>)))"

text \<open>\<open>Db::run_migrations\<close>: the migrator's answer, its error boxed.\<close>

definition run_migrations :: "string + unit \<Rightarrow> sqlx_error + unit" where
  "run_migrations answer = (case answer of Inl e \<Rightarrow> Inl (Migrate e) | Inr u \<Rightarrow> Inr u)"

text \<open>\<open>pool.begin()\<close> followed by one \<open>set_config\<close> round trip.\<close>

definition open_tx :: "(db_role \<Rightarrow> scope) \<Rightarrow> ('d session, sqlx_error, 'd work) comp" where
  "open_tx sc s =
     (case next_outcome (net s) of
        (Done, p1) \<Rightarrow>
          (case next_outcome p1 of
             (Done, p2) \<Rightarrow> (Inr \<lparr>wdb = committed s, wscope = sc (role s), wplan = p2\<rparr>, s\<lparr>net := p2\<rparr>)
           | (_, p2) \<Rightarrow> (Inl Io, s\<lparr>net := p2\<rparr>))
      | (_, p1) \<Rightarrow> (Inl Io, s\<lparr>net := p1\<rparr>))"

definition tenant_scope :: "uuid \<Rightarrow> time \<Rightarrow> db_role \<Rightarrow> scope" where
  "tenant_scope t now r =
     \<lparr>current_tenant = Some (uuid_text t), platform_admin = None,
      bypass_rls = privileged r, tx_now = now\<rparr>"

definition platform_scope :: "time \<Rightarrow> db_role \<Rightarrow> scope" where
  "platform_scope now r =
     \<lparr>current_tenant = None, platform_admin = Some ''true'',
      bypass_rls = privileged r, tx_now = now\<rparr>"

definition tenant_tx :: "uuid \<Rightarrow> time \<Rightarrow> ('d session, sqlx_error, 'd work) comp" where
  "tenant_tx t now = open_tx (tenant_scope t now)"

definition platform_tx :: "time \<Rightarrow> ('d session, sqlx_error, 'd work) comp" where
  "platform_tx now = open_tx (platform_scope now)"

text \<open>
  A statement is a function of the scope and the working copy. \<open>exec\<close> sends it: the outcome comes
  from the oracle, an error is converted with the caller's \<open>From\<close> instance.
\<close>

type_synonym ('d, 'a) stmt = "scope \<Rightarrow> 'd \<Rightarrow> sqlx_error + ('a \<times> 'd)"

definition exec :: "(sqlx_error \<Rightarrow> 'e) \<Rightarrow> ('d, 'a) stmt \<Rightarrow> ('d work, 'e, 'a) comp" where
  "exec conv st w =
     (case next_outcome (wplan w) of
        (Done, p) \<Rightarrow>
          (case st (wscope w) (wdb w) of
             Inl e \<Rightarrow> (Inl (conv e), w\<lparr>wplan := p\<rparr>)
           | Inr (a, d) \<Rightarrow> (Inr a, w\<lparr>wdb := d, wplan := p\<rparr>))
      | (_, p) \<Rightarrow> (Inl (conv Io), w\<lparr>wplan := p\<rparr>))"

text \<open>
  The shape every handler has: open a transaction, run the statements with \<open>?\<close>, commit. An error
  before the commit drops the transaction, which rolls it back.
\<close>

definition in_tx :: "('d session, sqlx_error, 'd work) comp \<Rightarrow> (sqlx_error \<Rightarrow> 'e)
    \<Rightarrow> ('d work, 'e, 'a) comp \<Rightarrow> ('d session, 'e, 'a) comp" where
  "in_tx opener conv body s =
     (case opener s of
        (Inl e, s1) \<Rightarrow> (Inl (conv e), s1)
      | (Inr w, s1) \<Rightarrow>
          (case body w of
             (Inl e, w') \<Rightarrow> (Inl e, s1\<lparr>net := wplan w'\<rparr>)
           | (Inr a, w') \<Rightarrow>
               (case next_outcome (wplan w') of
                  (Done, p) \<Rightarrow> (Inr a, s1\<lparr>committed := wdb w', net := p\<rparr>)
                | (Failed, p) \<Rightarrow> (Inl (conv Io), s1\<lparr>net := p\<rparr>)
                | (Lost, p) \<Rightarrow> (Inl (conv Io), s1\<lparr>committed := wdb w', net := p\<rparr>))))"

section \<open>The audit table\<close>

record AuditEntry =
  ae_tenant_id :: "uuid option"
  ae_actor :: string
  ae_action :: string
  ae_entity_type :: string
  ae_entity_id :: string
  ae_payload :: json

record audit_row = AuditEntry +
  au_created_at :: time

text \<open>Every database of the product carries an audit log; its tables extend this record.\<close>

record audited =
  audit_log :: "audit_row list"

text \<open>
  The predicate of the row level security policies on a tenant-scoped row: \<open>tenant_id::text\<close> is the
  current setting, or the platform flag is \<open>true\<close>. A row without tenant has \<open>NULL::text\<close>, which
  is never equal to anything.
\<close>

definition tenant_policy :: "scope \<Rightarrow> uuid option \<Rightarrow> bool" where
  "tenant_policy sc t \<longleftrightarrow>
     bypass_rls sc
   \<or> (case t of None \<Rightarrow> False | Some i \<Rightarrow> current_tenant sc = Some (uuid_text i))
   \<or> platform_admin sc = Some ''true''"

text \<open>
  \<open>audit::record\<close>: one \<open>INSERT\<close>. \<open>fk\<close> is the table's foreign key on \<open>tenant_id\<close> (the control
  plane's log references \<open>tenants\<close>, the abuse log references nothing).
\<close>

definition insert_audit :: "(uuid option \<Rightarrow> 'z audited_scheme \<Rightarrow> bool) \<Rightarrow> AuditEntry
    \<Rightarrow> ('z audited_scheme, unit) stmt" where
  "insert_audit fk e sc d =
     (if \<not> tenant_policy sc (ae_tenant_id e) then Inl (DbErr InsufficientPrivilege)
      else if \<not> fk (ae_tenant_id e) d then Inl (DbErr ForeignKeyViolation)
      else Inr ((), d\<lparr>audit_log := audit_log d @ [AuditEntry.extend e (audit_row.fields (tx_now sc))]\<rparr>))"

definition record_audit :: "(uuid option \<Rightarrow> 'z audited_scheme \<Rightarrow> bool) \<Rightarrow> (sqlx_error \<Rightarrow> 'e)
    \<Rightarrow> AuditEntry \<Rightarrow> ('z audited_scheme work, 'e, unit) comp" where
  "record_audit fk conv e = exec conv (insert_audit fk e)"

section \<open>What a transaction does\<close>

lemma next_outcome_Nil [simp]: "next_outcome [] = (Done, [])"
  by simp

lemma exec_Inr [elim_tx]:
  assumes "exec conv st w = (Inr a, w')"
  obtains d where "st (wscope w) (wdb w) = Inr (a, d)" "wdb w' = d" "wscope w' = wscope w"
  using assms by (auto simp: exec_def split: prod.splits outcome.splits sum.splits)

lemma exec_scope: "exec conv st w = (r, w') \<Longrightarrow> wscope w' = wscope w"
  by (auto simp: exec_def split: prod.splits outcome.splits sum.splits)

lemma exec_quiet:
  "wplan w = [] \<Longrightarrow> exec conv st w =
     (case st (wscope w) (wdb w) of
        Inl e \<Rightarrow> (Inl (conv e), w)
      | Inr (a, d) \<Rightarrow> (Inr a, w\<lparr>wdb := d\<rparr>))"
  by (simp add: exec_def split: sum.splits prod.splits)

text \<open>
  The interface of an opener: what the rest of the code relies on when it asks \<open>Db\<close> for a
  transaction. It starts on the committed state, under the scope it promises, and changes nothing.
\<close>

locale tx_opener =
  fixes opener :: "('d session, sqlx_error, 'd work) comp"
    and sc :: "db_role \<Rightarrow> scope"
  assumes open_ok: "opener s = (Inr w, s1) \<Longrightarrow>
      wdb w = committed s \<and> wscope w = sc (role s)"
    and open_frame: "opener s = (r, s1) \<Longrightarrow> committed s1 = committed s \<and> role s1 = role s"
    and open_quiet: "net s = [] \<Longrightarrow>
      opener s = (Inr \<lparr>wdb = committed s, wscope = sc (role s), wplan = []\<rparr>, s)"
begin

lemma in_tx_cases:
  assumes "in_tx opener conv body s = (r, s')"
  obtains (rolled_back) e where "r = Inl e" "committed s' = committed s" "role s' = role s"
  | (lost) a w w' where "r = Inl (conv Io)" "body w = (Inr a, w')" "wdb w = committed s"
      "wscope w = sc (role s)" "committed s' = wdb w'" "role s' = role s"
  | (durable) a w w' where "r = Inr a" "body w = (Inr a, w')" "wdb w = committed s"
      "wscope w = sc (role s)" "committed s' = wdb w'" "role s' = role s"
proof (cases "opener s")
  case (Pair r1 s1)
  have frame: "committed s1 = committed s" "role s1 = role s"
    using open_frame [OF Pair] by auto
  show ?thesis
  proof (cases r1)
    case (Inl e)
    with assms Pair frame show ?thesis
      by (auto simp: in_tx_def intro: rolled_back)
  next
    case (Inr w)
    obtain r2 w' where b: "body w = (r2, w')" by (cases "body w")
    have op: "wdb w = committed s" "wscope w = sc (role s)"
      using open_ok [of s w s1] Pair Inr by auto
    show ?thesis
    proof (cases r2)
      case (Inl e)
      with assms Pair Inr b frame show ?thesis
        by (auto simp: in_tx_def intro: rolled_back)
    next
      case (Inr a)
      obtain out p where o: "next_outcome (wplan w') = (out, p)" by (cases "next_outcome (wplan w')")
      show ?thesis
      proof (cases out)
        case Done
        with assms Pair \<open>r1 = Inr w\<close> b Inr o have "r = Inr a" "s' = s1\<lparr>committed := wdb w', net := p\<rparr>"
          by (auto simp: in_tx_def)
        then show ?thesis using durable b Inr op frame by simp
      next
        case Failed
        with assms Pair \<open>r1 = Inr w\<close> b Inr o have "r = Inl (conv Io)" "s' = s1\<lparr>net := p\<rparr>"
          by (auto simp: in_tx_def)
        then show ?thesis using rolled_back frame by simp
      next
        case Lost
        with assms Pair \<open>r1 = Inr w\<close> b Inr o
        have "r = Inl (conv Io)" "s' = s1\<lparr>committed := wdb w', net := p\<rparr>"
          by (auto simp: in_tx_def)
        then show ?thesis using lost b Inr op frame by simp
      qed
    qed
  qed
qed

text \<open>Without faults a transaction is its body run on the committed state.\<close>

lemma in_tx_quiet:
  assumes "net s = []"
    and "body \<lparr>wdb = committed s, wscope = sc (role s), wplan = []\<rparr> = (r, w)"
    and "wplan w = []"
  shows "in_tx opener conv body s =
     (case r of Inl e \<Rightarrow> (Inl e, s) | Inr a \<Rightarrow> (Inr a, s\<lparr>committed := wdb w\<rparr>))"
  using assms by (auto simp: in_tx_def open_quiet split: sum.splits)

end

text \<open>
  A handler's transaction: an opener and a body whose successful runs satisfy a relation between the
  state it found, its answer and the state it leaves. Whatever the network does, the committed state
  either stays or moves by that relation, and an answer of success means that it moved.
\<close>

locale tx_step = tx_opener opener sc for opener :: "('d session, sqlx_error, 'd work) comp" and sc +
  fixes body :: "('d work, 'e, 'a) comp"
    and conv :: "sqlx_error \<Rightarrow> 'e"
    and rel :: "scope \<Rightarrow> 'd \<Rightarrow> 'a \<Rightarrow> 'd \<Rightarrow> bool"
  assumes body_rel: "body w = (Inr a, w') \<Longrightarrow> rel (wscope w) (wdb w) a (wdb w')"
begin

lemma run_Inr:
  assumes "in_tx opener conv body s = (Inr a, s')"
  shows "rel (sc (role s)) (committed s) a (committed s')"
  using assms by (rule in_tx_cases) (auto dest: body_rel)

lemma run_either:
  assumes "in_tx opener conv body s = (r, s')"
  shows "committed s' = committed s \<or> (\<exists>a. rel (sc (role s)) (committed s) a (committed s'))"
  using assms
proof (rule in_tx_cases)
  fix a w w'
  assume "body w = (Inr a, w')" "wdb w = committed s" "wscope w = sc (role s)" "committed s' = wdb w'"
  then show ?thesis using body_rel [of w a w'] by auto
next
  fix a w w'
  assume "body w = (Inr a, w')" "wdb w = committed s" "wscope w = sc (role s)" "committed s' = wdb w'"
  then show ?thesis using body_rel [of w a w'] by auto
qed simp

lemma run_error:
  assumes "in_tx opener conv body s = (Inl e, s')"
  shows "committed s' = committed s
       \<or> (e = conv Io \<and> (\<exists>a. rel (sc (role s)) (committed s) a (committed s')))"
  using assms by (rule in_tx_cases) (auto dest: body_rel)

lemma run_keeps:
  assumes "in_tx opener conv body s = (r, s')"
    and "P (committed s)"
    and "\<And>a. rel (sc (role s)) (committed s) a (committed s') \<Longrightarrow> P (committed s')"
  shows "P (committed s')"
  using run_either [OF assms(1)] assms(2,3) by auto

end

lemma open_tx_opener: "tx_opener (open_tx sc) sc"
  by unfold_locales (auto simp: open_tx_def split: prod.splits outcome.splits)

interpretation tenant_tx: tx_opener "tenant_tx t now" "tenant_scope t now" for t now
  unfolding tenant_tx_def by (rule open_tx_opener)

interpretation platform_tx: tx_opener "platform_tx now" "platform_scope now" for now
  unfolding platform_tx_def by (rule open_tx_opener)

text \<open>Running a transaction when no fault is planned.\<close>

lemma tx_quiet:
  assumes "net s = []"
  shows "in_tx (tenant_tx t now) conv m s =
      (case m \<lparr>wdb = committed s, wscope = tenant_scope t now (role s), wplan = []\<rparr> of
         (Inl e, w) \<Rightarrow> (Inl e, s\<lparr>net := wplan w\<rparr>)
       | (Inr a, w) \<Rightarrow> (case next_outcome (wplan w) of
            (Done, p) \<Rightarrow> (Inr a, s\<lparr>committed := wdb w, net := p\<rparr>)
          | (Failed, p) \<Rightarrow> (Inl (conv Io), s\<lparr>net := p\<rparr>)
          | (Lost, p) \<Rightarrow> (Inl (conv Io), s\<lparr>committed := wdb w, net := p\<rparr>)))"
    and "in_tx (platform_tx now) conv m s =
      (case m \<lparr>wdb = committed s, wscope = platform_scope now (role s), wplan = []\<rparr> of
         (Inl e, w) \<Rightarrow> (Inl e, s\<lparr>net := wplan w\<rparr>)
       | (Inr a, w) \<Rightarrow> (case next_outcome (wplan w) of
            (Done, p) \<Rightarrow> (Inr a, s\<lparr>committed := wdb w, net := p\<rparr>)
          | (Failed, p) \<Rightarrow> (Inl (conv Io), s\<lparr>net := p\<rparr>)
          | (Lost, p) \<Rightarrow> (Inl (conv Io), s\<lparr>committed := wdb w, net := p\<rparr>)))"
  using assms by (simp_all add: in_tx_def tenant_tx.open_quiet platform_tx.open_quiet split: prod.split)

lemma session_same [simp]: "net s = [] \<Longrightarrow> s\<lparr>net := []\<rparr> = s" "net s = [] \<Longrightarrow> s\<lparr>committed := d, net := []\<rparr> = s\<lparr>committed := d\<rparr>"
  by simp_all

section \<open>Scopes and policies\<close>

lemma tenant_scope_simps [simp]:
  "current_tenant (tenant_scope t now r) = Some (uuid_text t)"
  "platform_admin (tenant_scope t now r) = None"
  "bypass_rls (tenant_scope t now r) = privileged r"
  "tx_now (tenant_scope t now r) = now"
  by (simp_all add: tenant_scope_def)

lemma platform_scope_simps [simp]:
  "current_tenant (platform_scope now r) = None"
  "platform_admin (platform_scope now r) = Some ''true''"
  "bypass_rls (platform_scope now r) = privileged r"
  "tx_now (platform_scope now r) = now"
  by (simp_all add: platform_scope_def)

lemma tenant_policy_platform [simp]: "tenant_policy (platform_scope now r) t"
  by (simp add: tenant_policy_def)

lemma tenant_policy_own [simp]: "tenant_policy (tenant_scope t now r) (Some t)"
  by (simp add: tenant_policy_def)

lemma tenant_policy_tenant:
  "\<not> privileged r \<Longrightarrow> tenant_policy (tenant_scope t now r) x \<longleftrightarrow> x = Some t"
  by (auto simp: tenant_policy_def split: option.splits)

end
