(* ===== verification/RowSecurity.thy ===== *)
theory RowSecurity
  imports Database
begin

text \<open>
  Tables under row level security, as the migrations declare them (\<open>ENABLE\<close> and \<open>FORCE ROW LEVEL
  SECURITY\<close> with one \<open>USING\<close> and one \<open>WITH CHECK\<close> expression). The statements below are those the
  services send: \<open>SELECT\<close> and \<open>UPDATE\<close> touch only the rows the \<open>USING\<close> expression admits. The
  interface \<open>rls_table\<close> states what a policy has to promise for the tenant boundary to hold.
\<close>

section \<open>Statements on one table\<close>

definition select_rows :: "(scope \<Rightarrow> 'r \<Rightarrow> bool) \<Rightarrow> scope \<Rightarrow> ('r \<Rightarrow> bool) \<Rightarrow> 'r list \<Rightarrow> 'r list" where
  "select_rows vis sc p rows = filter (\<lambda>r. vis sc r \<and> p r) rows"

definition update_rows :: "(scope \<Rightarrow> 'r \<Rightarrow> bool) \<Rightarrow> scope \<Rightarrow> ('r \<Rightarrow> bool) \<Rightarrow> ('r \<Rightarrow> 'r) \<Rightarrow> 'r list \<Rightarrow> 'r list" where
  "update_rows vis sc p f rows = map (\<lambda>r. if vis sc r \<and> p r then f r else r) rows"

text \<open>The rows an \<open>UPDATE ... RETURNING\<close> answers.\<close>

definition updated_rows :: "(scope \<Rightarrow> 'r \<Rightarrow> bool) \<Rightarrow> scope \<Rightarrow> ('r \<Rightarrow> bool) \<Rightarrow> ('r \<Rightarrow> 'r) \<Rightarrow> 'r list \<Rightarrow> 'r list" where
  "updated_rows vis sc p f rows = map f (select_rows vis sc p rows)"

text \<open>sqlx: \<open>fetch_optional\<close> and \<open>fetch_one\<close> take the first row of the answer.\<close>

definition fetch_optional :: "'a list \<Rightarrow> 'a option" where
  "fetch_optional rows = (case rows of [] \<Rightarrow> None | r # _ \<Rightarrow> Some r)"

definition fetch_one :: "'a list \<Rightarrow> sqlx_error + 'a" where
  "fetch_one rows = (case rows of [] \<Rightarrow> Inl RowNotFound | r # _ \<Rightarrow> Inr r)"

lemma fetch_optional_simps [simp]:
  "fetch_optional [] = None" "fetch_optional (r # rs) = Some r"
  by (simp_all add: fetch_optional_def)

lemma fetch_one_simps [simp]:
  "fetch_one [] = Inl RowNotFound" "fetch_one (r # rs) = Inr r"
  by (simp_all add: fetch_one_def)

lemma fetch_optional_Some: "fetch_optional rows = Some r \<Longrightarrow> r \<in> set rows"
  by (auto simp: fetch_optional_def split: list.splits)

lemma fetch_one_Inr: "fetch_one rows = Inr r \<Longrightarrow> r \<in> set rows"
  by (auto simp: fetch_one_def split: list.splits)

lemma fetch_optional_None [simp]: "fetch_optional rows = None \<longleftrightarrow> rows = []"
  by (cases rows) auto

lemma length_update_rows [simp]: "length (update_rows u sc p f rows) = length rows"
  by (simp add: update_rows_def)

lemma update_rows_none: "select_rows u sc p rows = [] \<Longrightarrow> update_rows u sc p f rows = rows"
  by (induction rows) (auto simp: select_rows_def update_rows_def split: if_splits)

lemma update_rows_map:
  "(\<And>r. g (f r) = g r) \<Longrightarrow> map g (update_rows u sc p f rows) = map g rows"
  by (auto simp: update_rows_def)

lemma set_update_rows:
  "r \<in> set (update_rows u sc p f rows) \<Longrightarrow> r \<in> set rows \<or> (\<exists>r0 \<in> set rows. u sc r0 \<and> p r0 \<and> r = f r0)"
  by (auto simp: update_rows_def split: if_splits)

lemma set_updated_rows:
  "r \<in> set (updated_rows u sc p f rows) \<Longrightarrow> \<exists>r0 \<in> set rows. u sc r0 \<and> p r0 \<and> r = f r0"
  by (auto simp: updated_rows_def select_rows_def)

text \<open>With a key that is unique, an update by key touches one row and answers it.\<close>

lemma select_key_unique:
  assumes "distinct (map key rows)" "r \<in> set rows" "u sc r" "p r" "\<And>x. p x \<Longrightarrow> key x = key r"
  shows "select_rows u sc p rows = [r]"
  using assms(1,2)
proof (induction rows)
  case Nil
  then show ?case by simp
next
  case (Cons x xs)
  show ?case
  proof (cases "x = r")
    case True
    with Cons.prems assms(5) have "\<forall>y \<in> set xs. \<not> p y"
      by (metis distinct.simps(2) image_eqI list.simps(9) set_map)
    then have "filter (\<lambda>y. u sc y \<and> p y) xs = []"
      by (auto simp: filter_empty_conv)
    with True assms(3,4) show ?thesis by (simp add: select_rows_def)
  next
    case False
    with Cons.prems have r: "r \<in> set xs" by simp
    with Cons.prems have "key x \<noteq> key r" by auto
    with assms(5) have "\<not> p x" by metis
    with Cons r show ?thesis by (simp add: select_rows_def)
  qed
qed

text \<open>A condition that fixes a unique key selects at most one row.\<close>

lemma select_key_le_1:
  assumes "distinct (map key rows)" "\<And>x y. p x \<Longrightarrow> p y \<Longrightarrow> key x = key y"
  shows "length (select_rows v sc p rows) \<le> 1"
proof (cases "select_rows v sc p rows")
  case (Cons r rs)
  then have "r \<in> set (select_rows v sc p rows)" by simp
  then have "r \<in> set rows" "v sc r" "p r" by (simp_all add: select_rows_def)
  from select_key_unique [where u = v and key = key and p = p, OF assms(1) this assms(2) [OF _ this(3)]] show ?thesis
    by simp
qed simp

section \<open>The tenant boundary of one table\<close>

text \<open>
  \<open>owner\<close> is the tenant of a row. The promise: whatever \<open>USING\<close> or \<open>WITH CHECK\<close> admits satisfies
  the tenant policy. Then a tenant-scoped transaction of an unprivileged role reads and writes
  rows of its own tenant only.
\<close>

locale rls_table =
  fixes owner :: "'r \<Rightarrow> uuid option"
    and vis :: "scope \<Rightarrow> 'r \<Rightarrow> bool"
    and chk :: "scope \<Rightarrow> 'r \<Rightarrow> bool"
  assumes using_policy: "vis sc r = tenant_policy sc (owner r)"
    and check_policy: "chk sc r \<Longrightarrow> tenant_policy sc (owner r)"
begin

lemma using_tenant:
  "\<not> privileged ro \<Longrightarrow> vis (tenant_scope t now ro) r \<longleftrightarrow> owner r = Some t"
  by (simp add: using_policy tenant_policy_tenant)

lemma check_tenant:
  "\<not> privileged ro \<Longrightarrow> chk (tenant_scope t now ro) r \<Longrightarrow> owner r = Some t"
  using check_policy tenant_policy_tenant by blast

lemma using_platform [simp]: "vis (platform_scope now ro) r"
  by (simp add: using_policy)

lemma select_own:
  assumes "\<not> privileged ro"
  shows "select_rows vis (tenant_scope t now ro) p rows
       = filter p (filter (\<lambda>r. owner r = Some t) rows)"
  using assms by (auto simp: select_rows_def using_tenant intro: filter_cong)

text \<open>An update keeps every row of every other tenant, in place.\<close>

lemma update_foreign:
  assumes "\<not> privileged ro" "t' \<noteq> t" "\<And>r. owner (f r) = owner r"
  shows "filter (\<lambda>r. owner r = Some t') (update_rows vis (tenant_scope t now ro) p f rows)
       = filter (\<lambda>r. owner r = Some t') rows"
proof -
  let ?sc = "tenant_scope t now ro"
  have "filter (\<lambda>r. owner r = Some t') (update_rows vis ?sc p f rows)
      = map (\<lambda>r. if vis ?sc r \<and> p r then f r else r) (filter (\<lambda>r. owner r = Some t') rows)"
    using assms(3) by (auto simp: update_rows_def filter_map o_def intro!: arg_cong [where f = "map _"] filter_cong)
  also have "\<dots> = filter (\<lambda>r. owner r = Some t') rows"
    by (rule map_idI) (use assms in \<open>auto simp: using_tenant\<close>)
  finally show ?thesis .
qed

lemma insert_foreign:
  assumes "\<not> privileged ro" "t' \<noteq> t" "chk (tenant_scope t now ro) r"
  shows "filter (\<lambda>r. owner r = Some t') (rows @ [r]) = filter (\<lambda>r. owner r = Some t') rows"
  using check_tenant [OF assms(1,3)] assms(2) by simp

end

text \<open>The audit log is such a table: it is read under \<open>audit_read\<close> and appended under \<open>audit_append\<close>.\<close>

definition audit_using :: "scope \<Rightarrow> audit_row \<Rightarrow> bool" where
  "audit_using sc r = tenant_policy sc (ae_tenant_id r)"

definition audit_append :: "scope \<Rightarrow> audit_row \<Rightarrow> bool" where
  "audit_append sc r = tenant_policy sc (ae_tenant_id r)"

interpretation audit_rls: rls_table ae_tenant_id audit_using audit_append
  by unfold_locales (auto simp: audit_using_def audit_append_def)

lemma insert_audit_Inr:
  assumes "insert_audit fk e sc d = Inr (u, d')"
  shows "(d' = d\<lparr>audit_log := audit_log d @ [AuditEntry.extend e (audit_row.fields (tx_now sc))]\<rparr>)
    \<and> (tenant_policy sc (ae_tenant_id e))
    \<and> (fk (ae_tenant_id e) d)"
  using assms by (auto simp: insert_audit_def split: if_splits)

text \<open>The row an entry becomes, and what a successful append did.\<close>

definition audit_of :: "scope \<Rightarrow> AuditEntry \<Rightarrow> audit_row" where
  "audit_of sc e = AuditEntry.extend e (audit_row.fields (tx_now sc))"

lemma audit_of_simps [simp]:
  "ae_tenant_id (audit_of sc e) = ae_tenant_id e" "ae_action (audit_of sc e) = ae_action e"
  "ae_actor (audit_of sc e) = ae_actor e" "ae_entity_id (audit_of sc e) = ae_entity_id e"
  by (simp_all add: audit_of_def AuditEntry.defs audit_row.defs)

lemma record_audit_Inr:
  assumes "record_audit fk conv e w = (Inr u, w')"
  shows "(wdb w' = (wdb w)\<lparr>audit_log := audit_log (wdb w) @ [audit_of (wscope w) e]\<rparr>)
    \<and> (wscope w' = wscope w)
    \<and> (tenant_policy (wscope w) (ae_tenant_id e))
    \<and> (fk (ae_tenant_id e) (wdb w))"
  using assms by (auto simp: record_audit_def audit_of_def elim!: exec_Inr dest: insert_audit_Inr)

end
