(* ===== verification/Caching.thy ===== *)
theory Caching
  imports Prelude
begin

text \<open>
  The interface of the two caches with a time to live: the JWKS cache of \<open>og-auth\<close> and the access
  token cache of the sesame client. Both are one slot, filled at a time, and both answer only while
  the entry is young; they differ at the exact instant of expiry, which the laws leave open.
\<close>

locale expiring_cache =
  fixes look :: "'c option \<Rightarrow> time \<Rightarrow> 'k \<Rightarrow> 'v option"
    and store :: "'e \<Rightarrow> time \<Rightarrow> 'c option"
    and content :: "'e \<Rightarrow> 'k \<Rightarrow> 'v option"
    and ttl :: "'e \<Rightarrow> int"
  assumes look_empty: "look None t k = None"
    and look_young: "t - t0 < ttl e \<Longrightarrow> look (store e t0) t k = content e k"
    and look_old: "t - t0 > ttl e \<Longrightarrow> look (store e t0) t k = None"
    and look_content: "look (store e t0) t k = Some v \<Longrightarrow> content e k = Some v"
begin

lemma hit_bounds:
  assumes "look (store e t0) t k = Some v"
  shows "content e k = Some v \<and> t - t0 \<le> ttl e"
  using assms look_content [OF assms] look_old [of e t t0 k] by (cases "t - t0 > ttl e") auto

lemma hit_not_empty: "look c t k = Some v \<Longrightarrow> c \<noteq> None"
  using look_empty [of t k] by (cases c) auto

end

end
