(* ===== verification/Serde.thy ===== *)
theory Serde
  imports Prelude "HOL-Library.Monad_Syntax"
begin

text \<open>
  What \<open>#[derive(Deserialize)]\<close> makes of the structs of the services, and the maps of \<open>serde_json\<close>.
  A JSON text is read by \<open>serde_json\<close> (a parameter wherever it is used); a document here is what it
  read: an object is its entries in the order of the text, duplicates included, a number is an integer
  of 64 bits or the exact value of a double. A decoder answers \<open>None\<close> where serde reports an error.
\<close>

section \<open>Structs\<close>

text \<open>
  A struct is read from an object, in which no field of the struct may occur twice and other entries
  are ignored, or from an array of its fields in the order of the declaration, of which those at the
  end may be missing if they have a default.
\<close>

definition struct_fields :: "string list \<Rightarrow> json \<Rightarrow> (string \<times> json) list option" where
  "struct_fields names doc = (case doc of
     JObj kvs \<Rightarrow> if distinct (filter (\<lambda>k. k \<in> set names) (map fst kvs)) then Some kvs else None
   | JArr vs \<Rightarrow> if length vs \<le> length names then Some (zip names vs) else None
   | _ \<Rightarrow> None)"

text \<open>A field without, and one with \<open>#[serde(default)]\<close>.\<close>

definition required :: "string \<Rightarrow> (json \<Rightarrow> 'a option) \<Rightarrow> (string \<times> json) list \<Rightarrow> 'a option" where
  "required k dec kvs = Option.bind (map_of kvs k) dec"

definition defaulted :: "string \<Rightarrow> (json \<Rightarrow> 'a option) \<Rightarrow> 'a \<Rightarrow> (string \<times> json) list \<Rightarrow> 'a option" where
  "defaulted k dec dflt kvs = (case map_of kvs k of None \<Rightarrow> Some dflt | Some d \<Rightarrow> dec d)"

section \<open>The types of the fields\<close>

fun de_string :: "json \<Rightarrow> string option" where
  "de_string (JStr s) = Some s"
| "de_string _ = None"

fun de_option :: "(json \<Rightarrow> 'a option) \<Rightarrow> json \<Rightarrow> 'a option option" where
  "de_option dec JNull = Some None"
| "de_option dec d = map_option Some (dec d)"

fun de_vec :: "(json \<Rightarrow> 'a option) \<Rightarrow> json \<Rightarrow> 'a list option" where
  "de_vec dec (JArr ds) = those (map dec ds)"
| "de_vec dec _ = None"

text \<open>An integer type takes an integer in its range and no other number.\<close>

fun de_int :: "int \<Rightarrow> int \<Rightarrow> json \<Rightarrow> int option" where
  "de_int lo hi (JInt n) = (if lo \<le> n \<and> n \<le> hi then Some n else None)"
| "de_int lo hi _ = None"

definition de_i32 :: "json \<Rightarrow> 32 word option" where
  "de_i32 d = map_option word_of_int (de_int (- (2 ^ 31)) (2 ^ 31 - 1) d)"

definition de_i64 :: "json \<Rightarrow> int option" where
  "de_i64 d = de_int (- (2 ^ 63)) (2 ^ 63 - 1) d"

fun de_uuid :: "(string \<Rightarrow> uuid option) \<Rightarrow> json \<Rightarrow> uuid option" where
  "de_uuid parse (JStr s) = parse s"
| "de_uuid parse _ = None"

text \<open>
  A float type takes every number. \<open>as f64\<close> of an integer and \<open>as f32\<close> of a double round to the
  nearest value, ties to the even mantissa; \<open>as f32\<close> overflows to an infinity.
\<close>

definition round_even :: "rat \<Rightarrow> int" where
  "round_even x =
     (let n = \<lfloor>x\<rfloor>; d = x - of_int n in
      if d < 1 / 2 then n else if 1 / 2 < d then n + 1 else if even n then n else n + 1)"

text \<open>How often a number is halved until it is below \<open>2 ^ p\<close>, at most \<open>fuel\<close> times.\<close>

fun excess :: "nat \<Rightarrow> nat \<Rightarrow> rat \<Rightarrow> nat" where
  "excess p 0 x = 0"
| "excess p (Suc fuel) x = (if x < 2 ^ p then 0 else Suc (excess p fuel (x / 2)))"

definition round_bits :: "nat \<Rightarrow> nat \<Rightarrow> rat \<Rightarrow> rat" where
  "round_bits p fuel x = (let k = excess p fuel x in of_int (round_even (x / 2 ^ k)) * 2 ^ k)"

definition f64_of_int :: "int \<Rightarrow> f64" where
  "f64_of_int n =
     Finite (if n < 0 then - round_bits 53 11 (of_int (- n)) else round_bits 53 11 (of_int n))"

definition f32_of_rat :: "rat \<Rightarrow> f64" where
  "f32_of_rat r =
     (let m = round_bits 24 1174 (\<bar>r\<bar> * 2 ^ 149) / 2 ^ 149 in
      if m < 2 ^ 128 then Finite (if r < 0 then - m else m) else if r < 0 then NegInf else PosInf)"

fun de_f64 :: "json \<Rightarrow> f64 option" where
  "de_f64 (JNum r) = Some (Finite r)"
| "de_f64 (JInt n) = Some (f64_of_int n)"
| "de_f64 _ = None"

fun de_f32 :: "json \<Rightarrow> f64 option" where
  "de_f32 (JNum r) = Some (f32_of_rat r)"
| "de_f32 (JInt n) = Some (f32_of_rat (of_int n))"
| "de_f32 _ = None"

section \<open>Values\<close>

text \<open>
  A \<open>serde_json::Value\<close>, read or built by \<open>json!\<close>, keeps an object as a \<open>BTreeMap\<close>: sorted by key, a
  later entry replacing an earlier one.
\<close>

fun bytes_less :: "string \<Rightarrow> string \<Rightarrow> bool" where
  "bytes_less _ [] = False"
| "bytes_less [] (_ # _) = True"
| "bytes_less (a # as) (b # bs) =
     ((of_char a :: nat) < of_char b \<or> (a = b \<and> bytes_less as bs))"

definition btree_insert :: "string \<Rightarrow> 'v \<Rightarrow> (string \<times> 'v) list \<Rightarrow> (string \<times> 'v) list" where
  "btree_insert k v m =
     (let rest = filter (\<lambda>e. fst e \<noteq> k) m in
      takeWhile (\<lambda>e. bytes_less (fst e) k) rest @ (k, v) # dropWhile (\<lambda>e. bytes_less (fst e) k) rest)"

definition btree_of :: "(string \<times> 'v) list \<Rightarrow> (string \<times> 'v) list" where
  "btree_of kvs = foldl (\<lambda>m (k, v). btree_insert k v m) [] kvs"

fun value_of :: "json \<Rightarrow> json" where
  "value_of (JArr ds) = JArr (map value_of ds)"
| "value_of (JObj kvs) = JObj (btree_of (map (\<lambda>(k, d). (k, value_of d)) kvs))"
| "value_of d = d"

section \<open>Laws\<close>

lemma map_of_btree_insert: "map_of (btree_insert k v m) = (map_of m)(k \<mapsto> v)"
proof -
  have split: "map_of (xs @ (k, v) # ys) j = (if j = k then Some v else map_of (xs @ ys) j)"
    if "k \<notin> fst ` set xs" for xs ys :: "(string \<times> 'a) list" and j
    using that by (induction xs) auto
  have rest: "map_of (filter (\<lambda>e. fst e \<noteq> k) m) j = (if j = k then None else map_of m j)" for j
    by (induction m) auto
  have notin: "k \<notin> fst ` set (takeWhile (\<lambda>e. bytes_less (fst e) k) (filter (\<lambda>e. fst e \<noteq> k) m))"
    by (auto dest!: set_takeWhileD)
  show ?thesis
    unfolding btree_insert_def Let_def by (rule ext) (simp add: split [OF notin] rest del: map_of_append)
qed

lemma distinct_btree_insert: "distinct (map fst m) \<Longrightarrow> distinct (map fst (btree_insert k v m))"
proof -
  assume d: "distinct (map fst m)"
  let ?r = "filter (\<lambda>e. fst e \<noteq> k) m" and ?P = "\<lambda>e. bytes_less (fst e) k"
  have "distinct (map fst ?r)" using d by (simp add: distinct_map_filter)
  then have "distinct (map fst (takeWhile ?P ?r @ dropWhile ?P ?r))" by simp
  moreover have "k \<notin> fst ` set (takeWhile ?P ?r)" "k \<notin> fst ` set (dropWhile ?P ?r)"
    by (auto dest!: set_takeWhileD set_dropWhileD)
  ultimately show ?thesis
    unfolding btree_insert_def Let_def map_append distinct_append by auto
qed

lemma foldl_btree:
  "map_of (foldl (\<lambda>m (k, v). btree_insert k v m) m kvs) = map_of m ++ map_of (rev kvs)"
  "distinct (map fst m) \<Longrightarrow> distinct (map fst (foldl (\<lambda>m (k, v). btree_insert k v m) m kvs))"
proof (induction kvs arbitrary: m)
  case (Cons kv kvs)
  obtain k v where kv: "kv = (k, v)" by fastforce
  { case 1
    then show ?case by (simp add: kv Cons.IH(1) map_of_btree_insert) (simp add: map_add_def fun_eq_iff split: option.splits)
  next
    case 2
    then show ?case by (simp add: kv Cons.IH(2) distinct_btree_insert) }
qed simp_all

lemma map_of_btree [simp]: "map_of (btree_of kvs) = map_of (rev kvs)"
  and distinct_btree [simp]: "distinct (map fst (btree_of kvs))"
  using foldl_btree [of "[]" kvs] by (simp_all add: btree_of_def)

text \<open>Which fields an object, in particular a value, offers.\<close>

lemma struct_fields_Some: "struct_fields names (JObj kvs) = Some kvs' \<Longrightarrow> kvs' = kvs"
  by (simp add: struct_fields_def split: if_splits)

lemma struct_fields_distinct: "distinct (map fst kvs) \<Longrightarrow> struct_fields names (JObj kvs) = Some kvs"
  by (simp add: struct_fields_def)

lemma fields_found [simp]:
  "map_of kvs k = Some d \<Longrightarrow> required k dec kvs = dec d"
  "map_of kvs k = Some d \<Longrightarrow> defaulted k dec dflt kvs = dec d"
  "map_of kvs k = None \<Longrightarrow> required k dec kvs = None"
  "map_of kvs k = None \<Longrightarrow> defaulted k dec dflt kvs = Some dflt"
  by (simp_all add: required_def defaulted_def)

lemma those_map_Some: "(\<And>x. x \<in> set xs \<Longrightarrow> f x = Some (g x)) \<Longrightarrow> those (map f xs) = Some (map g xs)"
  by (induction xs) auto

text \<open>Integers below \<open>2 ^ 53\<close> are doubles, and a decoded double is never an infinity or a NaN.\<close>

lemma round_even_int [simp]: "round_even (of_int n) = n"
  by (simp add: round_even_def Let_def)

lemma excess_none: "x < 2 ^ p \<Longrightarrow> excess p fuel x = 0"
  by (cases fuel) simp_all

lemma f64_of_int_exact: "\<bar>n\<bar> < 2 ^ 53 \<Longrightarrow> f64_of_int n = Finite (of_int n)"
proof -
  assume n: "\<bar>n\<bar> < 2 ^ 53"
  have "round_bits 53 11 (of_int m) = of_int m" if "m < 2 ^ 53" for m :: int
  proof -
    have "(of_int m :: rat) < of_int (2 ^ 53)" using that by (simp only: of_int_less_iff)
    then show ?thesis by (simp add: round_bits_def excess_none)
  qed
  from this [of n] this [of "- n"] n show ?thesis by (simp add: f64_of_int_def)
qed

lemma de_f64_finite: "de_f64 d = Some x \<Longrightarrow> is_finite x"
  by (cases d) (auto simp: f64_of_int_def)

lemma de_i32_range: "de_i32 d = Some w \<Longrightarrow> \<exists>n. d = JInt n \<and> sint w = n"
  by (cases d) (auto simp: de_i32_def signed_of_int signed_take_bit_int_eq_self split: if_splits)

lemma de_i32_sint [simp]: "de_i32 (JInt (sint w)) = Some w"
  using sint_lt [of w] sint_ge [of w] by (simp add: de_i32_def)

text \<open>The halving keeps the leading bits, and its fuel is enough below \<open>2 ^ (p + fuel)\<close>; a number that no \<open>f32\<close> can
  hold becomes an infinity.\<close>

lemma excess_lower:
  assumes "0 < p" "2 ^ (p - 1) \<le> x"
  shows "2 ^ (p - 1) \<le> x / 2 ^ excess p fuel x"
  using assms(2)
proof (induction fuel arbitrary: x)
  case 0
  then show ?case by simp
next
  case (Suc fuel)
  show ?case
  proof (cases "x < 2 ^ p")
    case True
    with Suc.prems show ?thesis by simp
  next
    case False
    with assms(1) have "2 ^ (p - 1) \<le> x / 2"
      by (cases p) simp_all
    from Suc.IH [OF this] False show ?thesis by simp
  qed
qed

lemma excess_upper: "x < 2 ^ p * 2 ^ fuel \<Longrightarrow> x < 2 ^ p * 2 ^ excess p fuel x"
proof (induction fuel arbitrary: x)
  case 0
  then show ?case by simp
next
  case (Suc fuel)
  show ?case
  proof (cases "x < 2 ^ p")
    case True
    then show ?thesis by simp
  next
    case False
    from Suc.prems have "x / 2 < 2 ^ p * 2 ^ fuel" by simp
    from Suc.IH [OF this] False show ?thesis by simp
  qed
qed

lemma excess_fuel: "2 ^ p * 2 ^ fuel \<le> x \<Longrightarrow> excess p fuel x = fuel"
proof (induction fuel arbitrary: x)
  case (Suc fuel)
  have "(2 :: rat) ^ p \<le> 2 ^ (p + Suc fuel)" by (intro power_increasing) auto
  also have "\<dots> \<le> x" using Suc.prems by (simp only: power_add)
  finally have "\<not> x < 2 ^ p" by simp
  moreover from Suc.prems have "excess p fuel (x / 2) = fuel" by (intro Suc.IH) simp
  ultimately show ?case by simp
qed simp

lemma round_even_ge:
  assumes "of_int n \<le> x"
  shows "n \<le> round_even x"
proof -
  from assms have "n \<le> \<lfloor>x\<rfloor>" by (simp add: le_floor_iff)
  then show ?thesis by (simp add: round_even_def Let_def)
qed

lemma round_bits_ge:
  assumes "0 < p" "p \<le> e" "2 ^ e \<le> x" "e - p < fuel"
  shows "2 ^ e \<le> round_bits p fuel x"
proof -
  let ?k = "excess p fuel x"
  have k: "e - p < ?k"
  proof (cases "x < 2 ^ p * 2 ^ fuel")
    case True
    from excess_upper [OF this] assms(3) have "(2 :: rat) ^ e < 2 ^ (p + ?k)"
      by (simp add: power_add)
    then have "e < p + ?k" by (simp add: power_strict_increasing_iff)
    with assms(2) show ?thesis by simp
  next
    case False
    with assms(4) show ?thesis by (simp add: excess_fuel)
  qed
  have "(2 :: rat) ^ (p - 1) \<le> 2 ^ e"
    using assms(2) by (intro power_increasing) auto
  with assms(3) have "2 ^ (p - 1) \<le> x" by (meson order_trans)
  from excess_lower [OF assms(1) this, of fuel] have "2 ^ (p - 1) \<le> round_even (x / 2 ^ ?k)"
    by (intro round_even_ge) simp
  then have "(2 :: rat) ^ (p - 1) \<le> of_int (round_even (x / 2 ^ ?k))"
    by (metis of_int_le_iff of_int_numeral of_int_power)
  then have "(2 :: rat) ^ (p - 1) * 2 ^ ?k \<le> round_bits p fuel x"
    by (simp add: round_bits_def Let_def)
  moreover have "(2 :: rat) ^ e \<le> 2 ^ (p - 1 + ?k)"
    using k assms(1) by (intro power_increasing) auto
  ultimately show ?thesis by (simp add: power_add)
qed

lemma f32_overflow:
  assumes "2 ^ 128 \<le> r"
  shows "f32_of_rat r = PosInf"
proof -
  have "2 ^ 277 \<le> \<bar>r\<bar> * 2 ^ 149"
    using assms by (simp add: power_add [of _ 128 149, simplified] abs_of_nonneg)
  from round_bits_ge [of 24 277 _ 1174, OF _ _ this]
  have "2 ^ 128 * 2 ^ 149 \<le> round_bits 24 1174 (\<bar>r\<bar> * 2 ^ 149)"
    by (simp flip: power_add)
  then have "\<not> round_bits 24 1174 (\<bar>r\<bar> * 2 ^ 149) / 2 ^ 149 < 2 ^ 128"
    by (simp add: not_less le_divide_eq)
  with assms show ?thesis by (simp add: f32_of_rat_def Let_def)
qed

end
