(* ===== verification/OgAuth.thy ===== *)
theory OgAuth
  imports Caching Serde
begin

text \<open>
  \<open>crates/og-auth/src/lib.rs\<close>: verification of sesame access tokens, the JWKS cache and the axum
  middleware. Base64, the reading of JSON texts, Ed25519, UUID parsing and header decoding are the work of
  other crates: they are the fields of \<open>prims\<close>, an argument of every definition that uses them. What the
  structs take from a document is defined here. Instants and durations are integers (nanoseconds),
  \<open>i64\<close> seconds are integers.
\<close>

section \<open>Data\<close>

datatype AuthError = MissingToken | Malformed | UnknownKey | BadSignature | Expired
  | IssuerMismatch | JwksUnavailable string

record Caller =
  subject :: string
  caller_tenant_id :: "uuid option"
  roles :: "string list"

definition actor :: "Caller \<Rightarrow> string" where
  "actor c = subject c"

record AuthConfig =
  jwks_url :: "string option"
  issuer :: "string option"
  cache_ttl :: time

definition from_secs :: "int \<Rightarrow> time" where
  "from_secs n = n * 1000000000"

text \<open>\<open>std::env::var(k).ok().filter(|v| !v.trim().is_empty())\<close>.\<close>

definition env_nonblank :: "(string \<Rightarrow> string option) \<Rightarrow> string \<Rightarrow> string option" where
  "env_nonblank env k = (case env k of None \<Rightarrow> None | Some v \<Rightarrow> if blank v then None else Some v)"

definition auth_from_env :: "(string \<Rightarrow> string option) \<Rightarrow> AuthConfig" where
  "auth_from_env env =
     \<lparr>jwks_url = env_nonblank env ''OG_AUTH_JWKS_URL'',
      issuer = env_nonblank env ''OG_AUTH_ISSUER'',
      cache_ttl = from_secs 600\<rparr>"

record CachedKeys =
  keys :: "string \<rightharpoonup> bytes"
  fetched_at :: time

text \<open>\<open>Authenticator\<close>: the configuration and the key cache, which is empty at first.\<close>

record Authenticator =
  auth_cfg :: AuthConfig
  auth_cache :: "CachedKeys option"

definition authenticator_new :: "AuthConfig \<Rightarrow> Authenticator" where
  "authenticator_new cfg = \<lparr>auth_cfg = cfg, auth_cache = None\<rparr>"

lemma authenticator_new_simps [simp]:
  "auth_cfg (authenticator_new cfg) = cfg" "auth_cache (authenticator_new cfg) = None"
  by (simp_all add: authenticator_new_def)

record Jwk =
  jwk_kid :: string
  jwk_x :: string
  jwk_kty :: string
  jwk_crv :: string

text \<open>\<open>JwkSet\<close> is its list of keys.\<close>

record Header =
  alg :: string
  hdr_kid :: string

record Claims =
  sub :: string
  exp :: int
  iss :: string
  claim_tenant_id :: "string option"
  sx_roles :: "string list option"

text \<open>What serde derives: the fields of each struct, and which of them have defaults.\<close>

definition de_jwk :: "json \<Rightarrow> Jwk option" where
  "de_jwk d = do {
     kvs \<leftarrow> struct_fields [''kid'', ''x'', ''kty'', ''crv''] d;
     kid \<leftarrow> required ''kid'' de_string kvs;
     x \<leftarrow> required ''x'' de_string kvs;
     kty \<leftarrow> defaulted ''kty'' de_string [] kvs;
     crv \<leftarrow> defaulted ''crv'' de_string [] kvs;
     Some \<lparr>jwk_kid = kid, jwk_x = x, jwk_kty = kty, jwk_crv = crv\<rparr> }"

definition de_jwk_set :: "json \<Rightarrow> Jwk list option" where
  "de_jwk_set d = do { kvs \<leftarrow> struct_fields [''keys''] d; required ''keys'' (de_vec de_jwk) kvs }"

definition de_header :: "json \<Rightarrow> Header option" where
  "de_header d = do {
     kvs \<leftarrow> struct_fields [''alg'', ''kid''] d;
     a \<leftarrow> required ''alg'' de_string kvs;
     kid \<leftarrow> required ''kid'' de_string kvs;
     Some \<lparr>alg = a, hdr_kid = kid\<rparr> }"

definition de_sx :: "json \<Rightarrow> string list option" where
  "de_sx d = do { kvs \<leftarrow> struct_fields [''roles''] d; defaulted ''roles'' (de_vec de_string) [] kvs }"

definition de_claims :: "json \<Rightarrow> Claims option" where
  "de_claims d = do {
     kvs \<leftarrow> struct_fields [''sub'', ''exp'', ''iss'', ''tenant_id'', ''sx''] d;
     subj \<leftarrow> defaulted ''sub'' de_string [] kvs;
     expiry \<leftarrow> defaulted ''exp'' de_i64 0 kvs;
     isr \<leftarrow> defaulted ''iss'' de_string [] kvs;
     tenant \<leftarrow> defaulted ''tenant_id'' (de_option de_string) None kvs;
     sx \<leftarrow> defaulted ''sx'' (de_option de_sx) None kvs;
     Some \<lparr>sub = subj, exp = expiry, iss = isr, claim_tenant_id = tenant, sx_roles = sx\<rparr> }"

text \<open>The other crates: \<open>http\<close>, \<open>base64\<close>, \<open>serde_json\<close>, \<open>ring\<close>, \<open>uuid\<close>, and how \<open>reqwest\<close> words an
  answer that does not decode.\<close>

record prims =
  header_to_str :: "bytes \<Rightarrow> string option"
  b64_decode :: "string \<Rightarrow> bytes option"
  parse_json :: "bytes \<Rightarrow> json option"
  ed25519_verify :: "bytes \<Rightarrow> bytes \<Rightarrow> bytes \<Rightarrow> bool"
  uuid_parse_str :: "string \<Rightarrow> uuid option"
  json_error :: "bytes \<Rightarrow> string"

text \<open>
  What a verification reads from outside: three readings of the monotonic clock (the first cache
  lookup, the refresh, the lookup after it), the wall clock, and the answer of the JWKS endpoint
  (an error text, or a body, whatever its status).
\<close>

record auth_world =
  at_lookup :: time
  at_store :: time
  at_recheck :: time
  since_epoch :: "nat option" \<comment> \<open>None: the clock is before the epoch\<close>
  fetch :: "string \<Rightarrow> string + bytes"

text \<open>\<open>now_unix\<close>: seconds as \<open>i64\<close>, saturating, 0 before the epoch.\<close>

definition now_unix :: "nat option \<Rightarrow> int" where
  "now_unix d = (case d of None \<Rightarrow> 0
     | Some secs \<Rightarrow> if int secs \<le> 2 ^ 63 - 1 then int secs else 2 ^ 63 - 1)"

section \<open>The key cache\<close>

definition add_jwk :: "prims \<Rightarrow> (string \<rightharpoonup> bytes) \<Rightarrow> Jwk \<Rightarrow> (string \<rightharpoonup> bytes)" where
  "add_jwk ps ks jwk =
     (if jwk_kty jwk \<noteq> ''OKP'' \<or> jwk_crv jwk \<noteq> ''Ed25519'' then ks
      else (case b64_decode ps (jwk_x jwk) of
              None \<Rightarrow> ks
            | Some raw \<Rightarrow> ks(jwk_kid jwk \<mapsto> raw)))"

definition parse_jwks :: "prims \<Rightarrow> Jwk list \<Rightarrow> (string \<rightharpoonup> bytes)" where
  "parse_jwks ps jset = foldl (add_jwk ps) Map.empty jset"

definition cached :: "AuthConfig \<Rightarrow> CachedKeys option \<Rightarrow> time \<Rightarrow> string \<Rightarrow> bytes option" where
  "cached cfg cache now kid =
     (case cache of
        None \<Rightarrow> None
      | Some c \<Rightarrow> if now - fetched_at c > cache_ttl cfg then None else keys c kid)"

definition fetch_jwks :: "prims \<Rightarrow> auth_world \<Rightarrow> string \<Rightarrow> string + Jwk list" where
  "fetch_jwks ps w u =
     (case fetch w u of
        Inl e \<Rightarrow> Inl e
      | Inr doc \<Rightarrow> ok_or (json_error ps doc) (Option.bind (parse_json ps doc) de_jwk_set))"

definition refresh :: "prims \<Rightarrow> AuthConfig \<Rightarrow> auth_world \<Rightarrow> (CachedKeys option, AuthError, unit) comp" where
  "refresh ps cfg w cache =
     (case jwks_url cfg of
        None \<Rightarrow> (Inl (JwksUnavailable ''no url''), cache)
      | Some url \<Rightarrow>
          (case fetch_jwks ps w url of
             Inl e \<Rightarrow> (Inl (JwksUnavailable e), cache)
           | Inr jset \<Rightarrow> (Inr (), Some \<lparr>keys = parse_jwks ps jset, fetched_at = at_store w\<rparr>)))"

definition key_for :: "prims \<Rightarrow> AuthConfig \<Rightarrow> auth_world \<Rightarrow> string \<Rightarrow> (CachedKeys option, AuthError, bytes) comp" where
  "key_for ps cfg w kid cache =
     (case cached cfg cache (at_lookup w) kid of
        Some k \<Rightarrow> (Inr k, cache)
      | None \<Rightarrow>
          tryb (refresh ps cfg w)
            (\<lambda>_ cache'. (ok_or UnknownKey (cached cfg cache' (at_recheck w) kid), cache')) cache)"

section \<open>Verification\<close>

definition decode_json :: "prims \<Rightarrow> (json \<Rightarrow> 'a option) \<Rightarrow> string \<Rightarrow> 'a option" where
  "decode_json ps dec seg = do { doc \<leftarrow> b64_decode ps seg; d \<leftarrow> parse_json ps doc; dec d }"

definition decode_header :: "prims \<Rightarrow> string \<Rightarrow> Header option" where
  "decode_header ps = decode_json ps de_header"

definition decode_claims :: "prims \<Rightarrow> string \<Rightarrow> Claims option" where
  "decode_claims ps = decode_json ps de_claims"

text \<open>The checks on the claims, after the signature.\<close>

definition check_claims :: "prims \<Rightarrow> AuthConfig \<Rightarrow> int \<Rightarrow> Claims \<Rightarrow> AuthError + Caller" where
  "check_claims ps cfg now claims =
     (if exp claims \<noteq> 0 \<and> exp claims < now then Inl Expired
      else if (case issuer cfg of None \<Rightarrow> False | Some expected \<Rightarrow> iss claims \<noteq> expected)
      then Inl IssuerMismatch
      else Inr \<lparr>subject = sub claims,
                caller_tenant_id = Option.bind (claim_tenant_id claims) (uuid_parse_str ps),
                roles = (case sx_roles claims of None \<Rightarrow> [] | Some r \<Rightarrow> r)\<rparr>)"

definition verify :: "prims \<Rightarrow> AuthConfig \<Rightarrow> auth_world \<Rightarrow> string \<Rightarrow> (CachedKeys option, AuthError, Caller) comp" where
  "verify ps cfg w token =
     (case split_on (CHR ''.'') token of
        [h, p, s] \<Rightarrow>
          tryb (from_result (ok_or Malformed (decode_header ps h))) (\<lambda>header.
          if alg header \<noteq> ''EdDSA'' then fail BadSignature
          else
          tryb (key_for ps cfg w (hdr_kid header)) (\<lambda>pubkey.
          tryb (from_result (ok_or Malformed (b64_decode ps s))) (\<lambda>sig.
          if \<not> ed25519_verify ps pubkey (h @ ''.'' @ p) sig then fail BadSignature
          else
          tryb (from_result (ok_or Malformed (decode_claims ps p))) (\<lambda>claims.
          from_result (check_claims ps cfg (now_unix (since_epoch w)) claims)))))
      | _ \<Rightarrow> fail Malformed)"

section \<open>The middleware\<close>

text \<open>\<open>HeaderMap::get\<close>: the first value of a header, by lower-case name.\<close>

type_synonym headers = "string \<Rightarrow> bytes option"

definition enforcing :: "AuthConfig \<Rightarrow> bool" where
  "enforcing cfg \<longleftrightarrow> jwks_url cfg \<noteq> None"

definition bearer :: "prims \<Rightarrow> headers \<Rightarrow> string option" where
  "bearer ps hs =
     Option.bind (hs ''authorization'') (\<lambda>v.
     Option.bind (header_to_str ps v) (strip_prefix ''Bearer ''))"

definition caller :: "prims \<Rightarrow> AuthConfig \<Rightarrow> auth_world \<Rightarrow> headers \<Rightarrow> (CachedKeys option, AuthError, Caller) comp" where
  "caller ps cfg w hs =
     (if \<not> enforcing cfg then
        ok \<lparr>subject = (case Option.bind (hs ''x-actor'') (header_to_str ps) of
                        None \<Rightarrow> ''unknown'' | Some a \<Rightarrow> a),
            caller_tenant_id = None, roles = []\<rparr>
      else
        tryb (from_result (ok_or MissingToken (bearer ps hs))) (verify ps cfg w))"

definition caller_bearer :: "prims \<Rightarrow> AuthConfig \<Rightarrow> auth_world \<Rightarrow> string \<Rightarrow> (CachedKeys option, AuthError, Caller) comp" where
  "caller_bearer ps cfg w token = verify ps cfg w token"

text \<open>
  \<open>require_auth\<close>: \<open>Inr None\<close> forwards a probe without a caller, \<open>Inr (Some c)\<close> forwards with the
  \<open>Caller\<close> extension, \<open>Inl 401\<close> answers without forwarding.
\<close>

definition require_auth :: "prims \<Rightarrow> AuthConfig \<Rightarrow> auth_world \<Rightarrow> string \<Rightarrow> headers \<Rightarrow> (CachedKeys option, nat, Caller option) comp" where
  "require_auth ps cfg w path hs cache =
     (if path = ''/health'' \<or> path = ''/metrics'' then (Inr None, cache)
      else (case caller ps cfg w hs cache of
              (Inr c, cache') \<Rightarrow> (Inr (Some c), cache')
            | (Inl _, cache') \<Rightarrow> (Inl 401, cache')))"

section \<open>The cache keeps its interface\<close>

definition store_keys :: "AuthConfig \<Rightarrow> (string \<rightharpoonup> bytes) \<Rightarrow> time \<Rightarrow> CachedKeys option" where
  "store_keys cfg ks t0 = Some \<lparr>keys = ks, fetched_at = t0\<rparr>"

interpretation jwks: expiring_cache "cached cfg" "store_keys cfg" "\<lambda>ks. ks" "\<lambda>_. cache_ttl cfg" for cfg
  by unfold_locales (auto simp: cached_def store_keys_def split: if_splits)

lemma parse_jwks_snoc:
  "parse_jwks ps (jset @ [jwk]) = add_jwk ps (parse_jwks ps jset) jwk"
  by (simp add: parse_jwks_def)

lemma refresh_store:
  assumes "refresh ps cfg w cache = (r, cache')"
  shows "(\<exists>e. r = Inl (JwksUnavailable e) \<and> cache' = cache)
       \<or> (\<exists>url ks. r = Inr () \<and> jwks_url cfg = Some url \<and> fetch_jwks ps w url = Inr ks
            \<and> cache' = store_keys cfg (parse_jwks ps ks) (at_store w))"
  using assms by (auto simp: refresh_def store_keys_def split: option.splits sum.splits)

lemma key_for_cases:
  assumes "key_for ps cfg w kid cache = (Inr k, cache')"
  obtains (hit) "cached cfg cache (at_lookup w) kid = Some k" "cache' = cache"
  | (fetched) url ks where "cached cfg cache (at_lookup w) kid = None" "jwks_url cfg = Some url"
      "fetch_jwks ps w url = Inr ks" "parse_jwks ps ks kid = Some k"
      "cache' = store_keys cfg (parse_jwks ps ks) (at_store w)"
proof (cases "cached cfg cache (at_lookup w) kid")
  case (Some k')
  with assms show ?thesis by (auto simp: key_for_def intro: hit)
next
  case None
  with assms have "tryb (refresh ps cfg w)
      (\<lambda>_ cache'. (ok_or UnknownKey (cached cfg cache' (at_recheck w) kid), cache')) cache = (Inr k, cache')"
    by (simp add: key_for_def)
  then obtain u c1 where r: "refresh ps cfg w cache = (Inr u, c1)"
    and "(ok_or UnknownKey (cached cfg c1 (at_recheck w) kid), c1) = (Inr k, cache')"
    by (rule tryb_Inr)
  then have k: "cached cfg c1 (at_recheck w) kid = Some k" and c: "cache' = c1"
    by auto
  from refresh_store [OF r] obtain url ks where u: "jwks_url cfg = Some url" "fetch_jwks ps w url = Inr ks"
    "c1 = store_keys cfg (parse_jwks ps ks) (at_store w)" by auto
  have pk: "parse_jwks ps ks kid = Some k"
    using k unfolding u(3) by (rule jwks.look_content)
  show ?thesis by (rule fetched [OF None u(1,2) pk]) (simp add: c u(3))
qed

lemma check_claims_Inr:
  assumes "check_claims ps cfg now claims = Inr c"
  shows "(exp claims = 0 \<or> now \<le> exp claims) \<and> (\<forall>i. issuer cfg = Some i \<longrightarrow> iss claims = i)
    \<and> subject c = sub claims
    \<and> caller_tenant_id c = Option.bind (claim_tenant_id claims) (uuid_parse_str ps)
    \<and> roles c = (case sx_roles claims of None \<Rightarrow> [] | Some rs \<Rightarrow> rs)"
  using assms by (auto simp: check_claims_def split: if_splits option.splits)

text \<open>Inversion of a successful verification: every gate was passed.\<close>

lemma verify_Inr:
  assumes "verify ps cfg w token cache = (Inr c, cache')"
  obtains h p s header pubkey sig claims where
    "split_on (CHR ''.'') token = [h, p, s]" "decode_header ps h = Some header"
    "alg header = ''EdDSA''" "key_for ps cfg w (hdr_kid header) cache = (Inr pubkey, cache')"
    "b64_decode ps s = Some sig" "ed25519_verify ps pubkey (h @ ''.'' @ p) sig"
    "decode_claims ps p = Some claims"
    "check_claims ps cfg (now_unix (since_epoch w)) claims = Inr c"
proof -
  from assms obtain h p s where sp: "split_on (CHR ''.'') token = [h, p, s]"
    by (auto simp: verify_def split: list.splits)
  have "\<exists>header pubkey sig claims. decode_header ps h = Some header \<and> alg header = ''EdDSA''
      \<and> key_for ps cfg w (hdr_kid header) cache = (Inr pubkey, cache') \<and> b64_decode ps s = Some sig
      \<and> ed25519_verify ps pubkey (h @ ''.'' @ p) sig \<and> decode_claims ps p = Some claims
      \<and> check_claims ps cfg (now_unix (since_epoch w)) claims = Inr c"
    using assms sp by (fastforce simp: verify_def split: if_splits elim!: elim_tx)
  with sp show ?thesis by (blast intro: that)
qed

end
