(* ===== verification/Validation.thy ===== *)
theory Validation
  imports Database
begin

text \<open>
  Input validation of the provisioning API (\<open>crates/admin-api/src/models.rs\<close>) and the column
  constraints of the control-plane schema it stands in front of
  (\<open>migrations/0001_control_plane.sql\<close>, \<open>0003_abuse_policy.sql\<close>). The lemmas relate the two: what the
  API accepts and the database refuses, and the reverse.
\<close>

section \<open>The validators of the API\<close>

text \<open>A text in single quotes, as the messages have it.\<close>

definition quoted :: "string \<Rightarrow> string" where
  "quoted s = CHR 0x27 # s @ [CHR 0x27]"

definition slug_char :: "char \<Rightarrow> bool" where
  "slug_char c \<longleftrightarrow> ascii_lower c \<or> ascii_digit c \<or> c = CHR ''-''"

definition validate_slug :: "string \<Rightarrow> api_error + unit" where
  "validate_slug slug =
     (if 2 \<le> length slug \<and> length slug \<le> 63 \<and> list_all slug_char slug
         \<and> \<not> starts_with (CHR ''-'') slug \<and> \<not> ends_with (CHR ''-'') slug
      then Inr ()
      else Inl (Validation (''slug must be 2-63 chars of [a-z0-9-], not starting/ending with '' @ quoted ''-'')))"

definition label_ok :: "string \<Rightarrow> bool" where
  "label_ok label \<longleftrightarrow> label \<noteq> [] \<and> length label \<le> 63 \<and> list_all slug_char label
     \<and> \<not> starts_with (CHR ''-'') label \<and> \<not> ends_with (CHR ''-'') label"

definition validate_fqdn :: "string \<Rightarrow> api_error + unit" where
  "validate_fqdn fqdn =
     (if length fqdn \<le> 253 \<and> CHR ''.'' \<in> set fqdn \<and> list_all label_ok (split_on (CHR ''.'') fqdn)
      then Inr () else Inl (Validation ''invalid fqdn''))"

definition local_char :: "char \<Rightarrow> bool" where
  "local_char c \<longleftrightarrow> ascii_lower c \<or> ascii_digit c
     \<or> c = CHR ''.'' \<or> c = CHR ''-'' \<or> c = CHR ''_'' \<or> c = CHR ''+''"

definition validate_local_part :: "string \<Rightarrow> api_error + unit" where
  "validate_local_part local_part =
     (if 1 \<le> length local_part \<and> length local_part \<le> 64 \<and> list_all local_char local_part
         \<and> \<not> starts_with (CHR ''.'') local_part \<and> \<not> ends_with (CHR ''.'') local_part
      then Inr ()
      else Inl (Validation (''local part must be 1-64 chars of [a-z0-9.+_-], not starting/ending with '' @ quoted ''.'')))"

record SetAbusePolicy =
  sp_reject :: f64
  sp_add_header :: f64
  sp_greylist :: f64

definition validate_policy :: "SetAbusePolicy \<Rightarrow> api_error + unit" where
  "validate_policy p =
     (let finite = is_finite (sp_reject p) \<and> is_finite (sp_add_header p) \<and> is_finite (sp_greylist p);
          ordered = f64_less (Finite 0) (sp_greylist p)
            \<and> f64_less (sp_greylist p) (sp_add_header p)
            \<and> f64_less (sp_add_header p) (sp_reject p)
      in if finite \<and> ordered then Inr ()
         else Inl (Validation ''thresholds must be finite and satisfy 0 < greylist < add_header < reject''))"

section \<open>The column constraints of the schema\<close>

text \<open>\<open>slug ~ '^[a-z0-9][a-z0-9-]{1,62}$'\<close>.\<close>

definition slug_check :: "string \<Rightarrow> bool" where
  "slug_check s \<longleftrightarrow> 2 \<le> length s \<and> length s \<le> 63 \<and> (ascii_lower (hd s) \<or> ascii_digit (hd s))
     \<and> list_all slug_char (tl s)"

text \<open>
  \<open>fqdn ~ '^([a-z0-9]([a-z0-9-]{0,61}[a-z0-9])?\.)+[a-z]{2,63}$'\<close>. No label contains a dot, so the
  match is the split at the dots: at least one label, then the top-level domain.
\<close>

definition alnum :: "char \<Rightarrow> bool" where
  "alnum c \<longleftrightarrow> ascii_lower c \<or> ascii_digit c"

definition label_check :: "string \<Rightarrow> bool" where
  "label_check l \<longleftrightarrow> l \<noteq> [] \<and> length l \<le> 63 \<and> alnum (hd l) \<and> alnum (last l) \<and> list_all slug_char l"

definition tld_check :: "string \<Rightarrow> bool" where
  "tld_check l \<longleftrightarrow> 2 \<le> length l \<and> length l \<le> 63 \<and> list_all ascii_lower l"

definition fqdn_check :: "string \<Rightarrow> bool" where
  "fqdn_check f \<longleftrightarrow>
     (let ls = split_on (CHR ''.'') f
      in 2 \<le> length ls \<and> list_all label_check (butlast ls) \<and> tld_check (last ls))"

definition tenant_status_check :: "string \<Rightarrow> bool" where
  "tenant_status_check s \<longleftrightarrow> s \<in> {''active'', ''suspended'', ''terminated''}"

definition domain_status_check :: "string \<Rightarrow> bool" where
  "domain_status_check s \<longleftrightarrow> s \<in> {''pending_dns'', ''active'', ''suspended''}"

definition account_status_check :: "string \<Rightarrow> bool" where
  "account_status_check s \<longleftrightarrow> s \<in> {''pending_provisioning'', ''active'', ''suspended'', ''deleted''}"

definition quota_check :: "32 word \<Rightarrow> bool" where
  "quota_check q \<longleftrightarrow> 1 \<le> sint q \<and> sint q \<le> 1048576"

text \<open>
  The constraints of \<open>abuse_policy\<close>. PostgreSQL orders \<open>NaN\<close> above every other double, and the
  comparisons of the constraints follow that order.
\<close>

fun pg_less :: "f64 \<Rightarrow> f64 \<Rightarrow> bool" where
  "pg_less NaN _ = False"
| "pg_less _ NaN = True"
| "pg_less (Finite a) (Finite b) = (a < b)"
| "pg_less NegInf NegInf = False"
| "pg_less NegInf _ = True"
| "pg_less _ PosInf = True"
| "pg_less _ _ = False"

definition policy_check :: "f64 \<Rightarrow> f64 \<Rightarrow> f64 \<Rightarrow> bool" where
  "policy_check rej add grey \<longleftrightarrow>
     pg_less (Finite 0) rej \<and> pg_less (Finite 0) add \<and> pg_less (Finite 0) grey
     \<and> pg_less grey add \<and> pg_less add rej"

section \<open>What the API accepts against what the schema accepts\<close>

lemma starts_with_hd: "s \<noteq> [] \<Longrightarrow> starts_with c s \<longleftrightarrow> hd s = c"
  by (cases s) (auto simp: starts_with_def)

lemma slug_char_alnum: "slug_char c \<and> c \<noteq> CHR ''-'' \<longleftrightarrow> alnum c"
proof -
  have "\<not> alnum (CHR ''-'')"
    by (simp add: alnum_def ascii_lower_def ascii_digit_def)
  then show ?thesis by (auto simp: slug_char_def alnum_def)
qed

lemma list_all_hd_tl: "s \<noteq> [] \<Longrightarrow> list_all P s \<longleftrightarrow> P (hd s) \<and> list_all P (tl s)"
  by (cases s) auto

lemma validate_slug_iff:
  "validate_slug s = Inr () \<longleftrightarrow> slug_check s \<and> \<not> ends_with (CHR ''-'') s"
proof (cases "s = []")
  case True
  then show ?thesis by (simp add: validate_slug_def slug_check_def)
next
  case False
  have "list_all slug_char s \<and> \<not> starts_with (CHR ''-'') s
      \<longleftrightarrow> alnum (hd s) \<and> list_all slug_char (tl s)"
    using False slug_char_alnum [of "hd s"] by (auto simp: list_all_hd_tl starts_with_hd)
  then show ?thesis
    by (auto simp: validate_slug_def slug_check_def alnum_def)
qed

lemma label_check_eq: "label_check l \<longleftrightarrow> label_ok l"
proof (cases "l = []")
  case True
  then show ?thesis by (simp add: label_check_def label_ok_def)
next
  case False
  have "list_all slug_char l \<Longrightarrow> alnum (hd l) \<longleftrightarrow> hd l \<noteq> CHR ''-''"
    using False slug_char_alnum [of "hd l"] by (auto simp: list_all_iff)
  moreover have "list_all slug_char l \<Longrightarrow> alnum (last l) \<longleftrightarrow> last l \<noteq> CHR ''-''"
    using False slug_char_alnum [of "last l"] by (auto simp: list_all_iff)
  ultimately show ?thesis
    using False by (auto simp: label_check_def label_ok_def starts_with_hd ends_with_def)
qed

lemma tld_label: "tld_check l \<Longrightarrow> label_ok l"
proof -
  assume t: "tld_check l"
  then have ne: "l \<noteq> []" by (auto simp: tld_check_def)
  have "ascii_lower c \<Longrightarrow> slug_char c \<and> c \<noteq> CHR ''-''" for c
    by (auto simp: slug_char_def ascii_lower_def)
  with t ne show "label_ok l"
    by (auto simp: tld_check_def label_ok_def starts_with_hd ends_with_def list_all_iff)
qed

lemma list_all_butlast_last: "xs \<noteq> [] \<Longrightarrow> list_all P xs \<longleftrightarrow> list_all P (butlast xs) \<and> P (last xs)"
  by (induction xs) auto

lemma split_on_length: "2 \<le> length (split_on c s) \<longleftrightarrow> c \<in> set s"
proof (induction s)
  case Nil
  then show ?case by simp
next
  case (Cons x xs)
  then show ?case
    by (cases "split_on c xs") (auto simp: Suc_le_eq)
qed

lemma fqdn_check_iff:
  "fqdn_check f \<and> length f \<le> 253
     \<longleftrightarrow> validate_fqdn f = Inr () \<and> tld_check (last (split_on (CHR ''.'') f))"
proof -
  let ?ls = "split_on (CHR ''.'') f"
  have "list_all label_ok ?ls \<longleftrightarrow> list_all label_ok (butlast ?ls) \<and> label_ok (last ?ls)"
    by (rule list_all_butlast_last) simp
  then show ?thesis
    by (auto simp: fqdn_check_def validate_fqdn_def Let_def split_on_length label_check_eq tld_label
        cong: list_all_cong)
qed

lemma f64_ordered_finite:
  "validate_policy p = Inr () \<longleftrightarrow>
     (\<exists>r a g. sp_reject p = Finite r \<and> sp_add_header p = Finite a \<and> sp_greylist p = Finite g
        \<and> 0 < g \<and> g < a \<and> a < r)"
  by (cases "sp_reject p"; cases "sp_add_header p"; cases "sp_greylist p")
    (auto simp: validate_policy_def Let_def)

lemma validate_policy_check:
  "validate_policy p = Inr () \<Longrightarrow> policy_check (sp_reject p) (sp_add_header p) (sp_greylist p)"
  by (auto simp: f64_ordered_finite policy_check_def)

text \<open>Characters of accepted names.\<close>

lemma fqdn_chars:
  assumes "fqdn_check f"
  shows "\<forall>c \<in> set f. slug_char c \<or> c = CHR ''.''"
proof
  fix c assume c: "c \<in> set f"
  let ?ls = "split_on (CHR ''.'') f"
  have all: "list_all label_ok ?ls"
  proof -
    have "list_all label_ok (butlast ?ls) \<and> label_ok (last ?ls)"
      using assms by (auto simp: fqdn_check_def Let_def label_check_eq tld_label cong: list_all_cong)
    then show ?thesis
      by (simp add: list_all_butlast_last [of ?ls])
  qed
  have "set f \<subseteq> insert (CHR ''.'') (\<Union> (set ` set ?ls))"
  proof -
    have "set (join sep ls) \<subseteq> set sep \<union> \<Union> (set ` set ls)" for sep ls
      by (induction sep ls rule: join.induct) auto
    from this [of "''.''" ?ls] show ?thesis by (simp add: join_split_on)
  qed
  with c all show "slug_char c \<or> c = CHR ''.''"
    by (auto simp: list_all_iff label_ok_def)
qed

lemma slug_check_chars: "slug_check s \<Longrightarrow> \<forall>c \<in> set s. slug_char c"
  by (cases s) (auto simp: slug_check_def slug_char_def list_all_iff)

end
