(* ===== verification/AbuseApi.thy ===== *)
theory AbuseApi
  imports RowSecurity OgAuth Validation
begin

text \<open>
  \<open>crates/abuse-api\<close>: the abuse decision record and the quarantine workflow over their own database
  (\<open>migrations/0001_abuse.sql\<close>), with the same session and row level security discipline as the
  control plane. Scores are \<open>f32\<close>; \<open>fmt1\<close> is the formatting \<open>{:.1}\<close> of a score.
\<close>

section \<open>Rows and requests\<close>

record AbuseDecision =
  ad_id :: uuid
  ad_tenant_id :: uuid
  ad_message_ref :: string
  ad_direction :: string
  ad_recipient :: string
  ad_sender :: string
  ad_score :: f64
  ad_action :: string
  ad_verdict :: string
  ad_symbols :: json
  ad_scanned_at :: time

record QuarantineItem =
  qi_id :: uuid
  qi_tenant_id :: uuid
  qi_decision_id :: uuid
  qi_message_ref :: string
  qi_recipient :: string
  qi_sender :: string
  qi_subject :: string
  qi_reason :: string
  qi_status :: string
  qi_reported_as :: "string option"
  qi_held_at :: time
  qi_resolved_at :: "time option"
  qi_resolved_by :: "string option"

record RecordDecision =
  rd_message_ref :: string
  rd_direction :: string
  rd_recipient :: string
  rd_sender :: string
  rd_score :: f64
  rd_action :: string
  rd_verdict :: string
  rd_symbols :: json
  rd_subject :: string

definition default_direction :: string where
  "default_direction = ''inbound''"

definition default_verdict :: string where
  "default_verdict = ''ham''"

text \<open>A request body with its optional fields defaulted by serde.\<close>

definition record_decision_req :: "string \<Rightarrow> string option \<Rightarrow> string \<Rightarrow> string option \<Rightarrow> f64 \<Rightarrow> string
    \<Rightarrow> string option \<Rightarrow> json option \<Rightarrow> string option \<Rightarrow> RecordDecision" where
  "record_decision_req mref direction recipient sender score action verdict symbols subj =
     \<lparr>rd_message_ref = mref, rd_direction = (case direction of None \<Rightarrow> default_direction | Some x \<Rightarrow> x),
      rd_recipient = recipient, rd_sender = (case sender of None \<Rightarrow> [] | Some x \<Rightarrow> x),
      rd_score = score, rd_action = action,
      rd_verdict = (case verdict of None \<Rightarrow> default_verdict | Some x \<Rightarrow> x),
      rd_symbols = (case symbols of None \<Rightarrow> JNull | Some x \<Rightarrow> x),
      rd_subject = (case subj of None \<Rightarrow> [] | Some x \<Rightarrow> x)\<rparr>"

definition VALID_ACTIONS :: "string list" where
  "VALID_ACTIONS = [''accept'', ''junk'', ''quarantine'', ''reject'', ''discard'']"

definition VALID_VERDICTS :: "string list" where
  "VALID_VERDICTS = [''ham'', ''spam'', ''phishing'', ''malware'']"

text \<open>\<open>{:?}\<close> of an array of strings without special characters.\<close>

definition debug_strings :: "string list \<Rightarrow> string" where
  "debug_strings xs = ''['' @ join '', '' (map (\<lambda>x. CHR 0x22 # x @ [CHR 0x22]) xs) @ '']''"

section \<open>The database\<close>

record abuse_store = audited +
  decisions :: "AbuseDecision list"
  quarantine_items :: "QuarantineItem list"

definition decision_policy :: "scope \<Rightarrow> AbuseDecision \<Rightarrow> bool" where
  [sql_defs]: "decision_policy sc r = tenant_policy sc (Some (ad_tenant_id r))"

definition quarantine_policy :: "scope \<Rightarrow> QuarantineItem \<Rightarrow> bool" where
  [sql_defs]: "quarantine_policy sc r = tenant_policy sc (Some (qi_tenant_id r))"

interpretation decisions_rls: rls_table "\<lambda>r. Some (ad_tenant_id r)" decision_policy decision_policy
  by unfold_locales (auto simp: sql_defs)

interpretation quarantine_rls: rls_table "\<lambda>r. Some (qi_tenant_id r)" quarantine_policy quarantine_policy
  by unfold_locales (auto simp: sql_defs)

definition abuse_audit_fk :: "uuid option \<Rightarrow> abuse_store \<Rightarrow> bool" where
  "abuse_audit_fk t d = True"

definition direction_check :: "string \<Rightarrow> bool" where
  "direction_check s \<longleftrightarrow> s \<in> {''inbound'', ''outbound''}"

definition action_check :: "string \<Rightarrow> bool" where
  "action_check s \<longleftrightarrow> s \<in> {''accept'', ''junk'', ''quarantine'', ''reject'', ''discard''}"

definition verdict_check :: "string \<Rightarrow> bool" where
  "verdict_check s \<longleftrightarrow> s \<in> {''ham'', ''spam'', ''phishing'', ''malware''}"

definition quarantine_status_check :: "string \<Rightarrow> bool" where
  "quarantine_status_check s \<longleftrightarrow> s \<in> {''held'', ''released'', ''deleted''}"

definition reported_check :: "string option \<Rightarrow> bool" where
  "reported_check r \<longleftrightarrow> (case r of None \<Rightarrow> True | Some s \<Rightarrow> s \<in> {''spam'', ''ham''})"

definition new_decision :: "uuid \<Rightarrow> uuid \<Rightarrow> RecordDecision \<Rightarrow> json \<Rightarrow> scope \<Rightarrow> AbuseDecision" where
  "new_decision fresh t req symbols sc =
     \<lparr>ad_id = fresh, ad_tenant_id = t, ad_message_ref = rd_message_ref req,
      ad_direction = rd_direction req, ad_recipient = rd_recipient req, ad_sender = rd_sender req,
      ad_score = rd_score req, ad_action = rd_action req, ad_verdict = rd_verdict req,
      ad_symbols = symbols, ad_scanned_at = tx_now sc\<rparr>"

definition insert_decision :: "uuid \<Rightarrow> uuid \<Rightarrow> RecordDecision \<Rightarrow> json \<Rightarrow> (abuse_store, AbuseDecision) stmt" where
  "insert_decision fresh t req symbols sc d =
     (let row = new_decision fresh t req symbols sc in
      if \<not> decision_policy sc row then Inl (DbErr InsufficientPrivilege)
      else if \<not> (direction_check (rd_direction req) \<and> action_check (rd_action req) \<and> verdict_check (rd_verdict req))
      then Inl (DbErr CheckViolation)
      else if list_ex (\<lambda>r. ad_id r = fresh) (decisions d) then Inl (DbErr UniqueViolation)
      else Inr (row, d\<lparr>decisions := decisions d @ [row]\<rparr>))"

text \<open>\<open>INSERT INTO quarantine_item ... ON CONFLICT (tenant_id, message_ref) DO NOTHING\<close>.\<close>

definition new_item :: "uuid \<Rightarrow> uuid \<Rightarrow> uuid \<Rightarrow> RecordDecision \<Rightarrow> string \<Rightarrow> scope \<Rightarrow> QuarantineItem" where
  "new_item fresh t decision_id req reason sc =
     \<lparr>qi_id = fresh, qi_tenant_id = t, qi_decision_id = decision_id,
      qi_message_ref = rd_message_ref req, qi_recipient = rd_recipient req, qi_sender = rd_sender req,
      qi_subject = rd_subject req, qi_reason = reason, qi_status = ''held'', qi_reported_as = None,
      qi_held_at = tx_now sc, qi_resolved_at = None, qi_resolved_by = None\<rparr>"

definition insert_item :: "uuid \<Rightarrow> uuid \<Rightarrow> uuid \<Rightarrow> RecordDecision \<Rightarrow> string \<Rightarrow> (abuse_store, unit) stmt" where
  "insert_item fresh t decision_id req reason sc d =
     (let row = new_item fresh t decision_id req reason sc in
      if \<not> quarantine_policy sc row then Inl (DbErr InsufficientPrivilege)
      else if list_ex (\<lambda>r. qi_tenant_id r = t \<and> qi_message_ref r = rd_message_ref req) (quarantine_items d)
      then Inr ((), d)
      else if list_ex (\<lambda>r. qi_id r = fresh) (quarantine_items d) then Inl (DbErr UniqueViolation)
      else if \<not> list_ex (\<lambda>r. ad_id r = decision_id) (decisions d) then Inl (DbErr ForeignKeyViolation)
      else Inr ((), d\<lparr>quarantine_items := quarantine_items d @ [row]\<rparr>))"

text \<open>\<open>... WHERE status = 'held' ORDER BY held_at DESC\<close>.\<close>

definition select_held :: "(abuse_store, QuarantineItem list) stmt" where
  "select_held sc d =
     Inr (sort_key (\<lambda>r. - qi_held_at r)
            (select_rows quarantine_policy sc (\<lambda>r. qi_status r = ''held'') (quarantine_items d)), d)"

definition set_released :: "string \<Rightarrow> scope \<Rightarrow> QuarantineItem \<Rightarrow> QuarantineItem" where
  "set_released who sc r =
     r\<lparr>qi_status := ''released'', qi_resolved_at := Some (tx_now sc), qi_resolved_by := Some who\<rparr>"

text \<open>Both updates of the console: \<open>UPDATE quarantine_item SET ... WHERE ... RETURNING\<close>, \<open>fetch_optional\<close>.\<close>

definition update_item :: "(QuarantineItem \<Rightarrow> bool) \<Rightarrow> (scope \<Rightarrow> QuarantineItem \<Rightarrow> QuarantineItem)
    \<Rightarrow> (abuse_store, QuarantineItem option) stmt" where
  "update_item p f sc d =
     Inr (fetch_optional (updated_rows quarantine_policy sc p (f sc) (quarantine_items d)),
          d\<lparr>quarantine_items := update_rows quarantine_policy sc p (f sc) (quarantine_items d)\<rparr>)"

definition release_update :: "uuid \<Rightarrow> string \<Rightarrow> (abuse_store, QuarantineItem option) stmt" where
  "release_update i who = update_item (\<lambda>r. qi_id r = i \<and> qi_status r = ''held'') (set_released who)"

definition set_reported :: "string \<Rightarrow> scope \<Rightarrow> QuarantineItem \<Rightarrow> QuarantineItem" where
  "set_reported verdict sc r = r\<lparr>qi_reported_as := Some verdict\<rparr>"

definition report_update :: "uuid \<Rightarrow> string \<Rightarrow> (abuse_store, QuarantineItem option) stmt" where
  "report_update i verdict = update_item (\<lambda>r. qi_id r = i) (set_reported verdict)"

section \<open>Handlers\<close>

definition decision_entry :: "uuid \<Rightarrow> Caller \<Rightarrow> RecordDecision \<Rightarrow> AbuseDecision \<Rightarrow> AuditEntry" where
  "decision_entry t who req r =
     \<lparr>ae_tenant_id = Some t, ae_actor = actor who, ae_action = ''abuse.decision'',
      ae_entity_type = ''abuse_decision'', ae_entity_id = uuid_text (ad_id r),
      ae_payload = JObj [(''action'', JStr (rd_action req)), (''verdict'', JStr (rd_verdict req)),
        (''score'', json_f64 (rd_score req)), (''message_ref'', JStr (rd_message_ref req))]\<rparr>"

definition record_decision_body :: "(f64 \<Rightarrow> string) \<Rightarrow> uuid \<Rightarrow> uuid \<Rightarrow> uuid \<Rightarrow> Caller \<Rightarrow> RecordDecision \<Rightarrow> json
    \<Rightarrow> (abuse_store work, api_error, AbuseDecision) comp" where
  [handler_defs]: "record_decision_body fmt1 fresh fresh_item t who req symbols =
     tryb (exec Db (insert_decision fresh t req symbols)) (\<lambda>decision.
     tryb (if rd_action req = ''quarantine''
           then exec Db (insert_item fresh_item t (ad_id decision) req
                  (rd_verdict req @ '' (score '' @ fmt1 (rd_score req) @ '')''))
           else ok ()) (\<lambda>_.
     tryb (record_audit abuse_audit_fk Db (decision_entry t who req decision)) (\<lambda>_.
     ok decision)))"

definition record_decision :: "(f64 \<Rightarrow> string) \<Rightarrow> uuid \<Rightarrow> uuid \<Rightarrow> time \<Rightarrow> uuid \<Rightarrow> Caller \<Rightarrow> RecordDecision
    \<Rightarrow> (abuse_store session, api_error, nat \<times> AbuseDecision) comp" where
  "record_decision fmt1 fresh fresh_item now t who req =
     (if rd_action req \<notin> set VALID_ACTIONS
      then fail (Validation (''action must be one of '' @ debug_strings VALID_ACTIONS))
      else if rd_verdict req \<notin> set VALID_VERDICTS
      then fail (Validation (''verdict must be one of '' @ debug_strings VALID_VERDICTS))
      else
        (let symbols = (if rd_symbols req = JNull then JArr [] else rd_symbols req) in
         tryb (in_tx (tenant_tx t now) Db (record_decision_body fmt1 fresh fresh_item t who req symbols))
           (\<lambda>decision. ok (201, decision))))"

definition list_quarantine :: "time \<Rightarrow> uuid \<Rightarrow> (abuse_store session, api_error, QuarantineItem list) comp" where
  "list_quarantine now t = in_tx (tenant_tx t now) Db (exec Db select_held)"

definition release_entry :: "uuid \<Rightarrow> Caller \<Rightarrow> QuarantineItem \<Rightarrow> AuditEntry" where
  "release_entry t who item =
     \<lparr>ae_tenant_id = Some t, ae_actor = actor who, ae_action = ''quarantine.release'',
      ae_entity_type = ''quarantine_item'', ae_entity_id = uuid_text (qi_id item),
      ae_payload = JObj [(''message_ref'', JStr (qi_message_ref item))]\<rparr>"

definition release_body :: "uuid \<Rightarrow> uuid \<Rightarrow> Caller \<Rightarrow> (abuse_store work, api_error, QuarantineItem) comp" where
  [handler_defs]: "release_body t i who =
     tryb (exec Db (release_update i (actor who))) (\<lambda>found.
     tryb (from_result (ok_or NotFound found)) (\<lambda>item.
     tryb (record_audit abuse_audit_fk Db (release_entry t who item)) (\<lambda>_.
     ok item)))"

definition release_item :: "time \<Rightarrow> uuid \<Rightarrow> uuid \<Rightarrow> Caller \<Rightarrow> (abuse_store session, api_error, QuarantineItem) comp" where
  "release_item now t i who = in_tx (tenant_tx t now) Db (release_body t i who)"

definition report_entry :: "uuid \<Rightarrow> Caller \<Rightarrow> string \<Rightarrow> QuarantineItem \<Rightarrow> AuditEntry" where
  "report_entry t who verdict item =
     \<lparr>ae_tenant_id = Some t, ae_actor = actor who, ae_action = ''quarantine.report'',
      ae_entity_type = ''quarantine_item'', ae_entity_id = uuid_text (qi_id item),
      ae_payload = JObj [(''reported_as'', JStr verdict), (''message_ref'', JStr (qi_message_ref item))]\<rparr>"

definition report_body :: "uuid \<Rightarrow> uuid \<Rightarrow> Caller \<Rightarrow> string \<Rightarrow> (abuse_store work, api_error, QuarantineItem) comp" where
  [handler_defs]: "report_body t i who verdict =
     tryb (exec Db (report_update i verdict)) (\<lambda>found.
     tryb (from_result (ok_or NotFound found)) (\<lambda>item.
     tryb (record_audit abuse_audit_fk Db (report_entry t who verdict item)) (\<lambda>_.
     ok item)))"

definition report_item :: "time \<Rightarrow> uuid \<Rightarrow> uuid \<Rightarrow> Caller \<Rightarrow> string \<Rightarrow> (abuse_store session, api_error, QuarantineItem) comp" where
  "report_item now t i who verdict =
     (if verdict \<noteq> ''spam'' \<and> verdict \<noteq> ''ham''
      then fail (Validation (''verdict must be '' @ quoted ''spam'' @ '' or '' @ quoted ''ham''))
      else in_tx (tenant_tx t now) Db (report_body t i who verdict))"

end
