(* ===== verification/AbuseInvariants.thy ===== *)
theory AbuseInvariants
  imports AbuseApi
begin

text \<open>
  What the committed runs of the quarantine workflow do: one relation per transaction, connected to
  the handlers by \<open>tx_step\<close>; the invariant of the abuse database; the life of a quarantine item
  (\<open>held\<close>, then at most once \<open>released\<close>); the tenant boundary.
\<close>

section \<open>What the transactions do\<close>

definition held_item :: "uuid \<Rightarrow> RecordDecision \<Rightarrow> abuse_store \<Rightarrow> bool" where
  "held_item t req d \<longleftrightarrow>
     (\<exists>r \<in> set (quarantine_items d). qi_tenant_id r = t \<and> qi_message_ref r = rd_message_ref req)"

lemma held_item_decisions [simp]: "held_item t req (d\<lparr>decisions := x\<rparr>) = held_item t req d"
  by (simp add: held_item_def)

definition decision_recorded :: "(f64 \<Rightarrow> string) \<Rightarrow> uuid \<Rightarrow> uuid \<Rightarrow> uuid \<Rightarrow> Caller \<Rightarrow> RecordDecision \<Rightarrow> json
    \<Rightarrow> scope \<Rightarrow> abuse_store \<Rightarrow> AbuseDecision \<Rightarrow> abuse_store \<Rightarrow> bool" where
  "decision_recorded fmt1 fresh fresh_item t who req symbols sc d a d' \<longleftrightarrow>
      a = new_decision fresh t req symbols sc \<and> decision_policy sc a
    \<and> direction_check (rd_direction req) \<and> action_check (rd_action req) \<and> verdict_check (rd_verdict req)
    \<and> (\<forall>r \<in> set (decisions d). ad_id r \<noteq> fresh)
    \<and> (let item = new_item fresh_item t fresh req (rd_verdict req @ '' (score '' @ fmt1 (rd_score req) @ '')'') sc;
           hold = rd_action req = ''quarantine'' \<and> \<not> held_item t req d
       in (hold \<longrightarrow> (\<forall>r \<in> set (quarantine_items d). qi_id r \<noteq> fresh_item))
        \<and> d' = d\<lparr>decisions := decisions d @ [a],
                 quarantine_items := quarantine_items d @ (if hold then [item] else []),
                 audit_log := audit_log d @ [audit_of sc (decision_entry t who req a)]\<rparr>)"

definition item_updated :: "(QuarantineItem \<Rightarrow> bool) \<Rightarrow> (scope \<Rightarrow> QuarantineItem \<Rightarrow> QuarantineItem)
    \<Rightarrow> (QuarantineItem \<Rightarrow> AuditEntry) \<Rightarrow> scope \<Rightarrow> abuse_store \<Rightarrow> QuarantineItem \<Rightarrow> abuse_store \<Rightarrow> bool" where
  "item_updated p f entry sc d a d' \<longleftrightarrow>
     (\<exists>r \<in> set (quarantine_items d). quarantine_policy sc r \<and> p r \<and> a = f sc r)
   \<and> tenant_policy sc (ae_tenant_id (entry a))
   \<and> d' = d\<lparr>quarantine_items := update_rows quarantine_policy sc p (f sc) (quarantine_items d),
            audit_log := audit_log d @ [audit_of sc (entry a)]\<rparr>"

definition item_released :: "uuid \<Rightarrow> uuid \<Rightarrow> Caller \<Rightarrow> scope \<Rightarrow> abuse_store \<Rightarrow> QuarantineItem \<Rightarrow> abuse_store \<Rightarrow> bool" where
  "item_released t i who =
     item_updated (\<lambda>r. qi_id r = i \<and> qi_status r = ''held'') (set_released (actor who)) (release_entry t who)"

definition item_reported :: "uuid \<Rightarrow> uuid \<Rightarrow> Caller \<Rightarrow> string \<Rightarrow> scope \<Rightarrow> abuse_store \<Rightarrow> QuarantineItem \<Rightarrow> abuse_store \<Rightarrow> bool" where
  "item_reported t i who verdict =
     item_updated (\<lambda>r. qi_id r = i) (set_reported verdict) (report_entry t who verdict)"

lemma insert_decision_Inr:
  assumes "insert_decision fresh t req symbols sc d = Inr (a, d')"
  shows "a = new_decision fresh t req symbols sc \<and> d' = d\<lparr>decisions := decisions d @ [a]\<rparr>
    \<and> decision_policy sc a \<and> direction_check (rd_direction req) \<and> action_check (rd_action req)
    \<and> verdict_check (rd_verdict req) \<and> (\<forall>r \<in> set (decisions d). ad_id r \<noteq> fresh)"
  using assms by (auto simp: insert_decision_def Let_def list_ex_iff split: if_splits)

lemma insert_item_Inr:
  assumes "insert_item fresh t i req reason sc d = Inr (u, d')"
  shows "(held_item t req d \<and> d' = d)
    \<or> (\<not> held_item t req d \<and> (\<forall>r \<in> set (quarantine_items d). qi_id r \<noteq> fresh)
       \<and> d' = d\<lparr>quarantine_items := quarantine_items d @ [new_item fresh t i req reason sc]\<rparr>)"
  using assms by (auto simp: insert_item_def held_item_def Let_def list_ex_iff split: if_splits)

lemma update_item_Inr:
  assumes "update_item p f sc d = Inr (Some a, d')"
  shows "(\<exists>r \<in> set (quarantine_items d). quarantine_policy sc r \<and> p r \<and> a = f sc r)
    \<and> d' = d\<lparr>quarantine_items := update_rows quarantine_policy sc p (f sc) (quarantine_items d)\<rparr>"
  using assms by (auto simp: update_item_def dest!: fetch_optional_Some set_updated_rows)

lemma record_decision_body_rel:
  assumes "record_decision_body fmt1 fresh fresh_item t who req symbols w = (Inr a, w')"
  shows "decision_recorded fmt1 fresh fresh_item t who req symbols (wscope w) (wdb w) a (wdb w')"
proof -
  let ?why = "rd_verdict req @ '' (score '' @ fmt1 (rd_score req) @ '')''"
  from assms obtain w1 w2 u where
    ins: "insert_decision fresh t req symbols (wscope w) (wdb w) = Inr (a, wdb w1)"
    and sc1: "wscope w1 = wscope w"
    and item: "(if rd_action req = ''quarantine'' then exec Db (insert_item fresh_item t (ad_id a) req ?why)
                else ok ()) w1 = (Inr u, w2)"
    and aud: "record_audit abuse_audit_fk Db (decision_entry t who req a) w2 = (Inr (), w')"
    by (auto simp: record_decision_body_def elim!: tryb_Inr exec_Inr ok_Inr)
  have a: "ad_id a = fresh" and d1: "wdb w1 = (wdb w)\<lparr>decisions := decisions (wdb w) @ [a]\<rparr>"
    using insert_decision_Inr [OF ins] by (auto simp: new_decision_def)
  have sc2: "wscope w2 = wscope w"
    using item sc1 by (auto split: if_splits dest: exec_scope)
  let ?hold = "rd_action req = ''quarantine'' \<and> \<not> held_item t req (wdb w)"
  have d2: "(?hold \<longrightarrow> (\<forall>r \<in> set (quarantine_items (wdb w)). qi_id r \<noteq> fresh_item))
      \<and> wdb w2 = (wdb w1)\<lparr>quarantine_items := quarantine_items (wdb w1)
           @ (if ?hold then [new_item fresh_item t fresh req ?why (wscope w)] else [])\<rparr>"
  proof (cases "rd_action req = ''quarantine''")
    case True
    with item have "insert_item fresh_item t fresh req ?why (wscope w) (wdb w1) = Inr (u, wdb w2)"
      by (auto simp: a sc1 elim!: exec_Inr)
    from insert_item_Inr [OF this] True show ?thesis
      by (cases "held_item t req (wdb w)") (auto simp: d1)
  next
    case False
    with item show ?thesis by simp
  qed
  show ?thesis
    using insert_decision_Inr [OF ins] record_audit_Inr [OF aud] d2
    by (auto simp: decision_recorded_def Let_def d1 sc2)
qed

lemma release_body_rel:
  assumes "release_body t i who w = (Inr a, w')"
  shows "item_released t i who (wscope w) (wdb w) a (wdb w')"
  using assms
  by (auto simp: release_body_def item_released_def item_updated_def release_update_def
      elim!: tryb_Inr exec_Inr ok_Inr from_result_Inr dest!: update_item_Inr record_audit_Inr)

lemma report_body_rel:
  assumes "report_body t i who verdict w = (Inr a, w')"
  shows "item_reported t i who verdict (wscope w) (wdb w) a (wdb w')"
  using assms
  by (auto simp: report_body_def item_reported_def item_updated_def report_update_def
      elim!: tryb_Inr exec_Inr ok_Inr from_result_Inr dest!: update_item_Inr record_audit_Inr)

interpretation record_decision: tx_step "tenant_tx t now" "tenant_scope t now"
    "record_decision_body fmt1 fresh fresh_item t who req symbols" Db
    "decision_recorded fmt1 fresh fresh_item t who req symbols" for t now fmt1 fresh fresh_item who req symbols
  by unfold_locales (rule record_decision_body_rel)

interpretation release: tx_step "tenant_tx t now" "tenant_scope t now"
    "release_body t i who" Db "item_released t i who" for t now i who
  by unfold_locales (rule release_body_rel)

interpretation report: tx_step "tenant_tx t now" "tenant_scope t now"
    "report_body t i who verdict" Db "item_reported t i who verdict" for t now i who verdict
  by unfold_locales (rule report_body_rel)

section \<open>The invariant of the abuse database\<close>

text \<open>
  The schema's constraints, and what only the code keeps: an item stems from a quarantine decision
  on the same message of the same tenant, it is resolved exactly when it is no longer held, and the
  log has one entry per decision and one release entry per released item.
\<close>

definition decision_wf :: "AbuseDecision \<Rightarrow> bool" where
  "decision_wf x \<longleftrightarrow> direction_check (ad_direction x) \<and> action_check (ad_action x) \<and> verdict_check (ad_verdict x)"

definition item_wf :: "AbuseDecision list \<Rightarrow> QuarantineItem \<Rightarrow> bool" where
  "item_wf ds r \<longleftrightarrow> qi_status r \<in> {''held'', ''released''} \<and> reported_check (qi_reported_as r)
     \<and> (qi_status r = ''held'' \<longleftrightarrow> qi_resolved_at r = None)
     \<and> (qi_resolved_at r = None \<longleftrightarrow> qi_resolved_by r = None)
     \<and> (\<exists>x \<in> set ds. ad_id x = qi_decision_id r \<and> ad_tenant_id x = qi_tenant_id r
          \<and> ad_message_ref x = qi_message_ref r \<and> ad_action x = ''quarantine'')"

definition item_key :: "QuarantineItem \<Rightarrow> uuid \<times> string" where
  "item_key r = (qi_tenant_id r, qi_message_ref r)"

definition tables_wf :: "abuse_store \<Rightarrow> bool" where
  "tables_wf d \<longleftrightarrow> distinct (map ad_id (decisions d)) \<and> (\<forall>x \<in> set (decisions d). decision_wf x)
     \<and> distinct (map qi_id (quarantine_items d)) \<and> distinct (map item_key (quarantine_items d))
     \<and> (\<forall>r \<in> set (quarantine_items d). item_wf (decisions d) r)
     \<and> (\<forall>x \<in> set (decisions d). ad_action x = ''quarantine''
          \<longrightarrow> (\<exists>r \<in> set (quarantine_items d). item_key r = (ad_tenant_id x, ad_message_ref x)))"

definition entries :: "string \<Rightarrow> string \<Rightarrow> audit_row list \<Rightarrow> nat" where
  "entries act i l = length (filter (\<lambda>e. ae_action e = act \<and> ae_entity_id e = i) l)"

definition log_wf :: "abuse_store \<Rightarrow> bool" where
  "log_wf d \<longleftrightarrow>
     (\<forall>i. entries ''abuse.decision'' (uuid_text i) (audit_log d)
            = (if i \<in> ad_id ` set (decisions d) then 1 else 0))
   \<and> (\<forall>i. entries ''quarantine.release'' (uuid_text i) (audit_log d)
            = (if \<exists>r \<in> set (quarantine_items d). qi_id r = i \<and> qi_status r = ''released'' then 1 else 0))"

definition abuse_wf :: "abuse_store \<Rightarrow> bool" where
  "abuse_wf d \<longleftrightarrow> tables_wf d \<and> log_wf d"

definition empty_abuse_store :: abuse_store where
  "empty_abuse_store = \<lparr>audit_log = [], decisions = [], quarantine_items = []\<rparr>"

lemma empty_abuse_wf [simp]: "abuse_wf empty_abuse_store"
  by (simp add: abuse_wf_def tables_wf_def log_wf_def entries_def empty_abuse_store_def)

lemma entries_snoc [simp]:
  "entries act i (l @ [e]) = entries act i l + (if ae_action e = act \<and> ae_entity_id e = i then 1 else 0)"
  by (simp add: entries_def)

lemma held_item_key: "held_item t req d \<longleftrightarrow> (t, rd_message_ref req) \<in> item_key ` set (quarantine_items d)"
  by (auto simp: held_item_def item_key_def)

lemma new_decision_simps [simp]:
  "ad_id (new_decision i t req sy sc) = i" "ad_tenant_id (new_decision i t req sy sc) = t"
  "ad_message_ref (new_decision i t req sy sc) = rd_message_ref req"
  "ad_action (new_decision i t req sy sc) = rd_action req"
  "ad_direction (new_decision i t req sy sc) = rd_direction req"
  "ad_verdict (new_decision i t req sy sc) = rd_verdict req"
  by (simp_all add: new_decision_def)

lemma new_item_simps [simp]:
  "qi_id (new_item i t di req re sc) = i" "qi_tenant_id (new_item i t di req re sc) = t"
  "qi_message_ref (new_item i t di req re sc) = rd_message_ref req"
  "qi_decision_id (new_item i t di req re sc) = di" "qi_status (new_item i t di req re sc) = ''held''"
  "qi_reported_as (new_item i t di req re sc) = None" "qi_resolved_at (new_item i t di req re sc) = None"
  "qi_resolved_by (new_item i t di req re sc) = None"
  "item_key (new_item i t di req re sc) = (t, rd_message_ref req)"
  by (simp_all add: new_item_def item_key_def)

lemma item_wf_mono: "item_wf ds r \<Longrightarrow> set ds \<subseteq> set ds' \<Longrightarrow> item_wf ds' r"
  by (auto simp: item_wf_def)

lemma decision_recorded_wf:
  assumes "decision_recorded fmt1 fresh fresh_item t who req symbols sc d a d'" "abuse_wf d"
  shows "abuse_wf d'"
proof -
  define reason where "reason = rd_verdict req @ '' (score '' @ fmt1 (rd_score req) @ '')''"
  define item where "item = new_item fresh_item t fresh req reason sc"
  define hold where "hold \<longleftrightarrow> rd_action req = ''quarantine'' \<and> \<not> held_item t req d"
  from assms(1) have a: "a = new_decision fresh t req symbols sc" "decision_wf a"
      "\<forall>r \<in> set (decisions d). ad_id r \<noteq> fresh"
    and i: "hold \<longrightarrow> (\<forall>r \<in> set (quarantine_items d). qi_id r \<noteq> fresh_item)"
    and d': "d' = d\<lparr>decisions := decisions d @ [a],
        quarantine_items := quarantine_items d @ (if hold then [item] else []),
        audit_log := audit_log d @ [audit_of sc (decision_entry t who req a)]\<rparr>"
    by (auto simp: decision_recorded_def decision_wf_def Let_def hold_def item_def reason_def)
  have "tables_wf d'"
  proof -
    have "item_wf (decisions d @ [a]) item" if hold
      using that by (auto simp: item_wf_def item_def a(1) hold_def reported_check_def)
    moreover have "item_key item = (t, rd_message_ref req)" by (simp add: item_def)
    moreover have "hold \<Longrightarrow> (t, rd_message_ref req) \<notin> item_key ` set (quarantine_items d)"
      by (simp add: hold_def held_item_key)
    moreover have "qi_id item = fresh_item" by (simp add: item_def)
    moreover have "\<not> hold \<Longrightarrow> rd_action req = ''quarantine''
        \<Longrightarrow> (t, rd_message_ref req) \<in> item_key ` set (quarantine_items d)"
      by (auto simp: hold_def held_item_key)
    ultimately show ?thesis
      using assms(2) a i
      by (auto simp: d' abuse_wf_def tables_wf_def intro: item_wf_mono) blast+
  qed
  moreover have "log_wf d'"
    using assms(2) a(1,3)
    by (auto simp: d' abuse_wf_def log_wf_def decision_entry_def item_def)
  ultimately show ?thesis by (simp add: abuse_wf_def)
qed

text \<open>An update by identifier changes the one item it answers.\<close>

definition set_item :: "uuid \<Rightarrow> QuarantineItem \<Rightarrow> QuarantineItem list \<Rightarrow> QuarantineItem list" where
  "set_item i a items = map (\<lambda>r. if qi_id r = i then a else r) items"

lemma item_updated_one:
  assumes "item_updated p f entry sc d a d'" "tables_wf d" "\<And>r. p r \<Longrightarrow> qi_id r = i"
  obtains r0 where "r0 \<in> set (quarantine_items d)" "quarantine_policy sc r0" "p r0" "qi_id r0 = i" "a = f sc r0"
    "d' = d\<lparr>quarantine_items := set_item i a (quarantine_items d),
           audit_log := audit_log d @ [audit_of sc (entry a)]\<rparr>"
proof -
  from assms(1) obtain r0 where r0: "r0 \<in> set (quarantine_items d)" "quarantine_policy sc r0" "p r0"
      "a = f sc r0"
    and d': "d' = d\<lparr>quarantine_items := update_rows quarantine_policy sc p (f sc) (quarantine_items d),
                audit_log := audit_log d @ [audit_of sc (entry a)]\<rparr>"
    by (auto simp: item_updated_def)
  have one: "r = r0" if "r \<in> set (quarantine_items d)" "qi_id r = i" for r
    using distinct_key [of qi_id "quarantine_items d" r r0] that r0 assms(2,3)
    by (auto simp: tables_wf_def)
  have "update_rows quarantine_policy sc p (f sc) (quarantine_items d) = set_item i a (quarantine_items d)"
    unfolding update_rows_def set_item_def
  proof (rule map_cong [OF refl])
    fix r assume r: "r \<in> set (quarantine_items d)"
    show "(if quarantine_policy sc r \<and> p r then f sc r else r) = (if qi_id r = i then a else r)"
      using one [OF r] r0 assms(3) by (cases "qi_id r = i") auto
  qed
  with r0 d' assms(3) show ?thesis using that by simp
qed

lemma set_item_map: "g a = g r0 \<Longrightarrow> r0 \<in> set items \<Longrightarrow> qi_id r0 = i \<Longrightarrow> distinct (map qi_id items)
    \<Longrightarrow> map g (set_item i a items) = map g items"
  using distinct_key [of qi_id items] by (fastforce simp: set_item_def)

lemma set_set_item:
  "r0 \<in> set items \<Longrightarrow> qi_id r0 = i \<Longrightarrow> set (set_item i a items) = insert a {r \<in> set items. qi_id r \<noteq> i}"
  by (auto simp: set_item_def)

lemma unique_item:
  assumes "tables_wf d" "r0 \<in> set (quarantine_items d)"
  shows "(\<exists>r \<in> set (quarantine_items d). qi_id r = qi_id r0 \<and> P r) \<longleftrightarrow> P r0"
  using distinct_key [of qi_id "quarantine_items d"] assms by (auto simp: tables_wf_def)

lemma set_item_tables_wf:
  assumes "tables_wf d" "r0 \<in> set (quarantine_items d)" "qi_id r0 = i" "qi_id a = i"
    "item_key a = item_key r0" "item_wf (decisions d) a"
  shows "tables_wf (d\<lparr>quarantine_items := set_item i a (quarantine_items d)\<rparr>)"
proof -
  let ?is = "quarantine_items d"
  have "map qi_id (set_item i a ?is) = map qi_id ?is" "map item_key (set_item i a ?is) = map item_key ?is"
    using assms by (auto intro!: set_item_map [of _ _ r0] simp: tables_wf_def)
  moreover have "(\<exists>r \<in> set (set_item i a ?is). item_key r = k) \<longleftrightarrow> (\<exists>r \<in> set ?is. item_key r = k)" for k
  proof -
    have "item_key ` set (set_item i a ?is) = item_key ` set ?is"
      using arg_cong [OF calculation(2), of set] by simp
    moreover have "(\<exists>r \<in> A. item_key r = k) \<longleftrightarrow> k \<in> item_key ` A" for A by auto
    ultimately show ?thesis by simp
  qed
  moreover have "\<forall>r \<in> set (set_item i a ?is). item_wf (decisions d) r"
    using assms by (auto simp: set_set_item tables_wf_def)
  ultimately show ?thesis
    using assms(1) by (simp add: tables_wf_def)
qed

lemma set_released_simps [simp]:
  "qi_id (set_released who sc r) = qi_id r" "qi_status (set_released who sc r) = ''released''"
  "item_key (set_released who sc r) = item_key r"
  "item_wf ds r \<Longrightarrow> item_wf ds (set_released who sc r)"
  by (auto simp: set_released_def item_key_def item_wf_def)

lemma set_reported_simps [simp]:
  "qi_id (set_reported v sc r) = qi_id r" "qi_status (set_reported v sc r) = qi_status r"
  "item_key (set_reported v sc r) = item_key r"
  "v \<in> {''spam'', ''ham''} \<Longrightarrow> item_wf ds r \<Longrightarrow> item_wf ds (set_reported v sc r)"
  by (auto simp: set_reported_def item_key_def item_wf_def reported_check_def)

lemma tables_wf_log [simp]: "tables_wf (d\<lparr>audit_log := l\<rparr>) = tables_wf d"
  by (simp add: tables_wf_def)

lemma item_released_one:
  assumes "item_released t i who sc d a d'" "tables_wf d"
  obtains r0 where "r0 \<in> set (quarantine_items d)" "quarantine_policy sc r0" "qi_id r0 = i"
    "qi_status r0 = ''held''" "a = set_released (actor who) sc r0"
    "d' = d\<lparr>quarantine_items := set_item i a (quarantine_items d),
           audit_log := audit_log d @ [audit_of sc (release_entry t who a)]\<rparr>"
  using item_updated_one [OF assms(1) [unfolded item_released_def] assms(2), of i] that by auto

lemma item_reported_one:
  assumes "item_reported t i who v sc d a d'" "tables_wf d"
  obtains r0 where "r0 \<in> set (quarantine_items d)" "quarantine_policy sc r0" "qi_id r0 = i"
    "a = set_reported v sc r0"
    "d' = d\<lparr>quarantine_items := set_item i a (quarantine_items d),
           audit_log := audit_log d @ [audit_of sc (report_entry t who v a)]\<rparr>"
  using item_updated_one [OF assms(1) [unfolded item_reported_def] assms(2), of i] that by auto

lemma item_released_wf:
  assumes "item_released t i who sc d a d'" "abuse_wf d"
  shows "abuse_wf d'"
proof -
  from assms(2) have wf: "tables_wf d" "log_wf d" by (auto simp: abuse_wf_def)
  obtain r0 where r0: "r0 \<in> set (quarantine_items d)" "qi_id r0 = i" "qi_status r0 = ''held''"
      "a = set_released (actor who) sc r0"
    and d': "d' = d\<lparr>quarantine_items := set_item i a (quarantine_items d),
           audit_log := audit_log d @ [audit_of sc (release_entry t who a)]\<rparr>"
    using item_released_one [OF assms(1) wf(1)] by auto
  have "tables_wf d'"
  proof -
    have "item_wf (decisions d) r0" using wf(1) r0(1) by (simp add: tables_wf_def)
    then have "qi_id a = i" "item_key a = item_key r0" "item_wf (decisions d) a"
      using r0 by simp_all
    from set_item_tables_wf [OF wf(1) r0(1,2) this] show ?thesis by (simp add: d' tables_wf_def)
  qed
  moreover have "log_wf d'"
  proof -
    have once: "\<not> (\<exists>r \<in> set (quarantine_items d). qi_id r = i \<and> qi_status r = ''released'')"
      using unique_item [OF wf(1) r0(1), of "\<lambda>r. qi_status r = ''released''"] r0(2,3) by simp
    have "(\<exists>r \<in> set (set_item i a (quarantine_items d)). qi_id r = j \<and> qi_status r = ''released'')
       \<longleftrightarrow> j = i \<or> (\<exists>r \<in> set (quarantine_items d). qi_id r = j \<and> qi_status r = ''released'')" for j
      using r0(2,4) by (auto simp: set_set_item [OF r0(1,2)])
    moreover have "qi_id a = i" using r0(2,4) by simp
    ultimately show ?thesis
      using wf(2) once by (simp add: log_wf_def d' release_entry_def) blast
  qed
  ultimately show ?thesis by (simp add: abuse_wf_def)
qed

lemma item_reported_wf:
  assumes "item_reported t i who v sc d a d'" "abuse_wf d" "v \<in> {''spam'', ''ham''}"
  shows "abuse_wf d'"
proof -
  from assms(2) have wf: "tables_wf d" "log_wf d" by (auto simp: abuse_wf_def)
  obtain r0 where r0: "r0 \<in> set (quarantine_items d)" "qi_id r0 = i" "a = set_reported v sc r0"
    and d': "d' = d\<lparr>quarantine_items := set_item i a (quarantine_items d),
           audit_log := audit_log d @ [audit_of sc (report_entry t who v a)]\<rparr>"
    using item_reported_one [OF assms(1) wf(1)] by auto
  have "tables_wf d'"
  proof -
    have "item_wf (decisions d) r0" using wf(1) r0(1) by (simp add: tables_wf_def)
    then have "qi_id a = i" "item_key a = item_key r0" "item_wf (decisions d) a"
      using r0 assms(3) by simp_all
    from set_item_tables_wf [OF wf(1) r0(1,2) this] show ?thesis by (simp add: d' tables_wf_def)
  qed
  moreover have "log_wf d'"
  proof -
    have "(\<exists>r \<in> set (set_item i a (quarantine_items d)). qi_id r = j \<and> qi_status r = ''released'')
       \<longleftrightarrow> (\<exists>r \<in> set (quarantine_items d). qi_id r = j \<and> qi_status r = ''released'')" for j
    proof (cases "j = i")
      case True
      have "qi_id a = i" "qi_status a = qi_status r0" using r0(2,3) by simp_all
      then show ?thesis
        using unique_item [OF wf(1) r0(1), of "\<lambda>r. qi_status r = ''released''"] r0(2) True
        by (auto simp: set_set_item [OF r0(1,2)])
    next
      case False
      have "qi_id a = i" using r0(2,3) by simp
      with False show ?thesis by (auto simp: set_set_item [OF r0(1,2)])
    qed
    then show ?thesis
      using wf(2) by (auto simp: log_wf_def d' report_entry_def)
  qed
  ultimately show ?thesis by (simp add: abuse_wf_def)
qed

section \<open>Reachable databases\<close>

text \<open>
  Requests of any callers, one after another, each on a session of the pool with any network
  behaviour. \<open>ro\<close> is the role the service is connected with.
\<close>

inductive abuse_step :: "(f64 \<Rightarrow> string) \<Rightarrow> db_role \<Rightarrow> abuse_store \<Rightarrow> abuse_store \<Rightarrow> bool" for fmt1 ro where
  recording: "record_decision fmt1 fresh fresh_item now t who req s = (r, s') \<Longrightarrow> role s = ro
      \<Longrightarrow> abuse_step fmt1 ro (committed s) (committed s')"
| listing: "list_quarantine now t s = (r, s') \<Longrightarrow> role s = ro
      \<Longrightarrow> abuse_step fmt1 ro (committed s) (committed s')"
| release: "release_item now t i who s = (r, s') \<Longrightarrow> role s = ro
      \<Longrightarrow> abuse_step fmt1 ro (committed s) (committed s')"
| report: "report_item now t i who verdict s = (r, s') \<Longrightarrow> role s = ro
      \<Longrightarrow> abuse_step fmt1 ro (committed s) (committed s')"

inductive abuse_reachable :: "(f64 \<Rightarrow> string) \<Rightarrow> db_role \<Rightarrow> abuse_store \<Rightarrow> bool" for fmt1 ro where
  start: "abuse_reachable fmt1 ro empty_abuse_store"
| step: "abuse_reachable fmt1 ro d \<Longrightarrow> abuse_step fmt1 ro d d' \<Longrightarrow> abuse_reachable fmt1 ro d'"

inductive_cases abuse_stepE: "abuse_step fmt1 ro d d'"

text \<open>What any request does to the database: nothing, or one of the three changes.\<close>

lemma record_decision_cases:
  assumes "record_decision fmt1 fresh fresh_item now t who req s = (r, s')"
  shows "committed s' = committed s
    \<or> (\<exists>symbols a. decision_recorded fmt1 fresh fresh_item t who req symbols (tenant_scope t now (role s))
          (committed s) a (committed s'))"
proof -
  let ?sy = "if rd_symbols req = JNull then JArr [] else rd_symbols req"
  show ?thesis
  proof (cases "rd_action req \<notin> set VALID_ACTIONS \<or> rd_verdict req \<notin> set VALID_VERDICTS")
    case True
    with assms show ?thesis by (auto simp: record_decision_def split: if_splits)
  next
    case False
    obtain r1 s1 where tx: "in_tx (tenant_tx t now) Db
        (record_decision_body fmt1 fresh fresh_item t who req ?sy) s = (r1, s1)"
      by fastforce
    with assms False have "s' = s1"
      by (auto simp: record_decision_def tryb_def Let_def split: sum.splits if_splits)
    with record_decision.run_either [OF tx] show ?thesis by blast
  qed
qed

lemma report_item_cases:
  assumes "report_item now t i who v s = (r, s')"
  shows "committed s' = committed s
    \<or> (v \<in> {''spam'', ''ham''} \<and> (\<exists>a. item_reported t i who v (tenant_scope t now (role s))
          (committed s) a (committed s')))"
  using assms report.run_either [of t now i who v s r s']
  by (auto simp: report_item_def split: if_splits)

lemma list_quarantine_keeps:
  assumes "list_quarantine now t s = (r, s')"
  shows "committed s' = committed s"
  using assms unfolding list_quarantine_def
  by (rule tenant_tx.in_tx_cases) (auto simp: select_held_def elim!: exec_Inr)

lemma abuse_step_effect:
  assumes "abuse_step fmt1 ro d d'"
  obtains (nothing) "d' = d"
  | (recorded) fresh fresh_item t who req symbols sc a where "decision_recorded fmt1 fresh fresh_item t who req symbols sc d a d'"
  | (released) t i who sc a where "item_released t i who sc d a d'"
  | (reported) t i who v sc a where "v \<in> {''spam'', ''ham''}" "item_reported t i who v sc d a d'"
  using assms
proof (cases rule: abuse_step.cases)
  case (recording fresh fresh_item now t who req s r s')
  with record_decision_cases [OF recording(3)] that show thesis by metis
next
  case (listing now t s r s')
  with list_quarantine_keeps [OF listing(3)] that show thesis by simp
next
  case (release now t i who s r s')
  then show thesis
    using release.run_either [of t now i who s r s'] that unfolding release_item_def by metis
next
  case (report now t i who v s r s')
  with report_item_cases [OF report(3)] that show thesis by metis
qed

lemma abuse_step_wf: "abuse_step fmt1 ro d d' \<Longrightarrow> abuse_wf d \<Longrightarrow> abuse_wf d'"
  by (erule abuse_step_effect) (auto intro: decision_recorded_wf item_released_wf item_reported_wf)

lemma abuse_reachable_wf: "abuse_reachable fmt1 ro d \<Longrightarrow> abuse_wf d"
  by (induction rule: abuse_reachable.induct) (auto intro: abuse_step_wf)

section \<open>The life of an item\<close>

text \<open>How an item may change: its verdict may be reported, a held one may be released; nothing else.\<close>

definition item_evolves :: "QuarantineItem \<Rightarrow> QuarantineItem \<Rightarrow> bool" where
  "item_evolves r r' \<longleftrightarrow>
     r' = r\<lparr>qi_reported_as := qi_reported_as r', qi_status := qi_status r',
            qi_resolved_at := qi_resolved_at r', qi_resolved_by := qi_resolved_by r'\<rparr>
   \<and> (qi_status r \<noteq> ''held'' \<longrightarrow> qi_status r' = qi_status r \<and> qi_resolved_at r' = qi_resolved_at r
        \<and> qi_resolved_by r' = qi_resolved_by r)
   \<and> (qi_status r' = qi_status r \<or> qi_status r' = ''released'')"

lemma item_evolves_refl [simp]: "item_evolves r r"
  by (simp add: item_evolves_def)

lemma item_evolves_set [simp]:
  "qi_status r = ''held'' \<Longrightarrow> item_evolves r (set_released who sc r)"
  "item_evolves r (set_reported v sc r)"
  by (simp_all add: item_evolves_def set_released_def set_reported_def)

lemma set_item_evolves:
  assumes "tables_wf d" "r0 \<in> set (quarantine_items d)" "qi_id r0 = i" "item_evolves r0 a"
    and "r \<in> set (quarantine_items d)"
  shows "\<exists>r' \<in> set (set_item i a (quarantine_items d)). item_evolves r r'"
proof (cases "qi_id r = i")
  case True
  then have "r = r0"
    using distinct_key [of qi_id "quarantine_items d" r r0] assms by (auto simp: tables_wf_def)
  with assms show ?thesis by (auto simp: set_set_item)
next
  case False
  with assms(5) show ?thesis by (intro bexI [of _ r]) (simp_all add: set_set_item [OF assms(2,3)])
qed

lemma item_changes_evolve:
  assumes "tables_wf d" "r \<in> set (quarantine_items d)"
  shows "item_released t i who sc d a d' \<Longrightarrow> \<exists>r' \<in> set (quarantine_items d'). item_evolves r r'"
    and "item_reported t i who v sc d a d' \<Longrightarrow> \<exists>r' \<in> set (quarantine_items d'). item_evolves r r'"
proof -
  have upd: "\<exists>r' \<in> set (quarantine_items d'). item_evolves r r'"
    if "r0 \<in> set (quarantine_items d)" "qi_id r0 = i" "item_evolves r0 a"
      "d' = d\<lparr>quarantine_items := set_item i a (quarantine_items d), audit_log := l\<rparr>" for r0 l
    using set_item_evolves [OF assms(1) that(1-3) assms(2)] that(4) by simp
  show "\<exists>r' \<in> set (quarantine_items d'). item_evolves r r'" if "item_released t i who sc d a d'"
    using item_released_one [OF that assms(1)] upd item_evolves_set(1) by metis
  show "\<exists>r' \<in> set (quarantine_items d'). item_evolves r r'" if "item_reported t i who v sc d a d'"
    using item_reported_one [OF that assms(1)] upd item_evolves_set(2) by metis
qed

lemma abuse_step_evolves:
  assumes "abuse_step fmt1 ro d d'" "abuse_wf d" "r \<in> set (quarantine_items d)"
  shows "\<exists>r' \<in> set (quarantine_items d'). item_evolves r r'"
proof -
  have wf: "tables_wf d" using assms(2) by (simp add: abuse_wf_def)
  from assms(1) show ?thesis
  proof (cases rule: abuse_step_effect)
    case nothing
    with assms(3) show ?thesis by (intro bexI [of _ r]) simp_all
  next
    case (recorded fresh fresh_item t who req symbols sc a)
    with assms(3) show ?thesis by (intro bexI [of _ r]) (auto simp: decision_recorded_def Let_def)
  next
    case (released t i who sc a)
    then show ?thesis by (rule item_changes_evolve(1) [OF wf assms(3)])
  next
    case (reported t i who v sc a)
    show ?thesis by (rule item_changes_evolve(2) [OF wf assms(3) reported(2)])
  qed
qed

section \<open>The tenant boundary\<close>

definition abuse_part :: "uuid \<Rightarrow> abuse_store \<Rightarrow> abuse_store" where
  "abuse_part t d =
     \<lparr>audit_log = filter (\<lambda>r. ae_tenant_id r = Some t) (audit_log d),
      decisions = filter (\<lambda>r. ad_tenant_id r = t) (decisions d),
      quarantine_items = filter (\<lambda>r. qi_tenant_id r = t) (quarantine_items d)\<rparr>"

lemma decision_recorded_part:
  assumes "decision_recorded fmt1 fresh fresh_item t who req symbols sc d a d'" "t' \<noteq> t"
  shows "abuse_part t' d' = abuse_part t' d"
  using assms by (auto simp: decision_recorded_def abuse_part_def decision_entry_def Let_def)

lemma item_updated_part:
  assumes "item_updated p f entry (tenant_scope t now ro) d a d'" "t' \<noteq> t" "\<not> privileged ro"
    and "\<And>r. qi_tenant_id (f (tenant_scope t now ro) r) = qi_tenant_id r"
  shows "abuse_part t' d' = abuse_part t' d"
proof -
  let ?sc = "tenant_scope t now ro"
  have "filter (\<lambda>r. qi_tenant_id r = t') (update_rows quarantine_policy ?sc p (f ?sc) rows)
      = filter (\<lambda>r. qi_tenant_id r = t') rows" for rows
    using quarantine_rls.update_foreign [OF assms(3,2), of "f ?sc" now p rows] assms(4) by simp
  moreover have "ae_tenant_id (entry a) \<noteq> Some t'"
    using assms(1,2,3) tenant_policy_tenant by (auto simp: item_updated_def)
  ultimately show ?thesis
    using assms(1) by (auto simp: item_updated_def abuse_part_def)
qed

lemma item_changes_part:
  assumes "t' \<noteq> t" "\<not> privileged ro"
  shows "item_released t i who (tenant_scope t now ro) d a d' \<Longrightarrow> abuse_part t' d' = abuse_part t' d"
    and "item_reported t i who v (tenant_scope t now ro) d a d' \<Longrightarrow> abuse_part t' d' = abuse_part t' d"
  using item_updated_part [OF _ assms]
  by (auto simp: item_released_def item_reported_def set_released_def set_reported_def)

end
