(* ===== verification/HttpService.thy ===== *)
theory HttpService
  imports OgAuth Database
begin

text \<open>
  How \<open>admin-api\<close> and \<open>abuse-api\<close> put the authentication layer of \<open>og-auth\<close> in front of their
  handlers, and the answer of each as a status with a body. A request here is one whose path and
  body axum has decoded.
\<close>

section \<open>The layer in front of a service\<close>

datatype 'a reply = Refused nat | Failure nat json | Answer nat 'a

definition reply_of :: "api_error + (nat \<times> 'a) \<Rightarrow> 'a reply" where
  "reply_of r = (case r of
     Inl e \<Rightarrow> (case into_response e of (status, doc) \<Rightarrow> Failure status doc)
   | Inr (status, a) \<Rightarrow> Answer status a)"

text \<open>
  \<open>layer(from_fn_with_state(auth, require_auth))\<close> around a handler. A request let through without a
  caller (a probe path) has no \<open>Caller\<close> extension, which axum answers with status 500.
\<close>

definition serve :: "prims \<Rightarrow> AuthConfig \<Rightarrow> auth_world \<Rightarrow> string \<Rightarrow> headers
    \<Rightarrow> (Caller \<Rightarrow> ('app, api_error, nat \<times> 'a) comp)
    \<Rightarrow> CachedKeys option \<times> 'app \<Rightarrow> 'a reply \<times> CachedKeys option \<times> 'app" where
  "serve ps cfg w path hs handler st =
     (case require_auth ps cfg w path hs (fst st) of
        (Inl status, ks) \<Rightarrow> (Refused status, ks, snd st)
      | (Inr None, ks) \<Rightarrow> (Failure 500 JNull, ks, snd st)
      | (Inr (Some c), ks) \<Rightarrow>
          (case handler c (snd st) of (r, app) \<Rightarrow> (reply_of r, ks, app)))"

text \<open>What every service gets from the layer.\<close>

locale service =
  fixes path_of :: "'req \<Rightarrow> string"
    and handler :: "'req \<Rightarrow> 'world \<Rightarrow> Caller \<Rightarrow> ('app, api_error, nat \<times> 'a) comp"
  assumes guarded: "path_of rq \<noteq> ''/health'' \<and> path_of rq \<noteq> ''/metrics''"
    and success: "handler rq aw c app = (Inr (status, a), app') \<Longrightarrow> status = 200 \<or> status = 201"
begin

lemma refused_unchanged:
  assumes "caller ps cfg w hs ks = (Inl e, ks')"
  shows "serve ps cfg w (path_of rq) hs (handler rq aw) (ks, app) = (Refused 401, ks', app)"
  using assms guarded by (simp add: serve_def require_auth_def)

lemma admitted:
  assumes "serve ps cfg w (path_of rq) hs (handler rq aw) (ks, app) = (rep, ks', app')" "app' \<noteq> app"
  obtains c where "caller ps cfg w hs ks = (Inr c, ks')" "snd (handler rq aw c app) = app'"
    "rep = reply_of (fst (handler rq aw c app))"
  using assms guarded [of rq]
  by (auto simp: serve_def require_auth_def split: sum.splits option.splits prod.splits if_splits)

text \<open>The answer of a guarded path is the handler's, or 401.\<close>

lemma statuses:
  assumes "serve ps cfg w (path_of rq) hs (handler rq aw) (ks, app) = (rep, ks', app')"
  shows "(rep = Refused 401 \<and> app' = app)
    \<or> (\<exists>e. rep = Failure (fst (into_response e)) (snd (into_response e)))
    \<or> (\<exists>status a. rep = Answer status a \<and> (status = 200 \<or> status = 201))"
proof (cases "caller ps cfg w hs ks")
  case (Pair r k1)
  show ?thesis
  proof (cases r)
    case (Inl e)
    with Pair assms guarded show ?thesis by (auto simp: serve_def require_auth_def)
  next
    case (Inr c)
    obtain r2 app2 where h: "handler rq aw c app = (r2, app2)" by fastforce
    have rep: "rep = reply_of r2"
      using assms Pair Inr h guarded [of rq] by (auto simp: serve_def require_auth_def)
    show ?thesis
    proof (cases r2)
      case (Inl e)
      with rep have "rep = Failure (fst (into_response e)) (snd (into_response e))"
        by (simp add: reply_of_def split: prod.splits)
      then show ?thesis by blast
    next
      case (Inr sa)
      with rep h success [of rq aw c app "fst sa" "snd sa" app2] show ?thesis
        by (auto simp: reply_of_def split: prod.splits)
    qed
  qed
qed

end

section \<open>Answers and routes\<close>

text \<open>The two shapes of a successful answer, with and without a status of its own, and a path.\<close>

definition answer :: "('a \<Rightarrow> 'b) \<Rightarrow> ('s, 'e, nat \<times> 'a) comp \<Rightarrow> ('s, 'e, nat \<times> 'b) comp" where
  "answer f m = tryb m (\<lambda>(status, a). ok (status, f a))"

definition answer200 :: "('a \<Rightarrow> 'b) \<Rightarrow> ('s, 'e, 'a) comp \<Rightarrow> ('s, 'e, nat \<times> 'b) comp" where
  "answer200 f m = tryb m (\<lambda>a. ok (200, f a))"

fun tenant_route :: "uuid \<Rightarrow> string \<Rightarrow> string" where
  "tenant_route t rest = ''/api/v1/tenants/'' @ uuid_text t @ rest"

lemma answer_state [simp]: "snd (answer f m st) = snd (m st)" "snd (answer200 f m1 st) = snd (m1 st)"
  by (simp_all add: answer_def answer200_def tryb_def split: prod.splits sum.splits)

lemma answer_Inr: "answer f m st = (Inr (status, b), st') \<Longrightarrow> \<exists>a. m st = (Inr (status, a), st')"
  by (auto simp: answer_def elim!: tryb_Inr split: prod.splits)

lemma answer200_Inr: "answer200 f m st = (Inr (status, b), st') \<Longrightarrow> status = 200"
  by (auto simp: answer200_def elim!: tryb_Inr)

end
