(* ===== verification/AbuseServer.thy ===== *)
theory AbuseServer
  imports AbuseInvariants HttpService
begin

text \<open>The router of \<open>abuse-api\<close>: its routes, its handlers behind them, what a request can change.\<close>

datatype abuse_request = PostDecision uuid RecordDecision | GetQuarantine uuid
  | PostRelease uuid uuid | PostReport uuid uuid string

fun abuse_path :: "abuse_request \<Rightarrow> string" where
  "abuse_path (PostDecision t _) = tenant_route t ''/abuse/decisions''"
| "abuse_path (GetQuarantine t) = tenant_route t ''/quarantine''"
| "abuse_path (PostRelease t i) = tenant_route t (''/quarantine/'' @ uuid_text i @ ''/release'')"
| "abuse_path (PostReport t i _) = tenant_route t (''/quarantine/'' @ uuid_text i @ ''/report'')"

fun abuse_tenant :: "abuse_request \<Rightarrow> uuid" where
  "abuse_tenant (PostDecision t _) = t"
| "abuse_tenant (GetQuarantine t) = t"
| "abuse_tenant (PostRelease t _) = t"
| "abuse_tenant (PostReport t _ _) = t"

datatype abuse_answer = ADecision AbuseDecision | AItems "QuarantineItem list" | AItem QuarantineItem

text \<open>What a request meets: the identifiers the database draws, its clock, the formatting of a score.\<close>

record abuse_world =
  bw_fresh :: uuid
  bw_fresh_item :: uuid
  bw_now :: time
  bw_fmt1 :: "f64 \<Rightarrow> string"

fun abuse_handle :: "abuse_request \<Rightarrow> abuse_world \<Rightarrow> Caller
    \<Rightarrow> (abuse_store session, api_error, nat \<times> abuse_answer) comp" where
  "abuse_handle (PostDecision t req) bw c =
     answer ADecision (record_decision (bw_fmt1 bw) (bw_fresh bw) (bw_fresh_item bw) (bw_now bw) t c req)"
| "abuse_handle (GetQuarantine t) bw c = answer200 AItems (list_quarantine (bw_now bw) t)"
| "abuse_handle (PostRelease t i) bw c = answer200 AItem (release_item (bw_now bw) t i c)"
| "abuse_handle (PostReport t i v) bw c = answer200 AItem (report_item (bw_now bw) t i c v)"

lemma record_decision_status:
  "record_decision fmt1 fresh fresh_item now t c req s = (Inr (status, a), s') \<Longrightarrow> status = 201"
  by (auto simp: record_decision_def Let_def split: if_splits elim!: tryb_Inr)

interpretation abuse: service abuse_path abuse_handle
proof
  fix rq
  show "abuse_path rq \<noteq> ''/health'' \<and> abuse_path rq \<noteq> ''/metrics''"
    by (cases rq) simp_all
next
  fix rq aw c app status a app'
  assume "abuse_handle rq aw c app = (Inr (status, a), app')"
  then show "status = 200 \<or> status = 201"
    by (cases rq) (auto dest!: answer_Inr answer200_Inr dest: record_decision_status)
qed

text \<open>Every request is a step of the database, and touches the tenant of its path only.\<close>

lemma abuse_handle_step:
  "abuse_step (bw_fmt1 bw) (role s) (committed s) (committed (snd (abuse_handle rq bw c s)))"
proof (cases rq)
  case (PostDecision t req)
  then show ?thesis by (auto intro: abuse_step.recording [OF surjective_pairing])
next
  case (GetQuarantine t)
  then show ?thesis by (auto intro: abuse_step.listing [OF surjective_pairing])
next
  case (PostRelease t i)
  then show ?thesis by (auto intro: abuse_step.release [OF surjective_pairing])
next
  case (PostReport t i v)
  then show ?thesis by (auto intro: abuse_step.report [OF surjective_pairing])
qed

lemma abuse_handle_part:
  assumes "\<not> privileged (role s)" "t' \<noteq> abuse_tenant rq"
  shows "abuse_part t' (committed (snd (abuse_handle rq bw c s))) = abuse_part t' (committed s)"
proof (cases rq)
  case (PostDecision t req)
  obtain r s' where run: "record_decision (bw_fmt1 bw) (bw_fresh bw) (bw_fresh_item bw) (bw_now bw) t c req s = (r, s')"
    by fastforce
  from record_decision_cases [OF run] decision_recorded_part [where t' = t'] assms(2) PostDecision run
  show ?thesis by auto
next
  case (GetQuarantine t)
  obtain r s' where "list_quarantine (bw_now bw) t s = (r, s')" by fastforce
  from list_quarantine_keeps [OF this] this GetQuarantine show ?thesis by simp
next
  case (PostRelease t i)
  obtain r s' where run: "in_tx (tenant_tx t (bw_now bw)) Db (release_body t i c) s = (r, s')" by fastforce
  from release.run_either [OF run] item_changes_part(1) [OF _ assms(1)] assms(2) PostRelease run
  show ?thesis by (auto simp: release_item_def)
next
  case (PostReport t i v)
  obtain r s' where run: "report_item (bw_now bw) t i c v s = (r, s')" by fastforce
  from report_item_cases [OF run] item_changes_part(2) [OF _ assms(1)] assms(2) PostReport run
  show ?thesis by auto
qed

end
