(* ===== verification/ControlPlane.thy ===== *)
theory ControlPlane
  imports Validation RowSecurity
begin

text \<open>
  The control-plane database: the tables of \<open>crates/admin-api/migrations\<close> with their row level
  security, constraints and foreign keys, and the statements admin-api, job-runner and
  config-compiler send to it. Tables are lists in insertion order. PostgreSQL checks an inserted row
  in this order: the \<open>WITH CHECK\<close> expression, the column constraints, the unique indexes, the foreign
  keys; foreign keys are checked against the whole table, not under the policies.
\<close>

section \<open>Rows\<close>

text \<open>The structs of \<open>models.rs\<close>; a table row extends its struct by the columns the API never shows.\<close>

record Tenant =
  ten_id :: uuid
  ten_slug :: string
  ten_name :: string
  ten_plan :: string
  ten_status :: string
  ten_created_at :: time

record tenant_row = Tenant +
  ten_updated_at :: time

record Domain =
  dom_id :: uuid
  dom_tenant_id :: uuid
  dom_fqdn :: string
  dom_status :: string
  dom_created_at :: time

record Account =
  acc_id :: uuid
  acc_tenant_id :: uuid
  acc_domain_id :: uuid
  acc_email :: string
  acc_display_name :: string
  acc_quota_mb :: "32 word"
  acc_status :: string
  acc_created_at :: time

record account_row = Account +
  acc_sesame_user_id :: "uuid option"
  acc_stalwart_principal :: "string option"
  acc_updated_at :: time

record AbusePolicy =
  pol_tenant_id :: uuid
  pol_reject :: f64
  pol_add_header :: f64
  pol_greylist :: f64
  pol_updated_at :: time

record control_plane = audited +
  tenants :: "tenant_row list"
  domains :: "Domain list"
  accounts :: "account_row list"
  abuse_policies :: "AbusePolicy list"

section \<open>Policies\<close>

definition tenants_using :: "scope \<Rightarrow> ('z Tenant_scheme) \<Rightarrow> bool" where
  [sql_defs]: "tenants_using sc r = tenant_policy sc (Some (ten_id r))"

text \<open>\<open>WITH CHECK (current_setting('app.is_platform_admin', true) = 'true')\<close>.\<close>

definition tenants_check :: "scope \<Rightarrow> ('z Tenant_scheme) \<Rightarrow> bool" where
  [sql_defs]: "tenants_check sc r \<longleftrightarrow> bypass_rls sc \<or> platform_admin sc = Some ''true''"

definition domains_policy :: "scope \<Rightarrow> Domain \<Rightarrow> bool" where
  [sql_defs]: "domains_policy sc r = tenant_policy sc (Some (dom_tenant_id r))"

definition accounts_policy :: "scope \<Rightarrow> ('z Account_scheme) \<Rightarrow> bool" where
  [sql_defs]: "accounts_policy sc r = tenant_policy sc (Some (acc_tenant_id r))"

definition abuse_policy_policy :: "scope \<Rightarrow> AbusePolicy \<Rightarrow> bool" where
  [sql_defs]: "abuse_policy_policy sc r = tenant_policy sc (Some (pol_tenant_id r))"

interpretation tenants_rls: rls_table "\<lambda>r. Some (ten_id r)" tenants_using tenants_check
  by unfold_locales (auto simp: sql_defs tenant_policy_def)

interpretation domains_rls: rls_table "\<lambda>r. Some (dom_tenant_id r)" domains_policy domains_policy
  by unfold_locales (auto simp: sql_defs)

interpretation accounts_rls: rls_table "\<lambda>r. Some (acc_tenant_id r)" accounts_policy accounts_policy
  by unfold_locales (auto simp: sql_defs)

interpretation policies_rls: rls_table "\<lambda>r. Some (pol_tenant_id r)" abuse_policy_policy abuse_policy_policy
  by unfold_locales (auto simp: sql_defs)

section \<open>Statements\<close>

definition has_tenant :: "uuid \<Rightarrow> control_plane \<Rightarrow> bool" where
  "has_tenant t d = list_ex (\<lambda>r. ten_id r = t) (tenants d)"

definition has_domain :: "uuid \<Rightarrow> control_plane \<Rightarrow> bool" where
  "has_domain i d = list_ex (\<lambda>r. dom_id r = i) (domains d)"

text \<open>\<open>audit_log.tenant_id uuid REFERENCES tenants(id)\<close>.\<close>

definition audit_fk :: "uuid option \<Rightarrow> control_plane \<Rightarrow> bool" where
  "audit_fk t d = (case t of None \<Rightarrow> True | Some i \<Rightarrow> has_tenant i d)"

text \<open>\<open>INSERT INTO tenants (slug, name, plan) ... RETURNING ...\<close>; \<open>fresh\<close> is \<open>gen_random_uuid()\<close>.\<close>

definition new_tenant :: "uuid \<Rightarrow> string \<Rightarrow> string \<Rightarrow> string \<Rightarrow> scope \<Rightarrow> tenant_row" where
  "new_tenant fresh slug name plan sc =
     \<lparr>ten_id = fresh, ten_slug = slug, ten_name = name, ten_plan = plan, ten_status = ''active'',
      ten_created_at = tx_now sc, ten_updated_at = tx_now sc\<rparr>"

definition insert_tenant :: "uuid \<Rightarrow> string \<Rightarrow> string \<Rightarrow> string \<Rightarrow> (control_plane, Tenant) stmt" where
  "insert_tenant fresh slug name plan sc d =
     (let row = new_tenant fresh slug name plan sc in
      if \<not> tenants_check sc row then Inl (DbErr InsufficientPrivilege)
      else if \<not> slug_check slug then Inl (DbErr CheckViolation)
      else if list_ex (\<lambda>r. ten_id r = fresh \<or> ten_slug r = slug) (tenants d)
      then Inl (DbErr UniqueViolation)
      else Inr (Tenant.truncate row, d\<lparr>tenants := tenants d @ [row]\<rparr>))"

text \<open>\<open>SELECT ... FROM tenants ORDER BY created_at\<close>.\<close>

definition select_tenants :: "(control_plane, Tenant list) stmt" where
  "select_tenants sc d =
     Inr (map Tenant.truncate (sort_key ten_created_at (select_rows tenants_using sc (\<lambda>_. True) (tenants d))), d)"

text \<open>\<open>INSERT INTO domains (tenant_id, fqdn) ... RETURNING ...\<close>.\<close>

definition new_domain :: "uuid \<Rightarrow> uuid \<Rightarrow> string \<Rightarrow> scope \<Rightarrow> Domain" where
  "new_domain fresh t fqdn sc =
     \<lparr>dom_id = fresh, dom_tenant_id = t, dom_fqdn = fqdn, dom_status = ''pending_dns'',
      dom_created_at = tx_now sc\<rparr>"

definition insert_domain :: "uuid \<Rightarrow> uuid \<Rightarrow> string \<Rightarrow> (control_plane, Domain) stmt" where
  "insert_domain fresh t fqdn sc d =
     (let row = new_domain fresh t fqdn sc in
      if \<not> domains_policy sc row then Inl (DbErr InsufficientPrivilege)
      else if \<not> fqdn_check fqdn then Inl (DbErr CheckViolation)
      else if list_ex (\<lambda>r. dom_id r = fresh \<or> dom_fqdn r = fqdn) (domains d)
      then Inl (DbErr UniqueViolation)
      else if \<not> has_tenant t d then Inl (DbErr ForeignKeyViolation)
      else Inr (row, d\<lparr>domains := domains d @ [row]\<rparr>))"

definition select_domains :: "(control_plane, Domain list) stmt" where
  "select_domains sc d =
     Inr (sort_key dom_created_at (select_rows domains_policy sc (\<lambda>_. True) (domains d)), d)"

text \<open>\<open>SELECT fqdn FROM domains WHERE id = $1 AND status <> 'suspended'\<close>.\<close>

definition select_domain_fqdn :: "uuid \<Rightarrow> (control_plane, string option) stmt" where
  "select_domain_fqdn i sc d =
     Inr (fetch_optional (map dom_fqdn
            (select_rows domains_policy sc (\<lambda>r. dom_id r = i \<and> dom_status r \<noteq> ''suspended'') (domains d))), d)"

text \<open>\<open>INSERT INTO accounts (tenant_id, domain_id, email, display_name, quota_mb) ...\<close>.\<close>

definition new_account :: "uuid \<Rightarrow> uuid \<Rightarrow> uuid \<Rightarrow> string \<Rightarrow> string \<Rightarrow> 32 word \<Rightarrow> scope \<Rightarrow> account_row" where
  "new_account fresh t did email display_name quota_mb sc =
     \<lparr>acc_id = fresh, acc_tenant_id = t, acc_domain_id = did, acc_email = email,
      acc_display_name = display_name, acc_quota_mb = quota_mb, acc_status = ''pending_provisioning'',
      acc_created_at = tx_now sc, acc_sesame_user_id = None, acc_stalwart_principal = None,
      acc_updated_at = tx_now sc\<rparr>"

definition insert_account :: "uuid \<Rightarrow> uuid \<Rightarrow> uuid \<Rightarrow> string \<Rightarrow> string \<Rightarrow> 32 word \<Rightarrow> (control_plane, Account) stmt" where
  "insert_account fresh t did email display_name quota_mb sc d =
     (let row = new_account fresh t did email display_name quota_mb sc in
      if \<not> accounts_policy sc row then Inl (DbErr InsufficientPrivilege)
      else if \<not> quota_check quota_mb then Inl (DbErr CheckViolation)
      else if list_ex (\<lambda>r. acc_id r = fresh \<or> acc_email r = email) (accounts d)
      then Inl (DbErr UniqueViolation)
      else if \<not> (has_tenant t d \<and> has_domain did d) then Inl (DbErr ForeignKeyViolation)
      else Inr (Account.truncate row, d\<lparr>accounts := accounts d @ [row]\<rparr>))"

definition select_accounts :: "(control_plane, Account list) stmt" where
  "select_accounts sc d =
     Inr (map Account.truncate (sort_key acc_created_at (select_rows accounts_policy sc (\<lambda>_. True) (accounts d))), d)"

text \<open>
  The activation, \<open>UPDATE accounts SET status = 'active', sesame_user_id = $2, updated_at = now()
  WHERE id = $1\<close>: admin-api sends it as it stands, job-runner adds
  \<open>AND status = 'pending_provisioning'\<close>.
\<close>

definition activate :: "uuid \<Rightarrow> scope \<Rightarrow> account_row \<Rightarrow> account_row" where
  "activate sesame_user sc r =
     r\<lparr>acc_status := ''active'', acc_sesame_user_id := Some sesame_user, acc_updated_at := tx_now sc\<rparr>"

definition update_account_active :: "uuid \<Rightarrow> uuid \<Rightarrow> (control_plane, Account) stmt" where
  "update_account_active i sesame_user sc d =
     (let p = (\<lambda>r. acc_id r = i) in
      case fetch_one (updated_rows accounts_policy sc p (activate sesame_user sc) (accounts d)) of
        Inl e \<Rightarrow> Inl e
      | Inr r \<Rightarrow> Inr (Account.truncate r,
                   d\<lparr>accounts := update_rows accounts_policy sc p (activate sesame_user sc) (accounts d)\<rparr>))"

definition update_account_if_pending :: "uuid \<Rightarrow> uuid \<Rightarrow> (control_plane, nat) stmt" where
  "update_account_if_pending i sesame_user sc d =
     (let p = (\<lambda>r. acc_id r = i \<and> acc_status r = ''pending_provisioning'') in
      Inr (length (updated_rows accounts_policy sc p (activate sesame_user sc) (accounts d)),
           d\<lparr>accounts := update_rows accounts_policy sc p (activate sesame_user sc) (accounts d)\<rparr>))"

text \<open>\<open>SELECT ... FROM accounts WHERE status = 'pending_provisioning' ORDER BY created_at LIMIT $1\<close>.\<close>

definition select_pending :: "int \<Rightarrow> (control_plane, Account list) stmt" where
  "select_pending batch sc d =
     (if batch < 0 then Inl (DbErr InvalidRowCountInLimit)
      else Inr (take (nat batch) (map Account.truncate (sort_key acc_created_at
             (select_rows accounts_policy sc (\<lambda>r. acc_status r = ''pending_provisioning'') (accounts d)))), d))"

definition select_policy :: "uuid \<Rightarrow> (control_plane, AbusePolicy option) stmt" where
  "select_policy t sc d =
     Inr (fetch_optional (select_rows abuse_policy_policy sc (\<lambda>r. pol_tenant_id r = t) (abuse_policies d)), d)"

text \<open>
  \<open>INSERT INTO abuse_policy ... ON CONFLICT (tenant_id) DO UPDATE ... RETURNING ...\<close>. The existing row
  has the same tenant as the proposed one, so it is as visible as that one is insertable.
\<close>

definition upsert_policy :: "uuid \<Rightarrow> f64 \<Rightarrow> f64 \<Rightarrow> f64 \<Rightarrow> (control_plane, AbusePolicy) stmt" where
  "upsert_policy t rej add grey sc d =
     (let row = \<lparr>pol_tenant_id = t, pol_reject = rej, pol_add_header = add, pol_greylist = grey,
                 pol_updated_at = tx_now sc\<rparr> in
      if \<not> abuse_policy_policy sc row then Inl (DbErr InsufficientPrivilege)
      else if \<not> policy_check rej add grey then Inl (DbErr CheckViolation)
      else if list_ex (\<lambda>r. pol_tenant_id r = t) (abuse_policies d)
      then Inr (row, d\<lparr>abuse_policies :=
             map (\<lambda>r. if pol_tenant_id r = t then row else r) (abuse_policies d)\<rparr>)
      else if \<not> has_tenant t d then Inl (DbErr ForeignKeyViolation)
      else Inr (row, d\<lparr>abuse_policies := abuse_policies d @ [row]\<rparr>))"

section \<open>Well-formed databases\<close>

text \<open>
  What the schema enforces, plus what only the code keeps: an account belongs to the tenant of its
  domain, its address is a valid local part at that domain, an active account has a sesame user, and
  thresholds are finite.
\<close>

definition tenants_wf :: "control_plane \<Rightarrow> bool" where
  "tenants_wf d \<longleftrightarrow> distinct (map ten_id (tenants d)) \<and> distinct (map ten_slug (tenants d))
     \<and> (\<forall>r \<in> set (tenants d). slug_check (ten_slug r) \<and> tenant_status_check (ten_status r))"

definition domains_wf :: "control_plane \<Rightarrow> bool" where
  "domains_wf d \<longleftrightarrow> distinct (map dom_id (domains d)) \<and> distinct (map dom_fqdn (domains d))
     \<and> (\<forall>r \<in> set (domains d). fqdn_check (dom_fqdn r) \<and> domain_status_check (dom_status r)
          \<and> has_tenant (dom_tenant_id r) d)"

definition account_wf :: "control_plane \<Rightarrow> account_row \<Rightarrow> bool" where
  "account_wf d r \<longleftrightarrow> quota_check (acc_quota_mb r) \<and> account_status_check (acc_status r)
     \<and> has_tenant (acc_tenant_id r) d
     \<and> (\<exists>x \<in> set (domains d). dom_id x = acc_domain_id r \<and> dom_tenant_id x = acc_tenant_id r
          \<and> (\<exists>l. validate_local_part l = Inr () \<and> acc_email r = l @ ''@'' @ dom_fqdn x))
     \<and> (acc_status r = ''active'' \<longrightarrow> acc_sesame_user_id r \<noteq> None)"

definition accounts_wf :: "control_plane \<Rightarrow> bool" where
  "accounts_wf d \<longleftrightarrow> distinct (map acc_id (accounts d)) \<and> distinct (map acc_email (accounts d))
     \<and> (\<forall>r \<in> set (accounts d). account_wf d r)"

definition policies_wf :: "control_plane \<Rightarrow> bool" where
  "policies_wf d \<longleftrightarrow> distinct (map pol_tenant_id (abuse_policies d))
     \<and> (\<forall>r \<in> set (abuse_policies d). policy_check (pol_reject r) (pol_add_header r) (pol_greylist r)
          \<and> is_finite (pol_reject r) \<and> is_finite (pol_add_header r) \<and> is_finite (pol_greylist r)
          \<and> has_tenant (pol_tenant_id r) d)"

definition audit_wf :: "control_plane \<Rightarrow> bool" where
  "audit_wf d \<longleftrightarrow> (\<forall>e \<in> set (audit_log d). audit_fk (ae_tenant_id e) d)"

definition cp_wf :: "control_plane \<Rightarrow> bool" where
  "cp_wf d \<longleftrightarrow> tenants_wf d \<and> domains_wf d \<and> accounts_wf d \<and> policies_wf d \<and> audit_wf d"

lemmas cp_wf_defs = cp_wf_def tenants_wf_def domains_wf_def accounts_wf_def account_wf_def
  policies_wf_def audit_wf_def audit_fk_def

text \<open>What one tenant owns.\<close>

definition tenant_part :: "uuid \<Rightarrow> control_plane \<Rightarrow> control_plane" where
  "tenant_part t d =
     \<lparr>audit_log = filter (\<lambda>r. ae_tenant_id r = Some t) (audit_log d),
      tenants = filter (\<lambda>r. ten_id r = t) (tenants d),
      domains = filter (\<lambda>r. dom_tenant_id r = t) (domains d),
      accounts = filter (\<lambda>r. acc_tenant_id r = t) (accounts d),
      abuse_policies = filter (\<lambda>r. pol_tenant_id r = t) (abuse_policies d)\<rparr>"

section \<open>Successful statements\<close>

lemma list_ex_not [simp]: "\<not> list_ex P xs \<longleftrightarrow> (\<forall>x \<in> set xs. \<not> P x)"
  by (auto simp: list_ex_iff)

lemma insert_tenant_Inr:
  assumes "insert_tenant fresh slug name plan sc d = Inr (a, d')"
  shows "(a = Tenant.truncate (new_tenant fresh slug name plan sc))
    \<and> (d' = d\<lparr>tenants := tenants d @ [new_tenant fresh slug name plan sc]\<rparr>)
    \<and> (tenants_check sc (new_tenant fresh slug name plan sc))
    \<and> (slug_check slug)
    \<and> (\<forall>r \<in> set (tenants d). ten_id r \<noteq> fresh \<and> ten_slug r \<noteq> slug)"
  using assms by (auto simp: insert_tenant_def Let_def split: if_splits)

lemma insert_domain_Inr:
  assumes "insert_domain fresh t fqdn sc d = Inr (a, d')"
  shows "(a = new_domain fresh t fqdn sc)
    \<and> (d' = d\<lparr>domains := domains d @ [a]\<rparr>)
    \<and> (domains_policy sc a)
    \<and> (fqdn_check fqdn)
    \<and> (\<forall>r \<in> set (domains d). dom_id r \<noteq> fresh \<and> dom_fqdn r \<noteq> fqdn)
    \<and> (has_tenant t d)"
  using assms by (auto simp: insert_domain_def Let_def split: if_splits)

lemma insert_account_Inr:
  assumes "insert_account fresh t did email dn q sc d = Inr (a, d')"
  shows "(a = Account.truncate (new_account fresh t did email dn q sc))
    \<and> (d' = d\<lparr>accounts := accounts d @ [new_account fresh t did email dn q sc]\<rparr>)
    \<and> (accounts_policy sc (new_account fresh t did email dn q sc))
    \<and> (quota_check q)
    \<and> (\<forall>r \<in> set (accounts d). acc_id r \<noteq> fresh \<and> acc_email r \<noteq> email)
    \<and> (has_tenant t d)
    \<and> (has_domain did d)"
  using assms by (auto simp: insert_account_def Let_def split: if_splits)

lemma select_domain_fqdn_Inr:
  assumes "select_domain_fqdn i sc d = Inr (x, d')"
  shows "d' = d \<and> (\<forall>f. x = Some f \<longrightarrow> (\<exists>r \<in> set (domains d). dom_id r = i \<and> dom_fqdn r = f
      \<and> dom_status r \<noteq> ''suspended'' \<and> domains_policy sc r))"
  using assms by (auto simp: select_domain_fqdn_def select_rows_def dest!: fetch_optional_Some)

lemma update_account_active_Inr:
  assumes "update_account_active i u sc d = Inr (a, d')"
  shows "(d' = d\<lparr>accounts := update_rows accounts_policy sc (\<lambda>r. acc_id r = i) (activate u sc) (accounts d)\<rparr>)
    \<and> (\<exists>r \<in> set (accounts d). acc_id r = i \<and> accounts_policy sc r \<and> a = Account.truncate (activate u sc r))"
  using assms
  by (auto simp: update_account_active_def Let_def split: sum.splits dest!: fetch_one_Inr set_updated_rows)

lemma upsert_policy_Inr:
  assumes "upsert_policy t rej add grey sc d = Inr (a, d')"
  shows "a = \<lparr>pol_tenant_id = t, pol_reject = rej, pol_add_header = add, pol_greylist = grey,
             pol_updated_at = tx_now sc\<rparr>"
    and "abuse_policy_policy sc a" and "policy_check rej add grey"
    and "d' = d\<lparr>abuse_policies := abuse_policies d'\<rparr>"
    and "(\<exists>r \<in> set (abuse_policies d). pol_tenant_id r = t) \<Longrightarrow>
      abuse_policies d' = map (\<lambda>r. if pol_tenant_id r = t then a else r) (abuse_policies d)"
    and "\<forall>r \<in> set (abuse_policies d). pol_tenant_id r \<noteq> t \<Longrightarrow>
      abuse_policies d' = abuse_policies d @ [a] \<and> has_tenant t d"
  using assms by (auto simp: upsert_policy_def Let_def list_ex_iff split: if_splits)

lemma activate_simps [simp]:
  "acc_id (activate u sc r) = acc_id r" "acc_tenant_id (activate u sc r) = acc_tenant_id r"
  "acc_domain_id (activate u sc r) = acc_domain_id r" "acc_email (activate u sc r) = acc_email r"
  "acc_quota_mb (activate u sc r) = acc_quota_mb r" "acc_status (activate u sc r) = ''active''"
  "acc_sesame_user_id (activate u sc r) = Some u" "acc_created_at (activate u sc r) = acc_created_at r"
  "acc_display_name (activate u sc r) = acc_display_name r"
  by (simp_all add: activate_def)

end
