(* ===== verification/Sesame.thy ===== *)
theory Sesame
  imports OgAuth
begin

text \<open>
  \<open>crates/wrappers/src/sesame_client.rs\<close>: the client of the identity plane, a machine-to-machine
  token fetched with \<open>client_credentials\<close> and cached, and the idempotent creation of users. The
  servers' answers, the reading of JSON texts and of UUIDs are arguments; what the structs take from a
  document is defined here. The mutex around the cached
  token is never poisoned, as nothing in its critical sections panics.
\<close>

section \<open>Data\<close>

text \<open>\<open>types::ProviderError\<close>.\<close>

datatype ProviderError = PNotFound string | TenantMismatch uuid uuid | TenantSuspended string
  | QuotaExceeded | Internal string | Unavailable string | InvalidInput string

record SesameConfig =
  login_url :: string
  user_mgmt_url :: string
  sesame_tenant :: string
  client_id :: string
  client_secret :: string

text \<open>\<open>from_env\<close>: \<open>None\<close> when any of the five variables is unset or blank.\<close>

definition sesame_from_env :: "(string \<Rightarrow> string option) \<Rightarrow> SesameConfig option" where
  "sesame_from_env env =
     Option.bind (env_nonblank env ''SESAME_LOGIN_URL'') (\<lambda>l.
     Option.bind (env_nonblank env ''SESAME_USER_MGMT_URL'') (\<lambda>u.
     Option.bind (env_nonblank env ''SESAME_TENANT'') (\<lambda>t.
     Option.bind (env_nonblank env ''SESAME_CLIENT_ID'') (\<lambda>i.
     Option.bind (env_nonblank env ''SESAME_CLIENT_SECRET'') (\<lambda>s.
     Some \<lparr>login_url = l, user_mgmt_url = u, sesame_tenant = t, client_id = i, client_secret = s\<rparr>)))))"

record CachedToken =
  access_token :: string
  valid_until :: time

record http_request =
  url :: string
  tenant_header :: string
  bearer_auth :: "string option"
  body :: json

datatype http_outcome = SendFailed string | Response nat bytes

text \<open>
  The world of one call: the clock at the cache lookup and at the store, the two endpoints, the
  text of a status code, how a body is read as JSON and a string as a UUID, and how \<open>reqwest\<close> words an
  answer that does not decode.
\<close>

record sesame_world =
  clock_lookup :: time
  clock_store :: time
  token_endpoint :: "http_request \<Rightarrow> http_outcome"
  users_endpoint :: "http_request \<Rightarrow> http_outcome"
  status_text :: "nat \<Rightarrow> string"
  sesame_parse :: "bytes \<Rightarrow> json option"
  sesame_uuid :: "string \<Rightarrow> uuid option"
  sesame_json_error :: "bytes \<Rightarrow> string"

text \<open>The derived decoders of \<open>TokenResponse\<close> and \<open>CreatedUser\<close>; other fields of an answer are ignored.\<close>

definition de_token_response :: "json \<Rightarrow> (string \<times> 32 word) option" where
  "de_token_response d = do {
     kvs \<leftarrow> struct_fields [''access_token'', ''expires_in''] d;
     tok \<leftarrow> required ''access_token'' de_string kvs;
     expires_in \<leftarrow> required ''expires_in'' de_i32 kvs;
     Some (tok, expires_in) }"

definition de_created_user :: "(string \<Rightarrow> uuid option) \<Rightarrow> json \<Rightarrow> uuid option" where
  "de_created_user parse d = do {
     kvs \<leftarrow> struct_fields [''user_id''] d;
     required ''user_id'' (de_uuid parse) kvs }"

text \<open>\<open>resp.json()\<close>.\<close>

definition decode_token :: "sesame_world \<Rightarrow> bytes \<Rightarrow> string + (string \<times> 32 word)" where
  "decode_token w doc = ok_or (sesame_json_error w doc) (Option.bind (sesame_parse w doc) de_token_response)"

definition decode_user :: "sesame_world \<Rightarrow> bytes \<Rightarrow> string + uuid" where
  "decode_user w doc =
     ok_or (sesame_json_error w doc) (Option.bind (sesame_parse w doc) (de_created_user (sesame_uuid w)))"

text \<open>\<open>SesameClient\<close>: its configuration and the slot of its token, which is empty at first.\<close>

type_synonym SesameClient = "SesameConfig \<times> CachedToken option"

definition sesame_client_new :: "SesameConfig \<Rightarrow> SesameClient" where
  "sesame_client_new cfg = (cfg, None)"

definition is_success :: "nat \<Rightarrow> bool" where
  "is_success status \<longleftrightarrow> 200 \<le> status \<and> status < 300"

section \<open>The token cache\<close>

text \<open>\<open>u64::try_from(expires_in.max(61) - 60).unwrap_or(60)\<close> over \<open>i32\<close>.\<close>

definition token_ttl :: "32 word \<Rightarrow> int" where
  "token_ttl expires_in =
     (let m = (if expires_in <s 61 then 61 else expires_in) - 60
      in if sint m < 0 then 60 else sint m)"

definition cached_token :: "CachedToken option \<Rightarrow> time \<Rightarrow> string option" where
  "cached_token slot now =
     (case slot of None \<Rightarrow> None
      | Some t \<Rightarrow> if valid_until t > now then Some (access_token t) else None)"

definition store_token :: "string \<Rightarrow> 32 word \<Rightarrow> time \<Rightarrow> CachedToken option" where
  "store_token tok expires_in now =
     Some \<lparr>access_token = tok, valid_until = now + from_secs (token_ttl expires_in)\<rparr>"

section \<open>Requests\<close>

definition token_request :: "SesameConfig \<Rightarrow> http_request" where
  "token_request cfg =
     \<lparr>url = trim_end_matches (CHR ''/'') (login_url cfg) @ ''/auth/token'',
      tenant_header = sesame_tenant cfg, bearer_auth = None,
      body = JObj [(''grant_type'', JStr ''client_credentials''),
                   (''client_id'', JStr (client_id cfg)),
                   (''client_secret'', JStr (client_secret cfg))]\<rparr>"

definition token :: "SesameConfig \<Rightarrow> sesame_world \<Rightarrow> (CachedToken option, ProviderError, string) comp" where
  "token cfg w slot =
     (case cached_token slot (clock_lookup w) of
        Some tok \<Rightarrow> (Inr tok, slot)
      | None \<Rightarrow>
          (case token_endpoint w (token_request cfg) of
             SendFailed e \<Rightarrow> (Inl (Unavailable (''sesame token request: '' @ e)), slot)
           | Response status bytes \<Rightarrow>
               if \<not> is_success status
               then (Inl (Unavailable (''sesame token endpoint returned '' @ status_text w status)), slot)
               else (case decode_token w bytes of
                       Inl e \<Rightarrow> (Inl (Internal (''sesame token decode: '' @ e)), slot)
                     | Inr (tok, expires_in) \<Rightarrow>
                         if tok = [] then
                           (Inl (Unavailable ''sesame issued an empty token (invalid client credentials?)''), slot)
                         else (Inr tok, store_token tok expires_in (clock_store w)))))"

definition user_request :: "SesameConfig \<Rightarrow> string \<Rightarrow> string \<Rightarrow> string \<Rightarrow> http_request" where
  "user_request cfg tok email display_name =
     \<lparr>url = trim_end_matches (CHR ''/'') (user_mgmt_url cfg) @ ''/admin/users'',
      tenant_header = sesame_tenant cfg, bearer_auth = Some tok,
      body = JObj ([(''email'', JStr email), (''email_confirmed'', JBool True)]
               @ (if blank display_name then [] else [(''first_name'', JStr display_name)]))\<rparr>"

definition provision_user :: "SesameConfig \<Rightarrow> sesame_world \<Rightarrow> string \<Rightarrow> string
    \<Rightarrow> (CachedToken option, ProviderError, uuid) comp" where
  "provision_user cfg w email display_name =
     tryb (token cfg w) (\<lambda>tok slot.
       (case users_endpoint w (user_request cfg tok email display_name) of
          SendFailed e \<Rightarrow> (Inl (Unavailable (''sesame create_user: '' @ e)), slot)
        | Response status bytes \<Rightarrow>
            if \<not> is_success status
            then (Inl (Unavailable (''sesame create_user returned '' @ status_text w status)), slot)
            else (case decode_user w bytes of
                    Inl e \<Rightarrow> (Inl (Internal (''sesame create_user decode: '' @ e)), slot)
                  | Inr user_id \<Rightarrow> (Inr user_id, slot))))"

section \<open>Lifetime of a token\<close>

lemma sint_i32: "- (2 ^ 31) \<le> sint e \<and> sint e < 2 ^ 31" for e :: "32 word"
  using sint_range_size [of e] by (simp add: word_size)

lemma token_ttl_eq: "token_ttl e = max (sint e) 61 - 60"
proof -
  have b: "- (2 ^ 31) \<le> sint e" "sint e < 2 ^ 31"
    using sint_i32 [of e] by auto
  show ?thesis
  proof (cases "sint e < 61")
    case True
    then show ?thesis by (simp add: token_ttl_def word_sless_alt)
  next
    case False
    have "sint (e - 60) = signed_take_bit 31 (sint e - 60)"
      by (simp add: sint_word_diff)
    also have "\<dots> = sint e - 60"
      by (rule signed_take_bit_int_eq_self) (use b False in auto)
    finally show ?thesis
      using False by (simp add: token_ttl_def word_sless_alt max_def)
  qed
qed

lemma token_ttl_pos: "0 < token_ttl e"
  by (simp add: token_ttl_eq max_def)

text \<open>The slot keeps the interface of an expiring cache; its key carries nothing.\<close>

definition store_pair :: "string \<times> 32 word \<Rightarrow> time \<Rightarrow> CachedToken option" where
  "store_pair te t0 = store_token (fst te) (snd te) t0"

interpretation sesame_token: expiring_cache "\<lambda>slot t (_::unit). cached_token slot t" store_pair
    "\<lambda>te _. Some (fst te)" "\<lambda>te. from_secs (token_ttl (snd te))"
  by unfold_locales (auto simp: cached_token_def store_pair_def store_token_def split: if_splits)

lemma token_cases:
  assumes "token cfg w slot = (Inr tok, slot')"
  obtains (hit) "cached_token slot (clock_lookup w) = Some tok" "slot' = slot"
  | (fetched) status bytes e where "cached_token slot (clock_lookup w) = None"
      "token_endpoint w (token_request cfg) = Response status bytes" "is_success status"
      "decode_token w bytes = Inr (tok, e)" "tok \<noteq> []" "slot' = store_token tok e (clock_store w)"
  using assms
  by (auto simp: token_def split: option.splits http_outcome.splits if_splits sum.splits)

lemma provision_user_Inr:
  assumes "provision_user cfg w email dn slot = (Inr u, slot')"
  obtains tok status bytes where "token cfg w slot = (Inr tok, slot')"
    "users_endpoint w (user_request cfg tok email dn) = Response status bytes" "is_success status"
    "decode_user w bytes = Inr u"
  using assms
  by (auto simp: provision_user_def elim!: tryb_Inr
      split: http_outcome.splits if_splits sum.splits)

end
