(* ===== verification/AdminApi.thy ===== *)
theory AdminApi
  imports ControlPlane Sesame
begin

text \<open>
  \<open>crates/admin-api/src/routes.rs\<close>: the provisioning handlers, each as a function from its request
  and the session to the answer and the session it leaves. The random identifier of an inserted row
  (\<open>fresh\<close>) and the transaction's clock (\<open>now\<close>) are arguments. For every transaction there is a
  relation that says exactly what a committed run did; the interpretations of \<open>tx_step\<close> connect the
  two for every network behaviour.
\<close>

section \<open>Requests\<close>

record CreateTenant =
  ct_slug :: string
  ct_name :: string
  ct_plan :: string

definition default_plan :: string where
  "default_plan = ''standard''"

record CreateDomain =
  cd_fqdn :: string

record CreateAccount =
  ca_domain_id :: uuid
  ca_local_part :: string
  ca_display_name :: string
  ca_quota_mb :: "32 word"

definition default_quota :: "32 word" where
  "default_quota = 1024"

text \<open>The serde defaults of the optional fields of a request body.\<close>

definition create_tenant_req :: "string \<Rightarrow> string \<Rightarrow> string option \<Rightarrow> CreateTenant" where
  "create_tenant_req slug name p =
     \<lparr>ct_slug = slug, ct_name = name, ct_plan = (case p of None \<Rightarrow> default_plan | Some x \<Rightarrow> x)\<rparr>"

definition create_account_req :: "uuid \<Rightarrow> string \<Rightarrow> string option \<Rightarrow> 32 word option \<Rightarrow> CreateAccount" where
  "create_account_req did l dn q =
     \<lparr>ca_domain_id = did, ca_local_part = l,
      ca_display_name = (case dn of None \<Rightarrow> [] | Some x \<Rightarrow> x),
      ca_quota_mb = (case q of None \<Rightarrow> default_quota | Some x \<Rightarrow> x)\<rparr>"

section \<open>Tenants (platform scope)\<close>

definition create_tenant_entry :: "Caller \<Rightarrow> Tenant \<Rightarrow> AuditEntry" where
  "create_tenant_entry who t =
     \<lparr>ae_tenant_id = Some (ten_id t), ae_actor = actor who, ae_action = ''tenant.create'',
      ae_entity_type = ''tenant'', ae_entity_id = uuid_text (ten_id t),
      ae_payload = JObj [(''slug'', JStr (ten_slug t)), (''plan'', JStr (ten_plan t))]\<rparr>"

definition create_tenant_body :: "uuid \<Rightarrow> Caller \<Rightarrow> CreateTenant \<Rightarrow> (control_plane work, api_error, Tenant) comp" where
  [handler_defs]: "create_tenant_body fresh who req =
     tryb (exec Db (insert_tenant fresh (ct_slug req) (ct_name req) (ct_plan req))) (\<lambda>tenant.
     tryb (record_audit audit_fk Db (create_tenant_entry who tenant)) (\<lambda>_.
     ok tenant))"

definition create_tenant :: "uuid \<Rightarrow> time \<Rightarrow> Caller \<Rightarrow> CreateTenant \<Rightarrow> (control_plane session, api_error, nat \<times> Tenant) comp" where
  "create_tenant fresh now who req =
     tryb (from_result (validate_slug (ct_slug req))) (\<lambda>_.
     tryb (in_tx (platform_tx now) Db (create_tenant_body fresh who req)) (\<lambda>tenant.
     ok (201, tenant)))"

definition list_tenants :: "time \<Rightarrow> (control_plane session, api_error, Tenant list) comp" where
  "list_tenants now = in_tx (platform_tx now) Db (exec Db select_tenants)"

section \<open>Domains (tenant scope)\<close>

definition create_domain_entry :: "uuid \<Rightarrow> Caller \<Rightarrow> Domain \<Rightarrow> AuditEntry" where
  "create_domain_entry t who r =
     \<lparr>ae_tenant_id = Some t, ae_actor = actor who, ae_action = ''domain.create'',
      ae_entity_type = ''domain'', ae_entity_id = uuid_text (dom_id r),
      ae_payload = JObj [(''fqdn'', JStr (dom_fqdn r))]\<rparr>"

definition create_domain_body :: "uuid \<Rightarrow> uuid \<Rightarrow> Caller \<Rightarrow> CreateDomain \<Rightarrow> (control_plane work, api_error, Domain) comp" where
  [handler_defs]: "create_domain_body fresh t who req =
     tryb (exec Db (insert_domain fresh t (cd_fqdn req))) (\<lambda>r.
     tryb (record_audit audit_fk Db (create_domain_entry t who r)) (\<lambda>_.
     ok r))"

definition create_domain :: "uuid \<Rightarrow> time \<Rightarrow> uuid \<Rightarrow> Caller \<Rightarrow> CreateDomain \<Rightarrow> (control_plane session, api_error, nat \<times> Domain) comp" where
  "create_domain fresh now t who req =
     tryb (from_result (validate_fqdn (cd_fqdn req))) (\<lambda>_.
     tryb (in_tx (tenant_tx t now) Db (create_domain_body fresh t who req)) (\<lambda>r.
     ok (201, r)))"

definition list_domains :: "time \<Rightarrow> uuid \<Rightarrow> (control_plane session, api_error, Domain list) comp" where
  "list_domains now t = in_tx (tenant_tx t now) Db (exec Db select_domains)"

section \<open>Accounts (tenant scope)\<close>

definition create_account_entry :: "uuid \<Rightarrow> Caller \<Rightarrow> Account \<Rightarrow> AuditEntry" where
  "create_account_entry t who a =
     \<lparr>ae_tenant_id = Some t, ae_actor = actor who, ae_action = ''account.create'',
      ae_entity_type = ''account'', ae_entity_id = uuid_text (acc_id a),
      ae_payload = JObj [(''email'', JStr (acc_email a)), (''quota_mb'', JInt (sint (acc_quota_mb a)))]\<rparr>"

text \<open>The first transaction: the domain must be visible, then the row and its audit entry.\<close>

definition create_account_body :: "uuid \<Rightarrow> uuid \<Rightarrow> Caller \<Rightarrow> CreateAccount \<Rightarrow> (control_plane work, api_error, Account) comp" where
  [handler_defs]: "create_account_body fresh t who req =
     tryb (exec Db (select_domain_fqdn (ca_domain_id req))) (\<lambda>found.
     tryb (from_result (ok_or NotFound found)) (\<lambda>fqdn.
     tryb (exec Db (insert_account fresh t (ca_domain_id req) (ca_local_part req @ ''@'' @ fqdn)
                      (ca_display_name req) (ca_quota_mb req))) (\<lambda>account.
     tryb (record_audit audit_fk Db (create_account_entry t who account)) (\<lambda>_.
     ok account))))"

definition create_account_tx :: "uuid \<Rightarrow> time \<Rightarrow> uuid \<Rightarrow> Caller \<Rightarrow> CreateAccount \<Rightarrow> (control_plane session, api_error, Account) comp" where
  "create_account_tx fresh now t who req =
     tryb (from_result (validate_local_part (ca_local_part req))) (\<lambda>_.
     in_tx (tenant_tx t now) Db (create_account_body fresh t who req))"

definition provisioned_entry :: "uuid \<Rightarrow> string \<Rightarrow> uuid \<Rightarrow> Account \<Rightarrow> AuditEntry" where
  "provisioned_entry t who u a =
     \<lparr>ae_tenant_id = Some t, ae_actor = who, ae_action = ''account.provisioned'',
      ae_entity_type = ''account'', ae_entity_id = uuid_text (acc_id a),
      ae_payload = JObj [(''sesame_user_id'', JStr (uuid_text u))]\<rparr>"

definition provision_body :: "uuid \<Rightarrow> string \<Rightarrow> uuid \<Rightarrow> uuid \<Rightarrow> (control_plane work, sqlx_error, Account) comp" where
  [handler_defs]: "provision_body t who account_id u =
     tryb (exec id (update_account_active account_id u)) (\<lambda>updated.
     tryb (record_audit audit_fk id (provisioned_entry t who u updated)) (\<lambda>_.
     ok updated))"

text \<open>
  The application state of the handlers that also talk to sesame: the database session and the
  sesame client, absent when the integration is not configured.
\<close>

record app_state =
  app_db :: "control_plane session"
  app_sesame :: "SesameClient option"

text \<open>
  \<open>provision_into_sesame\<close>: best effort, the answer is the updated account or the one passed in.
  \<open>other\<close> is whatever other sessions commit while the call to sesame is in flight.
\<close>

definition provision_into_sesame :: "sesame_world \<Rightarrow> (control_plane \<Rightarrow> control_plane) \<Rightarrow> time
    \<Rightarrow> SesameConfig \<Rightarrow> CachedToken option \<Rightarrow> uuid \<Rightarrow> Account \<Rightarrow> string \<Rightarrow> control_plane session
    \<Rightarrow> Account \<times> CachedToken option \<times> control_plane session" where
  "provision_into_sesame w other now cfg slot t account who s =
     (let (provisioned, slot') = provision_user cfg w (acc_email account) (acc_display_name account) slot;
          s1 = s\<lparr>committed := other (committed s)\<rparr>
      in case provisioned of
           Inl _ \<Rightarrow> (account, slot', s1)
         | Inr u \<Rightarrow>
             (case in_tx (tenant_tx t now) id (provision_body t who (acc_id account) u) s1 of
                (Inr updated, s2) \<Rightarrow> (updated, slot', s2)
              | (Inl _, s2) \<Rightarrow> (account, slot', s2)))"

definition create_account :: "uuid \<Rightarrow> time \<Rightarrow> time \<Rightarrow> sesame_world \<Rightarrow> (control_plane \<Rightarrow> control_plane)
    \<Rightarrow> uuid \<Rightarrow> Caller \<Rightarrow> CreateAccount \<Rightarrow> (app_state, api_error, nat \<times> Account) comp" where
  "create_account fresh now now2 w other t who req st =
     (case create_account_tx fresh now t who req (app_db st) of
        (Inl e, s) \<Rightarrow> (Inl e, st\<lparr>app_db := s\<rparr>)
      | (Inr account, s) \<Rightarrow>
          (case app_sesame st of
             None \<Rightarrow> (Inr (201, account), st\<lparr>app_db := s\<rparr>)
           | Some (cfg, slot) \<Rightarrow>
               (let (a, slot', s') = provision_into_sesame w other now2 cfg slot t account (actor who) s
                in (Inr (201, a), st\<lparr>app_db := s', app_sesame := Some (cfg, slot')\<rparr>))))"

definition list_accounts :: "time \<Rightarrow> uuid \<Rightarrow> (control_plane session, api_error, Account list) comp" where
  "list_accounts now t = in_tx (tenant_tx t now) Db (exec Db select_accounts)"

section \<open>Abuse policy (tenant scope)\<close>

text \<open>\<open>AbusePolicy::defaults\<close>; \<open>now\<close> is \<open>Utc::now()\<close>.\<close>

definition policy_defaults :: "time \<Rightarrow> uuid \<Rightarrow> AbusePolicy" where
  "policy_defaults now t =
     \<lparr>pol_tenant_id = t, pol_reject = Finite 15, pol_add_header = Finite 6, pol_greylist = Finite 4,
      pol_updated_at = now\<rparr>"

definition get_policy :: "time \<Rightarrow> uuid \<Rightarrow> (control_plane session, api_error, AbusePolicy) comp" where
  "get_policy now t =
     tryb (in_tx (tenant_tx t now) Db (exec Db (select_policy t))) (\<lambda>policy.
     ok (case policy of None \<Rightarrow> policy_defaults now t | Some p \<Rightarrow> p))"

definition put_policy_entry :: "uuid \<Rightarrow> Caller \<Rightarrow> SetAbusePolicy \<Rightarrow> AuditEntry" where
  "put_policy_entry t who req =
     \<lparr>ae_tenant_id = Some t, ae_actor = actor who, ae_action = ''policy.set'',
      ae_entity_type = ''abuse_policy'', ae_entity_id = uuid_text t,
      ae_payload = JObj [(''reject'', json_f64 (sp_reject req)),
        (''add_header'', json_f64 (sp_add_header req)), (''greylist'', json_f64 (sp_greylist req))]\<rparr>"

definition put_policy_body :: "uuid \<Rightarrow> Caller \<Rightarrow> SetAbusePolicy \<Rightarrow> (control_plane work, api_error, AbusePolicy) comp" where
  [handler_defs]: "put_policy_body t who req =
     tryb (exec Db (upsert_policy t (sp_reject req) (sp_add_header req) (sp_greylist req))) (\<lambda>policy.
     tryb (record_audit audit_fk Db (put_policy_entry t who req)) (\<lambda>_.
     ok policy))"

definition put_policy :: "time \<Rightarrow> uuid \<Rightarrow> Caller \<Rightarrow> SetAbusePolicy \<Rightarrow> (control_plane session, api_error, AbusePolicy) comp" where
  "put_policy now t who req =
     tryb (from_result (validate_policy req)) (\<lambda>_.
     in_tx (tenant_tx t now) Db (put_policy_body t who req))"

section \<open>What the transactions do\<close>

definition tenant_created :: "uuid \<Rightarrow> Caller \<Rightarrow> CreateTenant \<Rightarrow> scope \<Rightarrow> control_plane \<Rightarrow> Tenant \<Rightarrow> control_plane \<Rightarrow> bool" where
  "tenant_created fresh who req sc d a d' \<longleftrightarrow>
     (let row = new_tenant fresh (ct_slug req) (ct_name req) (ct_plan req) sc in
      a = Tenant.truncate row \<and> slug_check (ct_slug req) \<and> tenants_check sc row
    \<and> (\<forall>r \<in> set (tenants d). ten_id r \<noteq> fresh \<and> ten_slug r \<noteq> ct_slug req)
    \<and> d' = d\<lparr>tenants := tenants d @ [row],
             audit_log := audit_log d @ [audit_of sc (create_tenant_entry who a)]\<rparr>)"

definition domain_created :: "uuid \<Rightarrow> uuid \<Rightarrow> Caller \<Rightarrow> CreateDomain \<Rightarrow> scope \<Rightarrow> control_plane \<Rightarrow> Domain \<Rightarrow> control_plane \<Rightarrow> bool" where
  "domain_created fresh t who req sc d a d' \<longleftrightarrow>
      a = new_domain fresh t (cd_fqdn req) sc \<and> fqdn_check (cd_fqdn req) \<and> domains_policy sc a
    \<and> (\<forall>r \<in> set (domains d). dom_id r \<noteq> fresh \<and> dom_fqdn r \<noteq> cd_fqdn req) \<and> has_tenant t d
    \<and> d' = d\<lparr>domains := domains d @ [a],
             audit_log := audit_log d @ [audit_of sc (create_domain_entry t who a)]\<rparr>"

definition account_created :: "uuid \<Rightarrow> uuid \<Rightarrow> Caller \<Rightarrow> CreateAccount \<Rightarrow> scope \<Rightarrow> control_plane \<Rightarrow> Account \<Rightarrow> control_plane \<Rightarrow> bool" where
  "account_created fresh t who req sc d a d' \<longleftrightarrow>
     (\<exists>x \<in> set (domains d). dom_id x = ca_domain_id req \<and> dom_status x \<noteq> ''suspended''
        \<and> domains_policy sc x
        \<and> (let row = new_account fresh t (ca_domain_id req) (ca_local_part req @ ''@'' @ dom_fqdn x)
                       (ca_display_name req) (ca_quota_mb req) sc in
             a = Account.truncate row \<and> quota_check (ca_quota_mb req) \<and> accounts_policy sc row
           \<and> (\<forall>r \<in> set (accounts d). acc_id r \<noteq> fresh \<and> acc_email r \<noteq> acc_email row)
           \<and> has_tenant t d
           \<and> d' = d\<lparr>accounts := accounts d @ [row],
                    audit_log := audit_log d @ [audit_of sc (create_account_entry t who a)]\<rparr>))"

definition account_activated :: "uuid \<Rightarrow> string \<Rightarrow> uuid \<Rightarrow> uuid \<Rightarrow> scope \<Rightarrow> control_plane \<Rightarrow> Account \<Rightarrow> control_plane \<Rightarrow> bool" where
  "account_activated t who i u sc d a d' \<longleftrightarrow>
     (\<exists>r \<in> set (accounts d). acc_id r = i \<and> accounts_policy sc r \<and> a = Account.truncate (activate u sc r))
   \<and> tenant_policy sc (Some t) \<and> has_tenant t d
   \<and> d' = d\<lparr>accounts := update_rows accounts_policy sc (\<lambda>r. acc_id r = i) (activate u sc) (accounts d),
            audit_log := audit_log d @ [audit_of sc (provisioned_entry t who u a)]\<rparr>"

definition policy_set :: "uuid \<Rightarrow> Caller \<Rightarrow> SetAbusePolicy \<Rightarrow> scope \<Rightarrow> control_plane \<Rightarrow> AbusePolicy \<Rightarrow> control_plane \<Rightarrow> bool" where
  "policy_set t who req sc d a d' \<longleftrightarrow>
     (\<exists>d1. upsert_policy t (sp_reject req) (sp_add_header req) (sp_greylist req) sc d = Inr (a, d1)
      \<and> d' = d1\<lparr>audit_log := audit_log d @ [audit_of sc (put_policy_entry t who req)]\<rparr>)
   \<and> has_tenant t d'"

lemma create_tenant_body_rel:
  assumes "create_tenant_body fresh who req w = (Inr a, w')"
  shows "tenant_created fresh who req (wscope w) (wdb w) a (wdb w')"
  using assms
  by (auto simp: create_tenant_body_def tenant_created_def Let_def elim!: tryb_Inr exec_Inr ok_Inr
      dest!: insert_tenant_Inr record_audit_Inr)

lemma create_domain_body_rel:
  assumes "create_domain_body fresh t who req w = (Inr a, w')"
  shows "domain_created fresh t who req (wscope w) (wdb w) a (wdb w')"
  using assms
  by (auto simp: create_domain_body_def domain_created_def elim!: tryb_Inr exec_Inr ok_Inr
      dest!: insert_domain_Inr record_audit_Inr)

lemma create_account_body_rel:
  assumes "create_account_body fresh t who req w = (Inr a, w')"
  shows "account_created fresh t who req (wscope w) (wdb w) a (wdb w')"
proof -
  from assms obtain f d1 w2 where
    sel: "select_domain_fqdn (ca_domain_id req) (wscope w) (wdb w) = Inr (Some f, d1)"
    and ins: "insert_account fresh t (ca_domain_id req) (ca_local_part req @ ''@'' @ f)
        (ca_display_name req) (ca_quota_mb req) (wscope w) d1 = Inr (a, wdb w2)"
    and sc: "wscope w2 = wscope w"
    and aud: "record_audit audit_fk Db (create_account_entry t who a) w2 = (Inr (), w')"
    by (auto simp: create_account_body_def elim!: tryb_Inr exec_Inr ok_Inr from_result_Inr)
  from select_domain_fqdn_Inr [OF sel] obtain x where x: "x \<in> set (domains (wdb w))"
    "dom_id x = ca_domain_id req" "dom_fqdn x = f" "dom_status x \<noteq> ''suspended''"
    "domains_policy (wscope w) x" and d1: "d1 = wdb w" by auto
  show ?thesis
    using insert_account_Inr [OF ins] record_audit_Inr [OF aud] x d1 sc
    by (auto simp: account_created_def Let_def new_account_def intro!: bexI [of _ x])
qed

lemma provision_body_rel:
  assumes "provision_body t who i u w = (Inr a, w')"
  shows "account_activated t who i u (wscope w) (wdb w) a (wdb w')"
  using assms
  by (auto simp: provision_body_def account_activated_def provisioned_entry_def audit_fk_def has_tenant_def
      elim!: tryb_Inr exec_Inr ok_Inr dest!: update_account_active_Inr record_audit_Inr)

lemma put_policy_body_rel:
  assumes "put_policy_body t who req w = (Inr a, w')"
  shows "policy_set t who req (wscope w) (wdb w) a (wdb w')"
proof -
  from assms obtain w1 where
    ups: "upsert_policy t (sp_reject req) (sp_add_header req) (sp_greylist req) (wscope w) (wdb w) = Inr (a, wdb w1)"
    and sc: "wscope w1 = wscope w"
    and aud: "record_audit audit_fk Db (put_policy_entry t who req) w1 = (Inr (), w')"
    by (auto simp: put_policy_body_def elim!: tryb_Inr exec_Inr ok_Inr)
  have same: "audit_log (wdb w1) = audit_log (wdb w)"
    using upsert_policy_Inr(4) [OF ups] by (metis control_plane.ext_inject control_plane.surjective
        control_plane.update_convs(4) audited.ext_inject audited.surjective)
  show ?thesis
    using record_audit_Inr [OF aud] ups sc same
    by (auto simp: policy_set_def put_policy_entry_def audit_fk_def has_tenant_def)
qed

interpretation create_tenant: tx_step "platform_tx now" "platform_scope now"
    "create_tenant_body fresh who req" Db "tenant_created fresh who req" for now fresh who req
  by unfold_locales (rule create_tenant_body_rel)

interpretation create_domain: tx_step "tenant_tx t now" "tenant_scope t now"
    "create_domain_body fresh t who req" Db "domain_created fresh t who req" for now fresh t who req
  by unfold_locales (rule create_domain_body_rel)

interpretation create_account: tx_step "tenant_tx t now" "tenant_scope t now"
    "create_account_body fresh t who req" Db "account_created fresh t who req" for now fresh t who req
  by unfold_locales (rule create_account_body_rel)

interpretation provision: tx_step "tenant_tx t now" "tenant_scope t now"
    "provision_body t who i u" id "account_activated t who i u" for now t who i u
  by unfold_locales (rule provision_body_rel)

interpretation put_policy: tx_step "tenant_tx t now" "tenant_scope t now"
    "put_policy_body t who req" Db "policy_set t who req" for now t who req
  by unfold_locales (rule put_policy_body_rel)

end
