(* ===== verification/AdminInvariants.thy ===== *)
theory AdminInvariants
  imports AdminApi
begin

text \<open>
  What the committed runs of the provisioning handlers preserve: well-formedness of the control
  plane, one audit entry per change, and the part of every other tenant.
\<close>

section \<open>Well-formedness\<close>

lemma has_tenant_tenants [simp]:
  "has_tenant t (d\<lparr>audit_log := x\<rparr>) = has_tenant t d"
  "has_tenant t (d\<lparr>domains := y\<rparr>) = has_tenant t d"
  "has_tenant t (d\<lparr>accounts := z\<rparr>) = has_tenant t d"
  "has_tenant t (d\<lparr>abuse_policies := v\<rparr>) = has_tenant t d"
  by (simp_all add: has_tenant_def)

lemma has_tenant_append:
  "has_tenant t (d\<lparr>tenants := tenants d @ [r]\<rparr>) \<longleftrightarrow> has_tenant t d \<or> ten_id r = t"
  by (auto simp: has_tenant_def)

lemma account_wf_cong [simp]:
  "account_wf (d\<lparr>audit_log := x\<rparr>) r = account_wf d r"
  "account_wf (d\<lparr>accounts := z\<rparr>) r = account_wf d r"
  "account_wf (d\<lparr>abuse_policies := v\<rparr>) r = account_wf d r"
  by (simp_all add: account_wf_def)

lemma account_wf_mono:
  "account_wf d r \<Longrightarrow> account_wf (d\<lparr>tenants := tenants d @ [t]\<rparr>) r"
  "account_wf d r \<Longrightarrow> account_wf (d\<lparr>domains := domains d @ [x]\<rparr>) r"
  by (auto simp: account_wf_def has_tenant_append)

lemma cp_wf_log:
  assumes "cp_wf d" "audit_fk (ae_tenant_id e) d" "d' = d\<lparr>audit_log := audit_log d @ [e]\<rparr>"
  shows "cp_wf d'"
  using assms
  by (auto simp: cp_wf_def tenants_wf_def domains_wf_def accounts_wf_def policies_wf_def audit_wf_def
      audit_fk_def split: option.splits)

lemma tenant_created_wf:
  assumes "tenant_created fresh who req sc d a d'" "cp_wf d"
  shows "cp_wf d'"
proof -
  let ?row = "new_tenant fresh (ct_slug req) (ct_name req) (ct_plan req) sc"
  let ?d1 = "d\<lparr>tenants := tenants d @ [?row]\<rparr>"
  from assms(1) have a: "a = Tenant.truncate ?row" "slug_check (ct_slug req)"
      "\<forall>r \<in> set (tenants d). ten_id r \<noteq> fresh \<and> ten_slug r \<noteq> ct_slug req"
    and d': "d' = ?d1\<lparr>audit_log := audit_log ?d1 @ [audit_of sc (create_tenant_entry who a)]\<rparr>"
    by (auto simp: tenant_created_def Let_def)
  have id: "ten_id a = fresh" by (simp add: a(1) new_tenant_def Tenant.defs)
  have "tenants_wf ?d1" "domains_wf ?d1" "policies_wf ?d1" "audit_wf ?d1"
    using assms(2) a(2,3)
    by (auto simp: cp_wf_defs has_tenant_append new_tenant_def tenant_status_check_def split: option.splits)
  moreover have "accounts_wf ?d1"
    using assms(2) by (auto simp: cp_wf_def accounts_wf_def intro: account_wf_mono)
  moreover have "audit_fk (Some fresh) ?d1"
    by (simp add: audit_fk_def has_tenant_append new_tenant_def)
  ultimately show ?thesis
    by (intro cp_wf_log [OF _ _ d']) (auto simp: cp_wf_def create_tenant_entry_def id)
qed

lemma domain_created_wf:
  assumes "domain_created fresh t who req sc d a d'" "cp_wf d"
  shows "cp_wf d'"
proof -
  let ?d1 = "d\<lparr>domains := domains d @ [a]\<rparr>"
  from assms(1) have a: "a = new_domain fresh t (cd_fqdn req) sc" "fqdn_check (cd_fqdn req)"
      "\<forall>r \<in> set (domains d). dom_id r \<noteq> fresh \<and> dom_fqdn r \<noteq> cd_fqdn req" "has_tenant t d"
    and d': "d' = ?d1\<lparr>audit_log := audit_log ?d1 @ [audit_of sc (create_domain_entry t who a)]\<rparr>"
    by (auto simp: domain_created_def)
  have "tenants_wf ?d1" "domains_wf ?d1" "policies_wf ?d1" "audit_wf ?d1"
    using assms(2) a
    by (auto simp: cp_wf_defs new_domain_def domain_status_check_def split: option.splits)
  moreover have "accounts_wf ?d1"
    using assms(2) by (auto simp: cp_wf_def accounts_wf_def intro: account_wf_mono)
  ultimately show ?thesis
    using a(4) by (intro cp_wf_log [OF _ _ d']) (auto simp: cp_wf_def create_domain_entry_def audit_fk_def)
qed

text \<open>The domain an account is created on is visible to its tenant, hence belongs to it.\<close>

lemma account_created_wf:
  assumes "account_created fresh t who req sc d a d'" "cp_wf d"
    and "validate_local_part (ca_local_part req) = Inr ()" "sc = tenant_scope t now ro" "\<not> privileged ro"
  shows "cp_wf d'"
proof -
  from assms(1) obtain x where x: "x \<in> set (domains d)" "dom_id x = ca_domain_id req"
      "domains_policy sc x" and acc: "has_tenant t d" "quota_check (ca_quota_mb req)"
    and row: "let row = new_account fresh t (ca_domain_id req) (ca_local_part req @ ''@'' @ dom_fqdn x)
                       (ca_display_name req) (ca_quota_mb req) sc in
          (\<forall>r \<in> set (accounts d). acc_id r \<noteq> fresh \<and> acc_email r \<noteq> acc_email row)
        \<and> d' = d\<lparr>accounts := accounts d @ [row],
                 audit_log := audit_log d @ [audit_of sc (create_account_entry t who a)]\<rparr>"
    by (auto simp: account_created_def Let_def)
  define row where "row = new_account fresh t (ca_domain_id req) (ca_local_part req @ ''@'' @ dom_fqdn x)
                       (ca_display_name req) (ca_quota_mb req) sc"
  let ?d1 = "d\<lparr>accounts := accounts d @ [row]\<rparr>"
  have fresh: "\<forall>r \<in> set (accounts d). acc_id r \<noteq> fresh \<and> acc_email r \<noteq> acc_email row"
    and d': "d' = ?d1\<lparr>audit_log := audit_log ?d1 @ [audit_of sc (create_account_entry t who a)]\<rparr>"
    using row by (auto simp: row_def Let_def)
  have own: "dom_tenant_id x = t"
    using x(3) assms(4,5) domains_rls.using_tenant by simp
  have "account_wf d row"
    using x own acc assms(3)
    by (auto simp: account_wf_def row_def new_account_def account_status_check_def intro!: bexI [of _ x])
  then have "accounts_wf ?d1"
    using assms(2) fresh by (auto simp: cp_wf_def accounts_wf_def row_def new_account_def)
  moreover have "tenants_wf ?d1" "domains_wf ?d1" "policies_wf ?d1" "audit_wf ?d1"
    using assms(2)
    by (auto simp: cp_wf_def tenants_wf_def domains_wf_def policies_wf_def audit_wf_def audit_fk_def split: option.splits)
  ultimately show ?thesis
    using acc(1) by (intro cp_wf_log [OF _ _ d']) (auto simp: cp_wf_def create_account_entry_def audit_fk_def)
qed

lemma activate_wf: "account_wf d r \<Longrightarrow> account_wf d (activate u sc r)"
  by (auto simp: account_wf_def account_status_check_def)

text \<open>Any update of accounts by \<open>activate\<close>, whatever rows it selects, keeps the table well-formed.\<close>

lemma activate_accounts_wf:
  assumes "accounts_wf d"
  shows "accounts_wf (d\<lparr>accounts := update_rows v sc p (activate u sc) (accounts d)\<rparr>)"
  using assms
  by (auto simp: accounts_wf_def update_rows_map dest!: set_update_rows intro: activate_wf)

lemma activate_accounts_cp_wf:
  assumes "cp_wf d"
  shows "cp_wf (d\<lparr>accounts := update_rows v sc p (activate u sc) (accounts d)\<rparr>)"
  using assms activate_accounts_wf [of d v sc p u]
  by (auto simp: cp_wf_def tenants_wf_def domains_wf_def policies_wf_def audit_wf_def audit_fk_def split: option.splits)

lemma activated_audit_wf:
  assumes "cp_wf d" "audit_fk (ae_tenant_id e) d"
    and "d' = d\<lparr>accounts := update_rows v sc p (activate u sc) (accounts d), audit_log := audit_log d @ [e]\<rparr>"
  shows "cp_wf d'"
proof -
  let ?d1 = "d\<lparr>accounts := update_rows v sc p (activate u sc) (accounts d)\<rparr>"
  have "cp_wf ?d1"
    by (rule activate_accounts_cp_wf [OF assms(1)])
  moreover have "audit_fk (ae_tenant_id e) ?d1"
    using assms(2) by (auto simp: audit_fk_def split: option.splits)
  moreover have "d' = ?d1\<lparr>audit_log := audit_log ?d1 @ [e]\<rparr>"
    using assms(3) by simp
  ultimately show ?thesis
    by (rule cp_wf_log)
qed

lemma account_activated_wf:
  assumes "account_activated t who i u sc d a d'" "cp_wf d"
  shows "cp_wf d'"
  using assms(1) activated_audit_wf [OF assms(2)]
  by (auto simp: account_activated_def provisioned_entry_def audit_fk_def)

lemma policy_set_wf:
  assumes "policy_set t who req sc d a d'" "cp_wf d" "validate_policy req = Inr ()"
  shows "cp_wf d'"
proof -
  from assms(1) obtain d1 where
    ups: "upsert_policy t (sp_reject req) (sp_add_header req) (sp_greylist req) sc d = Inr (a, d1)"
    and d': "d' = d1\<lparr>audit_log := audit_log d @ [audit_of sc (put_policy_entry t who req)]\<rparr>"
    and ht: "has_tenant t d'"
    by (auto simp: policy_set_def)
  define ps where "ps = abuse_policies d1"
  have d1: "d1 = d\<lparr>abuse_policies := ps\<rparr>"
    using upsert_policy_Inr(4) [OF ups] by (simp add: ps_def)
  have a: "pol_tenant_id a = t" "policy_check (pol_reject a) (pol_add_header a) (pol_greylist a)"
    using upsert_policy_Inr(1,3) [OF ups] by simp_all
  have fin: "is_finite (pol_reject a)" "is_finite (pol_add_header a)" "is_finite (pol_greylist a)"
    using upsert_policy_Inr(1) [OF ups] assms(3) by (auto simp: f64_ordered_finite)
  have t: "has_tenant t d" using ht d' d1 by simp
  have "policies_wf d1"
  proof (cases "\<exists>r \<in> set (abuse_policies d). pol_tenant_id r = t")
    case True
    have ps: "ps = map (\<lambda>r. if pol_tenant_id r = t then a else r) (abuse_policies d)"
      using upsert_policy_Inr(5) [OF ups True] by (simp add: ps_def)
    have "map pol_tenant_id ps = map pol_tenant_id (abuse_policies d)"
      using a(1) by (auto simp: ps)
    moreover have "\<forall>r \<in> set ps. r = a \<or> r \<in> set (abuse_policies d)"
      by (auto simp: ps)
    ultimately show ?thesis
      using assms(2) a t fin by (auto simp: d1 cp_wf_def policies_wf_def)
  next
    case False
    then have "ps = abuse_policies d @ [a]"
      using upsert_policy_Inr(6) [OF ups] by (auto simp: ps_def)
    with False assms(2) a t fin show ?thesis by (auto simp: d1 cp_wf_def policies_wf_def)
  qed
  moreover have "tenants_wf d1" "domains_wf d1" "accounts_wf d1" "audit_wf d1"
    using assms(2)
    by (auto simp: d1 cp_wf_def tenants_wf_def domains_wf_def accounts_wf_def audit_wf_def audit_fk_def split: option.splits)
  moreover have e: "d' = d1\<lparr>audit_log := audit_log d1 @ [audit_of sc (put_policy_entry t who req)]\<rparr>"
    by (simp add: d' d1)
  moreover have "audit_fk (Some t) d1" using t by (simp add: audit_fk_def d1)
  ultimately show ?thesis
    by (intro cp_wf_log [OF _ _ e]) (auto simp: cp_wf_def put_policy_entry_def)
qed

section \<open>One audit entry per change\<close>

definition audited_change :: "uuid option \<Rightarrow> string \<Rightarrow> string \<Rightarrow> control_plane \<Rightarrow> control_plane \<Rightarrow> bool" where
  "audited_change t who act d d' \<longleftrightarrow>
     (\<exists>e. audit_log d' = audit_log d @ [e] \<and> ae_tenant_id e = t \<and> ae_actor e = who \<and> ae_action e = act)"

lemma audited_changes:
  "tenant_created fresh who ctr sc d a1 d' \<Longrightarrow> audited_change (Some (ten_id a1)) (actor who) ''tenant.create'' d d'"
  "domain_created fresh t who cdr sc d a2 d' \<Longrightarrow> audited_change (Some t) (actor who) ''domain.create'' d d'"
  "account_created fresh t who car sc d a3 d' \<Longrightarrow> audited_change (Some t) (actor who) ''account.create'' d d'"
  "account_activated t who' i u sc d a4 d' \<Longrightarrow> audited_change (Some t) who' ''account.provisioned'' d d'"
  "policy_set t who spr sc d a5 d' \<Longrightarrow> audited_change (Some t) (actor who) ''policy.set'' d d'"
  by (auto simp: audited_change_def tenant_created_def domain_created_def account_created_def
      account_activated_def policy_set_def Let_def create_tenant_entry_def create_domain_entry_def
      create_account_entry_def provisioned_entry_def put_policy_entry_def)

section \<open>The tenant boundary\<close>

lemma domain_created_part:
  assumes "domain_created fresh t who req sc d a d'" "t' \<noteq> t"
  shows "tenant_part t' d' = tenant_part t' d"
  using assms by (auto simp: domain_created_def tenant_part_def new_domain_def create_domain_entry_def)

lemma account_created_part:
  assumes "account_created fresh t who req sc d a d'" "t' \<noteq> t"
  shows "tenant_part t' d' = tenant_part t' d"
  using assms
  by (auto simp: account_created_def tenant_part_def new_account_def create_account_entry_def Let_def)

lemma account_activated_part:
  assumes "account_activated t who i u (tenant_scope t now ro) d a d'" "t' \<noteq> t" "\<not> privileged ro"
  shows "tenant_part t' d' = tenant_part t' d"
proof -
  have "filter (\<lambda>r. acc_tenant_id r = t') (update_rows accounts_policy (tenant_scope t now ro) p
          (activate u (tenant_scope t now ro)) rows) = filter (\<lambda>r. acc_tenant_id r = t') rows" for p rows
    using accounts_rls.update_foreign [OF assms(3,2), of "activate u (tenant_scope t now ro)" now p rows]
    by simp
  with assms show ?thesis
    by (auto simp: account_activated_def tenant_part_def provisioned_entry_def)
qed

lemma policy_set_part:
  assumes "policy_set t who req sc d a d'" "t' \<noteq> t"
  shows "tenant_part t' d' = tenant_part t' d"
proof -
  from assms(1) obtain d1 where
    ups: "upsert_policy t (sp_reject req) (sp_add_header req) (sp_greylist req) sc d = Inr (a, d1)"
    and d': "d' = d1\<lparr>audit_log := audit_log d @ [audit_of sc (put_policy_entry t who req)]\<rparr>"
    by (auto simp: policy_set_def)
  have a: "pol_tenant_id a = t" using upsert_policy_Inr(1) [OF ups] by simp
  have "filter (\<lambda>r. pol_tenant_id r = t') (map (\<lambda>r. if pol_tenant_id r = t then a else r) rows)
      = filter (\<lambda>r. pol_tenant_id r = t') rows" for rows
    using a assms(2) by (induction rows) auto
  then have eq: "filter (\<lambda>r. pol_tenant_id r = t') (abuse_policies d1)
      = filter (\<lambda>r. pol_tenant_id r = t') (abuse_policies d)"
    using upsert_policy_Inr(5,6) [OF ups] a assms(2)
    by (cases "\<exists>r \<in> set (abuse_policies d). pol_tenant_id r = t") auto
  define ps where "ps = abuse_policies d1"
  have "d1 = d\<lparr>abuse_policies := ps\<rparr>"
    using upsert_policy_Inr(4) [OF ups] by (simp add: ps_def)
  with eq assms(2) show ?thesis
    by (simp add: d' tenant_part_def put_policy_entry_def)
qed

end
