(* ===== verification/AdminServer.thy ===== *)
theory AdminServer
  imports AdminInvariants HttpService
begin

text \<open>
  The router of \<open>admin-api\<close>: its routes, its handlers behind them, and what any request can change.
\<close>

section \<open>The routes\<close>

datatype admin_request = PostTenant CreateTenant | GetTenants
  | PostDomain uuid CreateDomain | GetDomains uuid
  | PostAccount uuid CreateAccount | GetAccounts uuid
  | GetPolicy uuid | PutPolicy uuid SetAbusePolicy

fun admin_path :: "admin_request \<Rightarrow> string" where
  "admin_path (PostTenant _) = ''/api/v1/tenants''"
| "admin_path GetTenants = ''/api/v1/tenants''"
| "admin_path (PostDomain t _) = tenant_route t ''/domains''"
| "admin_path (GetDomains t) = tenant_route t ''/domains''"
| "admin_path (PostAccount t _) = tenant_route t ''/accounts''"
| "admin_path (GetAccounts t) = tenant_route t ''/accounts''"
| "admin_path (GetPolicy t) = tenant_route t ''/policy''"
| "admin_path (PutPolicy t _) = tenant_route t ''/policy''"

fun admin_tenant :: "admin_request \<Rightarrow> uuid option" where
  "admin_tenant (PostTenant _) = None"
| "admin_tenant GetTenants = None"
| "admin_tenant (PostDomain t _) = Some t"
| "admin_tenant (GetDomains t) = Some t"
| "admin_tenant (PostAccount t _) = Some t"
| "admin_tenant (GetAccounts t) = Some t"
| "admin_tenant (GetPolicy t) = Some t"
| "admin_tenant (PutPolicy t _) = Some t"

datatype admin_answer = ATenant Tenant | ATenants "Tenant list" | ADomain Domain | ADomains "Domain list"
  | AAccount Account | AAccounts "Account list" | APolicy AbusePolicy

text \<open>
  What a request meets: the identifier the database draws, the clocks of its transactions, the
  sesame servers, and what other sessions commit while sesame is called.
\<close>

record admin_world =
  aw_fresh :: uuid
  aw_now :: time
  aw_now2 :: time
  aw_sesame :: sesame_world
  aw_other :: "control_plane \<Rightarrow> control_plane"

definition db_only :: "(control_plane session, 'e, 'a) comp \<Rightarrow> (app_state, 'e, 'a) comp" where
  "db_only m st = (case m (app_db st) of (r, s) \<Rightarrow> (r, st\<lparr>app_db := s\<rparr>))"

fun admin_handle :: "admin_request \<Rightarrow> admin_world \<Rightarrow> Caller \<Rightarrow> (app_state, api_error, nat \<times> admin_answer) comp" where
  "admin_handle (PostTenant req) aw c = answer ATenant (db_only (create_tenant (aw_fresh aw) (aw_now aw) c req))"
| "admin_handle GetTenants aw c = answer200 ATenants (db_only (list_tenants (aw_now aw)))"
| "admin_handle (PostDomain t req) aw c = answer ADomain (db_only (create_domain (aw_fresh aw) (aw_now aw) t c req))"
| "admin_handle (GetDomains t) aw c = answer200 ADomains (db_only (list_domains (aw_now aw) t))"
| "admin_handle (PostAccount t req) aw c =
     answer AAccount (create_account (aw_fresh aw) (aw_now aw) (aw_now2 aw) (aw_sesame aw) (aw_other aw) t c req)"
| "admin_handle (GetAccounts t) aw c = answer200 AAccounts (db_only (list_accounts (aw_now aw) t))"
| "admin_handle (GetPolicy t) aw c = answer200 APolicy (db_only (get_policy (aw_now aw) t))"
| "admin_handle (PutPolicy t req) aw c = answer200 APolicy (db_only (put_policy (aw_now aw) t c req))"

section \<open>What the handlers leave\<close>

lemma db_only_state [simp]:
  "app_db (snd (db_only m st)) = snd (m (app_db st))" "app_sesame (snd (db_only m st)) = app_sesame st"
  by (simp_all add: db_only_def split: prod.splits)

lemma tryb_ok_state: "snd (tryb m (\<lambda>x. ok (f x)) s) = snd (m s)"
  by (simp add: tryb_def split: prod.splits sum.splits)

lemma tryb_validated:
  "snd (tryb (from_result v) (\<lambda>_. m) s) = (case v of Inl _ \<Rightarrow> s | Inr _ \<Rightarrow> snd (m s))"
  by (simp add: tryb_def from_result_def split: sum.splits)

text \<open>A read-only transaction.\<close>

lemma read_keeps:
  assumes "\<And>sc d r d'. st sc d = Inr (r, d') \<Longrightarrow> d' = d"
  shows "committed (snd (in_tx (tenant_tx t now) conv (exec conv st) s)) = committed s"
    and "committed (snd (in_tx (platform_tx now) conv (exec conv st) s)) = committed s"
proof -
  obtain r s' where tx: "in_tx (tenant_tx t now) conv (exec conv st) s = (r, s')" by fastforce
  have "committed s' = committed s"
    using tx by (rule tenant_tx.in_tx_cases) (use assms in \<open>auto elim!: exec_Inr\<close>)
  with tx show "committed (snd (in_tx (tenant_tx t now) conv (exec conv st) s)) = committed s" by simp
  obtain r s' where tx: "in_tx (platform_tx now) conv (exec conv st) s = (r, s')" by fastforce
  have "committed s' = committed s"
    using tx by (rule platform_tx.in_tx_cases) (use assms in \<open>auto elim!: exec_Inr\<close>)
  with tx show "committed (snd (in_tx (platform_tx now) conv (exec conv st) s)) = committed s" by simp
qed

lemma lists_keep [simp]:
  "committed (snd (list_tenants now s)) = committed s"
  "committed (snd (list_domains now t s)) = committed s"
  "committed (snd (list_accounts now t s)) = committed s"
  "committed (snd (get_policy now t s)) = committed s"
proof -
  show "committed (snd (list_tenants now s)) = committed s"
    unfolding list_tenants_def by (rule read_keeps(2)) (simp add: select_tenants_def)
  show "committed (snd (list_domains now t s)) = committed s"
    unfolding list_domains_def by (rule read_keeps(1)) (simp add: select_domains_def)
  show "committed (snd (list_accounts now t s)) = committed s"
    unfolding list_accounts_def by (rule read_keeps(1)) (simp add: select_accounts_def)
  show "committed (snd (get_policy now t s)) = committed s"
    unfolding get_policy_def tryb_ok_state by (rule read_keeps(1)) (simp add: select_policy_def)
qed

lemma create_account_tx_keeps:
  assumes "create_account_tx fresh now t who req s = (r, s1)" "P (committed s)"
    and "\<And>d a d'. account_created fresh t who req (tenant_scope t now (role s)) d a d'
      \<Longrightarrow> validate_local_part (ca_local_part req) = Inr () \<Longrightarrow> P d \<Longrightarrow> P d'"
  shows "P (committed s1) \<and> role s1 = role s"
proof (cases "validate_local_part (ca_local_part req)")
  case (Inl e)
  with assms(1,2) show ?thesis by (auto simp: create_account_tx_def tryb_def from_result_def)
next
  case (Inr u)
  with assms(1) have "in_tx (tenant_tx t now) Db (create_account_body fresh t who req) s = (r, s1)"
    by (simp add: create_account_tx_def tryb_def from_result_def)
  moreover have "P (wdb w')" if "create_account_body fresh t who req v = (Inr a, w')"
      "wdb v = committed s" "wscope v = tenant_scope t now (role s)" for a v w'
    using assms(3) [of "wdb v" a "wdb w'"] assms(2) create_account.body_rel [OF that(1)] that(2,3) Inr by simp
  ultimately show ?thesis
    using assms(2) by (elim tenant_tx.in_tx_cases) auto
qed

lemma provision_into_sesame_keeps:
  assumes "provision_into_sesame w other now cfg slot t acc who s = (a, slot', s')"
    and "P (committed s)" "\<And>d. P d \<Longrightarrow> P (other d)"
    and "\<And>i u d a d'. account_activated t who i u (tenant_scope t now (role s)) d a d' \<Longrightarrow> P d \<Longrightarrow> P d'"
  shows "P (committed s')"
proof -
  obtain pr sl where pu: "provision_user cfg w (acc_email acc) (acc_display_name acc) slot = (pr, sl)" by fastforce
  let ?s1 = "s\<lparr>committed := other (committed s)\<rparr>"
  have P1: "P (committed ?s1)" using assms(2,3) by simp
  show ?thesis
  proof (cases pr)
    case (Inl e)
    with assms(1) pu P1 show ?thesis by (auto simp: provision_into_sesame_def)
  next
    case (Inr u)
    obtain r2 s2 where tx: "in_tx (tenant_tx t now) id (provision_body t who (acc_id acc) u) ?s1 = (r2, s2)" by fastforce
    have "P (committed s2)"
    proof (rule provision.run_keeps [where P = P, OF tx P1])
      fix b
      assume "account_activated t who (acc_id acc) u (tenant_scope t now (role ?s1)) (committed ?s1) b (committed s2)"
      then show "P (committed s2)" using P1 assms(4) by simp
    qed
    with assms(1) pu Inr tx show ?thesis by (auto simp: provision_into_sesame_def split: sum.splits)
  qed
qed

lemma create_account_keeps:
  assumes "create_account fresh now now2 w other t who req st = (r, st')"
    and "P (committed (app_db st))" "\<And>d. P d \<Longrightarrow> P (other d)"
    and "\<And>d a d'. account_created fresh t who req (tenant_scope t now (role (app_db st))) d a d'
      \<Longrightarrow> validate_local_part (ca_local_part req) = Inr () \<Longrightarrow> P d \<Longrightarrow> P d'"
    and "\<And>i u d a d'. account_activated t (actor who) i u (tenant_scope t now2 (role (app_db st))) d a d' \<Longrightarrow> P d \<Longrightarrow> P d'"
  shows "P (committed (app_db st'))"
proof -
  obtain r1 s1 where tx: "create_account_tx fresh now t who req (app_db st) = (r1, s1)" by fastforce
  note P1 = create_account_tx_keeps [where P = P, OF tx assms(2,4)]
  show ?thesis
  proof (cases "is_ok r1 \<and> app_sesame st \<noteq> None")
    case False
    with assms(1) tx P1 show ?thesis by (auto simp: create_account_def split: sum.splits option.splits)
  next
    case True
    then obtain acc cfg slot where ok: "r1 = Inr acc" "app_sesame st = Some (cfg, slot)"
      by (cases r1) auto
    obtain a slot' s3 where prov: "provision_into_sesame w other now2 cfg slot t acc (actor who) s1 = (a, slot', s3)"
      by (rule prod_cases3)
    from P1 assms(3,5) have "P (committed s3)"
      by (intro provision_into_sesame_keeps [where P = P, OF prov]) auto
    with assms(1) tx ok prov show ?thesis by (auto simp: create_account_def)
  qed
qed

text \<open>
  Whatever the handlers' transactions, the validated requests and the other sessions preserve, a
  request preserves, whatever the network and sesame do.
\<close>

lemma create_tenant_keeps:
  assumes "P (committed s)"
    and "\<And>d a d'. tenant_created fresh who req (platform_scope now (role s)) d a d' \<Longrightarrow> P d \<Longrightarrow> P d'"
  shows "P (committed (snd (create_tenant fresh now who req s)))"
proof -
  obtain r1 s1 where tx: "in_tx (platform_tx now) Db (create_tenant_body fresh who req) s = (r1, s1)" by fastforce
  have "P (committed s1)"
    by (rule create_tenant.run_keeps [where P = P, OF tx assms(1)]) (use assms in blast)
  with tx assms(1) show ?thesis
    by (simp add: create_tenant_def tryb_validated tryb_ok_state split: sum.splits)
qed

lemma create_domain_keeps:
  assumes "P (committed s)"
    and "\<And>d a d'. domain_created fresh t who req (tenant_scope t now (role s)) d a d' \<Longrightarrow> P d \<Longrightarrow> P d'"
  shows "P (committed (snd (create_domain fresh now t who req s)))"
proof -
  obtain r1 s1 where tx: "in_tx (tenant_tx t now) Db (create_domain_body fresh t who req) s = (r1, s1)" by fastforce
  have "P (committed s1)"
    by (rule create_domain.run_keeps [where P = P, OF tx assms(1)]) (use assms in blast)
  with tx assms(1) show ?thesis
    by (simp add: create_domain_def tryb_validated tryb_ok_state split: sum.splits)
qed

lemma put_policy_keeps:
  assumes "P (committed s)"
    and "\<And>d a d'. policy_set t who req (tenant_scope t now (role s)) d a d'
      \<Longrightarrow> validate_policy req = Inr () \<Longrightarrow> P d \<Longrightarrow> P d'"
  shows "P (committed (snd (put_policy now t who req s)))"
proof (cases "validate_policy req")
  case (Inl e)
  with assms(1) show ?thesis by (simp add: put_policy_def tryb_validated)
next
  case (Inr u)
  obtain r1 s1 where tx: "in_tx (tenant_tx t now) Db (put_policy_body t who req) s = (r1, s1)" by fastforce
  have "P (committed s1)"
    by (rule put_policy.run_keeps [where P = P, OF tx assms(1)]) (use assms Inr in simp)
  with tx Inr show ?thesis
    by (simp add: put_policy_def tryb_validated)
qed

lemma admin_handle_keeps:
  assumes "P (committed (app_db st))" "\<And>d. P d \<Longrightarrow> P (aw_other aw d)" "role (app_db st) = ro"
    and "\<And>fresh req now d a d'. rq = PostTenant req \<Longrightarrow> tenant_created fresh c req (platform_scope now ro) d a d' \<Longrightarrow> P d \<Longrightarrow> P d'"
    and "\<And>fresh t req now d a d'. rq = PostDomain t req \<Longrightarrow> domain_created fresh t c req (tenant_scope t now ro) d a d' \<Longrightarrow> P d \<Longrightarrow> P d'"
    and "\<And>fresh t req now d a d'. rq = PostAccount t req \<Longrightarrow> account_created fresh t c req (tenant_scope t now ro) d a d'
      \<Longrightarrow> validate_local_part (ca_local_part req) = Inr () \<Longrightarrow> P d \<Longrightarrow> P d'"
    and "\<And>t req i u now d a d'. rq = PostAccount t req \<Longrightarrow> account_activated t (actor c) i u (tenant_scope t now ro) d a d' \<Longrightarrow> P d \<Longrightarrow> P d'"
    and "\<And>t req now d a d'. rq = PutPolicy t req \<Longrightarrow> policy_set t c req (tenant_scope t now ro) d a d'
      \<Longrightarrow> validate_policy req = Inr () \<Longrightarrow> P d \<Longrightarrow> P d'"
  shows "P (committed (app_db (snd (admin_handle rq aw c st))))"
proof (cases rq)
  case (PostTenant req)
  then show ?thesis
    using create_tenant_keeps [of P "app_db st" "aw_fresh aw" c req "aw_now aw"] assms(1,3,4) by simp
next
  case (PostDomain t req)
  then show ?thesis
    using create_domain_keeps [of P "app_db st" "aw_fresh aw" t c req "aw_now aw"] assms(1,3,5) by simp
next
  case (PostAccount t req)
  obtain r st' where run: "create_account (aw_fresh aw) (aw_now aw) (aw_now2 aw) (aw_sesame aw) (aw_other aw) t c req st = (r, st')"
    by fastforce
  have "P (committed (app_db st'))"
    by (rule create_account_keeps [where P = P, OF run assms(1,2)])
      (use assms(3,6,7) PostAccount in blast)+
  with run PostAccount show ?thesis by simp
next
  case (PutPolicy t req)
  then show ?thesis
    using put_policy_keeps [of P "app_db st" t c req "aw_now aw"] assms(1,3,8) by simp
qed (use assms(1) in simp_all)

section \<open>The service\<close>

lemma db_only_Inr: "db_only m st = (Inr a, st') \<Longrightarrow> \<exists>s. m (app_db st) = (Inr a, s)"
  by (auto simp: db_only_def split: prod.splits)

lemma created_status:
  "create_tenant fresh now c ctr s = (Inr (status, a1), s') \<Longrightarrow> status = 201"
  "create_domain fresh now t c cdr s = (Inr (status, a2), s') \<Longrightarrow> status = 201"
  by (auto simp: create_tenant_def create_domain_def elim!: tryb_Inr)

lemma created_account_status:
  "create_account fresh now now2 w other t c req st = (Inr (status, a), st') \<Longrightarrow> status = 201"
  by (auto simp: create_account_def split: prod.splits sum.splits option.splits)

interpretation admin: service admin_path admin_handle
proof
  fix rq
  show "admin_path rq \<noteq> ''/health'' \<and> admin_path rq \<noteq> ''/metrics''"
    by (cases rq) simp_all
next
  fix rq aw c app status a app'
  assume "admin_handle rq aw c app = (Inr (status, a), app')"
  then show "status = 200 \<or> status = 201"
    by (cases rq) (auto dest!: answer_Inr answer200_Inr db_only_Inr dest: created_status created_account_status)
qed

end
