(* ===== verification/ServiceKit.thy ===== *)
theory ServiceKit
  imports HttpService
begin

text \<open>
  \<open>crates/service-kit\<close>: what every service binary starts with, the port, the probe routes beside the
  application and the life of the server; and the helpers of the \<open>main\<close> functions that read the
  environment. The environment is a function from names to values (a value that is not Unicode reads as
  absent, as every caller treats it); binding and serving are answered by the operating system.
\<close>

section \<open>Numbers in the environment\<close>

text \<open>\<open>str::parse\<close> for unsigned and signed integers of a given width: an optional sign, at least one
  decimal digit, nothing else, and no overflow.\<close>

definition digit_val :: "char \<Rightarrow> nat option" where
  "digit_val c = (if ascii_digit c then Some (of_char c - 48) else None)"

fun digits_from :: "nat \<Rightarrow> string \<Rightarrow> nat option" where
  "digits_from acc [] = Some acc"
| "digits_from acc (c # cs) = Option.bind (digit_val c) (\<lambda>d. digits_from (10 * acc + d) cs)"

definition digits :: "string \<Rightarrow> nat option" where
  "digits s = (if s = [] then None else digits_from 0 s)"

definition parse_unsigned :: "nat \<Rightarrow> string \<Rightarrow> nat option" where
  "parse_unsigned bits s =
     Option.bind (digits (if starts_with (CHR ''+'') s then tl s else s))
       (\<lambda>n. if n < 2 ^ bits then Some n else None)"

definition parse_signed :: "nat \<Rightarrow> string \<Rightarrow> int option" where
  "parse_signed bits s =
     (if starts_with (CHR ''-'') s
      then Option.bind (digits (tl s)) (\<lambda>n. if n \<le> 2 ^ (bits - 1) then Some (- int n) else None)
      else Option.bind (digits (if starts_with (CHR ''+'') s then tl s else s))
             (\<lambda>n. if n < 2 ^ (bits - 1) then Some (int n) else None))"

text \<open>How a number is printed, as in \<open>format!("0.0.0.0:{port}")\<close>.\<close>

fun nat_text :: "nat \<Rightarrow> string" where
  "nat_text n = (if n < 10 then [] else nat_text (n div 10)) @ [char_of (48 + n mod 10)]"

declare nat_text.simps [simp del]

type_synonym environment = "string \<Rightarrow> string option"

text \<open>\<open>env_parse\<close> of the two workers, \<open>flag\<close> of the two services, and the test of the one-shot flags.\<close>

definition env_parse :: "(string \<Rightarrow> 'a option) \<Rightarrow> environment \<Rightarrow> string \<Rightarrow> 'a \<Rightarrow> 'a" where
  "env_parse parse env key dflt =
     (case Option.bind (env key) parse of None \<Rightarrow> dflt | Some v \<Rightarrow> v)"

definition flag :: "environment \<Rightarrow> string \<Rightarrow> bool" where
  "flag env k \<longleftrightarrow> env k = Some ''1''"

definition once_flag :: "environment \<Rightarrow> string \<Rightarrow> bool" where
  "once_flag env k \<longleftrightarrow> env k = Some ''1'' \<or> env k = Some ''true''"

definition resolve_port :: "environment \<Rightarrow> nat \<Rightarrow> nat" where
  "resolve_port env default_port =
     (case Option.bind (env ''PORT'') (parse_unsigned 16) of None \<Rightarrow> default_port | Some p \<Rightarrow> p)"

section \<open>The probe routes\<close>

text \<open>The two routes that \<open>run\<close> adds outside the layers of the application: status, content type, body.\<close>

definition health :: string where
  "health = ''ok''"

definition metrics :: "(string \<times> string) list \<times> string" where
  "metrics = ([(''content-type'', ''text/plain; version=0.0.4'')],
     ''# TYPE opengroupware_up gauge'' @ [CHR 0x0A] @ ''opengroupware_up 1'' @ [CHR 0x0A])"

datatype 'r routed = Health string | Metrics "(string \<times> string) list" string | App 'r

definition mounted :: "string \<Rightarrow> ('s \<Rightarrow> 'r \<times> 's) \<Rightarrow> 's \<Rightarrow> 'r routed \<times> 's" where
  "mounted path app s =
     (if path = ''/health'' then (Health health, s)
      else if path = ''/metrics'' then (Metrics (fst metrics) (snd metrics), s)
      else (case app s of (r, s') \<Rightarrow> (App r, s')))"

section \<open>The life of a server\<close>

datatype ServiceError = Bind string string | Serve string

text \<open>What the operating system answers: to the bind, and to serving until the shutdown signal.\<close>

record os =
  os_bind :: "string \<Rightarrow> string + unit"
  os_serve :: "string + unit"

text \<open>
  What a process has been seen to do: migrate its database, run one cycle of its work in the foreground,
  start the background loop (with its batch size or output path, and the seconds between cycles), serve
  an application on an address. The rest of a process is its own state.
\<close>

datatype task = ReconcileTask int nat | CompileTask string nat

datatype 'app event = Migrating | Cycling | Spawned task | Serving string string 'app

type_synonym ('app, 's) process = "'app event list \<times> 's"

definition emit :: "'app event \<Rightarrow> (('app, 's) process, 'e, unit) comp" where
  "emit ev p = (Inr (), (fst p @ [ev], snd p))"

definition map_err :: "('e \<Rightarrow> 'f) \<Rightarrow> ('s, 'e, 'a) comp \<Rightarrow> ('s, 'f, 'a) comp" where
  "map_err conv m s = (case m s of (Inl e, s') \<Rightarrow> (Inl (conv e), s') | (Inr a, s') \<Rightarrow> (Inr a, s'))"

definition run :: "os \<Rightarrow> environment \<Rightarrow> string \<Rightarrow> nat \<Rightarrow> 'app \<Rightarrow> (('app, 's) process, ServiceError, unit) comp" where
  "run os env service_name default_port app =
     (let addr = ''0.0.0.0:'' @ nat_text (resolve_port env default_port) in
      case os_bind os addr of
        Inl source \<Rightarrow> fail (Bind addr source)
      | Inr _ \<Rightarrow>
          tryb (emit (Serving service_name addr app)) (\<lambda>_.
          (case os_serve os of Inl e \<Rightarrow> fail (Serve e) | Inr _ \<Rightarrow> ok ())))"

section \<open>Reading back a printed number\<close>

lemma digit_val_char: "d < 10 \<Longrightarrow> digit_val (char_of (48 + d)) = Some d"
  by (simp add: digit_val_def ascii_digit_def)

lemma digits_from_snoc:
  "digits_from acc (s @ [c]) = Option.bind (digits_from acc s) (\<lambda>n. Option.bind (digit_val c) (\<lambda>d. Some (10 * n + d)))"
  by (induction acc s rule: digits_from.induct) (auto split: Option.bind_splits)

lemma digits_nat_text: "digits_from 0 (nat_text n) = Some n"
proof (induction n rule: nat_text.induct)
  case (1 n)
  then show ?case
    by (subst nat_text.simps) (auto simp: digits_from_snoc digit_val_char)
qed

lemma nat_text_head: "\<exists>c cs. nat_text n = c # cs \<and> ascii_digit c"
proof (induction n rule: nat_text.induct)
  case (1 n)
  show ?case
  proof (cases "n < 10")
    case True
    then show ?thesis by (subst nat_text.simps) (simp add: ascii_digit_def)
  next
    case False
    with 1 show ?thesis by (subst nat_text.simps) auto
  qed
qed

lemma parse_nat_text: "n < 2 ^ bits \<Longrightarrow> parse_unsigned bits (nat_text n) = Some n"
  using nat_text_head [of n] digits_nat_text [of n]
  by (auto simp: parse_unsigned_def digits_def starts_with_def ascii_digit_def)

lemma parse_unsigned_bound: "parse_unsigned bits s = Some n \<Longrightarrow> n < 2 ^ bits"
  by (auto simp: parse_unsigned_def split: Option.bind_splits if_splits)

lemma parse_signed_bound: "parse_signed bits s = Some i \<Longrightarrow> - (2 ^ (bits - 1)) \<le> i \<and> i < 2 ^ (bits - 1)"
proof -
  have cast: "n < 2 ^ k \<Longrightarrow> int n < 2 ^ k" "n \<le> 2 ^ k \<Longrightarrow> int n \<le> 2 ^ k" for n k :: nat
    using of_nat_less_iff [of n "2 ^ k", where 'a = int] of_nat_le_iff [of n "2 ^ k", where 'a = int] by simp_all
  assume "parse_signed bits s = Some i"
  then consider n where "i = - int n" "n \<le> 2 ^ (bits - 1)" | n where "i = int n" "n < 2 ^ (bits - 1)"
    by (auto simp: parse_signed_def split: Option.bind_splits if_splits)
  then show ?thesis
  proof cases
    case 1
    have "(0::int) < 2 ^ (bits - 1)" by simp
    with cast(2) [OF 1(2)] 1(1) show ?thesis by linarith
  next
    case 2
    have "(0::int) < 2 ^ (bits - 1)" by simp
    with cast(1) [OF 2(2)] 2(1) show ?thesis by linarith
  qed
qed

lemma resolve_port_bound: "default_port < 2 ^ 16 \<Longrightarrow> resolve_port env default_port < 2 ^ 16"
  by (auto simp: resolve_port_def split: option.split Option.bind_splits dest: parse_unsigned_bound)

lemma serving_Inr:
  assumes "run os env name dflt app p = (r, p')"
  shows "snd p' = snd p \<and> (\<exists>es. fst p' = fst p @ es \<and> set es \<subseteq> {Serving name (''0.0.0.0:'' @ nat_text (resolve_port env dflt)) app})"
  using assms by (auto simp: run_def Let_def tryb_def emit_def split: sum.splits)

end
