(* ===== verification/HttpRouting.thy ===== *)
theory HttpRouting
  imports ServiceKit Serde
begin

text \<open>
  The axum routers of the services: from a request as it arrives (a method, a path, headers, a body) to
  the handler with its arguments, and every answer axum gives in the place of a handler. A route table
  is written as the code writes it; the matching of paths, the order of the extractors and the
  statuses of their refusals are those axum 0.8 documents.
\<close>

section \<open>Requests and routes\<close>

datatype http_method = GET | HEAD | POST | PUT | OtherMethod string

text \<open>
  A body is a JSON document, or one that axum refuses with a status before there is a document: 415
  without a JSON content type, 413 above the size limit, 400 if it cannot be read or is no JSON text, 422
  if a part in front of such an error already has the wrong type.
\<close>

datatype raw_body = NoDocument nat | Document json

record http_request =
  rq_method :: http_method
  rq_path :: string
  rq_headers :: headers
  rq_body :: raw_body

definition body_statuses :: "nat set" where
  "body_statuses = {400, 413, 415, 422}"

fun body_ok :: "raw_body \<Rightarrow> bool" where
  "body_ok (NoDocument status) \<longleftrightarrow> status \<in> body_statuses"
| "body_ok (Document d) \<longleftrightarrow> True"

text \<open>
  A route is literal segments and parameters in braces; a parameter takes one segment, which is not empty.
\<close>

datatype segment = Lit string | Param

definition pattern_of :: "string \<Rightarrow> segment list" where
  "pattern_of route = map (\<lambda>s. if starts_with (CHR 0x7B) s then Param else Lit s) (split_on (CHR ''/'') route)"

fun captures :: "segment list \<Rightarrow> string list \<Rightarrow> string list option" where
  "captures [] [] = Some []"
| "captures (Lit l # ps) (s # ss) = (if l = s then captures ps ss else None)"
| "captures (Param # ps) (s # ss) = (if s = [] then None else map_option (Cons s) (captures ps ss))"
| "captures _ _ = None"

definition route_captures :: "string \<Rightarrow> string \<Rightarrow> string list option" where
  "route_captures route path = captures (pattern_of route) (split_on (CHR ''/'') path)"

type_synonym 'h routes = "(string \<times> (http_method \<times> 'h) list) list"

fun find_route :: "'h routes \<Rightarrow> string \<Rightarrow> ((http_method \<times> 'h) list \<times> string list) option" where
  "find_route [] path = None"
| "find_route ((route, methods) # rs) path =
     (case route_captures route path of Some caps \<Rightarrow> Some (methods, caps) | None \<Rightarrow> find_route rs path)"

text \<open>A GET route serves HEAD too.\<close>

fun served_method :: "http_method \<Rightarrow> http_method" where
  "served_method HEAD = GET"
| "served_method m = m"

definition endpoint :: "'h routes \<Rightarrow> http_method \<Rightarrow> string \<Rightarrow> nat + 'h \<times> string list" where
  "endpoint table m path =
     (case find_route table path of
        None \<Rightarrow> Inl 404
      | Some (methods, caps) \<Rightarrow>
          (case map_of methods (served_method m) of None \<Rightarrow> Inl 405 | Some h \<Rightarrow> Inr (h, caps)))"

section \<open>Extractors\<close>

text \<open>\<open>Path<Uuid>\<close>, and \<open>Json<T>\<close>.\<close>

definition path_uuid :: "(string \<Rightarrow> uuid option) \<Rightarrow> string \<Rightarrow> nat + uuid" where
  "path_uuid seg s = ok_or 400 (seg s)"

fun json_body :: "(json \<Rightarrow> 'a option) \<Rightarrow> raw_body \<Rightarrow> nat + 'a" where
  "json_body dec (NoDocument status) = Inl status"
| "json_body dec (Document d) = ok_or 422 (dec d)"

text \<open>The first extractor that fails answers.\<close>

definition and_then :: "'e + 'a \<Rightarrow> ('a \<Rightarrow> 'e + 'b) \<Rightarrow> 'e + 'b" where
  "and_then r f = (case r of Inl e \<Rightarrow> Inl e | Inr a \<Rightarrow> f a)"

lemma and_then_simps [simp]: "and_then (Inl e) f = Inl e" "and_then (Inr a) f = f a"
  by (simp_all add: and_then_def)

lemma and_then_Inr: "and_then r f = Inr b \<longleftrightarrow> (\<exists>a. r = Inr a \<and> f a = Inr b)"
  and and_then_Inl: "and_then r f = Inl e \<longleftrightarrow> r = Inl e \<or> (\<exists>a. r = Inr a \<and> f a = Inl e)"
  by (cases r; simp)+

lemma path_uuid_Inl: "path_uuid seg s = Inl status \<Longrightarrow> status = 400"
  by (cases "seg s") (auto simp: path_uuid_def)

lemma json_body_Inl: "json_body dec b = Inl status \<Longrightarrow> body_ok b \<Longrightarrow> status \<in> body_statuses"
  by (cases b) (auto simp: body_statuses_def ok_or_def split: option.splits)

section \<open>A router behind the authentication layer\<close>

text \<open>The request a handler is called for, or the status axum answers.\<close>

type_synonym ('h, 'req) extractor = "'h \<Rightarrow> string list \<Rightarrow> raw_body \<Rightarrow> nat + 'req"

definition accepted :: "'h routes \<Rightarrow> ('h, 'req) extractor \<Rightarrow> http_request \<Rightarrow> nat + 'req" where
  "accepted table unpack rq =
     and_then (endpoint table (rq_method rq) (rq_path rq)) (\<lambda>(h, caps). unpack h caps (rq_body rq))"

text \<open>
  \<open>Router::layer\<close> puts \<open>require_auth\<close> around the routes and around the answers for unknown paths and
  methods, so these too are seen by admitted callers only.
\<close>

definition layered :: "prims \<Rightarrow> AuthConfig \<Rightarrow> auth_world \<Rightarrow> 'h routes \<Rightarrow> ('h, 'req) extractor
    \<Rightarrow> ('req \<Rightarrow> Caller \<Rightarrow> ('app, api_error, nat \<times> 'a) comp) \<Rightarrow> http_request
    \<Rightarrow> CachedKeys option \<times> 'app \<Rightarrow> 'a reply \<times> CachedKeys option \<times> 'app" where
  "layered ps cfg w table unpack handler rq st =
     (case accepted table unpack rq of
        Inr req \<Rightarrow> serve ps cfg w (rq_path rq) (rq_headers rq) (handler req) st
      | Inl status \<Rightarrow>
          (case require_auth ps cfg w (rq_path rq) (rq_headers rq) (fst st) of
             (Inl refused, ks) \<Rightarrow> (Refused refused, ks, snd st)
           | (Inr _, ks) \<Rightarrow> (Refused status, ks, snd st)))"

text \<open>
  \<open>run\<close> adds the probe routes to the finished router, outside the layer: only GET (and HEAD) there.
\<close>

definition http_service :: "prims \<Rightarrow> AuthConfig \<Rightarrow> auth_world \<Rightarrow> 'h routes \<Rightarrow> ('h, 'req) extractor
    \<Rightarrow> ('req \<Rightarrow> Caller \<Rightarrow> ('app, api_error, nat \<times> 'a) comp) \<Rightarrow> http_request
    \<Rightarrow> CachedKeys option \<times> 'app \<Rightarrow> 'a reply routed \<times> CachedKeys option \<times> 'app" where
  "http_service ps cfg w table unpack handler rq st =
     (if rq_path rq \<in> {''/health'', ''/metrics''} \<and> served_method (rq_method rq) \<noteq> GET
      then (App (Refused 405), st)
      else mounted (rq_path rq) (layered ps cfg w table unpack handler rq) st)"

section \<open>What every router of this kind does\<close>

lemma route_captures_some: "route_captures route path = Some caps \<Longrightarrow> [] \<notin> set caps"
proof -
  have "captures ps ss = Some caps \<Longrightarrow> [] \<notin> set caps" for ps ss caps
    by (induction ps ss arbitrary: caps rule: captures.induct) (auto split: if_splits)
  then show "route_captures route path = Some caps \<Longrightarrow> [] \<notin> set caps"
    by (simp add: route_captures_def)
qed

text \<open>The paths a pattern matches, segment by segment.\<close>

lemma captures_iff:
  "captures [] ss = Some caps \<longleftrightarrow> ss = [] \<and> caps = []"
  "captures (Lit l # ps) ss = Some caps \<longleftrightarrow> (\<exists>rest. ss = l # rest \<and> captures ps rest = Some caps)"
  "captures (Param # ps) ss = Some caps
     \<longleftrightarrow> (\<exists>s rest caps'. ss = s # rest \<and> s \<noteq> [] \<and> captures ps rest = Some caps' \<and> caps = s # caps')"
  by (cases ss; auto)+

lemma endpoint_Inl: "endpoint table m path = Inl status \<Longrightarrow> status \<in> {404, 405}"
  by (auto simp: endpoint_def split: option.splits)

text \<open>
  The services share this contract: extractors refuse with the statuses of axum, and no route is a probe.
\<close>

definition refusals :: "nat set" where
  "refusals = {404, 405} \<union> body_statuses"

locale routed_service =
  fixes table :: "'h routes"
    and unpack :: "('h, 'req) extractor"
    and handler :: "'req \<Rightarrow> Caller \<Rightarrow> ('app, api_error, nat \<times> 'a) comp"
  assumes unpack_refuses: "unpack h caps body = Inl status \<Longrightarrow> body_ok body \<Longrightarrow> status \<in> body_statuses"
    and probes_free: "find_route table ''/health'' = None" "find_route table ''/metrics'' = None"
begin

lemma accepted_Inl: "accepted table unpack rq = Inl status \<Longrightarrow> body_ok (rq_body rq) \<Longrightarrow> status \<in> refusals"
  by (auto simp: accepted_def and_then_Inl refusals_def dest: endpoint_Inl unpack_refuses)

lemma accepted_guarded: "accepted table unpack rq = Inr req \<Longrightarrow> rq_path rq \<noteq> ''/health'' \<and> rq_path rq \<noteq> ''/metrics''"
  using probes_free by (auto simp: accepted_def and_then_Inr endpoint_def split: option.splits)

text \<open>
  Every request: a probe; or refused by axum or by the layer, and then nothing but the key cache has
  changed; or handled, for the caller the layer admitted.
\<close>

lemma http_cases:
  assumes "http_service ps cfg w table unpack handler rq (ks, app) = (rep, ks', app')" "body_ok (rq_body rq)"
  obtains (probe) "rq_path rq \<in> {''/health'', ''/metrics''}" "app' = app" "ks' = ks"
      "rep \<in> {Health health, Metrics (fst metrics) (snd metrics), App (Refused 405)}"
  | (unauthorized) e where "caller ps cfg w (rq_headers rq) ks = (Inl e, ks')" "rep = App (Refused 401)" "app' = app"
  | (refused) c status where "caller ps cfg w (rq_headers rq) ks = (Inr c, ks')"
      "accepted table unpack rq = Inl status" "status \<in> refusals" "rep = App (Refused status)" "app' = app"
  | (handled) c req where "caller ps cfg w (rq_headers rq) ks = (Inr c, ks')" "accepted table unpack rq = Inr req"
      "rep = App (reply_of (fst (handler req c app)))" "app' = snd (handler req c app)"
proof (cases "rq_path rq \<in> {''/health'', ''/metrics''}")
  case True
  with assms(1) show ?thesis by (intro probe) (auto simp: http_service_def mounted_def split: if_splits)
next
  case False
  then have lay: "\<exists>r. rep = App r \<and> layered ps cfg w table unpack handler rq (ks, app) = (r, ks', app')"
    using assms(1) by (auto simp: http_service_def mounted_def split: prod.splits)
  then obtain r where r: "rep = App r" "layered ps cfg w table unpack handler rq (ks, app) = (r, ks', app')" by blast
  obtain a k1 where ca: "caller ps cfg w (rq_headers rq) ks = (a, k1)" by fastforce
  have auth: "require_auth ps cfg w (rq_path rq) (rq_headers rq) ks
      = (case a of Inr c \<Rightarrow> (Inr (Some c), k1) | Inl _ \<Rightarrow> (Inl 401, k1))"
    using False ca by (simp add: require_auth_def)
  show ?thesis
  proof (cases a)
    case (Inl e)
    with r auth ca show ?thesis by (intro unauthorized) (auto simp: layered_def serve_def split: sum.splits)
  next
    case (Inr c)
    show ?thesis
    proof (cases "accepted table unpack rq")
      case (Inl status)
      with r auth ca Inr accepted_Inl [OF Inl assms(2)] show ?thesis by (intro refused) (auto simp: layered_def)
    next
      case acc: (Inr req)
      obtain r2 app2 where h: "handler req c app = (r2, app2)" by fastforce
      from r auth ca Inr acc h show ?thesis by (intro handled) (auto simp: layered_def serve_def)
    qed
  qed
qed

lemma http_effect:
  assumes "http_service ps cfg w table unpack handler rq (ks, app) = (rep, ks', app')" "body_ok (rq_body rq)"
  shows "(app' = app \<and> (rep \<in> {Health health, Metrics (fst metrics) (snd metrics)}
        \<or> (\<exists>status \<in> insert 401 refusals. rep = App (Refused status))))
    \<or> (\<exists>c req. caller ps cfg w (rq_headers rq) ks = (Inr c, ks') \<and> accepted table unpack rq = Inr req
         \<and> rep = App (reply_of (fst (handler req c app))) \<and> app' = snd (handler req c app))"
  using assms
proof (cases rule: http_cases)
  case probe
  then show ?thesis by (auto simp: refusals_def)
next
  case unauthorized
  then show ?thesis by simp
next
  case refused
  then show ?thesis by simp
next
  case handled
  then show ?thesis by blast
qed

lemma http_changes:
  assumes "http_service ps cfg w table unpack handler rq (ks, app) = (rep, ks', app')" "app' \<noteq> app"
  obtains c req where "caller ps cfg w (rq_headers rq) ks = (Inr c, ks')" "accepted table unpack rq = Inr req"
    "app' = snd (handler req c app)"
  using assms accepted_guarded [of rq]
  by (auto simp: http_service_def mounted_def layered_def serve_def require_auth_def
      split: if_splits prod.splits sum.splits option.splits)

text \<open>
  Where tokens are demanded, whoever gets anything but 401 outside the probes has presented one that
  verified: also an unknown path, a wrong method or a malformed body is not revealed to others.
\<close>

lemma http_token:
  assumes "http_service ps cfg w table unpack handler rq (ks, app) = (rep, ks', app')" "body_ok (rq_body rq)"
    and "enforcing cfg" "rq_path rq \<notin> {''/health'', ''/metrics''}"
  shows "(rep = App (Refused 401) \<and> app' = app)
    \<or> (\<exists>token c. bearer ps (rq_headers rq) = Some token \<and> verify ps cfg w token ks = (Inr c, ks')
         \<and> (app' = app \<or> (\<exists>req. accepted table unpack rq = Inr req
               \<and> rep = App (reply_of (fst (handler req c app))) \<and> app' = snd (handler req c app))))"
proof -
  have token: "\<exists>token. bearer ps (rq_headers rq) = Some token \<and> verify ps cfg w token ks = (Inr c, ks')"
    if "caller ps cfg w (rq_headers rq) ks = (Inr c, ks')" for c
    using that assms(3) by (auto simp: caller_def elim!: tryb_Inr from_result_Inr)
  from assms(1,2) show ?thesis
  proof (cases rule: http_cases)
    case probe
    with assms(4) show ?thesis by simp
  next
    case unauthorized
    then show ?thesis by simp
  next
    case refused
    with token show ?thesis by blast
  next
    case handled
    with token show ?thesis by blast
  qed
qed

end

end
