(* ===== verification/UuidText.thy ===== *)
theory UuidText
  imports Prelude
begin

text \<open>
  Reading back the canonical text of a UUID. \<open>Uuid::parse_str\<close> and the readers of axum and serde
  accept more spellings and are parameters of the model; this one, which accepts the canonical spelling,
  shows that what is asked of them can be had.
\<close>

definition hex_val :: "char \<Rightarrow> uuid" where
  "hex_val c = (let n = of_char c :: nat in of_nat (if n < 58 then n - 48 else n - 87))"

definition parse_hex :: "string \<Rightarrow> uuid" where
  "parse_hex ds = foldl (\<lambda>acc c. or (push_bit 4 acc) (hex_val c)) 0 ds"

definition parse_uuid :: "string \<Rightarrow> uuid option" where
  "parse_uuid s = (let u = parse_hex (filter (\<lambda>c. c \<noteq> CHR ''-'') s) in if uuid_text u = s then Some u else None)"

lemma hex_val_digit: "n < 16 \<Longrightarrow> hex_val (hex_digit n) = of_nat n"
  by (auto simp: hex_val_def hex_digit_def Let_def)

lemma nibble_step:
  "or (push_bit 4 (drop_bit (4 * Suc n) w)) (of_nat (nibble w n)) = drop_bit (4 * n) w" for w :: uuid
proof -
  have nib: "of_nat (nibble w n) = take_bit 4 (drop_bit (4 * n) w)"
    by (simp add: nibble_def)
  show ?thesis
    unfolding nib
  proof (rule bit_word_eqI)
    fix i assume i: "i < LENGTH(128)"
    have "4 * Suc n + (i - 4) = 4 * n + i" if "4 \<le> i" using that by simp
    then show "bit (or (push_bit 4 (drop_bit (4 * Suc n) w)) (take_bit 4 (drop_bit (4 * n) w))) i = bit (drop_bit (4 * n) w) i"
      using i by (auto simp: bit_or_iff bit_push_bit_iff bit_drop_bit_eq bit_take_bit_iff)
  qed
qed

lemma parse_hex_nibbles:
  "foldl (\<lambda>acc c. or (push_bit 4 acc) (hex_val c)) (drop_bit (4 * n) w) (map (\<lambda>i. hex_digit (nibble w i)) (rev [0..<n])) = w"
proof (induction n)
  case (Suc n)
  then show ?case
    using nibble_step [of n w] by (simp add: hex_val_digit nibble_less)
qed simp

lemma parse_hex32: "parse_hex (hex32 w) = w"
proof -
  have "drop_bit (4 * 32) w = 0"
    by (rule bit_word_eqI) (auto simp: bit_drop_bit_eq dest: bit_imp_le_length)
  with parse_hex_nibbles [of 32 w] show ?thesis by (simp add: parse_hex_def hex32_def)
qed

lemma hex_digit_hex: "n < 16 \<Longrightarrow> hex_digit n \<noteq> CHR ''-'' \<and> hex_digit n \<noteq> CHR ''/''"
proof -
  assume "n < 16"
  then have "(of_char (hex_digit n) :: nat) = (if n < 10 then 48 + n else 87 + n)"
    by (simp add: hex_digit_def)
  then have "(of_char (hex_digit n) :: nat) \<noteq> 45 \<and> (of_char (hex_digit n) :: nat) \<noteq> 47" by (auto split: if_splits)
  then show ?thesis by auto
qed

lemma hex32_chars: "c \<in> set (hex32 w) \<Longrightarrow> c \<noteq> CHR ''-'' \<and> c \<noteq> CHR ''/''"
  using hex_digit_hex [OF nibble_less] by (auto simp: hex32_def)

lemma hyphenate_chars: "set (hyphenate h) \<subseteq> insert (CHR ''-'') (set h)"
  by (auto simp: hyphenate_def dest!: in_set_takeD in_set_dropD)

lemma unhyphenate:
  assumes "length h = 32" "CHR ''-'' \<notin> set h"
  shows "filter (\<lambda>c. c \<noteq> CHR ''-'') (hyphenate h) = h"
proof -
  have id: "filter (\<lambda>c. c \<noteq> CHR ''-'') x = x" if "set x \<subseteq> set h" for x
    using that assms(2) by (intro filter_True) auto
  have parts: "filter (\<lambda>c. c \<noteq> CHR ''-'') (take n (drop m h)) = take n (drop m h)"
    "filter (\<lambda>c. c \<noteq> CHR ''-'') (take n h) = take n h" "filter (\<lambda>c. c \<noteq> CHR ''-'') (drop m h) = drop m h" for n m
    by (rule id; auto dest!: in_set_takeD in_set_dropD)+
  have "h = take 8 h @ take 4 (drop 8 h) @ take 4 (drop 12 h) @ take 4 (drop 16 h) @ drop 20 h"
    using append_take_drop_id [of 8 h] append_take_drop_id [of 4 "drop 8 h"] append_take_drop_id [of 4 "drop 12 h"]
      append_take_drop_id [of 4 "drop 16 h"] by (simp add: add.commute)
  then show ?thesis by (simp add: hyphenate_def parts)
qed

lemma parse_uuid_text [simp]: "parse_uuid (uuid_text w) = Some w"
proof -
  have "filter (\<lambda>c. c \<noteq> CHR ''-'') (uuid_text w) = hex32 w"
    unfolding uuid_text_def by (rule unhyphenate) (auto dest: hex32_chars)
  then show ?thesis by (simp add: parse_uuid_def parse_hex32)
qed

lemma uuid_text_segment: "CHR ''/'' \<notin> set (uuid_text w)" "uuid_text w \<noteq> []"
proof -
  show "CHR ''/'' \<notin> set (uuid_text w)"
    using hyphenate_chars [of "hex32 w"] hex32_chars [of "CHR ''/''" w] by (auto simp: uuid_text_def)
  show "uuid_text w \<noteq> []" by (simp add: uuid_text_def hyphenate_def)
qed

end
