(* ===== verification/AdminFront.thy ===== *)
theory AdminFront
  imports AdminServer HttpRouting UuidText
begin

text \<open>
  \<open>admin-api\<close> as HTTP sees it: the router of \<open>routes.rs\<close>, the bodies its requests are decoded from and the
  documents its answers are encoded to (the derives of \<open>models.rs\<close>), in front of the handlers.
\<close>

section \<open>Formats\<close>

text \<open>How axum and serde read a UUID, and how chrono prints a time.\<close>

record formats =
  seg_uuid :: "string \<Rightarrow> uuid option"
  doc_uuid :: "string \<Rightarrow> uuid option"
  time_text :: "time \<Rightarrow> string"

text \<open>What is asked of them: a UUID is read back from its canonical text.\<close>

definition formats_ok :: "formats \<Rightarrow> bool" where
  "formats_ok f \<longleftrightarrow> (\<forall>u. seg_uuid f (uuid_text u) = Some u \<and> doc_uuid f (uuid_text u) = Some u)"

section \<open>Documents\<close>

text \<open>\<open>Deserialize\<close> of the requests.\<close>

definition de_create_tenant :: "json \<Rightarrow> CreateTenant option" where
  "de_create_tenant d = do {
     kvs \<leftarrow> struct_fields [''slug'', ''name'', ''plan''] d;
     slug \<leftarrow> required ''slug'' de_string kvs;
     name \<leftarrow> required ''name'' de_string kvs;
     plan \<leftarrow> defaulted ''plan'' de_string default_plan kvs;
     Some \<lparr>ct_slug = slug, ct_name = name, ct_plan = plan\<rparr> }"

definition de_create_domain :: "json \<Rightarrow> CreateDomain option" where
  "de_create_domain d = do {
     kvs \<leftarrow> struct_fields [''fqdn''] d;
     fqdn \<leftarrow> required ''fqdn'' de_string kvs;
     Some \<lparr>cd_fqdn = fqdn\<rparr> }"

definition de_create_account :: "formats \<Rightarrow> json \<Rightarrow> CreateAccount option" where
  "de_create_account f d = do {
     kvs \<leftarrow> struct_fields [''domain_id'', ''local_part'', ''display_name'', ''quota_mb''] d;
     domain_id \<leftarrow> required ''domain_id'' (de_uuid (doc_uuid f)) kvs;
     local_part \<leftarrow> required ''local_part'' de_string kvs;
     display_name \<leftarrow> defaulted ''display_name'' de_string [] kvs;
     quota_mb \<leftarrow> defaulted ''quota_mb'' de_i32 default_quota kvs;
     Some \<lparr>ca_domain_id = domain_id, ca_local_part = local_part, ca_display_name = display_name,
       ca_quota_mb = quota_mb\<rparr> }"

definition de_set_policy :: "json \<Rightarrow> SetAbusePolicy option" where
  "de_set_policy d = do {
     kvs \<leftarrow> struct_fields [''reject'', ''add_header'', ''greylist''] d;
     reject \<leftarrow> required ''reject'' de_f64 kvs;
     add_header \<leftarrow> required ''add_header'' de_f64 kvs;
     greylist \<leftarrow> required ''greylist'' de_f64 kvs;
     Some \<lparr>sp_reject = reject, sp_add_header = add_header, sp_greylist = greylist\<rparr> }"

text \<open>\<open>Serialize\<close> of the answers.\<close>

definition tenant_json :: "formats \<Rightarrow> Tenant \<Rightarrow> json" where
  "tenant_json f t = JObj
     [(''id'', JStr (uuid_text (ten_id t))), (''slug'', JStr (ten_slug t)), (''name'', JStr (ten_name t)),
      (''plan'', JStr (ten_plan t)), (''status'', JStr (ten_status t)),
      (''created_at'', JStr (time_text f (ten_created_at t)))]"

definition domain_json :: "formats \<Rightarrow> Domain \<Rightarrow> json" where
  "domain_json f d = JObj
     [(''id'', JStr (uuid_text (dom_id d))), (''tenant_id'', JStr (uuid_text (dom_tenant_id d))),
      (''fqdn'', JStr (dom_fqdn d)), (''status'', JStr (dom_status d)),
      (''created_at'', JStr (time_text f (dom_created_at d)))]"

definition account_json :: "formats \<Rightarrow> Account \<Rightarrow> json" where
  "account_json f a = JObj
     [(''id'', JStr (uuid_text (acc_id a))), (''tenant_id'', JStr (uuid_text (acc_tenant_id a))),
      (''domain_id'', JStr (uuid_text (acc_domain_id a))), (''email'', JStr (acc_email a)),
      (''display_name'', JStr (acc_display_name a)), (''quota_mb'', JInt (sint (acc_quota_mb a))),
      (''status'', JStr (acc_status a)), (''created_at'', JStr (time_text f (acc_created_at a)))]"

definition policy_json :: "formats \<Rightarrow> AbusePolicy \<Rightarrow> json" where
  "policy_json f p = JObj
     [(''tenant_id'', JStr (uuid_text (pol_tenant_id p))), (''reject'', json_f64 (pol_reject p)),
      (''add_header'', json_f64 (pol_add_header p)), (''greylist'', json_f64 (pol_greylist p)),
      (''updated_at'', JStr (time_text f (pol_updated_at p)))]"

fun answer_json :: "formats \<Rightarrow> admin_answer \<Rightarrow> json" where
  "answer_json f (ATenant t) = tenant_json f t"
| "answer_json f (ATenants ts) = JArr (map (tenant_json f) ts)"
| "answer_json f (ADomain d) = domain_json f d"
| "answer_json f (ADomains ds) = JArr (map (domain_json f) ds)"
| "answer_json f (AAccount a) = account_json f a"
| "answer_json f (AAccounts acs) = JArr (map (account_json f) acs)"
| "answer_json f (APolicy p) = policy_json f p"

section \<open>The router\<close>

datatype admin_handler = H_create_tenant | H_list_tenants | H_create_domain | H_list_domains
  | H_create_account | H_list_accounts | H_get_policy | H_put_policy

definition admin_routes :: "admin_handler routes" where
  "admin_routes =
     [(''/api/v1/tenants'', [(POST, H_create_tenant), (GET, H_list_tenants)]),
      (''/api/v1/tenants/{tenant_id}/domains'', [(POST, H_create_domain), (GET, H_list_domains)]),
      (''/api/v1/tenants/{tenant_id}/accounts'', [(POST, H_create_account), (GET, H_list_accounts)]),
      (''/api/v1/tenants/{tenant_id}/policy'', [(GET, H_get_policy), (PUT, H_put_policy)])]"

text \<open>The extractors of each handler, in the order of its parameters.\<close>

definition one_capture :: "string list \<Rightarrow> string" where
  "one_capture caps = (case caps of [] \<Rightarrow> [] | c # _ \<Rightarrow> c)"

fun admin_unpack :: "formats \<Rightarrow> (admin_handler, admin_request) extractor" where
  "admin_unpack f H_create_tenant caps b = and_then (json_body de_create_tenant b) (\<lambda>req. Inr (PostTenant req))"
| "admin_unpack f H_list_tenants caps b = Inr GetTenants"
| "admin_unpack f H_create_domain caps b =
     and_then (path_uuid (seg_uuid f) (one_capture caps)) (\<lambda>t.
     and_then (json_body de_create_domain b) (\<lambda>req. Inr (PostDomain t req)))"
| "admin_unpack f H_list_domains caps b = and_then (path_uuid (seg_uuid f) (one_capture caps)) (\<lambda>t. Inr (GetDomains t))"
| "admin_unpack f H_create_account caps b =
     and_then (path_uuid (seg_uuid f) (one_capture caps)) (\<lambda>t.
     and_then (json_body (de_create_account f) b) (\<lambda>req. Inr (PostAccount t req)))"
| "admin_unpack f H_list_accounts caps b = and_then (path_uuid (seg_uuid f) (one_capture caps)) (\<lambda>t. Inr (GetAccounts t))"
| "admin_unpack f H_get_policy caps b = and_then (path_uuid (seg_uuid f) (one_capture caps)) (\<lambda>t. Inr (GetPolicy t))"
| "admin_unpack f H_put_policy caps b =
     and_then (path_uuid (seg_uuid f) (one_capture caps)) (\<lambda>t.
     and_then (json_body de_set_policy b) (\<lambda>req. Inr (PutPolicy t req)))"

definition admin_http :: "prims \<Rightarrow> AuthConfig \<Rightarrow> auth_world \<Rightarrow> formats \<Rightarrow> admin_world \<Rightarrow> http_request
    \<Rightarrow> CachedKeys option \<times> app_state \<Rightarrow> admin_answer reply routed \<times> CachedKeys option \<times> app_state" where
  "admin_http ps cfg w f aw = http_service ps cfg w admin_routes (admin_unpack f) (\<lambda>rq. admin_handle rq aw)"

lemma admin_probes: "find_route admin_routes ''/health'' = None" "find_route admin_routes ''/metrics'' = None"
  by (simp_all add: admin_routes_def route_captures_def pattern_of_def starts_with_def)

interpretation admin_front: routed_service admin_routes "admin_unpack f" "\<lambda>rq. admin_handle rq aw" for f aw
proof
  fix h caps body status
  assume "admin_unpack f h caps body = Inl status" "body_ok body"
  then show "status \<in> body_statuses"
    by (cases h) (auto simp: and_then_Inl body_statuses_def dest!: path_uuid_Inl dest: json_body_Inl [unfolded body_statuses_def])
qed (rule admin_probes)+

section \<open>The other side\<close>

text \<open>How a client asks for a request: method, path and document.\<close>

fun admin_method :: "admin_request \<Rightarrow> http_method" where
  "admin_method (PostTenant _) = POST"
| "admin_method (PostDomain _ _) = POST"
| "admin_method (PostAccount _ _) = POST"
| "admin_method (PutPolicy _ _) = PUT"
| "admin_method _ = GET"

fun admin_document :: "admin_request \<Rightarrow> raw_body" where
  "admin_document (PostTenant req) = Document (JObj
     [(''slug'', JStr (ct_slug req)), (''name'', JStr (ct_name req)), (''plan'', JStr (ct_plan req))])"
| "admin_document (PostDomain _ req) = Document (JObj [(''fqdn'', JStr (cd_fqdn req))])"
| "admin_document (PostAccount _ req) = Document (JObj
     [(''domain_id'', JStr (uuid_text (ca_domain_id req))), (''local_part'', JStr (ca_local_part req)),
      (''display_name'', JStr (ca_display_name req)), (''quota_mb'', JInt (sint (ca_quota_mb req)))])"
| "admin_document (PutPolicy _ req) = Document (JObj
     [(''reject'', json_f64 (sp_reject req)), (''add_header'', json_f64 (sp_add_header req)),
      (''greylist'', json_f64 (sp_greylist req))])"
| "admin_document _ = NoDocument 415"

definition admin_asked :: "headers \<Rightarrow> admin_request \<Rightarrow> http_request" where
  "admin_asked hs req =
     \<lparr>rq_method = admin_method req, rq_path = admin_path req, rq_headers = hs, rq_body = admin_document req\<rparr>"

text \<open>JSON has no text for an infinite or undefined threshold.\<close>

fun admin_sendable :: "admin_request \<Rightarrow> bool" where
  "admin_sendable (PutPolicy _ req) \<longleftrightarrow> is_finite (sp_reject req) \<and> is_finite (sp_add_header req) \<and> is_finite (sp_greylist req)"
| "admin_sendable _ \<longleftrightarrow> True"

lemma split_tenant_route:
  "split_on (CHR ''/'') (tenant_route t rest) = [[], ''api'', ''v1'', ''tenants''] @ split_on (CHR ''/'') (uuid_text t @ rest)"
  by simp

lemma admin_endpoints:
  "endpoint admin_routes m ''/api/v1/tenants'' = (case served_method m of POST \<Rightarrow> Inr (H_create_tenant, []) | GET \<Rightarrow> Inr (H_list_tenants, []) | _ \<Rightarrow> Inl 405)"
  "endpoint admin_routes m (tenant_route t ''/domains'')
     = (case served_method m of POST \<Rightarrow> Inr (H_create_domain, [uuid_text t]) | GET \<Rightarrow> Inr (H_list_domains, [uuid_text t]) | _ \<Rightarrow> Inl 405)"
  "endpoint admin_routes m (tenant_route t ''/accounts'')
     = (case served_method m of POST \<Rightarrow> Inr (H_create_account, [uuid_text t]) | GET \<Rightarrow> Inr (H_list_accounts, [uuid_text t]) | _ \<Rightarrow> Inl 405)"
  "endpoint admin_routes m (tenant_route t ''/policy'')
     = (case served_method m of GET \<Rightarrow> Inr (H_get_policy, [uuid_text t]) | PUT \<Rightarrow> Inr (H_put_policy, [uuid_text t]) | _ \<Rightarrow> Inl 405)"
proof -
  have split: "split_on (CHR ''/'') (uuid_text t @ CHR ''/'' # rest) = uuid_text t # split_on (CHR ''/'') rest" for rest
    by (rule split_on_append) (rule uuid_text_segment)
  note routes = endpoint_def admin_routes_def route_captures_def pattern_of_def starts_with_def
  show "endpoint admin_routes m ''/api/v1/tenants'' = (case served_method m of POST \<Rightarrow> Inr (H_create_tenant, []) | GET \<Rightarrow> Inr (H_list_tenants, []) | _ \<Rightarrow> Inl 405)"
    by (simp add: routes split: http_method.split)
  show "endpoint admin_routes m (tenant_route t ''/domains'')
     = (case served_method m of POST \<Rightarrow> Inr (H_create_domain, [uuid_text t]) | GET \<Rightarrow> Inr (H_list_domains, [uuid_text t]) | _ \<Rightarrow> Inl 405)"
    by (simp add: routes split uuid_text_segment split: http_method.split)
  show "endpoint admin_routes m (tenant_route t ''/accounts'')
     = (case served_method m of POST \<Rightarrow> Inr (H_create_account, [uuid_text t]) | GET \<Rightarrow> Inr (H_list_accounts, [uuid_text t]) | _ \<Rightarrow> Inl 405)"
    by (simp add: routes split uuid_text_segment split: http_method.split)
  show "endpoint admin_routes m (tenant_route t ''/policy'')
     = (case served_method m of GET \<Rightarrow> Inr (H_get_policy, [uuid_text t]) | PUT \<Rightarrow> Inr (H_put_policy, [uuid_text t]) | _ \<Rightarrow> Inl 405)"
    by (simp add: routes split uuid_text_segment split: http_method.split)
qed

lemma de_f64_json: "is_finite x \<Longrightarrow> de_f64 (json_f64 x) = Some x"
  by (cases x) simp_all

lemma admin_asked_accepted:
  assumes "formats_ok f" "admin_sendable req"
  shows "accepted admin_routes (admin_unpack f) (admin_asked hs req) = Inr req"
proof -
  have ids: "seg_uuid f (uuid_text u) = Some u" "doc_uuid f (uuid_text u) = Some u" for u
    using assms(1) by (simp_all add: formats_ok_def)
  note decs = de_create_tenant_def de_create_domain_def de_create_account_def de_set_policy_def struct_fields_def
  show ?thesis
    using assms(2)
    by (cases req)
      (simp_all add: accepted_def admin_asked_def admin_endpoints one_capture_def path_uuid_def ids decs de_f64_json
        del: tenant_route.simps)
qed

end
