(* ===== verification/AbuseFront.thy ===== *)
theory AbuseFront
  imports AbuseServer AdminFront
begin

text \<open>
  \<open>abuse-api\<close> as HTTP sees it: the router of \<open>routes.rs\<close>, the bodies of its requests and the documents of
  its answers (the derives of \<open>models.rs\<close>).
\<close>

section \<open>Documents\<close>

definition de_record_decision :: "json \<Rightarrow> RecordDecision option" where
  "de_record_decision d = do {
     kvs \<leftarrow> struct_fields [''message_ref'', ''direction'', ''recipient'', ''sender'', ''score'', ''action'', ''verdict'',
       ''symbols'', ''subject''] d;
     message_ref \<leftarrow> required ''message_ref'' de_string kvs;
     direction \<leftarrow> defaulted ''direction'' de_string default_direction kvs;
     recipient \<leftarrow> required ''recipient'' de_string kvs;
     sender \<leftarrow> defaulted ''sender'' de_string [] kvs;
     score \<leftarrow> required ''score'' de_f32 kvs;
     action \<leftarrow> required ''action'' de_string kvs;
     verdict \<leftarrow> defaulted ''verdict'' de_string default_verdict kvs;
     symbols \<leftarrow> defaulted ''symbols'' (\<lambda>v. Some (value_of v)) JNull kvs;
     subj \<leftarrow> defaulted ''subject'' de_string [] kvs;
     Some \<lparr>rd_message_ref = message_ref, rd_direction = direction, rd_recipient = recipient, rd_sender = sender,
       rd_score = score, rd_action = action, rd_verdict = verdict, rd_symbols = symbols, rd_subject = subj\<rparr> }"

text \<open>\<open>ReportFeedback\<close> is its verdict.\<close>

definition de_report_feedback :: "json \<Rightarrow> string option" where
  "de_report_feedback d = do { kvs \<leftarrow> struct_fields [''verdict''] d; required ''verdict'' de_string kvs }"

definition decision_json :: "formats \<Rightarrow> AbuseDecision \<Rightarrow> json" where
  "decision_json f d = JObj
     [(''id'', JStr (uuid_text (ad_id d))), (''tenant_id'', JStr (uuid_text (ad_tenant_id d))),
      (''message_ref'', JStr (ad_message_ref d)), (''direction'', JStr (ad_direction d)),
      (''recipient'', JStr (ad_recipient d)), (''sender'', JStr (ad_sender d)), (''score'', json_f64 (ad_score d)),
      (''action'', JStr (ad_action d)), (''verdict'', JStr (ad_verdict d)), (''symbols'', ad_symbols d),
      (''scanned_at'', JStr (time_text f (ad_scanned_at d)))]"

text \<open>A score that no \<open>f32\<close> can hold is accepted as an infinity, which has no JSON: the answer shows \<open>null\<close>, which
  is not a score.\<close>

lemma score_overflow:
  assumes "2 ^ 128 \<le> r"
  shows "de_f32 (JNum r) = Some PosInf \<and> json_f64 PosInf = JNull \<and> de_f32 JNull = None"
  using assms by (simp add: f32_overflow)

definition json_option :: "('a \<Rightarrow> json) \<Rightarrow> 'a option \<Rightarrow> json" where
  "json_option enc x = (case x of None \<Rightarrow> JNull | Some a \<Rightarrow> enc a)"

definition item_json :: "formats \<Rightarrow> QuarantineItem \<Rightarrow> json" where
  "item_json f q = JObj
     [(''id'', JStr (uuid_text (qi_id q))), (''tenant_id'', JStr (uuid_text (qi_tenant_id q))),
      (''decision_id'', JStr (uuid_text (qi_decision_id q))), (''message_ref'', JStr (qi_message_ref q)),
      (''recipient'', JStr (qi_recipient q)), (''sender'', JStr (qi_sender q)), (''subject'', JStr (qi_subject q)),
      (''reason'', JStr (qi_reason q)), (''status'', JStr (qi_status q)),
      (''reported_as'', json_option JStr (qi_reported_as q)), (''held_at'', JStr (time_text f (qi_held_at q))),
      (''resolved_at'', json_option (\<lambda>t. JStr (time_text f t)) (qi_resolved_at q)),
      (''resolved_by'', json_option JStr (qi_resolved_by q))]"

fun abuse_json :: "formats \<Rightarrow> abuse_answer \<Rightarrow> json" where
  "abuse_json f (ADecision d) = decision_json f d"
| "abuse_json f (AItems qs) = JArr (map (item_json f) qs)"
| "abuse_json f (AItem q) = item_json f q"

section \<open>The router\<close>

datatype abuse_handler = H_record_decision | H_list_quarantine | H_release_item | H_report_item

definition abuse_routes :: "abuse_handler routes" where
  "abuse_routes =
     [(''/api/v1/tenants/{tenant_id}/abuse/decisions'', [(POST, H_record_decision)]),
      (''/api/v1/tenants/{tenant_id}/quarantine'', [(GET, H_list_quarantine)]),
      (''/api/v1/tenants/{tenant_id}/quarantine/{item_id}/release'', [(POST, H_release_item)]),
      (''/api/v1/tenants/{tenant_id}/quarantine/{item_id}/report'', [(POST, H_report_item)])]"

text \<open>\<open>Path<(Uuid, Uuid)>\<close>.\<close>

definition path_uuids :: "(string \<Rightarrow> uuid option) \<Rightarrow> string list \<Rightarrow> nat + uuid \<times> uuid" where
  "path_uuids seg caps =
     and_then (path_uuid seg (one_capture caps)) (\<lambda>t.
     and_then (path_uuid seg (one_capture (tl caps))) (\<lambda>i. Inr (t, i)))"

fun abuse_unpack :: "formats \<Rightarrow> (abuse_handler, abuse_request) extractor" where
  "abuse_unpack f H_record_decision caps b =
     and_then (path_uuid (seg_uuid f) (one_capture caps)) (\<lambda>t.
     and_then (json_body de_record_decision b) (\<lambda>req. Inr (PostDecision t req)))"
| "abuse_unpack f H_list_quarantine caps b =
     and_then (path_uuid (seg_uuid f) (one_capture caps)) (\<lambda>t. Inr (GetQuarantine t))"
| "abuse_unpack f H_release_item caps b =
     and_then (path_uuids (seg_uuid f) caps) (\<lambda>(t, i). Inr (PostRelease t i))"
| "abuse_unpack f H_report_item caps b =
     and_then (path_uuids (seg_uuid f) caps) (\<lambda>(t, i).
     and_then (json_body de_report_feedback b) (\<lambda>v. Inr (PostReport t i v)))"

definition abuse_http :: "prims \<Rightarrow> AuthConfig \<Rightarrow> auth_world \<Rightarrow> formats \<Rightarrow> abuse_world \<Rightarrow> http_request
    \<Rightarrow> CachedKeys option \<times> abuse_store session \<Rightarrow> abuse_answer reply routed \<times> CachedKeys option \<times> abuse_store session" where
  "abuse_http ps cfg w f bw = http_service ps cfg w abuse_routes (abuse_unpack f) (\<lambda>rq. abuse_handle rq bw)"

lemma abuse_probes: "find_route abuse_routes ''/health'' = None" "find_route abuse_routes ''/metrics'' = None"
  by (simp_all add: abuse_routes_def route_captures_def pattern_of_def starts_with_def)

interpretation abuse_front: routed_service abuse_routes "abuse_unpack f" "\<lambda>rq. abuse_handle rq bw" for f bw
proof
  fix h caps body status
  assume "abuse_unpack f h caps body = Inl status" "body_ok body"
  then show "status \<in> body_statuses"
    by (cases h) (auto simp: and_then_Inl path_uuids_def body_statuses_def dest!: path_uuid_Inl
        dest: json_body_Inl [unfolded body_statuses_def])
qed (rule abuse_probes)+

section \<open>The other side\<close>

fun abuse_method :: "abuse_request \<Rightarrow> http_method" where
  "abuse_method (GetQuarantine _) = GET"
| "abuse_method _ = POST"

fun abuse_document :: "abuse_request \<Rightarrow> raw_body" where
  "abuse_document (PostDecision _ req) = Document (JObj
     [(''message_ref'', JStr (rd_message_ref req)), (''direction'', JStr (rd_direction req)),
      (''recipient'', JStr (rd_recipient req)), (''sender'', JStr (rd_sender req)), (''score'', json_f64 (rd_score req)),
      (''action'', JStr (rd_action req)), (''verdict'', JStr (rd_verdict req)), (''symbols'', rd_symbols req),
      (''subject'', JStr (rd_subject req))])"
| "abuse_document (PostReport _ _ v) = Document (JObj [(''verdict'', JStr v)])"
| "abuse_document _ = NoDocument 415"

definition abuse_asked :: "headers \<Rightarrow> abuse_request \<Rightarrow> http_request" where
  "abuse_asked hs req =
     \<lparr>rq_method = abuse_method req, rq_path = abuse_path req, rq_headers = hs, rq_body = abuse_document req\<rparr>"

text \<open>A score that has a text is a single-precision number; the symbols are a value.\<close>

fun abuse_sendable :: "abuse_request \<Rightarrow> bool" where
  "abuse_sendable (PostDecision _ req) \<longleftrightarrow>
     (case rd_score req of Finite r \<Rightarrow> f32_of_rat r = Finite r | _ \<Rightarrow> False) \<and> value_of (rd_symbols req) = rd_symbols req"
| "abuse_sendable _ \<longleftrightarrow> True"

lemma abuse_endpoints:
  "endpoint abuse_routes m (tenant_route t ''/abuse/decisions'')
     = (if served_method m = POST then Inr (H_record_decision, [uuid_text t]) else Inl 405)"
  "endpoint abuse_routes m (tenant_route t ''/quarantine'')
     = (if served_method m = GET then Inr (H_list_quarantine, [uuid_text t]) else Inl 405)"
  "endpoint abuse_routes m (tenant_route t (''/quarantine/'' @ uuid_text i @ ''/release''))
     = (if served_method m = POST then Inr (H_release_item, [uuid_text t, uuid_text i]) else Inl 405)"
  "endpoint abuse_routes m (tenant_route t (''/quarantine/'' @ uuid_text i @ ''/report''))
     = (if served_method m = POST then Inr (H_report_item, [uuid_text t, uuid_text i]) else Inl 405)"
proof -
  have split: "split_on (CHR ''/'') (uuid_text u @ CHR ''/'' # rest) = uuid_text u # split_on (CHR ''/'') rest" for u rest
    by (rule split_on_append) (rule uuid_text_segment)
  note routes = endpoint_def abuse_routes_def route_captures_def pattern_of_def starts_with_def split uuid_text_segment
  show "endpoint abuse_routes m (tenant_route t ''/abuse/decisions'')
     = (if served_method m = POST then Inr (H_record_decision, [uuid_text t]) else Inl 405)"
    "endpoint abuse_routes m (tenant_route t ''/quarantine'')
     = (if served_method m = GET then Inr (H_list_quarantine, [uuid_text t]) else Inl 405)"
    by (simp_all add: routes)
  show "endpoint abuse_routes m (tenant_route t (''/quarantine/'' @ uuid_text i @ ''/release''))
     = (if served_method m = POST then Inr (H_release_item, [uuid_text t, uuid_text i]) else Inl 405)"
    "endpoint abuse_routes m (tenant_route t (''/quarantine/'' @ uuid_text i @ ''/report''))
     = (if served_method m = POST then Inr (H_report_item, [uuid_text t, uuid_text i]) else Inl 405)"
    by (simp_all add: routes)
qed

lemma abuse_asked_accepted:
  assumes "formats_ok f" "abuse_sendable req"
  shows "accepted abuse_routes (abuse_unpack f) (abuse_asked hs req) = Inr req"
proof -
  have ids: "seg_uuid f (uuid_text u) = Some u" for u
    using assms(1) by (simp add: formats_ok_def)
  note decs = de_record_decision_def de_report_feedback_def struct_fields_def
  show ?thesis
    using assms(2)
    by (cases req)
      (auto simp: accepted_def abuse_asked_def abuse_endpoints abuse_endpoints(3,4) [unfolded append_Cons append_Nil] one_capture_def path_uuid_def path_uuids_def ids decs
        simp del: tenant_route.simps split: f64.splits)
qed

end
