(* ===== verification/Answers.thy ===== *)
theory Answers
  imports AdminServer AbuseServer ServiceKit
begin

text \<open>
  What the two services can answer. A computation fails in a set of errors if it never ends with another
  one; the handlers fail only with "not found", validation and database errors, so the statuses and bodies
  they lead to can be listed.
\<close>

definition fails_in :: "'e set \<Rightarrow> ('s, 'e, 'a) comp \<Rightarrow> bool" where
  "fails_in E m \<longleftrightarrow> (\<forall>s e s'. m s = (Inl e, s') \<longrightarrow> e \<in> E)"

definition plain_errors :: "api_error set" where
  "plain_errors = {NotFound} \<union> range Validation \<union> range Db"

lemma plain_errors_simps [simp]: "NotFound \<in> plain_errors" "Validation m \<in> plain_errors" "Db x \<in> plain_errors"
  by (simp_all add: plain_errors_def)

lemma fails_in_ok [intro]: "fails_in E (ok a)"
  by (simp add: fails_in_def)

lemma fails_in_tryb [intro]: "fails_in E m \<Longrightarrow> (\<And>a. fails_in E (f a)) \<Longrightarrow> fails_in E (tryb m f)"
  unfolding fails_in_def tryb_def by (auto split: prod.splits sum.splits)

lemma fails_in_result [intro]: "(\<And>e. r = Inl e \<Longrightarrow> e \<in> E) \<Longrightarrow> fails_in E (from_result r)"
  by (auto simp: fails_in_def from_result_def)

lemma fails_in_exec [intro]: "(\<And>x. conv x \<in> E) \<Longrightarrow> fails_in E (exec conv st)"
  by (auto simp: fails_in_def exec_def split: prod.splits outcome.splits sum.splits)

lemma fails_in_tx [intro]: "(\<And>x. conv x \<in> E) \<Longrightarrow> fails_in E m \<Longrightarrow> fails_in E (in_tx opener conv m)"
  unfolding fails_in_def in_tx_def by (auto split: prod.splits sum.splits outcome.splits)

lemma fails_in_answer [intro]: "fails_in E m \<Longrightarrow> fails_in E (answer f m)" "fails_in E m1 \<Longrightarrow> fails_in E (answer200 f m1)"
  unfolding answer_def answer200_def by (rule fails_in_tryb; auto split: prod.splits)+

lemma fails_in_db_only [intro]: "fails_in E m \<Longrightarrow> fails_in E (db_only m)"
  unfolding fails_in_def db_only_def by (auto split: prod.splits)

lemma validation_errors:
  "validate_slug s = Inl e \<Longrightarrow> e \<in> plain_errors" "validate_fqdn s = Inl e \<Longrightarrow> e \<in> plain_errors"
  "validate_local_part s = Inl e \<Longrightarrow> e \<in> plain_errors" "validate_policy p = Inl e \<Longrightarrow> e \<in> plain_errors"
  by (auto simp: validate_slug_def validate_fqdn_def validate_local_part_def validate_policy_def split: if_splits)

lemma not_found_error: "ok_or NotFound x = Inl e \<Longrightarrow> e \<in> plain_errors"
  by (cases x) auto

lemma create_account_tx_errors: "fails_in plain_errors (create_account_tx fresh now t c req)"
  unfolding create_account_tx_def create_account_body_def record_audit_def
  by (intro fails_in_tryb fails_in_result fails_in_tx fails_in_exec fails_in_ok)
    (auto dest: validation_errors not_found_error)

lemma create_account_errors: "fails_in plain_errors (create_account fresh now now2 w other t c req)"
  using create_account_tx_errors [of fresh now t c req] unfolding fails_in_def create_account_def
  by (fastforce split: prod.splits sum.splits option.splits)

lemmas fails_in_rules = fails_in_tryb fails_in_result fails_in_tx fails_in_exec fails_in_ok
lemmas source_errors = validation_errors not_found_error

lemma admin_handler_errors:
  "fails_in plain_errors (create_tenant fresh now c ctr)" "fails_in plain_errors (list_tenants now)"
  "fails_in plain_errors (create_domain fresh now t c cdr)" "fails_in plain_errors (list_domains now t)"
  "fails_in plain_errors (list_accounts now t)" "fails_in plain_errors (get_policy now t)"
  "fails_in plain_errors (put_policy now t c spr)"
  unfolding create_tenant_def create_tenant_body_def list_tenants_def create_domain_def create_domain_body_def
    list_domains_def list_accounts_def get_policy_def put_policy_def put_policy_body_def record_audit_def
  by (intro fails_in_rules; auto dest: source_errors)+

lemma admin_errors: "fails_in plain_errors (admin_handle rq aw c)"
  by (cases rq) (simp_all add: fails_in_answer fails_in_db_only admin_handler_errors create_account_errors)

lemma fails_in_fail: "e \<in> E \<Longrightarrow> fails_in E (fail e)"
  by (simp add: fails_in_def)

lemma fails_in_if: "fails_in E m \<Longrightarrow> fails_in E m' \<Longrightarrow> fails_in E (if b then m else m')"
  by simp

lemma abuse_handler_errors:
  "fails_in plain_errors (record_decision fmt1 fresh fresh_item now t c req)"
  "fails_in plain_errors (list_quarantine now t)" "fails_in plain_errors (release_item now t i c)"
  "fails_in plain_errors (report_item now t i c v)"
  unfolding record_decision_def record_decision_body_def list_quarantine_def release_item_def release_body_def
    report_item_def report_body_def record_audit_def Let_def
  by (intro fails_in_rules fails_in_if fails_in_fail; auto dest: source_errors)+

lemma abuse_errors: "fails_in plain_errors (abuse_handle rq bw c)"
  by (cases rq) (simp_all add: fails_in_answer abuse_handler_errors)

text \<open>The shape of an answer.\<close>

definition expected_answer :: "'a reply \<Rightarrow> bool" where
  "expected_answer rep \<longleftrightarrow> rep = Refused 401
    \<or> (\<exists>status a. rep = Answer status a \<and> status \<in> {200, 201})
    \<or> (\<exists>status msg. rep = Failure status (JObj [(''error'', JStr msg)]) \<and> status \<in> {404, 409, 422, 500}
         \<and> (status = 500 \<longrightarrow> msg = ''internal error''))"

lemma plain_error_response:
  assumes "e \<in> plain_errors"
  shows "expected_answer (case into_response e of (status, doc) \<Rightarrow> Failure status doc)"
  using assms
  by (auto simp: expected_answer_def plain_errors_def into_response_def
      split: sqlx_error.splits violation.splits)

lemma serve_expected:
  assumes "serve ps cfg w path hs handler (ks, st) = (rep, ks', st')"
    and "path \<noteq> ''/health''" "path \<noteq> ''/metrics''" "\<And>c. fails_in plain_errors (handler c)"
    and "\<And>c status a s s'. handler c s = (Inr (status, a), s') \<Longrightarrow> status = 200 \<or> status = 201"
  shows "expected_answer rep \<and> (rep = Refused 401 \<longrightarrow> st' = st)"
proof (cases "caller ps cfg w hs ks")
  case (Pair r k1)
  show ?thesis
  proof (cases r)
    case (Inl e)
    with Pair assms(1-3) show ?thesis by (auto simp: serve_def require_auth_def expected_answer_def)
  next
    case (Inr c)
    obtain r2 st2 where h: "handler c st = (r2, st2)" by fastforce
    have rep: "rep = reply_of r2"
      using assms(1-3) Pair Inr h by (auto simp: serve_def require_auth_def)
    have "expected_answer (reply_of r2)"
    proof (cases r2)
      case (Inl e)
      with assms(4) [of c] h have "e \<in> plain_errors" unfolding fails_in_def by blast
      with Inl show ?thesis using plain_error_response by (simp add: reply_of_def)
    next
      case (Inr sa)
      with h assms(5) [of c st "fst sa" "snd sa" st2] show ?thesis
        by (auto simp: reply_of_def expected_answer_def split: prod.splits)
    qed
    moreover have "reply_of r2 \<noteq> Refused 401"
      by (simp add: reply_of_def split: sum.splits prod.splits)
    ultimately show ?thesis using rep by simp
  qed
qed

end
