(* ===== verification/Serving.thy ===== *)
theory Serving
  imports ServiceKit
begin

text \<open>
  The life of a server between its start and its end (\<open>shutdown_signal\<close>, \<open>run\<close> of \<open>service-kit\<close>): the
  requests it answers and the signals that stop it, as they happen one after the other; and the logging
  set up before. Whether a server ends at all depends on what happens, so the loop is a partial function.
\<close>

section \<open>Signals\<close>

datatype signal = Interrupt | Terminate

text \<open>What the installation of the two handlers answered; a failure is logged and nothing else.\<close>

record signal_setup =
  ctrl_c_handler :: "string + unit"
  sigterm_handler :: "string + unit"

text \<open>
  Each branch of the \<open>select!\<close>: whether it completes when polled first, and whether a signal completes it.
  A branch whose handler could not be installed is at its end after the warning.
\<close>

definition ctrl_c_ends :: "signal_setup \<Rightarrow> signal option \<Rightarrow> bool" where
  "ctrl_c_ends hooks sig = (case ctrl_c_handler hooks of Inl _ \<Rightarrow> True | Inr _ \<Rightarrow> sig = Some Interrupt)"

definition terminate_ends :: "signal_setup \<Rightarrow> signal option \<Rightarrow> bool" where
  "terminate_ends hooks sig = (case sigterm_handler hooks of Inl _ \<Rightarrow> True | Inr _ \<Rightarrow> sig = Some Terminate)"

definition shutdown_signal :: "signal_setup \<Rightarrow> signal option \<Rightarrow> bool" where
  "shutdown_signal hooks sig \<longleftrightarrow> ctrl_c_ends hooks sig \<or> terminate_ends hooks sig"

section \<open>The server\<close>

text \<open>
  What happens to a server, in the order in which it happens: requests and signals. The shutdown future is
  polled before a connection is accepted; a request that was accepted is answered. The answer of the loop
  is how many things had happened when it stopped, the replies in order, and the state of the application.
\<close>

datatype 'req happening = Arrives 'req | Signalled signal

partial_function (option) serving :: "signal_setup \<Rightarrow> ('req \<Rightarrow> 's \<Rightarrow> 'rep \<times> 's) \<Rightarrow> (nat \<Rightarrow> 'req happening) \<Rightarrow> nat
    \<Rightarrow> 'rep list \<Rightarrow> 's \<Rightarrow> (nat \<times> 'rep list \<times> 's) option" where
  "serving hooks app happens n replies s =
     (case happens n of
        Signalled sig \<Rightarrow>
          if shutdown_signal hooks (Some sig) then Some (n, replies, s) else serving hooks app happens (Suc n) replies s
      | Arrives rq \<Rightarrow>
          (case app rq s of (rep, s') \<Rightarrow> serving hooks app happens (Suc n) (replies @ [rep]) s'))"

definition serve_until_shutdown :: "signal_setup \<Rightarrow> ('req \<Rightarrow> 's \<Rightarrow> 'rep \<times> 's) \<Rightarrow> (nat \<Rightarrow> 'req happening) \<Rightarrow> 's
    \<Rightarrow> (nat \<times> 'rep list \<times> 's) option" where
  "serve_until_shutdown hooks app happens s =
     (if shutdown_signal hooks None then Some (0, [], s) else serving hooks app happens 0 [] s)"

text \<open>What it should be: the requests of a list answered one after the other.\<close>

fun answer_all :: "('req \<Rightarrow> 's \<Rightarrow> 'rep \<times> 's) \<Rightarrow> 'req list \<Rightarrow> 's \<Rightarrow> 'rep list \<times> 's" where
  "answer_all app [] s = ([], s)"
| "answer_all app (rq # rqs) s =
     (case app rq s of (rep, s1) \<Rightarrow> (case answer_all app rqs s1 of (reps, s2) \<Rightarrow> (rep # reps, s2)))"

definition installed :: "signal_setup \<Rightarrow> bool" where
  "installed hooks \<longleftrightarrow> is_ok (ctrl_c_handler hooks) \<and> is_ok (sigterm_handler hooks)"

lemma shutdown_signal_iff:
  "installed hooks \<Longrightarrow> shutdown_signal hooks (Some sig)" "shutdown_signal hooks None \<longleftrightarrow> \<not> installed hooks"
  by (cases sig; auto simp: shutdown_signal_def ctrl_c_ends_def terminate_ends_def installed_def is_ok_def split: sum.splits)+

text \<open>Up to the first signal the loop answers; without one it does not return.\<close>

lemma serving_requests:
  assumes "\<forall>i < length rqs. happens (n + i) = Arrives (rqs ! i)"
  shows "serving hooks app happens n replies s =
    serving hooks app happens (n + length rqs) (replies @ fst (answer_all app rqs s)) (snd (answer_all app rqs s))"
  using assms
proof (induction rqs arbitrary: n replies s)
  case Nil
  then show ?case by simp
next
  case (Cons rq rqs)
  obtain rep s1 where a: "app rq s = (rep, s1)" by fastforce
  have "happens n = Arrives rq" using Cons.prems by fastforce
  then have "serving hooks app happens n replies s = serving hooks app happens (Suc n) (replies @ [rep]) s1"
    by (subst serving.simps) (simp add: a)
  moreover have "\<forall>i < length rqs. happens (Suc n + i) = Arrives (rqs ! i)"
    using Cons.prems by (metis Suc_less_eq add_Suc_shift length_Cons nth_Cons_Suc)
  note Cons.IH [OF this]
  ultimately show ?case by (simp add: a split: prod.split)
qed

lemma serving_stops:
  assumes "installed hooks" "happens (n + length rqs) = Signalled sig" "\<forall>i < length rqs. happens (n + i) = Arrives (rqs ! i)"
  shows "serving hooks app happens n replies s
    = Some (n + length rqs, replies @ fst (answer_all app rqs s), snd (answer_all app rqs s))"
  using assms(1,2) by (subst serving_requests [OF assms(3)], subst serving.simps) (simp add: shutdown_signal_iff)

lemma serving_returns:
  assumes "serving hooks app happens n replies s = Some res"
  shows "\<exists>k sig. happens (n + k) = Signalled sig"
proof (rule serving.raw_induct [where P = "\<lambda>_ _ ev n _ _ _. \<exists>k sig. ev (n + k) = Signalled sig", OF _ assms])
  fix loop hooks and app :: "'req \<Rightarrow> 's \<Rightarrow> 'rep \<times> 's" and ev n replies s res
  assume IH: "\<And>hooks app ev n replies s res. loop hooks app ev n replies s = Some res \<Longrightarrow> \<exists>k sig. ev (n + k) = Signalled sig"
    and run: "(case ev n of
        Arrives rq \<Rightarrow> (case app rq s of (rep, s') \<Rightarrow> loop hooks app ev (Suc n) (replies @ [rep]) s')
      | Signalled sig \<Rightarrow> if shutdown_signal hooks (Some sig) then Some (n, replies, s) else loop hooks app ev (Suc n) replies s)
      = Some res"
  show "\<exists>k sig. ev (n + k) = Signalled sig"
  proof (cases "ev n")
    case (Arrives rq)
    obtain rep s1 where "app rq s = (rep, s1)" by fastforce
    with Arrives run have "loop hooks app ev (Suc n) (replies @ [rep]) s1 = Some res" by simp
    from IH [OF this] show ?thesis by (metis add_Suc_shift)
  next
    case (Signalled sig)
    then show ?thesis by (metis add_0_right)
  qed
qed

section \<open>Logging\<close>

text \<open>
  \<open>init_tracing\<close>: the filter of the process is set once; \<open>RUST_LOG\<close> if it is a filter, else \<open>info\<close>.
\<close>

definition init_tracing :: "(string \<Rightarrow> bool) \<Rightarrow> environment \<Rightarrow> string option \<Rightarrow> string option" where
  "init_tracing valid_filter env current =
     (let filt = (case env ''RUST_LOG'' of None \<Rightarrow> ''info'' | Some v \<Rightarrow> if valid_filter v then v else ''info'')
      in case current of None \<Rightarrow> Some filt | Some f \<Rightarrow> Some f)"

lemma init_tracing_twice: "init_tracing valid_filter env (init_tracing valid_filter env current) = init_tracing valid_filter env current"
  by (simp add: init_tracing_def Let_def split: option.split)

end
