(* ===== verification/Reconcile.thy ===== *)
theory Reconcile
  imports AdminInvariants
begin

text \<open>
  \<open>crates/job-runner/src/reconcile.rs\<close>: the worker that retries the provisioning of accounts left
  \<open>pending_provisioning\<close>. The \<open>Provisioner\<close> trait is an argument, a state-passing function; the
  sesame client is its instance. Between the transactions of a cycle other sessions may commit
  anything: \<open>meanwhile\<close> is what they do while the call for an account is in flight.
\<close>

section \<open>One cycle\<close>

type_synonym 'p provisioner = "string \<Rightarrow> string \<Rightarrow> ('p, ProviderError, uuid) comp"

text \<open>\<open>impl Provisioner for SesameClient\<close>; the world of the \<open>n\<close>-th call is \<open>worlds n\<close>.\<close>

definition sesame_provisioner :: "SesameConfig \<Rightarrow> (nat \<Rightarrow> sesame_world) \<Rightarrow> (nat \<times> CachedToken option) provisioner" where
  "sesame_provisioner cfg worlds email display_name st =
     (let (r, slot) = provision_user cfg (worlds (fst st)) email display_name (snd st)
      in (r, (Suc (fst st), slot)))"

type_synonym PendingRow = "uuid \<times> uuid \<times> string \<times> string"

definition pending_row :: "Account \<Rightarrow> PendingRow" where
  "pending_row a = (acc_id a, acc_tenant_id a, acc_email a, acc_display_name a)"

definition reconciled_entry :: "uuid \<Rightarrow> uuid \<Rightarrow> uuid \<Rightarrow> AuditEntry" where
  "reconciled_entry t i u =
     \<lparr>ae_tenant_id = Some t, ae_actor = ''job-runner'', ae_action = ''account.reconciled'',
      ae_entity_type = ''account'', ae_entity_id = uuid_text i,
      ae_payload = JObj [(''sesame_user_id'', JStr (uuid_text u))]\<rparr>"

text \<open>The transaction for one provisioned account; the answer is what it adds to \<open>activated\<close>.\<close>

definition reconcile_body :: "uuid \<Rightarrow> uuid \<Rightarrow> uuid \<Rightarrow> (control_plane work, sqlx_error, nat) comp" where
  [handler_defs]: "reconcile_body t i u =
     tryb (exec id (update_account_if_pending i u)) (\<lambda>updated.
     if updated = 1
     then tryb (record_audit audit_fk id (reconciled_entry t i u)) (\<lambda>_. ok 1)
     else ok 0)"

record cycle_env =
  at_read :: time
  at_row :: "uuid \<Rightarrow> time"
  meanwhile :: "uuid \<Rightarrow> control_plane \<Rightarrow> control_plane"

fun reconcile_rows :: "'p provisioner \<Rightarrow> cycle_env \<Rightarrow> nat \<Rightarrow> PendingRow list
    \<Rightarrow> ('p \<times> control_plane session, sqlx_error, nat) comp" where
  "reconcile_rows prov env activated [] st = (Inr activated, st)"
| "reconcile_rows prov env activated ((i, t, email, display_name) # rows) (p, s) =
     (let (provisioned, p') = prov email display_name p;
          s1 = s\<lparr>committed := meanwhile env i (committed s)\<rparr>
      in case provisioned of
           Inl _ \<Rightarrow> reconcile_rows prov env activated rows (p', s1)
         | Inr u \<Rightarrow>
             (case in_tx (platform_tx (at_row env i)) id (reconcile_body t i u) s1 of
                (Inl e, s2) \<Rightarrow> (Inl e, (p', s2))
              | (Inr n, s2) \<Rightarrow> reconcile_rows prov env (activated + n) rows (p', s2)))"

definition reconcile_once :: "'p provisioner \<Rightarrow> cycle_env \<Rightarrow> int
    \<Rightarrow> ('p \<times> control_plane session, sqlx_error, nat) comp" where
  "reconcile_once prov env batch ps =
     (case in_tx (platform_tx (at_read env)) id (exec id (select_pending batch)) (snd ps) of
        (Inl e, s) \<Rightarrow> (Inl e, (fst ps, s))
      | (Inr rows, s) \<Rightarrow> reconcile_rows prov env 0 (map pending_row rows) (fst ps, s))"

section \<open>What the transactions do\<close>

definition pending :: "('z Account_scheme) \<Rightarrow> bool" where
  "pending r \<longleftrightarrow> acc_status r = ''pending_provisioning''"

definition account_reconciled :: "uuid \<Rightarrow> uuid \<Rightarrow> uuid \<Rightarrow> scope \<Rightarrow> control_plane \<Rightarrow> nat \<Rightarrow> control_plane \<Rightarrow> bool" where
  "account_reconciled t i u sc d n d' \<longleftrightarrow>
     (let p = (\<lambda>r. acc_id r = i \<and> pending r);
          flipped = length (select_rows accounts_policy sc p (accounts d));
          d1 = d\<lparr>accounts := update_rows accounts_policy sc p (activate u sc) (accounts d)\<rparr>
      in n = (if flipped = 1 then 1 else 0)
       \<and> (flipped = 1 \<longrightarrow> has_tenant t d)
       \<and> d' = (if flipped = 1 then d1\<lparr>audit_log := audit_log d @ [audit_of sc (reconciled_entry t i u)]\<rparr> else d1))"

lemma update_if_pending_eq:
  "update_account_if_pending i u sc d =
     (let p = (\<lambda>r. acc_id r = i \<and> pending r) in
      Inr (length (select_rows accounts_policy sc p (accounts d)),
           d\<lparr>accounts := update_rows accounts_policy sc p (activate u sc) (accounts d)\<rparr>))"
  by (simp add: update_account_if_pending_def updated_rows_def pending_def)

lemma reconcile_body_rel:
  assumes "reconcile_body t i u w = (Inr n, w')"
  shows "account_reconciled t i u (wscope w) (wdb w) n (wdb w')"
proof -
  let ?p = "\<lambda>r. acc_id r = i \<and> pending r"
  let ?k = "length (select_rows accounts_policy (wscope w) ?p (accounts (wdb w)))"
  from assms obtain w1 where
    w1: "wdb w1 = (wdb w)\<lparr>accounts := update_rows accounts_policy (wscope w) ?p
             (activate u (wscope w)) (accounts (wdb w))\<rparr>" "wscope w1 = wscope w"
    and rest: "(if ?k = 1 then tryb (record_audit audit_fk id (reconciled_entry t i u)) (\<lambda>_. ok 1)
                else ok 0) w1 = (Inr n, w')"
    by (auto simp: reconcile_body_def update_if_pending_eq Let_def elim!: tryb_Inr exec_Inr)
  show ?thesis
  proof (cases "?k = 1")
    case True
    with rest obtain w2 where "record_audit audit_fk id (reconciled_entry t i u) w1 = (Inr (), w2)"
      "n = 1" "w' = w2" by (auto elim!: tryb_Inr)
    from record_audit_Inr [OF this(1)] this(2,3) True show ?thesis
      by (simp add: account_reconciled_def Let_def w1 reconciled_entry_def audit_fk_def)
  next
    case False
    with rest have "w' = w1" "n = 0" by auto
    with False show ?thesis by (simp add: account_reconciled_def Let_def w1)
  qed
qed

interpretation reconcile: tx_step "platform_tx now" "platform_scope now"
    "reconcile_body t i u" id "account_reconciled t i u" for now t i u
  by unfold_locales (rule reconcile_body_rel)

lemma account_reconciled_wf:
  assumes "account_reconciled t i u sc d n d'" "cp_wf d"
  shows "cp_wf d'"
proof (cases "length (select_rows accounts_policy sc (\<lambda>r. acc_id r = i \<and> pending r) (accounts d)) = 1")
  case True
  with assms(1) show ?thesis
    by (intro activated_audit_wf [OF assms(2), of "audit_of sc (reconciled_entry t i u)"])
      (auto simp: account_reconciled_def Let_def reconciled_entry_def audit_fk_def)
next
  case False
  with assms(1) have "d' = d\<lparr>accounts := update_rows accounts_policy sc
      (\<lambda>r. acc_id r = i \<and> pending r) (activate u sc) (accounts d)\<rparr>"
    by (simp add: account_reconciled_def Let_def)
  then show ?thesis by (simp only: activate_accounts_cp_wf [OF assms(2)])
qed

section \<open>The effect of a cycle\<close>

text \<open>An account is left alone, or was pending and is active with its sesame user.\<close>

definition activation :: "account_row \<Rightarrow> account_row \<Rightarrow> bool" where
  "activation r r' \<longleftrightarrow> r' = r \<or> (pending r \<and> (\<exists>u sc. r' = activate u sc r))"

definition pending_count :: "control_plane \<Rightarrow> nat" where
  "pending_count d = length (filter pending (accounts d))"

text \<open>\<open>n\<close> accounts activated: that many fewer pending, that many audit entries, nothing else.\<close>

definition reconciled :: "nat \<Rightarrow> control_plane \<Rightarrow> control_plane \<Rightarrow> bool" where
  "reconciled n d d' \<longleftrightarrow>
     list_all2 activation (accounts d) (accounts d')
   \<and> pending_count d = pending_count d' + n
   \<and> (\<exists>es. length es = n \<and> audit_log d' = audit_log d @ es
        \<and> (\<forall>e \<in> set es. ae_action e = ''account.reconciled'' \<and> ae_actor e = ''job-runner''))
   \<and> tenants d' = tenants d \<and> domains d' = domains d \<and> abuse_policies d' = abuse_policies d"

lemma activation_not_pending [simp]: "\<not> pending (activate u sc r)"
  by (simp add: pending_def)

lemma activation_trans: "activation r r' \<Longrightarrow> activation r' r'' \<Longrightarrow> activation r r''"
  by (auto simp: activation_def)

lemma reconciled_refl [simp]: "reconciled 0 d d"
  by (simp add: reconciled_def list_all2_same activation_def)

lemma reconciled_trans:
  assumes "reconciled m d d1" "reconciled n d1 d2"
  shows "reconciled (m + n) d d2"
proof -
  have "list_all2 activation (accounts d) (accounts d2)"
    using assms by (auto simp: reconciled_def intro: list_all2_trans [OF activation_trans])
  moreover obtain es where es: "length es = m" "audit_log d1 = audit_log d @ es"
    "\<forall>e \<in> set es. ae_action e = ''account.reconciled'' \<and> ae_actor e = ''job-runner''"
    using assms(1) by (auto simp: reconciled_def)
  moreover obtain fs where fs: "length fs = n" "audit_log d2 = audit_log d1 @ fs"
    "\<forall>e \<in> set fs. ae_action e = ''account.reconciled'' \<and> ae_actor e = ''job-runner''"
    using assms(2) by (auto simp: reconciled_def)
  moreover have "\<exists>gs. length gs = m + n \<and> audit_log d2 = audit_log d @ gs
      \<and> (\<forall>e \<in> set gs. ae_action e = ''account.reconciled'' \<and> ae_actor e = ''job-runner'')"
    by (rule exI [of _ "es @ fs"]) (use es fs in auto)
  ultimately show ?thesis
    using assms by (simp add: reconciled_def)
qed

lemma pending_update:
  assumes "\<And>r. p r \<Longrightarrow> pending r"
  shows "length (filter pending rows)
       = length (filter pending (update_rows v sc p (activate u sc) rows)) + length (select_rows v sc p rows)"
  using assms by (induction rows) (auto simp: update_rows_def select_rows_def)

lemma update_activation:
  assumes "\<And>r. p r \<Longrightarrow> pending r"
  shows "list_all2 activation rows (update_rows v sc p (activate u sc) rows)"
  using assms by (auto simp: update_rows_def list_all2_conv_all_nth activation_def)

lemma account_reconciled_effect:
  assumes "account_reconciled t i u sc d n d'" "cp_wf d"
  shows "reconciled n d d'"
proof -
  let ?p = "\<lambda>r. acc_id r = i \<and> pending r"
  let ?k = "length (select_rows accounts_policy sc ?p (accounts d))"
  let ?as = "update_rows accounts_policy sc ?p (activate u sc) (accounts d)"
  have "distinct (map acc_id (accounts d))"
    using assms(2) by (simp add: cp_wf_def accounts_wf_def)
  then have k: "?k \<le> 1" by (rule select_key_le_1) auto
  have as: "accounts d' = ?as" "tenants d' = tenants d" "domains d' = domains d"
      "abuse_policies d' = abuse_policies d"
    using assms(1) by (auto simp: account_reconciled_def Let_def)
  have "n = (if ?k = 1 then 1 else 0)"
    using assms(1) by (simp add: account_reconciled_def Let_def)
  with k have n: "n = ?k" by presburger
  have log: "audit_log d' = audit_log d @ (if ?k = 1 then [audit_of sc (reconciled_entry t i u)] else [])"
    using assms(1) by (auto simp: account_reconciled_def Let_def)
  have "pending_count d = pending_count d' + ?k"
    using pending_update [of ?p "accounts d" accounts_policy sc u] by (simp add: pending_count_def as)
  moreover have "list_all2 activation (accounts d) (accounts d')"
    unfolding as by (rule update_activation) simp
  moreover have "\<exists>es. length es = ?k \<and> audit_log d' = audit_log d @ es
        \<and> (\<forall>e \<in> set es. ae_action e = ''account.reconciled'' \<and> ae_actor e = ''job-runner'')"
  proof (cases "?k = 1")
    case True
    then show ?thesis
      by (intro exI [of _ "[audit_of sc (reconciled_entry t i u)]"]) (simp add: log reconciled_entry_def)
  next
    case False
    with k have "?k = 0" by presburger
    then show ?thesis by (simp add: log)
  qed
  ultimately show ?thesis by (simp add: reconciled_def n as)
qed

section \<open>Cycles under interference\<close>

text \<open>What other sessions and the single transactions keep, the whole cycle keeps, failed or not.\<close>

lemma reconcile_rows_keeps:
  assumes "reconcile_rows prov env k rows (p, s) = (r, p', s')"
    and "\<And>i d. P d \<Longrightarrow> P (meanwhile env i d)"
    and "\<And>t i u now ro n d d'. account_reconciled t i u (platform_scope now ro) d n d' \<Longrightarrow> P d \<Longrightarrow> P d'"
    and "P (committed s)"
  shows "P (committed s')"
  using assms(1,4)
proof (induction rows arbitrary: k p s)
  case Nil
  then show ?case by simp
next
  case (Cons row rows)
  obtain i t email dn where row: "row = (i, t, email, dn)" by (cases row)
  obtain res p1 where pr: "prov email dn p = (res, p1)" by fastforce
  let ?s1 = "s\<lparr>committed := meanwhile env i (committed s)\<rparr>"
  have P1: "P (committed ?s1)" using assms(2) Cons.prems(2) by simp
  show ?case
  proof (cases res)
    case (Inl e)
    with Cons.prems(1) row pr have "reconcile_rows prov env k rows (p1, ?s1) = (r, p', s')" by simp
    from Cons.IH [OF this P1] show ?thesis .
  next
    case (Inr u)
    obtain r2 s2 where tx: "in_tx (platform_tx (at_row env i)) id (reconcile_body t i u) ?s1 = (r2, s2)"
      by fastforce
    have P2: "P (committed s2)"
      by (rule reconcile.run_keeps [OF tx, of P]) (use P1 assms(3) in blast)+
    show ?thesis
    proof (cases r2)
      case (Inl e)
      with Cons.prems(1) row pr \<open>res = Inr u\<close> tx have "s' = s2" by simp
      with P2 show ?thesis by simp
    next
      case (Inr n)
      with Cons.prems(1) row pr \<open>res = Inr u\<close> tx
      have "reconcile_rows prov env (k + n) rows (p1, s2) = (r, p', s')" by simp
      from Cons.IH [OF this P2] show ?thesis .
    qed
  qed
qed

lemma select_pending_read:
  assumes "in_tx (platform_tx now) id (exec id (select_pending batch)) s = (r, s')"
  shows "committed s' = committed s \<and> role s' = role s
    \<and> (\<forall>rows. r = Inr rows \<longrightarrow> 0 \<le> batch \<and> rows = take (nat batch) (map Account.truncate
          (sort_key acc_created_at (filter pending (accounts (committed s))))))"
  using assms
proof (rule platform_tx.in_tx_cases)
  fix e assume "r = Inl e" "committed s' = committed s" "role s' = role s"
  then show ?thesis by simp
qed (auto simp: select_pending_def select_rows_def pending_def [abs_def] elim!: exec_Inr split: if_splits)

lemma reconcile_once_keeps:
  assumes "reconcile_once prov env batch (p, s) = (r, p', s')"
    and "\<And>i d. P d \<Longrightarrow> P (meanwhile env i d)"
    and "\<And>t i u now ro n d d'. account_reconciled t i u (platform_scope now ro) d n d' \<Longrightarrow> P d \<Longrightarrow> P d'"
    and "P (committed s)"
  shows "P (committed s')"
proof -
  obtain r1 s1 where rd: "in_tx (platform_tx (at_read env)) id (exec id (select_pending batch)) s = (r1, s1)"
    by fastforce
  have c: "committed s1 = committed s" using select_pending_read [OF rd] by simp
  show ?thesis
  proof (cases r1)
    case (Inl e)
    with assms(1,4) rd c show ?thesis by (auto simp: reconcile_once_def)
  next
    case (Inr rows)
    with assms(1) rd have "reconcile_rows prov env 0 (map pending_row rows) (p, s1) = (r, p', s')"
      by (simp add: reconcile_once_def)
    from reconcile_rows_keeps [where P = P, OF this assms(2,3)] assms(4) c show ?thesis by simp
  qed
qed

section \<open>Cycles without faults and interference\<close>

text \<open>The answers of the identity plane to a batch, by account.\<close>

fun provision_all :: "'p provisioner \<Rightarrow> PendingRow list \<Rightarrow> 'p \<Rightarrow> (uuid \<times> (ProviderError + uuid)) list" where
  "provision_all prov [] p = []"
| "provision_all prov ((i, t, email, display_name) # rows) p =
     (let (r, p') = prov email display_name p in (i, r) # provision_all prov rows p')"

definition settle :: "cycle_env \<Rightarrow> db_role \<Rightarrow> (uuid \<times> (ProviderError + uuid)) list \<Rightarrow> account_row \<Rightarrow> account_row" where
  "settle env ro res r =
     (case map_of res (acc_id r) of
        Some (Inr u) \<Rightarrow> activate u (platform_scope (at_row env (acc_id r)) ro) r
      | _ \<Rightarrow> r)"

definition successes :: "(uuid \<times> (ProviderError + uuid)) list \<Rightarrow> nat" where
  "successes res = length (filter (\<lambda>x. is_ok (snd x)) res)"

lemma successes_simps [simp]: "successes [] = 0" "successes ((i, Inl e) # res) = successes res"
  "successes ((i, Inr u) # res) = Suc (successes res)"
  by (simp_all add: successes_def)

definition known_row :: "control_plane \<Rightarrow> PendingRow \<Rightarrow> bool" where
  "known_row d row \<longleftrightarrow> (\<exists>r \<in> set (accounts d). acc_id r = fst row \<and> acc_tenant_id r = fst (snd row) \<and> pending r)"

lemma provision_all_keys: "map fst (provision_all prov rows p) = map fst rows"
  by (induction prov rows p rule: provision_all.induct) (auto split: prod.splits)

lemma update_one_account:
  assumes "cp_wf d" "r0 \<in> set (accounts d)" "acc_id r0 = i" "pending r0"
  shows "update_rows accounts_policy (platform_scope now ro) (\<lambda>r. acc_id r = i \<and> pending r) f (accounts d)
       = map (\<lambda>r. if acc_id r = i then f r else r) (accounts d)"
    and "select_rows accounts_policy (platform_scope now ro) (\<lambda>r. acc_id r = i \<and> pending r) (accounts d) = [r0]"
proof -
  have dist: "distinct (map acc_id (accounts d))"
    using assms(1) by (simp add: cp_wf_def accounts_wf_def)
  have "pending r" if "r \<in> set (accounts d)" "acc_id r = i" for r
    using that assms inj_onD [of acc_id "set (accounts d)" r r0] dist by (auto simp: distinct_map)
  then show "update_rows accounts_policy (platform_scope now ro) (\<lambda>r. acc_id r = i \<and> pending r) f (accounts d)
       = map (\<lambda>r. if acc_id r = i then f r else r) (accounts d)"
    by (auto simp: update_rows_def)
  show "select_rows accounts_policy (platform_scope now ro) (\<lambda>r. acc_id r = i \<and> pending r) (accounts d) = [r0]"
    by (rule select_key_unique [OF dist assms(2)]) (use assms in auto)
qed

lemma reconcile_tx_quiet:
  assumes "net s = []" "cp_wf (committed s)" "known_row (committed s) (i, t, email, dn)"
  shows "in_tx (platform_tx now) id (reconcile_body t i u) s =
     (Inr 1, s\<lparr>committed := (committed s)\<lparr>
        accounts := map (\<lambda>r. if acc_id r = i then activate u (platform_scope now (role s)) r else r)
                      (accounts (committed s)),
        audit_log := audit_log (committed s) @ [audit_of (platform_scope now (role s)) (reconciled_entry t i u)]\<rparr>\<rparr>)"
proof -
  from assms(3) obtain r0 where r0: "r0 \<in> set (accounts (committed s))" "acc_id r0 = i"
    "acc_tenant_id r0 = t" "pending r0" by (auto simp: known_row_def)
  have ht: "has_tenant t (committed s)"
    using assms(2) r0 by (auto simp: cp_wf_def accounts_wf_def account_wf_def)
  have "reconcile_body t i u \<lparr>wdb = committed s, wscope = platform_scope now (role s), wplan = []\<rparr> =
     (Inr 1, \<lparr>wdb = (committed s)\<lparr>
        accounts := map (\<lambda>r. if acc_id r = i then activate u (platform_scope now (role s)) r else r)
                      (accounts (committed s)),
        audit_log := audit_log (committed s) @ [audit_of (platform_scope now (role s)) (reconciled_entry t i u)]\<rparr>,
        wscope = platform_scope now (role s), wplan = []\<rparr>)"
    using ht by (simp add: reconcile_body_def tryb_def exec_def update_if_pending_eq Let_def record_audit_def
        insert_audit_def audit_of_def reconciled_entry_def audit_fk_def
        update_one_account [OF assms(2) r0(1,2,4)])
  from platform_tx.in_tx_quiet [where body = "reconcile_body t i u" and s = s and conv = id, OF assms(1) this] show ?thesis by simp
qed

lemma settle_step:
  assumes "i \<notin> fst ` set res"
  shows "map (settle env ro res) (map (\<lambda>r. if acc_id r = i then activate u (platform_scope (at_row env i) ro) r else r) rows)
       = map (settle env ro ((i, Inr u) # res)) rows"
    and "map (settle env ro ((i, Inl e) # res)) rows = map (settle env ro res) rows"
proof -
  have "map_of res i = None" using assms by (simp add: map_of_eq_None_iff)
  then show "map (settle env ro res) (map (\<lambda>r. if acc_id r = i then activate u (platform_scope (at_row env i) ro) r else r) rows)
       = map (settle env ro ((i, Inr u) # res)) rows"
    and "map (settle env ro ((i, Inl e) # res)) rows = map (settle env ro res) rows"
    by (auto simp: settle_def)
qed

lemma reconcile_rows_quiet:
  assumes "net s = []" "cp_wf (committed s)" "\<And>i. meanwhile env i = id" "distinct (map fst rows)"
    and "\<forall>row \<in> set rows. known_row (committed s) row"
  shows "\<exists>p' s'. reconcile_rows prov env k rows (p, s)
             = (Inr (k + successes (provision_all prov rows p)), p', s')
       \<and> accounts (committed s') = map (settle env (role s) (provision_all prov rows p)) (accounts (committed s))"
  using assms(1,2,4,5)
proof (induction rows arbitrary: k p s)
  case Nil
  then show ?case by (simp add: settle_def)
next
  case (Cons row rows)
  obtain i t email dn where row: "row = (i, t, email, dn)" by (cases row)
  obtain res p1 where pr: "prov email dn p = (res, p1)" by fastforce
  let ?res = "provision_all prov rows p1"
  have i: "i \<notin> fst ` set ?res"
    using Cons.prems(3) provision_all_keys [of prov rows p1] row by (metis distinct.simps(2) fst_conv list.simps(9) set_map)
  have s1: "s\<lparr>committed := meanwhile env i (committed s)\<rparr> = s" using assms(3) by simp
  show ?case
  proof (cases res)
    case (Inl e)
    from Cons.IH [of s k p1] Cons.prems obtain p' s' where
      "reconcile_rows prov env k rows (p1, s) = (Inr (k + successes ?res), p', s')"
      "accounts (committed s') = map (settle env (role s) ?res) (accounts (committed s))"
      by auto
    then show ?thesis
      using row pr Inl s1 settle_step(2) [OF i] by simp
  next
    case (Inr u)
    let ?sc = "platform_scope (at_row env i) (role s)"
    define d1 where "d1 = (committed s)\<lparr>
        accounts := map (\<lambda>r. if acc_id r = i then activate u ?sc r else r) (accounts (committed s)),
        audit_log := audit_log (committed s) @ [audit_of ?sc (reconciled_entry t i u)]\<rparr>"
    have tx: "in_tx (platform_tx (at_row env i)) id (reconcile_body t i u) s = (Inr 1, s\<lparr>committed := d1\<rparr>)"
      unfolding d1_def using Cons.prems row by (intro reconcile_tx_quiet) auto
    have wf: "cp_wf d1"
      using reconcile.run_Inr [OF tx] account_reconciled_wf [of t i u _ "committed s" 1 d1] Cons.prems(2)
      by simp
    have known: "known_row d1 x" if "x \<in> set rows" for x
    proof -
      have "fst x \<noteq> i" using Cons.prems(3) that row by auto
      then show ?thesis
        using Cons.prems(4) that by (force simp: known_row_def d1_def)
    qed
    from Cons.IH [of "s\<lparr>committed := d1\<rparr>" "k + 1" p1] Cons.prems wf known obtain p' s' where
      run: "reconcile_rows prov env (k + 1) rows (p1, s\<lparr>committed := d1\<rparr>)
              = (Inr (k + 1 + successes ?res), p', s')"
      and acc: "accounts (committed s') = map (settle env (role s) ?res) (accounts d1)"
      by auto
    have "accounts (committed s') = map (settle env (role s) ((i, Inr u) # ?res)) (accounts (committed s))"
      unfolding acc settle_step(1) [OF i, symmetric] by (simp add: d1_def)
    then show ?thesis
      using row pr Inr s1 tx run by simp
  qed
qed

text \<open>The batch a cycle works on: the oldest pending accounts.\<close>

definition pending_batch :: "int \<Rightarrow> control_plane \<Rightarrow> PendingRow list" where
  "pending_batch batch d =
     map pending_row (take (nat batch) (map Account.truncate (sort_key acc_created_at (filter pending (accounts d)))))"

lemma pending_row_truncate:
  "pending_row (Account.truncate r) = (acc_id r, acc_tenant_id r, acc_email r, acc_display_name r)"
  by (simp add: pending_row_def Account.truncate_def)

lemma pending_batch_eq:
  "pending_batch batch d = take (nat batch)
     (map (\<lambda>r. (acc_id r, acc_tenant_id r, acc_email r, acc_display_name r))
        (sort_key acc_created_at (filter pending (accounts d))))"
  by (simp add: pending_batch_def take_map [symmetric] pending_row_truncate o_def)

lemma pending_batch_known: "row \<in> set (pending_batch batch d) \<Longrightarrow> known_row d row"
  unfolding pending_batch_eq by (drule in_set_takeD) (auto simp: known_row_def)

lemma pending_batch_distinct:
  assumes "cp_wf d"
  shows "distinct (map fst (pending_batch batch d))"
proof -
  have "distinct (map acc_id (filter pending (accounts d)))"
    using assms by (simp add: cp_wf_def accounts_wf_def distinct_map_filter)
  then have "distinct (map acc_id (sort_key acc_created_at (filter pending (accounts d))))"
    by (simp add: distinct_map)
  then show ?thesis by (simp add: pending_batch_eq take_map [symmetric] o_def)
qed

lemma pending_batch_all:
  assumes "pending_count d \<le> nat batch"
  shows "fst ` set (pending_batch batch d) = acc_id ` set (filter pending (accounts d))"
  using assms by (force simp: pending_batch_eq pending_count_def)

lemma select_pending_quiet:
  assumes "net s = []" "0 \<le> batch"
  shows "in_tx (platform_tx now) id (exec id (select_pending batch)) s
       = (Inr (take (nat batch) (map Account.truncate
            (sort_key acc_created_at (filter pending (accounts (committed s)))))), s)"
proof -
  have "exec id (select_pending batch) \<lparr>wdb = committed s, wscope = platform_scope now (role s), wplan = []\<rparr>
      = (Inr (take (nat batch) (map Account.truncate
            (sort_key acc_created_at (filter pending (accounts (committed s)))))),
         \<lparr>wdb = committed s, wscope = platform_scope now (role s), wplan = []\<rparr>)"
    using assms(2) by (simp add: exec_def select_pending_def select_rows_def pending_def [abs_def])
  from platform_tx.in_tx_quiet [where body = "exec id (select_pending batch)" and s = s and conv = id,
      OF assms(1) this] show ?thesis by simp
qed

lemma reconcile_once_quiet:
  assumes "net s = []" "cp_wf (committed s)" "\<And>i. meanwhile env i = id" "0 \<le> batch"
    and "res = provision_all prov (pending_batch batch (committed s)) p"
  shows "\<exists>p' s'. reconcile_once prov env batch (p, s) = (Inr (successes res), p', s')
       \<and> accounts (committed s') = map (settle env (role s) res) (accounts (committed s))"
  using reconcile_rows_quiet [of s env "pending_batch batch (committed s)" prov 0 p]
    assms pending_batch_distinct pending_batch_known
  by (simp add: reconcile_once_def select_pending_quiet pending_batch_def)

end
