(* ===== verification/ConfigCompiler.thy ===== *)
theory ConfigCompiler
  imports AdminInvariants
begin

text \<open>
  \<open>crates/config-compiler/src/render.rs\<close> and \<open>crates/config-schema\<close>: the desired state of the
  control plane (active tenants and their active domains with the effective thresholds) compiled to
  Rspamd settings. Arguments for code of others: \<open>ck\<close>, the sort key of the database's collation;
  \<open>js\<close>, the \<open>jsonschema\<close> crate; \<open>fmt\<close>, the \<open>Display\<close> text of an \<open>f64\<close>.
\<close>

section \<open>Desired state\<close>

definition REJECT :: f64 where "REJECT = Finite 15"
definition ADD_HEADER :: f64 where "ADD_HEADER = Finite 6"
definition GREYLIST :: f64 where "GREYLIST = Finite 4"

datatype CompileError = CompileDb sqlx_error | CompileSchema string | CompileIo string string

record TenantPolicy =
  tp_slug :: string
  tp_settings_id :: string
  tp_domains :: "string list"
  tp_reject :: f64
  tp_add_header :: f64
  tp_greylist :: f64

type_synonym thresholds = "f64 \<times> f64 \<times> f64"
type_synonym desired_row = "string \<times> string \<times> thresholds"

text \<open>\<open>LEFT JOIN\<close>: the matching rows, or one row of nulls.\<close>

definition left_join :: "('r \<Rightarrow> bool) \<Rightarrow> 'r list \<Rightarrow> 'r option list" where
  "left_join p rows = (case filter p rows of [] \<Rightarrow> [None] | rs \<Rightarrow> map Some rs)"

definition coalesced :: "AbusePolicy option \<Rightarrow> thresholds" where
  "coalesced ap = (case ap of None \<Rightarrow> (REJECT, ADD_HEADER, GREYLIST)
     | Some p \<Rightarrow> (pol_reject p, pol_add_header p, pol_greylist p))"

definition desired_rows :: "scope \<Rightarrow> control_plane \<Rightarrow> desired_row list" where
  "desired_rows sc d =
     concat (map (\<lambda>t.
       concat (map (\<lambda>x.
         map (\<lambda>ap. (ten_slug t, dom_fqdn x, coalesced ap))
           (left_join (\<lambda>p. pol_tenant_id p = ten_id t)
              (select_rows abuse_policy_policy sc (\<lambda>_. True) (abuse_policies d))))
         (select_rows domains_policy sc (\<lambda>x. dom_tenant_id x = ten_id t \<and> dom_status x = ''active'') (domains d))))
       (select_rows tenants_using sc (\<lambda>t. ten_status t = ''active'') (tenants d)))"

text \<open>\<open>... ORDER BY t.slug, d.fqdn\<close>.\<close>

definition select_desired :: "(string \<Rightarrow> string) \<Rightarrow> (control_plane, desired_row list) stmt" where
  "select_desired ck sc d = Inr (sort_key (\<lambda>(slug, fqdn, _). (ck slug, ck fqdn)) (desired_rows sc d), d)"

text \<open>
  \<open>BTreeMap<String, (Vec<String>, f64, f64, f64)>\<close> as its association list in key order (bytes);
  \<open>entry_push\<close> is \<open>entry(slug).or_insert_with(..)\<close> followed by the push of the domain.
\<close>

type_synonym grouped = "(string \<times> string list \<times> thresholds) list"

fun entry_push :: "string \<Rightarrow> string \<Rightarrow> thresholds \<Rightarrow> grouped \<Rightarrow> grouped" where
  "entry_push slug fqdn th [] = [(slug, [fqdn], th)]"
| "entry_push slug fqdn th ((k, ds, th0) # rest) =
     (if k = slug then (k, ds @ [fqdn], th0) # rest
      else if slug < k then (slug, [fqdn], th) # (k, ds, th0) # rest
      else (k, ds, th0) # entry_push slug fqdn th rest)"

definition group_rows :: "desired_row list \<Rightarrow> grouped" where
  "group_rows rows = foldl (\<lambda>m (slug, fqdn, th). entry_push slug fqdn th m) [] rows"

definition settings_id :: "string \<Rightarrow> string" where
  "settings_id slug = ''tenant_'' @ replace_char (CHR ''-'') ''_'' slug"

definition tenant_policy_of :: "string \<times> string list \<times> thresholds \<Rightarrow> TenantPolicy" where
  "tenant_policy_of e = (case e of (slug, ds, rej, add, grey) \<Rightarrow>
     \<lparr>tp_slug = slug, tp_settings_id = settings_id slug, tp_domains = ds,
      tp_reject = rej, tp_add_header = add, tp_greylist = grey\<rparr>)"

definition load_policies :: "(string \<Rightarrow> string) \<Rightarrow> time \<Rightarrow> (control_plane session, sqlx_error, TenantPolicy list) comp" where
  "load_policies ck now =
     tryb (in_tx (platform_tx now) id (exec id (select_desired ck))) (\<lambda>rows.
     ok (map tenant_policy_of (group_rows rows)))"

section \<open>The document and its schema\<close>

definition tenant_doc :: "TenantPolicy \<Rightarrow> json" where
  "tenant_doc p = JObj
     [(''slug'', JStr (tp_slug p)),
      (''settings_id'', JStr (tp_settings_id p)),
      (''domains'', JArr (map JStr (tp_domains p))),
      (''actions'', JObj [(''reject'', json_f64 (tp_reject p)),
         (''add_header'', json_f64 (tp_add_header p)), (''greylist'', json_f64 (tp_greylist p))])]"

definition render_doc :: "TenantPolicy list \<Rightarrow> json" where
  "render_doc policies = JObj [(''version'', JInt 1), (''tenants'', JArr (map tenant_doc policies))]"

definition settings_pattern :: string where
  "settings_pattern = ''^tenant_[a-z0-9_]+$''"

definition tenant_schema :: json where
  "tenant_schema = JObj
     [(''type'', JStr ''object''),
      (''required'', JArr [JStr ''slug'', JStr ''settings_id'', JStr ''domains'', JStr ''actions'']),
      (''properties'', JObj
        [(''slug'', JObj [(''type'', JStr ''string''), (''minLength'', JInt 1)]),
         (''settings_id'', JObj [(''type'', JStr ''string''), (''pattern'', JStr settings_pattern)]),
         (''domains'', JObj
            [(''type'', JStr ''array''), (''minItems'', JInt 1),
             (''items'', JObj [(''type'', JStr ''string''), (''minLength'', JInt 1)])]),
         (''actions'', JObj
            [(''type'', JStr ''object''),
             (''required'', JArr [JStr ''reject'', JStr ''add_header'', JStr ''greylist'']),
             (''properties'', JObj
               [(''reject'', JObj [(''type'', JStr ''number'')]),
                (''add_header'', JObj [(''type'', JStr ''number'')]),
                (''greylist'', JObj [(''type'', JStr ''number'')])])])])]"

definition settings_schema :: json where
  "settings_schema = JObj
     [(''type'', JStr ''object''),
      (''required'', JArr [JStr ''version'', JStr ''tenants'']),
      (''properties'', JObj
        [(''version'', JObj [(''type'', JStr ''integer''), (''minimum'', JInt 1)]),
         (''tenants'', JObj [(''type'', JStr ''array''), (''items'', tenant_schema)])])]"

text \<open>
  \<open>config_schema::validate\<close>. The crate compiles a schema to an error text or to a validator, which
  lists the violations (text and instance path) of a document.
\<close>

type_synonym jsonschema = "json \<Rightarrow> string + (json \<Rightarrow> (string \<times> string) list)"

definition validate_json :: "jsonschema \<Rightarrow> json \<Rightarrow> json \<Rightarrow> string + unit" where
  "validate_json js schema data =
     (case js schema of
        Inl e \<Rightarrow> Inl (''invalid schema: '' @ e)
      | Inr compiled \<Rightarrow>
          (case compiled data of
             [] \<Rightarrow> Inr ()
           | errors \<Rightarrow> Inl (join ''; '' (map (\<lambda>(e, path). e @ '' (at '' @ path @ '')'') errors))))"

definition validate_json_schema :: "jsonschema \<Rightarrow> json \<Rightarrow> json \<Rightarrow> string + unit" where
  "validate_json_schema js schema data = validate_json js schema data"

section \<open>The UCL text\<close>

definition nl :: string where "nl = [CHR 0x0A]"

definition dquote :: char where "dquote = CHR 0x22"

definition backslash :: char where "backslash = CHR 0x5C"

text \<open>The three comment lines; the dash is U+2014 in UTF-8.\<close>

definition ucl_header :: string where
  "ucl_header =
     ''# GENERATED by opengroupware config-compiler '' @ [CHR 0xE2, CHR 0x80, CHR 0x94] @ '' DO NOT EDIT.'' @ nl
   @ ''# Rspamd settings-module content for local.d/settings.conf.'' @ nl
   @ ''# Source: control-plane desired state (active tenants + domains).'' @ nl"

text \<open>The domain between \<open>"/@\<close> and \<open>$/"\<close>, its dots escaped.\<close>

definition rcpt_pattern :: "string \<Rightarrow> string" where
  "rcpt_pattern d =
     [dquote] @ ''/@'' @ replace_char (CHR ''.'') [backslash, CHR ''.''] d @ ''$/'' @ [dquote]"

definition ucl_block :: "(f64 \<Rightarrow> string) \<Rightarrow> TenantPolicy \<Rightarrow> string" where
  "ucl_block fmt p =
     tp_settings_id p @ '' {'' @ nl
   @ ''  priority = 10;'' @ nl
   @ ''  rcpt = ['' @ join '', '' (map rcpt_pattern (tp_domains p)) @ ''];'' @ nl
   @ ''  apply {'' @ nl
   @ ''    actions {'' @ nl
   @ ''      reject = '' @ fmt (tp_reject p) @ '';'' @ nl
   @ ''      add_header = '' @ fmt (tp_add_header p) @ '';'' @ nl
   @ ''      greylist = '' @ fmt (tp_greylist p) @ '';'' @ nl
   @ ''    }'' @ nl @ ''  }'' @ nl @ ''}'' @ nl"

definition render_ucl :: "(f64 \<Rightarrow> string) \<Rightarrow> TenantPolicy list \<Rightarrow> string" where
  "render_ucl fmt policies = foldl (\<lambda>s p. s @ ucl_block fmt p) ucl_header policies"

section \<open>Writing the file\<close>

text \<open>
  A file system: contents by path, and the directories known to exist. Every call takes its outcome
  from an oracle; a failed \<open>write_all\<close> has written a prefix. \<open>seen\<close> lists the contents after each
  call, oldest first: what a reader, or a restart after a crash, can find.
\<close>

datatype io_outcome = IoOk | IoErr nat string

record io_state =
  files :: "string \<Rightarrow> string option"
  dirs :: "string list"
  io_plan :: "io_outcome list"
  seen :: "(string \<Rightarrow> string option) list"

text \<open>\<open>sys effect partial\<close>: one call, its effect, and its effect when it fails after \<open>n\<close> bytes.\<close>

definition sys :: "(io_state \<Rightarrow> io_state) \<Rightarrow> (nat \<Rightarrow> io_state \<Rightarrow> io_state) \<Rightarrow> (io_state, string, unit) comp" where
  "sys effect partial st =
     (let (out, rest) = (case io_plan st of [] \<Rightarrow> (IoOk, []) | x # xs \<Rightarrow> (x, xs));
          st1 = (case out of IoOk \<Rightarrow> effect st | IoErr n _ \<Rightarrow> partial n st);
          st2 = st1\<lparr>io_plan := rest, seen := seen st1 @ [files st1]\<rparr>
      in case out of IoOk \<Rightarrow> (Inr (), st2) | IoErr _ e \<Rightarrow> (Inl e, st2))"

text \<open>\<open>Path::parent\<close>, for paths without \<open>.\<close> components.\<close>

definition path_parent :: "string \<Rightarrow> string option" where
  "path_parent p =
     (let q = trim_end_matches (CHR ''/'') p in
      if q = [] then None
      else (let r = rev (dropWhile (\<lambda>c. c \<noteq> CHR ''/'') (rev q)) in
            if r = [] then Some []
            else Some (let r' = trim_end_matches (CHR ''/'') r in if r' = [] then ''/'' else r')))"

definition create_dir_all :: "string \<Rightarrow> (io_state, string, unit) comp" where
  "create_dir_all p =
     (if p = [] then ok () else sys (\<lambda>st. st\<lparr>dirs := List.insert p (dirs st)\<rparr>) (\<lambda>n st. st))"

definition file_create :: "string \<Rightarrow> (io_state, string, unit) comp" where
  "file_create p = sys (\<lambda>st. st\<lparr>files := (files st)(p \<mapsto> [])\<rparr>) (\<lambda>n st. st)"

definition write_all :: "string \<Rightarrow> string \<Rightarrow> (io_state, string, unit) comp" where
  "write_all p contents =
     sys (\<lambda>st. st\<lparr>files := (files st)(p \<mapsto> contents)\<rparr>)
         (\<lambda>n st. st\<lparr>files := (files st)(p \<mapsto> take n contents)\<rparr>)"

definition flush :: "(io_state, string, unit) comp" where
  "flush = sys (\<lambda>st. st) (\<lambda>n st. st)"

definition rename :: "string \<Rightarrow> string \<Rightarrow> (io_state, string, unit) comp" where
  "rename from_path to_path =
     sys (\<lambda>st. st\<lparr>files := (files st)(from_path := None, to_path := files st from_path)\<rparr>) (\<lambda>n st. st)"

definition tmp_path :: "string \<Rightarrow> string" where
  "tmp_path path = path @ ''.tmp''"

definition write_atomic :: "string \<Rightarrow> string \<Rightarrow> (io_state, string, unit) comp" where
  "write_atomic path contents =
     tryb (case path_parent path of Some parent \<Rightarrow> create_dir_all parent | None \<Rightarrow> ok ()) (\<lambda>_.
     tryb (file_create (tmp_path path)) (\<lambda>_.
     tryb (write_all (tmp_path path) contents) (\<lambda>_.
     tryb flush (\<lambda>_.
     rename (tmp_path path) path))))"

section \<open>One compile cycle\<close>

definition compiled_entry :: "string \<Rightarrow> TenantPolicy list \<Rightarrow> AuditEntry" where
  "compiled_entry out_path policies =
     \<lparr>ae_tenant_id = None, ae_actor = ''config-compiler'', ae_action = ''config.compiled'',
      ae_entity_type = ''rspamd_settings'', ae_entity_id = out_path,
      ae_payload = JObj [(''tenants'', JInt (int (length policies))),
        (''domains'', JInt (int (sum_list (map (\<lambda>p. length (tp_domains p)) policies))))]\<rparr>"

record compiler_state =
  comp_db :: "control_plane session"
  comp_io :: io_state

text \<open>\<open>other\<close> is what other sessions commit between the read and the audit transaction.\<close>

definition compile_once :: "(string \<Rightarrow> string) \<Rightarrow> jsonschema \<Rightarrow> (f64 \<Rightarrow> string) \<Rightarrow> (control_plane \<Rightarrow> control_plane)
    \<Rightarrow> time \<Rightarrow> time \<Rightarrow> string \<Rightarrow> (compiler_state, CompileError, nat) comp" where
  "compile_once ck js fmt other now1 now2 out_path st =
     (case load_policies ck now1 (comp_db st) of
        (Inl e, s1) \<Rightarrow> (Inl (CompileDb e), st\<lparr>comp_db := s1\<rparr>)
      | (Inr policies, s1) \<Rightarrow>
          (case validate_json js settings_schema (render_doc policies) of
             Inl e \<Rightarrow> (Inl (CompileSchema e), st\<lparr>comp_db := s1\<rparr>)
           | Inr _ \<Rightarrow>
               (case write_atomic out_path (render_ucl fmt policies) (comp_io st) of
                  (Inl e, io) \<Rightarrow> (Inl (CompileIo out_path e), \<lparr>comp_db = s1, comp_io = io\<rparr>)
                | (Inr _, io) \<Rightarrow>
                    (case in_tx (platform_tx now2) id (record_audit audit_fk id (compiled_entry out_path policies))
                            (s1\<lparr>committed := other (committed s1)\<rparr>) of
                       (Inl e, s2) \<Rightarrow> (Inl (CompileDb e), \<lparr>comp_db = s2, comp_io = io\<rparr>)
                     | (Inr _, s2) \<Rightarrow> (Inr (length policies), \<lparr>comp_db = s2, comp_io = io\<rparr>)))))"

end
