(* ===== verification/DesiredState.thy ===== *)
theory DesiredState
  imports ConfigCompiler
begin

text \<open>
  What \<open>load_policies\<close> reads: the grouping by the ordered map, the join, and both together as the
  abstract desired state, one policy per active tenant with an active domain.
\<close>

section \<open>Settings identifiers\<close>

lemma replace_char_single: "replace_char c [r] s = map (\<lambda>x. if x = c then r else x) s"
  by (induction s) auto

lemma slug_char_no_underscore [simp]: "\<not> slug_char (CHR ''_'')"
  by (simp add: slug_char_def ascii_lower_def ascii_digit_def)

lemma settings_id_inj:
  assumes "slug_check a" "slug_check b" "settings_id a = settings_id b"
  shows "a = b"
proof -
  let ?f = "\<lambda>x. if x = CHR ''-'' then CHR ''_'' else x"
  have "CHR ''_'' \<notin> set a" "CHR ''_'' \<notin> set b"
    using slug_check_chars assms(1,2) slug_char_no_underscore by blast+
  then have inj: "inj_on ?f (set a \<union> set b)"
    by (auto simp: inj_on_def)
  have eq: "map ?f a = map ?f b"
    using assms(3) by (simp add: settings_id_def replace_char_single)
  show ?thesis
    by (rule map_inj_on [OF eq]) (use inj in simp)
qed

definition id_char :: "char \<Rightarrow> bool" where
  "id_char c \<longleftrightarrow> ascii_lower c \<or> ascii_digit c \<or> c = CHR ''_''"

lemma settings_id_chars:
  assumes "slug_check a"
  shows "\<exists>r. settings_id a = ''tenant_'' @ r \<and> r \<noteq> [] \<and> list_all id_char r"
proof -
  have "list_all id_char (replace_char (CHR ''-'') ''_'' a)"
    using slug_check_chars [OF assms]
    by (auto simp: replace_char_single list_all_iff slug_char_def id_char_def)
  moreover have "a \<noteq> []" using assms by (auto simp: slug_check_def)
  ultimately show ?thesis by (simp add: settings_id_def replace_char_single)
qed

section \<open>Grouping\<close>

definition strictly_sorted :: "grouped \<Rightarrow> bool" where
  "strictly_sorted m = sorted_wrt (<) (map fst m)"

lemma entry_push_keys: "fst ` set (entry_push slug fqdn th m) = insert slug (fst ` set m)"
  by (induction slug fqdn th m rule: entry_push.induct) auto

lemma entry_push_sorted: "strictly_sorted m \<Longrightarrow> strictly_sorted (entry_push slug fqdn th m)"
proof (induction slug fqdn th m rule: entry_push.induct)
  case (1 slug fqdn th)
  then show ?case by (simp add: strictly_sorted_def)
next
  case (2 slug fqdn th k ds th0 rest)
  show ?case
  proof (cases "k = slug \<or> slug < k")
    case True
    with 2 show ?thesis
      by (auto simp: strictly_sorted_def intro: less_trans)
  next
    case False
    then have "k < slug" by auto
    with 2 False entry_push_keys [of slug fqdn th rest] show ?thesis
      by (auto simp: strictly_sorted_def image_iff)
  qed
qed

lemma map_of_entry_push:
  assumes "strictly_sorted m"
  shows "map_of (entry_push slug fqdn th m) =
     (map_of m)(slug \<mapsto> (case map_of m slug of None \<Rightarrow> ([fqdn], th) | Some (ds, th0) \<Rightarrow> (ds @ [fqdn], th0)))"
  using assms
proof (induction slug fqdn th m rule: entry_push.induct)
  case (1 slug fqdn th)
  then show ?case by simp
next
  case (2 slug fqdn th k ds th0 rest)
  have rest: "strictly_sorted rest" "\<forall>x \<in> fst ` set rest. k < x"
    using 2(2) by (auto simp: strictly_sorted_def)
  show ?case
  proof (cases "slug < k")
    case True
    with rest have "slug \<notin> fst ` set rest" by auto
    then have "map_of rest slug = None" by (simp add: map_of_eq_None_iff)
    with True show ?thesis by (auto simp: fun_eq_iff)
  next
    case False
    with 2 rest show ?thesis by (auto simp: fun_eq_iff)
  qed
qed

lemma group_rows_snoc: "group_rows (rows @ [(slug, fqdn, th)]) = entry_push slug fqdn th (group_rows rows)"
  by (simp add: group_rows_def)

lemma group_rows_sorted: "strictly_sorted (group_rows rows)"
proof (induction rows rule: rev_induct)
  case Nil
  then show ?case by (simp add: group_rows_def strictly_sorted_def)
next
  case (snoc r rows)
  then show ?case by (cases r) (simp add: group_rows_snoc entry_push_sorted)
qed

text \<open>The domains of a slug in the order of the rows, the thresholds of its first row.\<close>

lemma map_of_group_rows:
  "map_of (group_rows rows) slug =
     (case filter (\<lambda>r. fst r = slug) rows of
        [] \<Rightarrow> None
      | r # rs \<Rightarrow> Some (map (\<lambda>r. fst (snd r)) (r # rs), snd (snd r)))"
proof (induction rows rule: rev_induct)
  case Nil
  then show ?case by (simp add: group_rows_def)
next
  case (snoc x rows)
  obtain s f th where x: "x = (s, f, th)" by (cases x)
  show ?case
    using snoc by (cases "filter (\<lambda>r. fst r = slug) rows")
      (auto simp: x group_rows_snoc map_of_entry_push [OF group_rows_sorted])
qed

lemma strictly_sorted_distinct: "strictly_sorted m \<Longrightarrow> distinct (map fst m)"
  by (simp add: strictly_sorted_def strict_sorted_iff)

lemma group_rows_set:
  "(slug, e) \<in> set (group_rows rows) \<longleftrightarrow> map_of (group_rows rows) slug = Some e"
  using strictly_sorted_distinct [OF group_rows_sorted] by simp

section \<open>Sorting\<close>

lemma insort_key_map: "map g (insort_key (\<lambda>x. f (g x)) x xs) = insort_key f (g x) (map g xs)"
  by (induction xs) auto

lemma sort_key_map: "map g (sort_key (\<lambda>x. f (g x)) xs) = sort_key f (map g xs)"
  by (induction xs) (simp_all add: insort_key_map)

lemma insort_key_pair:
  "\<forall>y \<in> set (x # xs). k y = (c, f y) \<Longrightarrow> insort_key k x xs = insort_key f x xs"
  by (induction xs) auto

lemma sort_key_pair: "\<forall>y \<in> set xs. k y = (c, f y) \<Longrightarrow> sort_key k xs = sort_key f xs"
proof (induction xs)
  case Nil
  then show ?case by simp
next
  case (Cons x xs)
  then have "\<forall>y \<in> set (x # sort_key f xs). k y = (c, f y)" by simp
  from insort_key_pair [OF this] Cons show ?case by simp
qed

section \<open>The join\<close>

definition active_domains :: "control_plane \<Rightarrow> uuid \<Rightarrow> Domain list" where
  "active_domains d t = filter (\<lambda>x. dom_tenant_id x = t \<and> dom_status x = ''active'') (domains d)"

definition effective :: "control_plane \<Rightarrow> uuid \<Rightarrow> thresholds" where
  "effective d t = coalesced (fetch_optional (filter (\<lambda>p. pol_tenant_id p = t) (abuse_policies d)))"

lemma filter_one:
  assumes "distinct (map key ts)" "t \<in> set ts" "P t"
  shows "filter (\<lambda>x. key x = key t) (filter P ts) = [t]"
  using assms
proof (induction ts)
  case Nil
  then show ?case by simp
next
  case (Cons x xs)
  show ?case
  proof (cases "x = t")
    case True
    with Cons.prems(1) have "\<forall>y \<in> set xs. key y \<noteq> key t" by (auto simp: image_iff)
    with True Cons.prems show ?thesis by (auto simp: filter_empty_conv)
  next
    case False
    with Cons.prems have "key x \<noteq> key t" by auto
    with False Cons show ?thesis by simp
  qed
qed

lemma left_join_unique:
  assumes "distinct (map key rows)"
  shows "left_join (\<lambda>r. key r = k) rows = [fetch_optional (filter (\<lambda>r. key r = k) rows)]"
proof (cases "filter (\<lambda>r. key r = k) rows")
  case Nil
  then show ?thesis by (simp add: left_join_def)
next
  case (Cons r rs)
  then have "r \<in> set (filter (\<lambda>r. key r = k) rows)" by simp
  then have "r \<in> set rows" "key r = k" by simp_all
  with filter_one [OF assms, of r "\<lambda>_. True"] Cons have "rs = []" by simp
  with Cons show ?thesis by (simp add: left_join_def)
qed

lemma desired_rows_eq:
  assumes "cp_wf d"
  shows "desired_rows (platform_scope now ro) d =
     concat (map (\<lambda>t. map (\<lambda>x. (ten_slug t, dom_fqdn x, effective d (ten_id t))) (active_domains d (ten_id t)))
       (filter (\<lambda>t. ten_status t = ''active'') (tenants d)))"
proof -
  have lj: "left_join (\<lambda>p. pol_tenant_id p = t) (abuse_policies d)
      = [fetch_optional (filter (\<lambda>p. pol_tenant_id p = t) (abuse_policies d))]" for t
    using assms by (intro left_join_unique) (simp add: cp_wf_def policies_wf_def)
  have "concat (map (\<lambda>x. [f x]) xs) = map f xs" for f :: "Domain \<Rightarrow> desired_row" and xs
    by (induction xs) auto
  then show ?thesis
    by (simp add: desired_rows_def select_rows_def lj effective_def active_domains_def)
qed

lemma filter_concat_key:
  assumes "distinct (map key ts)"
  shows "filter (\<lambda>r. fst r = k) (concat (map (\<lambda>t. map (\<lambda>x. (key t, g t x)) (h t)) ts)) =
     (case filter (\<lambda>t. key t = k) ts of [] \<Rightarrow> [] | t # _ \<Rightarrow> map (\<lambda>x. (key t, g t x)) (h t))"
  using assms
proof (induction ts)
  case Nil
  then show ?case by simp
next
  case (Cons t ts)
  show ?case
  proof (cases "key t = k")
    case True
    with Cons.prems have "filter (\<lambda>t. key t = k) ts = []"
      by (auto simp: filter_empty_conv image_iff)
    with True Cons show ?thesis by (simp add: o_def)
  next
    case False
    with Cons show ?thesis by (simp add: o_def)
  qed
qed

section \<open>The abstract desired state\<close>

definition desired_policy :: "(string \<Rightarrow> string) \<Rightarrow> control_plane \<Rightarrow> tenant_row \<Rightarrow> TenantPolicy" where
  "desired_policy ck d t =
     tenant_policy_of (ten_slug t, sort_key ck (map dom_fqdn (active_domains d (ten_id t))), effective d (ten_id t))"

definition served :: "control_plane \<Rightarrow> tenant_row \<Rightarrow> bool" where
  "served d t \<longleftrightarrow> ten_status t = ''active'' \<and> active_domains d (ten_id t) \<noteq> []"

text \<open>One policy per served tenant, in the order of the slugs.\<close>

definition desired_state :: "(string \<Rightarrow> string) \<Rightarrow> control_plane \<Rightarrow> TenantPolicy list" where
  "desired_state ck d = map (desired_policy ck d) (sort_key ten_slug (filter (served d) (tenants d)))"

text \<open>The rows of one slug, in the order of the collation, and the domains they name.\<close>

lemma rows_of_slug:
  assumes "cp_wf d" "rows = sort_key (\<lambda>(slug, fqdn, _). (ck slug, ck fqdn)) (desired_rows (platform_scope now ro) d)"
  shows "filter (\<lambda>r. fst r = slug) rows = sort_key (\<lambda>(slug, fqdn, _). (ck slug, ck fqdn))
      (case filter (\<lambda>t. ten_slug t = slug) (filter (\<lambda>t. ten_status t = ''active'') (tenants d)) of [] \<Rightarrow> []
       | t # _ \<Rightarrow> map (\<lambda>x. (ten_slug t, dom_fqdn x, effective d (ten_id t))) (active_domains d (ten_id t)))"
proof -
  have "distinct (map ten_slug (filter (\<lambda>t. ten_status t = ''active'') (tenants d)))"
    using assms(1) by (intro distinct_map_filter) (simp add: cp_wf_def tenants_wf_def)
  from filter_concat_key [OF this, of slug "\<lambda>t x. (dom_fqdn x, effective d (ten_id t))" "\<lambda>t. active_domains d (ten_id t)"]
  show ?thesis
    unfolding assms(2) filter_sort desired_rows_eq [OF assms(1)] by simp
qed

lemma domains_in_order:
  "map (\<lambda>r. fst (snd r)) (sort_key (\<lambda>(slug, fqdn, _). (ck slug, ck fqdn)) (map (\<lambda>x. (n, dom_fqdn x, th)) xs))
     = sort_key ck (map dom_fqdn xs)"
proof -
  have "sort_key (\<lambda>(slug, fqdn, _). (ck slug, ck fqdn)) (map (\<lambda>x. (n, dom_fqdn x, th)) xs)
      = sort_key (\<lambda>r. ck (fst (snd r))) (map (\<lambda>x. (n, dom_fqdn x, th)) xs)"
    by (rule sort_key_pair [where c = "ck n"]) auto
  then show ?thesis
    using sort_key_map [of "\<lambda>r. fst (snd r)" ck "map (\<lambda>x. (n, dom_fqdn x, th)) xs"] by (simp add: o_def)
qed

lemma map_of_desired:
  assumes "cp_wf d" "rows = sort_key (\<lambda>(slug, fqdn, _). (ck slug, ck fqdn)) (desired_rows (platform_scope now ro) d)"
  shows "map_of (group_rows rows) slug = Some e \<longleftrightarrow>
     (\<exists>t \<in> set (tenants d). served d t \<and> ten_slug t = slug
        \<and> e = (sort_key ck (map dom_fqdn (active_domains d (ten_id t))), effective d (ten_id t)))"
proof -
  let ?ts = "filter (\<lambda>t. ten_status t = ''active'') (tenants d)"
  have slugs: "distinct (map ten_slug (tenants d))"
    using assms(1) by (simp add: cp_wf_def tenants_wf_def)
  note rows = rows_of_slug [OF assms, of slug]
  show ?thesis
  proof (cases "filter (\<lambda>t. ten_slug t = slug) ?ts")
    case Nil
    then have "map_of (group_rows rows) slug = None"
      using rows by (simp add: map_of_group_rows)
    with Nil show ?thesis by (auto simp: filter_empty_conv served_def)
  next
    case (Cons t0 rest)
    then have t0: "t0 \<in> set (tenants d)" "ten_status t0 = ''active''" "ten_slug t0 = slug"
      by (auto dest!: filter_eq_ConsD)
    have uniq: "t = t0" if "t \<in> set (tenants d)" "ten_slug t = slug" for t
      using distinct_key [OF slugs that(1) t0(1)] that(2) t0(3) by simp
    let ?doms = "active_domains d (ten_id t0)"
    have all: "filter (\<lambda>r. fst r = slug) rows = sort_key (\<lambda>(slug, fqdn, _). (ck slug, ck fqdn))
        (map (\<lambda>x. (ten_slug t0, dom_fqdn x, effective d (ten_id t0))) ?doms)"
      using rows Cons by simp
    show ?thesis
    proof (cases "?doms = []")
      case True
      then have "map_of (group_rows rows) slug = None"
        using all by (simp add: map_of_group_rows)
      with True uniq show ?thesis by (auto simp: served_def)
    next
      case False
      have "length (filter (\<lambda>r. fst r = slug) rows) = length ?doms"
        unfolding all by simp
      with False obtain r rs where r: "filter (\<lambda>r. fst r = slug) rows = r # rs"
        by (cases "filter (\<lambda>r. fst r = slug) rows") auto
      have "map (\<lambda>r. fst (snd r)) (r # rs) = sort_key ck (map dom_fqdn ?doms)"
        unfolding r [symmetric] all by (rule domains_in_order)
      moreover have "r \<in> set (filter (\<lambda>r. fst r = slug) rows)" by (simp add: r)
      then have "snd (snd r) = effective d (ten_id t0)" unfolding all by auto
      ultimately have e: "map_of (group_rows rows) slug
          = Some (sort_key ck (map dom_fqdn ?doms), effective d (ten_id t0))"
        by (simp only: map_of_group_rows r list.case)
      have "served d t0" using False t0 by (simp add: served_def)
      with e t0(1,3) uniq show ?thesis by (metis option.inject)
    qed
  qed
qed

lemma group_rows_desired:
  assumes "cp_wf d" "rows = sort_key (\<lambda>(slug, fqdn, _). (ck slug, ck fqdn)) (desired_rows (platform_scope now ro) d)"
  shows "map tenant_policy_of (group_rows rows) = desired_state ck d"
proof -
  let ?entry = "\<lambda>t. (ten_slug t, sort_key ck (map dom_fqdn (active_domains d (ten_id t))), effective d (ten_id t))"
  let ?ts = "sort_key ten_slug (filter (served d) (tenants d))"
  have slugs: "distinct (map ten_slug ?ts)"
    using assms(1) by (simp add: cp_wf_def tenants_wf_def distinct_map)
      (auto simp: inj_on_def intro: distinct_filter)
  have "group_rows rows = map ?entry ?ts"
  proof (rule map_sorted_distinct_set_unique [where f = fst])
    have mem: "(slug, e) \<in> set (group_rows rows) \<longleftrightarrow> (slug, e) \<in> set (map ?entry ?ts)" for slug e
      unfolding group_rows_set map_of_desired [OF assms] by auto
    show set: "set (group_rows rows) = set (map ?entry ?ts)"
    proof (rule set_eqI)
      fix x :: "string \<times> string list \<times> thresholds"
      obtain slug e where x: "x = (slug, e)" by (cases x)
      show "x \<in> set (group_rows rows) \<longleftrightarrow> x \<in> set (map ?entry ?ts)"
        unfolding x by (rule mem)
    qed
    show "distinct (map fst (group_rows rows))"
      by (rule strictly_sorted_distinct [OF group_rows_sorted])
    then show "inj_on fst (set (group_rows rows) \<union> set (map ?entry ?ts))"
      unfolding set [symmetric] by (simp add: distinct_map)
    show "sorted (map fst (group_rows rows))"
      using group_rows_sorted [of rows] by (simp add: strictly_sorted_def strict_sorted_iff)
    have eq: "map fst (map ?entry ?ts) = map ten_slug ?ts" by simp
    show "sorted (map fst (map ?entry ?ts))" unfolding eq by (rule sorted_sort_key)
    show "distinct (map fst (map ?entry ?ts))" unfolding eq by (rule slugs)
  qed
  then show ?thesis
    by (simp add: desired_state_def desired_policy_def o_def)
qed

lemma load_policies_cases:
  assumes "load_policies ck now s = (r, s')" "cp_wf (committed s)"
  shows "committed s' = committed s \<and> role s' = role s \<and> (\<forall>ps. r = Inr ps \<longrightarrow> ps = desired_state ck (committed s))"
proof -
  obtain r1 s1 where tx: "in_tx (platform_tx now) id (exec id (select_desired ck)) s = (r1, s1)"
    by fastforce
  have "committed s1 = committed s \<and> role s1 = role s \<and> (\<forall>rows. r1 = Inr rows \<longrightarrow>
      rows = sort_key (\<lambda>(slug, fqdn, _). (ck slug, ck fqdn)) (desired_rows (platform_scope now (role s)) (committed s)))"
    using tx by (rule platform_tx.in_tx_cases) (auto simp: select_desired_def elim!: exec_Inr)
  then show ?thesis
    using assms tx group_rows_desired [OF assms(2), of _ ck now "role s"]
    by (auto simp: load_policies_def tryb_def split: sum.splits)
qed

text \<open>What every desired policy of a well-formed control plane satisfies.\<close>

lemma served_wf:
  assumes "cp_wf d" "p \<in> set (desired_state ck d)"
  obtains t where "t \<in> set (tenants d)" "served d t" "p = desired_policy ck d t"
    "slug_check (tp_slug p)" "tp_settings_id p = settings_id (tp_slug p)" "tp_domains p \<noteq> []"
    "\<forall>f \<in> set (tp_domains p). fqdn_check f"
    "policy_check (tp_reject p) (tp_add_header p) (tp_greylist p)
     \<and> is_finite (tp_reject p) \<and> is_finite (tp_add_header p) \<and> is_finite (tp_greylist p)"
proof -
  from assms(2) obtain t where t: "t \<in> set (tenants d)" "served d t" "p = desired_policy ck d t"
    by (auto simp: desired_state_def)
  have doms: "tp_domains p = sort_key ck (map dom_fqdn (active_domains d (ten_id t)))"
    and slug: "tp_slug p = ten_slug t" "tp_settings_id p = settings_id (ten_slug t)"
    and th: "(tp_reject p, tp_add_header p, tp_greylist p) = effective d (ten_id t)"
    by (simp_all add: t(3) desired_policy_def tenant_policy_of_def split: prod.splits)
  have "slug_check (tp_slug p)"
    using assms(1) t(1) slug by (simp add: cp_wf_def tenants_wf_def)
  moreover have "tp_domains p \<noteq> []"
  proof -
    have "length (tp_domains p) = length (active_domains d (ten_id t))" by (simp add: doms)
    with t(2) show ?thesis by (auto simp: served_def)
  qed
  moreover have "\<forall>f \<in> set (tp_domains p). fqdn_check f"
    using assms(1) by (auto simp: doms active_domains_def cp_wf_def domains_wf_def)
  moreover have "policy_check (tp_reject p) (tp_add_header p) (tp_greylist p)
     \<and> is_finite (tp_reject p) \<and> is_finite (tp_add_header p) \<and> is_finite (tp_greylist p)"
  proof (cases "fetch_optional (filter (\<lambda>p. pol_tenant_id p = ten_id t) (abuse_policies d))")
    case None
    then show ?thesis
      using th by (simp add: effective_def coalesced_def REJECT_def ADD_HEADER_def GREYLIST_def policy_check_def)
  next
    case (Some q)
    then have "q \<in> set (abuse_policies d)" by (auto dest: fetch_optional_Some)
    with Some assms(1) show ?thesis
      using th by (simp add: effective_def coalesced_def cp_wf_def policies_wf_def)
  qed
  ultimately show ?thesis using that t slug by simp
qed

end
