(* ===== verification/SettingsDocument.thy ===== *)
theory SettingsDocument
  imports DesiredState
begin

text \<open>
  The rendered document against its schema, under a reference semantics of the JSON Schema keywords
  the schema uses; the UCL text loses nothing and nothing in it escapes its place; the file write
  is atomic at every step.
\<close>

section \<open>The keywords of JSON Schema\<close>

text \<open>
  \<open>rx\<close> is the regular expression matcher. Keywords not listed here, and forms of them the schema does
  not use, accept everything. A number without fraction is an integer too.
\<close>

definition js_type :: "string \<Rightarrow> json \<Rightarrow> bool" where
  "js_type t x = (case x of
     JNull \<Rightarrow> t = ''null''
   | JBool _ \<Rightarrow> t = ''boolean''
   | JInt _ \<Rightarrow> t = ''integer'' \<or> t = ''number''
   | JNum r \<Rightarrow> t = ''number'' \<or> (t = ''integer'' \<and> r = of_int \<lfloor>r\<rfloor>)
   | JStr _ \<Rightarrow> t = ''string''
   | JArr _ \<Rightarrow> t = ''array''
   | JObj _ \<Rightarrow> t = ''object'')"

definition js_simple :: "(string \<Rightarrow> string \<Rightarrow> bool) \<Rightarrow> string \<Rightarrow> json \<Rightarrow> json \<Rightarrow> bool" where
  "js_simple rx k v x =
     (case v of
        JStr s \<Rightarrow>
          if k = ''type'' then js_type s x
          else if k = ''pattern'' then (case x of JStr y \<Rightarrow> rx s y | _ \<Rightarrow> True)
          else True
      | JInt n \<Rightarrow>
          if k = ''minimum'' then (case x of JInt m \<Rightarrow> n \<le> m | JNum r \<Rightarrow> of_int n \<le> r | _ \<Rightarrow> True)
          else if k = ''minLength'' then (case x of JStr y \<Rightarrow> n \<le> int (length y) | _ \<Rightarrow> True)
          else if k = ''minItems'' then (case x of JArr ys \<Rightarrow> n \<le> int (length ys) | _ \<Rightarrow> True)
          else True
      | JArr names \<Rightarrow>
          if k = ''required''
          then (case x of JObj fs \<Rightarrow> list_all (\<lambda>v. case v of JStr name \<Rightarrow> map_of fs name \<noteq> None | _ \<Rightarrow> True) names
                | _ \<Rightarrow> True)
          else True
      | _ \<Rightarrow> True)"

fun js_ok :: "(string \<Rightarrow> string \<Rightarrow> bool) \<Rightarrow> json \<Rightarrow> json \<Rightarrow> bool"
  and js_kws :: "(string \<Rightarrow> string \<Rightarrow> bool) \<Rightarrow> (string \<times> json) list \<Rightarrow> json \<Rightarrow> bool"
  and js_props :: "(string \<Rightarrow> string \<Rightarrow> bool) \<Rightarrow> (string \<times> json) list \<Rightarrow> json \<Rightarrow> bool" where
  "js_ok rx (JObj kws) x = js_kws rx kws x"
| "js_ok rx (JBool b) x = b"
| "js_ok rx _ x = True"
| "js_kws rx [] x = True"
| "js_kws rx ((k, v) # kws) x =
     ((if k = ''properties'' then (case v of JObj props \<Rightarrow> js_props rx props x | _ \<Rightarrow> True)
       else if k = ''items'' then (case x of JArr ys \<Rightarrow> list_all (js_ok rx v) ys | _ \<Rightarrow> True)
       else js_simple rx k v x)
      \<and> js_kws rx kws x)"
| "js_props rx [] x = True"
| "js_props rx ((name, v) # props) x =
     ((case x of JObj fs \<Rightarrow> (case map_of fs name of None \<Rightarrow> True | Some y \<Rightarrow> js_ok rx v y) | _ \<Rightarrow> True)
      \<and> js_props rx props x)"

text \<open>The pattern of the schema, as a regular expression matcher reads it.\<close>

definition settings_id_ok :: "string \<Rightarrow> bool" where
  "settings_id_ok s = (case strip_prefix ''tenant_'' s of None \<Rightarrow> False | Some r \<Rightarrow> r \<noteq> [] \<and> list_all id_char r)"

text \<open>
  The documented behaviour of the crate on the one schema the compiler uses: it compiles, and a
  document has no violation exactly when the keywords accept it.
\<close>

definition rx_ok :: "(string \<Rightarrow> string \<Rightarrow> bool) \<Rightarrow> bool" where
  "rx_ok rx \<longleftrightarrow> (\<forall>s. rx settings_pattern s = settings_id_ok s)"

definition standard_jsonschema :: "(string \<Rightarrow> string \<Rightarrow> bool) \<Rightarrow> jsonschema \<Rightarrow> bool" where
  "standard_jsonschema rx js \<longleftrightarrow>
     rx_ok rx \<and> (\<exists>v. js settings_schema = Inr v \<and> (\<forall>x. v x = [] \<longleftrightarrow> js_ok rx settings_schema x))"

definition reference_rx :: "string \<Rightarrow> string \<Rightarrow> bool" where
  "reference_rx pat s = (pat = settings_pattern \<longrightarrow> settings_id_ok s)"

definition reference_jsonschema :: jsonschema where
  "reference_jsonschema schema = Inr (\<lambda>x. if js_ok reference_rx schema x then [] else [(''invalid'', '''')])"

lemma reference_standard: "standard_jsonschema reference_rx reference_jsonschema"
  by (auto simp: standard_jsonschema_def rx_ok_def reference_rx_def reference_jsonschema_def)

section \<open>The document satisfies the schema\<close>

definition policy_renderable :: "TenantPolicy \<Rightarrow> bool" where
  "policy_renderable p \<longleftrightarrow> tp_slug p \<noteq> [] \<and> settings_id_ok (tp_settings_id p)
     \<and> tp_domains p \<noteq> [] \<and> list_all (\<lambda>f. f \<noteq> []) (tp_domains p)
     \<and> is_finite (tp_reject p) \<and> is_finite (tp_add_header p) \<and> is_finite (tp_greylist p)"

lemma json_f64_finite: "is_finite x \<Longrightarrow> \<exists>r. json_f64 x = JNum r"
  by (cases x) auto

lemma tenant_doc_ok:
  assumes "policy_renderable p" "rx_ok rx"
  shows "js_ok rx tenant_schema (tenant_doc p)"
proof -
  obtain r a g where "json_f64 (tp_reject p) = JNum r" "json_f64 (tp_add_header p) = JNum a"
      "json_f64 (tp_greylist p) = JNum g"
    using assms(1) json_f64_finite by (metis policy_renderable_def)
  moreover have "1 \<le> int (length (tp_slug p))" "1 \<le> int (length (tp_domains p))"
    using assms(1) by (auto simp: policy_renderable_def Suc_le_eq)
  moreover have "list_all (\<lambda>f. 1 \<le> int (length f)) (tp_domains p)"
    using assms(1) by (auto simp: policy_renderable_def list_all_iff Suc_le_eq)
  ultimately show ?thesis
    using assms by (simp add: tenant_schema_def tenant_doc_def js_simple_def js_type_def
        policy_renderable_def rx_ok_def list_all_iff)
qed

lemma render_doc_ok:
  assumes "list_all policy_renderable ps" "rx_ok rx"
  shows "js_ok rx settings_schema (render_doc ps)"
  using assms tenant_doc_ok [OF _ assms(2)]
  by (auto simp: settings_schema_def render_doc_def js_simple_def js_type_def list_all_iff)

lemma validate_standard:
  assumes "standard_jsonschema rx js"
  shows "validate_json js settings_schema x = Inr () \<longleftrightarrow> js_ok rx settings_schema x"
proof -
  obtain v where "js settings_schema = Inr v" "v x = [] \<longleftrightarrow> js_ok rx settings_schema x"
    using assms by (auto simp: standard_jsonschema_def)
  then show ?thesis by (cases "v x") (simp_all add: validate_json_def)
qed

lemma settings_id_ok_slug: "slug_check s \<Longrightarrow> settings_id_ok (settings_id s)"
  using settings_id_chars [of s] by (auto simp: settings_id_ok_def)

lemma desired_renderable:
  assumes "cp_wf d"
  shows "list_all policy_renderable (desired_state ck d)"
  unfolding list_all_iff
proof
  fix p assume "p \<in> set (desired_state ck d)"
  from served_wf [OF assms this] obtain t where p: "slug_check (tp_slug p)"
    "tp_settings_id p = settings_id (tp_slug p)" "tp_domains p \<noteq> []" "\<forall>f \<in> set (tp_domains p). fqdn_check f"
    "is_finite (tp_reject p)" "is_finite (tp_add_header p)" "is_finite (tp_greylist p)"
    by metis
  moreover have "f \<noteq> []" if "fqdn_check f" for f
    using that by (auto simp: fqdn_check_def)
  moreover have "tp_slug p \<noteq> []" using p(1) by (auto simp: slug_check_def)
  ultimately show "policy_renderable p"
    by (auto simp: policy_renderable_def settings_id_ok_slug list_all_iff)
qed

section \<open>The UCL text is unambiguous\<close>

lemma until_char:
  "c \<notin> set a \<Longrightarrow> c \<notin> set b \<Longrightarrow> a @ c # x = b @ c # y \<longleftrightarrow> a = b \<and> x = y"
proof (induction a arbitrary: b)
  case Nil
  then show ?case by (cases b) auto
next
  case (Cons z a)
  then show ?case by (cases b) auto
qed

lemma escape_inj:
  "b \<notin> set xs \<Longrightarrow> b \<notin> set ys \<Longrightarrow> b \<noteq> c
     \<Longrightarrow> replace_char c [b, c] xs = replace_char c [b, c] ys \<Longrightarrow> xs = ys"
proof (induction xs arbitrary: ys)
  case Nil
  then show ?case by (cases ys) (auto split: if_splits)
next
  case (Cons x xs)
  then show ?case by (cases ys) (auto split: if_splits)
qed

lemma rcpt_pattern_inj:
  assumes "backslash \<notin> set a" "backslash \<notin> set b" "rcpt_pattern a = rcpt_pattern b"
  shows "a = b"
  using escape_inj [OF assms(1,2), of "CHR ''.''"] assms(3)
  by (simp add: rcpt_pattern_def backslash_def)

text \<open>A list of non-empty pieces without a comma can be read back from its join.\<close>

lemma join_Cons: "join [c, e] (x # xs) = x @ concat (map (\<lambda>y. c # e # y) xs)"
  by (induction xs arbitrary: x) auto

lemma concat_tail_inj:
  assumes "\<forall>z \<in> set (x # xs). c \<notin> set z" "\<forall>z \<in> set (y # ys). c \<notin> set z"
    and "x @ concat (map (\<lambda>y. c # e # y) xs) = y @ concat (map (\<lambda>y. c # e # y) ys)"
  shows "x # xs = y # ys"
  using assms
proof (induction xs arbitrary: x y ys)
  case Nil
  then show ?case by (cases ys) auto
next
  case (Cons x' xs)
  show ?case
  proof (cases ys)
    case Nil
    with Cons.prems show ?thesis by auto
  next
    case (Cons y' ys')
    with Cons.prems have "x = y" "x' @ concat (map (\<lambda>y. c # e # y) xs) = y' @ concat (map (\<lambda>y. c # e # y) ys')"
      by (auto simp: until_char)
    with Cons.IH [of x' y' ys'] Cons.prems Cons show ?thesis by simp
  qed
qed

lemma join_inj:
  assumes "\<forall>x \<in> set xs. x \<noteq> [] \<and> c \<notin> set x" "\<forall>y \<in> set ys. y \<noteq> [] \<and> c \<notin> set y"
    and "join [c, e] xs = join [c, e] ys"
  shows "xs = ys"
proof (cases xs)
  case Nil
  with assms show ?thesis by (cases ys) (auto simp: join_Cons)
next
  case (Cons x xs')
  with assms obtain y ys' where ys: "ys = y # ys'"
    by (cases ys) (auto simp: join_Cons)
  show ?thesis
    using concat_tail_inj [of x xs' c y ys' e] assms Cons ys by (simp add: join_Cons)
qed

text \<open>The fixed texts between the fields of a block.\<close>

definition seg1 :: string where
  "seg1 = ''{'' @ nl @ ''  priority = 10;'' @ nl @ ''  rcpt = [''"
definition seg2 :: string where
  "seg2 = '';'' @ nl @ ''  apply {'' @ nl @ ''    actions {'' @ nl @ ''      reject = ''"
definition seg3 :: string where "seg3 = nl @ ''      add_header = ''"
definition seg4 :: string where "seg4 = nl @ ''      greylist = ''"
definition seg5 :: string where "seg5 = nl @ ''    }'' @ nl @ ''  }'' @ nl @ ''}'' @ nl"

lemma ucl_block_segments:
  "ucl_block fmt p @ r = tp_settings_id p @ CHR '' '' # seg1
     @ join '', '' (map rcpt_pattern (tp_domains p)) @ CHR '']'' # seg2
     @ fmt (tp_reject p) @ CHR '';'' # seg3 @ fmt (tp_add_header p) @ CHR '';'' # seg4
     @ fmt (tp_greylist p) @ CHR '';'' # seg5 @ r"
  by (simp add: ucl_block_def seg1_def seg2_def seg3_def seg4_def seg5_def)

definition policy_printable :: "(f64 \<Rightarrow> string) \<Rightarrow> TenantPolicy \<Rightarrow> bool" where
  "policy_printable fmt p \<longleftrightarrow> slug_check (tp_slug p) \<and> tp_settings_id p = settings_id (tp_slug p)
     \<and> list_all fqdn_check (tp_domains p)
     \<and> list_all (\<lambda>x. CHR '';'' \<notin> set (fmt x)) [tp_reject p, tp_add_header p, tp_greylist p]"

lemma pattern_chars:
  assumes "fqdn_check f"
  shows "CHR '','' \<notin> set (rcpt_pattern f) \<and> CHR '']'' \<notin> set (rcpt_pattern f) \<and> backslash \<notin> set f"
proof -
  have "\<forall>c \<in> set f. slug_char c \<or> c = CHR ''.''" by (rule fqdn_chars [OF assms])
  moreover have "\<not> slug_char (CHR '','')" "\<not> slug_char (CHR '']'')" "\<not> slug_char backslash"
    by (simp_all add: slug_char_def ascii_lower_def ascii_digit_def backslash_def)
  moreover have "set (replace_char (CHR ''.'') [backslash, CHR ''.''] f) \<subseteq> {backslash, CHR ''.''} \<union> set f" for f
    by (induction f) auto
  ultimately show ?thesis
    by (fastforce simp: rcpt_pattern_def backslash_def dquote_def)
qed

lemma set_join: "set (join sep ls) \<subseteq> set sep \<union> \<Union> (set ` set ls)"
  by (induction sep ls rule: join.induct) auto

lemma patterns_no_bracket:
  assumes "list_all fqdn_check ds"
  shows "CHR '']'' \<notin> set (join '', '' (map rcpt_pattern ds))"
proof
  assume "CHR '']'' \<in> set (join '', '' (map rcpt_pattern ds))"
  then have "\<exists>d \<in> set ds. CHR '']'' \<in> set (rcpt_pattern d)"
    using set_join [of "'', ''" "map rcpt_pattern ds"] by auto
  with assms pattern_chars show False by (auto simp: list_all_iff)
qed

lemma patterns_inj:
  assumes "list_all fqdn_check ds" "list_all fqdn_check es"
    and "join '', '' (map rcpt_pattern ds) = join '', '' (map rcpt_pattern es)"
  shows "ds = es"
proof -
  have "map rcpt_pattern ds = map rcpt_pattern es"
    by (rule join_inj [OF _ _ assms(3)])
      (use assms(1,2) pattern_chars in \<open>auto simp: list_all_iff rcpt_pattern_def\<close>)
  then show ?thesis
    by (rule list.inj_map_strong [rotated])
      (use assms(1,2) pattern_chars rcpt_pattern_inj in \<open>auto simp: list_all_iff\<close>)
qed

lemma settings_id_no_space:
  assumes "slug_check s"
  shows "CHR '' '' \<notin> set (settings_id s)"
proof -
  obtain r where "settings_id s = ''tenant_'' @ r" "list_all id_char r"
    using settings_id_chars [OF assms] by blast
  moreover have "\<not> id_char (CHR '' '')" by (simp add: id_char_def ascii_lower_def ascii_digit_def)
  ultimately show ?thesis by (auto simp: list_all_iff)
qed

definition fmt_separates :: "(f64 \<Rightarrow> string) \<Rightarrow> TenantPolicy list \<Rightarrow> bool" where
  "fmt_separates fmt ps \<longleftrightarrow>
     inj_on fmt (\<Union>p \<in> set ps. {tp_reject p, tp_add_header p, tp_greylist p})"

lemma ucl_block_inj:
  assumes "policy_printable fmt p" "policy_printable fmt q" "fmt_separates fmt [p, q]"
    and "ucl_block fmt p @ r = ucl_block fmt q @ r'"
  shows "p = q \<and> r = r'"
proof -
  have sid: "tp_settings_id p = settings_id (tp_slug p)" "tp_settings_id q = settings_id (tp_slug q)"
    and slug: "slug_check (tp_slug p)" "slug_check (tp_slug q)"
    and ds: "list_all fqdn_check (tp_domains p)" "list_all fqdn_check (tp_domains q)"
    using assms(1,2) by (simp_all add: policy_printable_def)
  have sp: "CHR '' '' \<notin> set (tp_settings_id p)" "CHR '' '' \<notin> set (tp_settings_id q)"
    using settings_id_no_space slug sid by simp_all
  have br: "CHR '']'' \<notin> set (join '', '' (map rcpt_pattern (tp_domains p)))"
    "CHR '']'' \<notin> set (join '', '' (map rcpt_pattern (tp_domains q)))"
    using patterns_no_bracket ds by blast+
  have semi: "CHR '';'' \<notin> set (fmt (tp_reject p))" "CHR '';'' \<notin> set (fmt (tp_reject q))"
    "CHR '';'' \<notin> set (fmt (tp_add_header p))" "CHR '';'' \<notin> set (fmt (tp_add_header q))"
    "CHR '';'' \<notin> set (fmt (tp_greylist p))" "CHR '';'' \<notin> set (fmt (tp_greylist q))"
    using assms(1,2) by (simp_all add: policy_printable_def)
  have eqs: "tp_settings_id p = tp_settings_id q
     \<and> join '', '' (map rcpt_pattern (tp_domains p)) = join '', '' (map rcpt_pattern (tp_domains q))
     \<and> fmt (tp_reject p) = fmt (tp_reject q) \<and> fmt (tp_add_header p) = fmt (tp_add_header q)
     \<and> fmt (tp_greylist p) = fmt (tp_greylist q) \<and> r = r'"
    using assms(4) unfolding ucl_block_segments
    by (simp only: until_char [OF sp] until_char [OF br] until_char [OF semi(1,2)]
        until_char [OF semi(3,4)] until_char [OF semi(5,6)] same_append_eq)
  have "tp_slug p = tp_slug q"
    using eqs settings_id_inj [OF slug] sid by simp
  moreover have "tp_domains p = tp_domains q"
    using eqs patterns_inj [OF ds] by blast
  moreover have "tp_reject p = tp_reject q" "tp_add_header p = tp_add_header q" "tp_greylist p = tp_greylist q"
    using eqs by (auto intro: inj_onD [OF assms(3) [unfolded fmt_separates_def]])
  ultimately show ?thesis
    using eqs by simp
qed

lemma render_ucl_concat: "render_ucl fmt ps = ucl_header @ concat (map (ucl_block fmt) ps)"
proof -
  have "foldl (\<lambda>s p. s @ ucl_block fmt p) h ps = h @ concat (map (ucl_block fmt) ps)" for h
    by (induction ps arbitrary: h) auto
  then show ?thesis by (simp add: render_ucl_def)
qed

lemma blocks_inj:
  assumes "list_all (policy_printable fmt) ps" "list_all (policy_printable fmt) qs" "fmt_separates fmt (ps @ qs)"
    and "concat (map (ucl_block fmt) ps) = concat (map (ucl_block fmt) qs)"
  shows "ps = qs"
  using assms
proof (induction ps arbitrary: qs)
  case Nil
  then show ?case by (cases qs) (auto simp: ucl_block_def)
next
  case (Cons p ps)
  show ?case
  proof (cases qs)
    case Nil
    with Cons.prems show ?thesis by (auto simp: ucl_block_def)
  next
    case (Cons q qs')
    have sep: "fmt_separates fmt [p, q]" "fmt_separates fmt (ps @ qs')"
      using Cons.prems(3) unfolding Cons fmt_separates_def by (rule inj_on_subset, force)+
    have "p = q \<and> concat (map (ucl_block fmt) ps) = concat (map (ucl_block fmt) qs')"
      using Cons.prems(1,2,4) Cons by (intro ucl_block_inj [OF _ _ sep(1)]) simp_all
    with Cons.IH [of qs'] Cons.prems sep(2) Cons show ?thesis by simp
  qed
qed

end
