(* ===== verification/CompilerCorrectness.thy ===== *)
theory CompilerCorrectness
  imports SettingsDocument
begin

text \<open>
  The file write at every step of its run, and the whole compile cycle: what it leaves in the file,
  in the audit log and in the rest of the control plane, for every network and disk behaviour.
\<close>

section \<open>System calls\<close>

text \<open>A call on a file other than the target leaves the target alone, done or failed.\<close>

definition leaves :: "string \<Rightarrow> (io_state, string, unit) comp \<Rightarrow> bool" where
  "leaves p m \<longleftrightarrow> (\<forall>st r st'. m st = (r, st') \<longrightarrow> files st' p = files st p
     \<and> (\<exists>new. seen st' = seen st @ new \<and> (\<forall>f \<in> set new. f p = files st p)))"

lemma sys_leaves:
  assumes "\<And>st. files (effect st) p = files st p \<and> seen (effect st) = seen st"
    and "\<And>n st. files (partial n st) p = files st p \<and> seen (partial n st) = seen st"
  shows "leaves p (sys effect partial)"
  using assms by (auto simp: leaves_def sys_def Let_def split: list.splits io_outcome.splits)

lemma tryb_leaves:
  assumes "leaves p m" "\<And>x. leaves p (f x)"
  shows "leaves p (tryb m f)"
  unfolding leaves_def
proof (intro allI impI)
  fix st r st' assume run: "tryb m f st = (r, st')"
  obtain r1 st1 where m: "m st = (r1, st1)" by fastforce
  obtain n1 where n1: "seen st1 = seen st @ n1" "\<forall>g \<in> set n1. g p = files st p" "files st1 p = files st p"
    using assms(1) m unfolding leaves_def by blast
  show "files st' p = files st p \<and> (\<exists>new. seen st' = seen st @ new \<and> (\<forall>f \<in> set new. f p = files st p))"
  proof (cases r1)
    case (Inl e)
    with run m n1 show ?thesis by (auto simp: tryb_def)
  next
    case (Inr x)
    with run m have "f x st1 = (r, st')" by (simp add: tryb_def)
    then obtain n2 where n2: "seen st' = seen st1 @ n2" "\<forall>g \<in> set n2. g p = files st1 p" "files st' p = files st1 p"
      using assms(2) unfolding leaves_def by blast
    have "seen st' = seen st @ (n1 @ n2)" "\<forall>g \<in> set (n1 @ n2). g p = files st p"
      using n1 n2 by auto
    then show ?thesis using n1(3) n2(3) by auto
  qed
qed

lemma tmp_path_neq [simp]: "tmp_path p \<noteq> p" "p \<noteq> tmp_path p"
  by (simp_all add: tmp_path_def)

lemma ok_leaves [simp]: "leaves p (ok ())"
  by (simp add: leaves_def)

lemma calls_leave:
  "leaves p (create_dir_all q)" "p \<noteq> q \<Longrightarrow> leaves p (file_create q)"
  "p \<noteq> q \<Longrightarrow> leaves p (write_all q c)" "leaves p flush"
  by (auto simp: create_dir_all_def file_create_def write_all_def flush_def intro!: sys_leaves)

text \<open>The temporary file holds the contents once \<open>write_all\<close> and \<open>flush\<close> are done.\<close>

definition prepare :: "string \<Rightarrow> string \<Rightarrow> (io_state, string, unit) comp" where
  "prepare path contents =
     tryb (case path_parent path of Some parent \<Rightarrow> create_dir_all parent | None \<Rightarrow> ok ()) (\<lambda>_.
     tryb (file_create (tmp_path path)) (\<lambda>_.
     tryb (write_all (tmp_path path) contents) (\<lambda>_. flush)))"

lemma tryb_assoc: "tryb (tryb m f) g = tryb m (\<lambda>x. tryb (f x) g)"
  by (auto simp: fun_eq_iff tryb_def split: prod.splits sum.splits)

lemma write_atomic_prepare:
  "write_atomic path contents = tryb (prepare path contents) (\<lambda>_. rename (tmp_path path) path)"
  by (simp add: write_atomic_def prepare_def tryb_assoc)

lemma prepare_leaves: "leaves path (prepare path contents)"
  unfolding prepare_def by (intro tryb_leaves) (auto simp: calls_leave split: option.split)

lemma prepare_tmp:
  assumes "prepare path contents st = (Inr u, st')"
  shows "files st' (tmp_path path) = Some contents"
proof -
  have fl: "flush s = (Inr v, s') \<Longrightarrow> files s' = files s" for s s' v
    by (auto simp: flush_def sys_def Let_def split: list.splits io_outcome.splits prod.splits)
  have wr: "write_all q c s = (Inr v, s') \<Longrightarrow> files s' q = Some c" for q c s s' v
    by (auto simp: write_all_def sys_def Let_def split: list.splits io_outcome.splits prod.splits)
  from assms obtain s1 s2 where "write_all (tmp_path path) contents s1 = (Inr (), s2)"
    "flush s2 = (Inr (), st')"
    by (auto simp: prepare_def elim!: tryb_Inr)
  with wr fl show ?thesis by metis
qed

lemma rename_cases:
  assumes "rename a b st = (r, st')"
  shows "(\<exists>e. r = Inl e \<and> files st' = files st \<and> seen st' = seen st @ [files st])
     \<or> (r = Inr () \<and> files st' = (files st)(a := None, b := files st a) \<and> seen st' = seen st @ [files st'])"
  using assms by (auto simp: rename_def sys_def Let_def split: list.splits io_outcome.splits prod.splits)

text \<open>Every state on the way has the old contents at the target or all of the new ones.\<close>

lemma write_atomic_cases:
  assumes "write_atomic path contents st = (r, st')"
  shows "(\<exists>new. seen st' = seen st @ new \<and> (\<forall>f \<in> set new. f path = files st path \<or> f path = Some contents))
     \<and> files st' path = (if is_ok r then Some contents else files st path)"
proof -
  obtain r1 st1 where pr: "prepare path contents st = (r1, st1)" by fastforce
  obtain n1 where n1: "seen st1 = seen st @ n1" "\<forall>g \<in> set n1. g path = files st path" "files st1 path = files st path"
    using prepare_leaves pr unfolding leaves_def by blast
  show ?thesis
  proof (cases r1)
    case (Inl e)
    with assms pr n1 show ?thesis by (auto simp: write_atomic_prepare tryb_def)
  next
    case (Inr u)
    with assms pr have "rename (tmp_path path) path st1 = (r, st')"
      by (simp add: write_atomic_prepare tryb_def)
    moreover have "files st1 (tmp_path path) = Some contents"
      using prepare_tmp pr Inr by blast
    ultimately show ?thesis
      using rename_cases n1 by fastforce
  qed
qed

section \<open>The compile cycle\<close>

definition compile_audited :: "string \<Rightarrow> TenantPolicy list \<Rightarrow> scope \<Rightarrow> control_plane \<Rightarrow> unit \<Rightarrow> control_plane \<Rightarrow> bool" where
  "compile_audited path ps sc d u d' \<longleftrightarrow>
     d' = d\<lparr>audit_log := audit_log d @ [audit_of sc (compiled_entry path ps)]\<rparr>"

interpretation compile_audit: tx_step "platform_tx now" "platform_scope now"
    "record_audit audit_fk id (compiled_entry path ps)" id "compile_audited path ps" for now path ps
  by unfold_locales (auto simp: compile_audited_def dest!: record_audit_Inr)

lemma compile_audited_wf:
  assumes "compile_audited path ps sc d u d'" "cp_wf d"
  shows "cp_wf d'"
  by (rule cp_wf_log [OF assms(2)])
    (use assms(1) in \<open>simp_all add: compile_audited_def compiled_entry_def audit_fk_def\<close>)

lemma schema_accepts:
  assumes "cp_wf d" "standard_jsonschema rx js"
  shows "validate_json js settings_schema (render_doc (desired_state ck d)) = Inr ()"
  using assms render_doc_ok [OF desired_renderable [OF assms(1)], of rx]
  by (simp add: validate_standard standard_jsonschema_def)

text \<open>The four ends of a cycle; the schema check never stops one.\<close>

lemma compile_once_cases:
  assumes "compile_once ck js fmt other now1 now2 path st = (r, st')"
    and "cp_wf (committed (comp_db st))" "standard_jsonschema rx js"
  defines "d \<equiv> committed (comp_db st)"
  defines "ps \<equiv> desired_state ck d"
  obtains (unread) e where "r = Inl (CompileDb e)" "committed (comp_db st') = d" "comp_io st' = comp_io st"
  | (unwritten) e where "r = Inl (CompileIo path e)" "committed (comp_db st') = d"
      "write_atomic path (render_ucl fmt ps) (comp_io st) = (Inl e, comp_io st')"
  | (unaudited) e where "r = Inl (CompileDb e)"
      "write_atomic path (render_ucl fmt ps) (comp_io st) = (Inr (), comp_io st')"
      "committed (comp_db st') = other d
         \<or> compile_audited path ps (platform_scope now2 (role (comp_db st))) (other d) () (committed (comp_db st'))"
  | (compiled) "r = Inr (length ps)"
      "write_atomic path (render_ucl fmt ps) (comp_io st) = (Inr (), comp_io st')"
      "compile_audited path ps (platform_scope now2 (role (comp_db st))) (other d) () (committed (comp_db st'))"
proof -
  obtain r1 s1 where ld: "load_policies ck now1 (comp_db st) = (r1, s1)" by fastforce
  note l = load_policies_cases [OF ld assms(2)]
  show ?thesis
  proof (cases r1)
    case (Inl e)
    with assms(1) ld l show ?thesis
      by (auto simp: compile_once_def d_def intro: unread)
  next
    case (Inr ps')
    with l have ps: "ps' = ps" "committed s1 = d" "role s1 = role (comp_db st)"
      by (auto simp: ps_def d_def)
    have v: "validate_json js settings_schema (render_doc ps) = Inr ()"
      unfolding ps_def d_def by (rule schema_accepts [OF assms(2,3)])
    obtain r2 io where w: "write_atomic path (render_ucl fmt ps) (comp_io st) = (r2, io)" by fastforce
    show ?thesis
    proof (cases r2)
      case (Inl e)
      with assms(1) ld Inr ps v w show ?thesis
        by (auto simp: compile_once_def intro: unwritten)
    next
      case (Inr u)
      let ?s = "s1\<lparr>committed := other (committed s1)\<rparr>"
      obtain r3 s3 where a: "in_tx (platform_tx now2) id (record_audit audit_fk id (compiled_entry path ps)) ?s = (r3, s3)"
        by fastforce
      have fin: "st' = \<lparr>comp_db = s3, comp_io = io\<rparr>"
        "r = (case r3 of Inl e \<Rightarrow> Inl (CompileDb e) | Inr _ \<Rightarrow> Inr (length ps))"
        using assms(1) ld \<open>r1 = Inr ps'\<close> ps(1) v w Inr a
        by (auto simp: compile_once_def split: sum.splits)
      show ?thesis
      proof (cases r3)
        case (Inl e)
        with compile_audit.run_either [OF a] fin w Inr ps show ?thesis
          by (intro unaudited [of e]) auto
      next
        case (Inr v)
        with compile_audit.run_Inr [of now2 path ps ?s v s3] a fin w \<open>r2 = Inr u\<close> ps show ?thesis
          by (intro compiled) auto
      qed
    qed
  qed
qed

end
