(* ===== verification/ControlPlaneSystem.thy ===== *)
theory ControlPlaneSystem
  imports AdminServer Reconcile CompilerCorrectness
begin

text \<open>
  The three programs on the control-plane database together: requests to \<open>admin-api\<close>, cycles of
  \<open>job-runner\<close> and cycles of \<open>config-compiler\<close>, interleaved at the granularity of transactions. Where
  a program leaves the database between two of its transactions, any number of steps of the others
  may happen, whatever state they find. The provisioner is the sesame client, as in production.
\<close>

inductive cp_step :: "db_role \<Rightarrow> control_plane \<Rightarrow> control_plane \<Rightarrow> bool" for ro where
  request: "admin_handle rq aw c st = (r, st') \<Longrightarrow> role (app_db st) = ro
      \<Longrightarrow> \<forall>d. (cp_step ro)\<^sup>*\<^sup>* d (aw_other aw d)
      \<Longrightarrow> cp_step ro (committed (app_db st)) (committed (app_db st'))"
| cycle: "reconcile_once (sesame_provisioner cfg worlds) env batch (p, s) = (r, p', s') \<Longrightarrow> role s = ro
      \<Longrightarrow> \<forall>i d. (cp_step ro)\<^sup>*\<^sup>* d (meanwhile env i d)
      \<Longrightarrow> cp_step ro (committed s) (committed s')"
| compile: "compile_once ck js fmt other now1 now2 path cs = (r, cs') \<Longrightarrow> role (comp_db cs) = ro
      \<Longrightarrow> \<forall>d. (cp_step ro)\<^sup>*\<^sup>* d (other d)
      \<Longrightarrow> cp_step ro (committed (comp_db cs)) (committed (comp_db cs'))"

definition empty_control_plane :: control_plane where
  "empty_control_plane =
     \<lparr>audit_log = [], tenants = [], domains = [], accounts = [], abuse_policies = []\<rparr>"

inductive cp_reachable :: "db_role \<Rightarrow> control_plane \<Rightarrow> bool" for ro where
  start: "cp_reachable ro empty_control_plane"
| step: "cp_reachable ro d \<Longrightarrow> cp_step ro d d' \<Longrightarrow> cp_reachable ro d'"

lemma empty_cp_wf [simp]: "cp_wf empty_control_plane"
  by (simp add: cp_wf_def tenants_wf_def domains_wf_def accounts_wf_def policies_wf_def audit_wf_def
      empty_control_plane_def)

lemma rtranclp_keeps:
  assumes "(\<lambda>d d'. R d d' \<and> (P d \<longrightarrow> P d'))\<^sup>*\<^sup>* d d'" "P d"
  shows "P d'"
  using assms by (induction rule: rtranclp_induct) auto

text \<open>
  A property that the committed transactions of the three programs keep is kept by every step, with
  any interleaving, any faults and any answers of the other systems.
\<close>

definition kept_by_transactions :: "db_role \<Rightarrow> (control_plane \<Rightarrow> bool) \<Rightarrow> bool" where
  "kept_by_transactions ro P \<longleftrightarrow>
     (\<forall>fresh who req now d a d'. tenant_created fresh who req (platform_scope now ro) d a d' \<longrightarrow> P d \<longrightarrow> P d')
   \<and> (\<forall>fresh t who req now d a d'. domain_created fresh t who req (tenant_scope t now ro) d a d' \<longrightarrow> P d \<longrightarrow> P d')
   \<and> (\<forall>fresh t who req now d a d'. account_created fresh t who req (tenant_scope t now ro) d a d'
        \<longrightarrow> validate_local_part (ca_local_part req) = Inr () \<longrightarrow> P d \<longrightarrow> P d')
   \<and> (\<forall>t who i u now d a d'. account_activated t who i u (tenant_scope t now ro) d a d' \<longrightarrow> P d \<longrightarrow> P d')
   \<and> (\<forall>t who req now d a d'. policy_set t who req (tenant_scope t now ro) d a d'
        \<longrightarrow> validate_policy req = Inr () \<longrightarrow> P d \<longrightarrow> P d')
   \<and> (\<forall>t i u sc n d d'. account_reconciled t i u sc d n d' \<longrightarrow> P d \<longrightarrow> P d')
   \<and> (\<forall>path ps sc u d d'. compile_audited path ps sc d u d' \<longrightarrow> P d \<longrightarrow> P d')"

lemma kept_by_transactionsD:
  assumes "kept_by_transactions ro P" "P d"
  shows "tenant_created fresh who ctr (platform_scope now ro) d a1 d' \<Longrightarrow> P d'"
    and "domain_created fresh t who cdr (tenant_scope t now ro) d a2 d' \<Longrightarrow> P d'"
    and "account_created fresh t who car (tenant_scope t now ro) d a3 d'
      \<Longrightarrow> validate_local_part (ca_local_part car) = Inr () \<Longrightarrow> P d'"
    and "account_activated t who' i u (tenant_scope t now ro) d a4 d' \<Longrightarrow> P d'"
    and "policy_set t who spr (tenant_scope t now ro) d a5 d' \<Longrightarrow> validate_policy spr = Inr () \<Longrightarrow> P d'"
    and "account_reconciled t i u sc d n d' \<Longrightarrow> P d'"
    and "compile_audited path ps sc d v d' \<Longrightarrow> P d'"
  using assms unfolding kept_by_transactions_def by metis+

lemma is_ok_iff: "is_ok r \<longleftrightarrow> r = Inr ()" for r :: "'e + unit"
  by (cases r) simp_all

lemma compile_once_keeps:
  assumes "compile_once ck js fmt other now1 now2 path cs = (r, cs')"
    and "P (committed (comp_db cs))" "\<And>d. P d \<Longrightarrow> P (other d)"
    and "\<And>ps sc u d d'. compile_audited path ps sc d u d' \<Longrightarrow> P d \<Longrightarrow> P d'"
  shows "P (committed (comp_db cs'))"
proof -
  obtain r1 s1 where ld: "load_policies ck now1 (comp_db cs) = (r1, s1)" by fastforce
  have c1: "committed s1 = committed (comp_db cs)"
  proof -
    have "committed (snd (in_tx (platform_tx now1) id (exec id (select_desired ck)) (comp_db cs))) = committed (comp_db cs)"
      by (rule read_keeps(2)) (simp add: select_desired_def)
    with ld show ?thesis
      by (simp add: load_policies_def) (metis snd_conv tryb_ok_state)
  qed
  show ?thesis
  proof (cases "\<exists>ps io. r1 = Inr ps \<and> write_atomic path (render_ucl fmt ps) (comp_io cs) = (Inr (), io)
      \<and> is_ok (validate_json js settings_schema (render_doc ps))")
    case True
    then obtain ps io where run: "r1 = Inr ps" "write_atomic path (render_ucl fmt ps) (comp_io cs) = (Inr (), io)"
      "validate_json js settings_schema (render_doc ps) = Inr ()"
      by (auto simp: is_ok_iff)
    let ?s = "s1\<lparr>committed := other (committed s1)\<rparr>"
    obtain r3 s3 where tx: "in_tx (platform_tx now2) id (record_audit audit_fk id (compiled_entry path ps)) ?s = (r3, s3)"
      by fastforce
    have "P (committed s3)"
      by (rule compile_audit.run_keeps [where P = P, OF tx]) (use assms(2,3,4) c1 in auto)
    moreover have "committed (comp_db cs') = committed s3"
      using assms(1) ld run tx by (auto simp: compile_once_def split: sum.splits)
    ultimately show ?thesis by simp
  next
    case False
    then have "committed (comp_db cs') = committed s1"
      using assms(1) ld by (auto simp: compile_once_def is_ok_def split: sum.splits prod.splits)
    with c1 assms(2) show ?thesis by simp
  qed
qed

lemma cp_step_keeps:
  assumes "cp_step ro d d'" "kept_by_transactions ro P" "P d"
  shows "P d'"
  using assms(1,3)
proof (induction rule: cp_step.induct)
  case (request rq aw c st r st')
  have other: "P (aw_other aw d)" if "P d" for d
    using request(3) that rtranclp_keeps [of "cp_step ro" P d "aw_other aw d"] by simp
  have "P (committed (app_db (snd (admin_handle rq aw c st))))"
    using request(4) other request(2)
    by (rule admin_handle_keeps [where P = P]) 
      (assumption | (rule kept_by_transactionsD [OF assms(2)]; assumption))+
  with request(1) show ?case by simp
next
  case (cycle cfg worlds env batch p s r p' s')
  have "P (meanwhile env i d)" if "P d" for i d
    using cycle(3) that rtranclp_keeps [of "cp_step ro" P d "meanwhile env i d"] by simp
  then show ?case
    using reconcile_once_keeps [where P = P, OF cycle(1)] assms(2) cycle(4)
    by (simp add: kept_by_transactions_def)
next
  case (compile ck js fmt other now1 now2 path cs r cs')
  have "P (other d)" if "P d" for d
    using compile(3) that rtranclp_keeps [of "cp_step ro" P d "other d"] by simp
  then show ?case
    using compile_once_keeps [where P = P, OF compile(1) compile(4)] assms(2)
    by (simp add: kept_by_transactions_def)
qed

lemma cp_wf_kept: "\<not> privileged ro \<Longrightarrow> kept_by_transactions ro cp_wf"
  unfolding kept_by_transactions_def
  by (intro conjI allI impI)
    (erule tenant_created_wf domain_created_wf account_created_wf account_activated_wf policy_set_wf
      account_reconciled_wf compile_audited_wf; (assumption | rule refl))+

lemma cp_reachable_keeps:
  assumes "cp_reachable ro d" "kept_by_transactions ro P" "P empty_control_plane"
  shows "P d"
  using assms(1) by (induction rule: cp_reachable.induct) (use assms(2,3) cp_step_keeps in blast)+

lemma cp_reachable_wf: "cp_reachable ro d \<Longrightarrow> \<not> privileged ro \<Longrightarrow> cp_wf d"
  using cp_reachable_keeps [of ro d cp_wf] cp_wf_kept by simp

end
