(* ===== verification/MockIdp.thy ===== *)
theory MockIdp
  imports OgAuth
begin

text \<open>
  \<open>crates/og-auth/src/mock.rs\<close>: the identity provider of the integration tests, which mints the
  tokens \<open>verify\<close> accepts. Encoding, JSON text and signing are the work of other crates, the fields
  of \<open>mint_prims\<close>; a panic (no key pair, \<open>i64\<close> overflow of
  the expiry) is \<open>None\<close>.
\<close>

record mint_prims =
  b64_encode :: "bytes \<Rightarrow> string"
  json_text :: "json \<Rightarrow> bytes"
  ed25519_sign :: "bytes \<Rightarrow> bytes \<Rightarrow> bytes"
  public_key :: "bytes \<Rightarrow> bytes"

record MockIdp =
  keypair :: bytes
  mock_kid :: string
  mock_issuer :: string

text \<open>\<open>new\<close>: the generator's PKCS 8 document and its reading may fail, which panics.\<close>

definition mock_new :: "bytes option \<Rightarrow> (bytes \<Rightarrow> bytes option) \<Rightarrow> string \<Rightarrow> string \<Rightarrow> MockIdp option" where
  "mock_new pkcs8 from_pkcs8 kid isr =
     Option.bind pkcs8 (\<lambda>doc. Option.bind (from_pkcs8 doc) (\<lambda>kp.
     Some \<lparr>keypair = kp, mock_kid = kid, mock_issuer = isr\<rparr>))"

definition mock_jwk :: "mint_prims \<Rightarrow> MockIdp \<Rightarrow> Jwk" where
  "mock_jwk mp idp =
     \<lparr>jwk_kid = mock_kid idp, jwk_x = b64_encode mp (public_key mp (keypair idp)),
      jwk_kty = ''OKP'', jwk_crv = ''Ed25519''\<rparr>"

text \<open>\<open>json!\<close> builds a value, and its text is that of the value.\<close>

definition jwks_document :: "mint_prims \<Rightarrow> MockIdp \<Rightarrow> json" where
  "jwks_document mp idp = value_of (JObj [(''keys'', JArr [JObj
     [(''kty'', JStr (jwk_kty (mock_jwk mp idp))), (''crv'', JStr (jwk_crv (mock_jwk mp idp))),
      (''use'', JStr ''sig''), (''alg'', JStr ''EdDSA''),
      (''kid'', JStr (jwk_kid (mock_jwk mp idp))), (''x'', JStr (jwk_x (mock_jwk mp idp)))]])])"

definition jwks_json :: "mint_prims \<Rightarrow> MockIdp \<Rightarrow> bytes" where
  "jwks_json mp idp = json_text mp (jwks_document mp idp)"

definition mint_header :: "MockIdp \<Rightarrow> json" where
  "mint_header idp = value_of
     (JObj [(''alg'', JStr ''EdDSA''), (''typ'', JStr ''at+jwt''), (''kid'', JStr (mock_kid idp))])"

definition mint_payload :: "MockIdp \<Rightarrow> int \<Rightarrow> string \<Rightarrow> string \<Rightarrow> string list \<Rightarrow> int \<Rightarrow> json" where
  "mint_payload idp now subj tenant rs ttl_secs = value_of
     (JObj [(''sub'', JStr subj), (''iss'', JStr (mock_issuer idp)),
       (''aud'', JArr [JStr ''sesame-idam'']), (''iat'', JInt now), (''nbf'', JInt now),
       (''exp'', JInt (now + ttl_secs)), (''tenant_id'', JStr tenant),
       (''sx'', JObj [(''roles'', JArr (map JStr rs))])])"

definition i64_ok :: "int \<Rightarrow> bool" where
  "i64_ok n \<longleftrightarrow> - (2 ^ 63) \<le> n \<and> n < 2 ^ 63"

definition mint :: "mint_prims \<Rightarrow> MockIdp \<Rightarrow> nat option \<Rightarrow> string \<Rightarrow> string \<Rightarrow> string list \<Rightarrow> int \<Rightarrow> string option" where
  "mint mp idp clk subj tenant rs ttl_secs =
     (let now = now_unix clk in
      if \<not> i64_ok (now + ttl_secs) then None
      else
        (let h = b64_encode mp (json_text mp (mint_header idp));
             p = b64_encode mp (json_text mp (mint_payload idp now subj tenant rs ttl_secs));
             signing_input = h @ ''.'' @ p;
             sig = ed25519_sign mp (keypair idp) signing_input
         in Some (signing_input @ ''.'' @ b64_encode mp sig)))"

text \<open>
  \<open>serve\<close>: a listener on a free local port, and one route. A path or method without a route has an
  empty answer; HEAD is served as GET without the body.
\<close>

definition jwks_path :: string where
  "jwks_path = ''/.well-known/jwks.json''"

definition mock_app :: "mint_prims \<Rightarrow> MockIdp \<Rightarrow> string \<Rightarrow> string \<Rightarrow> nat \<times> (string \<times> string) list \<times> bytes" where
  "mock_app mp idp verb path =
     (if path \<noteq> jwks_path then (404, [], [])
      else if verb = ''GET'' then (200, [(''content-type'', ''application/json'')], jwks_json mp idp)
      else if verb = ''HEAD'' then (200, [(''content-type'', ''application/json'')], [])
      else (405, [], []))"

definition mock_serve :: "mint_prims \<Rightarrow> MockIdp \<Rightarrow> 'e + string \<Rightarrow> 'e + string \<times> (string \<Rightarrow> string \<Rightarrow> nat \<times> (string \<times> string) list \<times> bytes)" where
  "mock_serve mp idp bound =
     (case bound of Inl e \<Rightarrow> Inl e | Inr addr \<Rightarrow> Inr (''http://'' @ addr, mock_app mp idp))"

text \<open>
  What the round trip needs of the crates: base64url decodes what it encodes and has no dot, a
  signature verifies under the public key of its key pair, and the parser reads back the texts of the
  documents of one token.
\<close>

definition suite_ok :: "prims \<Rightarrow> mint_prims \<Rightarrow> bool" where
  "suite_ok ps mp \<longleftrightarrow>
     (\<forall>x. b64_decode ps (b64_encode mp x) = Some x \<and> CHR ''.'' \<notin> set (b64_encode mp x))
   \<and> (\<forall>k m. ed25519_verify ps (public_key mp k) m (ed25519_sign mp k m))"

definition reads_back :: "(bytes \<Rightarrow> json option) \<Rightarrow> (json \<Rightarrow> bytes) \<Rightarrow> json list \<Rightarrow> bool" where
  "reads_back parse print docs = list_all (\<lambda>d. parse (print d) = Some d) docs"

text \<open>What serde takes from them.\<close>

lemma jwks_document_read: "de_jwk_set (jwks_document mp idp) = Some [mock_jwk mp idp]"
proof -
  have "distinct (map fst (btree_of kvs))" for kvs :: "(string \<times> json) list" by simp
  note fields = struct_fields_distinct [OF this]
  show ?thesis
    by (simp add: de_jwk_set_def jwks_document_def fields de_jwk_def)
qed

lemma mint_header_read: "de_header (mint_header idp) = Some \<lparr>alg = ''EdDSA'', hdr_kid = mock_kid idp\<rparr>"
  by (simp add: de_header_def mint_header_def struct_fields_distinct)

lemma mint_payload_read:
  assumes "i64_ok (now + ttl)"
  shows "de_claims (mint_payload idp now subj tenant rs ttl) =
    Some \<lparr>sub = subj, exp = now + ttl, iss = mock_issuer idp, claim_tenant_id = Some tenant, sx_roles = Some rs\<rparr>"
proof -
  have "those (map (de_string \<circ> (value_of \<circ> JStr)) rs) = Some (map (\<lambda>r. r) rs)"
    by (rule those_map_Some) simp
  with assms show ?thesis
    by (simp add: de_claims_def mint_payload_def struct_fields_distinct de_sx_def de_i64_def i64_ok_def)
qed

lemma mint_segments:
  assumes "suite_ok ps mp" "mint mp idp clk subj tenant rs ttl = Some token"
  shows "split_on (CHR ''.'') token =
     [b64_encode mp (json_text mp (mint_header idp)),
      b64_encode mp (json_text mp (mint_payload idp (now_unix clk) subj tenant rs ttl)),
      b64_encode mp (ed25519_sign mp (keypair idp)
        (b64_encode mp (json_text mp (mint_header idp)) @ ''.''
           @ b64_encode mp (json_text mp (mint_payload idp (now_unix clk) subj tenant rs ttl))))]"
proof -
  have nd: "CHR ''.'' \<notin> set (b64_encode mp x)" for x
    using assms(1) by (simp add: suite_ok_def)
  show ?thesis
    using assms(2) by (auto simp: mint_def Let_def split_on_append [OF nd] split_on_none [OF nd] split: if_splits)
qed

lemma mock_jwks_key:
  assumes "suite_ok ps mp"
  shows "parse_jwks ps [mock_jwk mp idp] (mock_kid idp) = Some (public_key mp (keypair idp))"
  using assms by (simp add: parse_jwks_def add_jwk_def mock_jwk_def suite_ok_def)

lemma minted_verifies:
  assumes "suite_ok ps mp" "mint mp idp clk subj tenant rs ttl = Some token"
    and "reads_back (parse_json ps) (json_text mp)
      [jwks_document mp idp, mint_header idp, mint_payload idp (now_unix clk) subj tenant rs ttl]"
    and "jwks_url cfg = Some u" "fetch w u = Inr (jwks_json mp idp)"
    and "issuer cfg = None \<or> issuer cfg = Some (mock_issuer idp)"
    and "at_recheck w - at_store w \<le> cache_ttl cfg"
  shows "verify ps cfg w token None =
     (if now_unix clk + ttl \<noteq> 0 \<and> now_unix clk + ttl < now_unix (since_epoch w) then Inl Expired
      else Inr \<lparr>subject = subj, caller_tenant_id = uuid_parse_str ps tenant, roles = rs\<rparr>,
      store_keys cfg (parse_jwks ps [mock_jwk mp idp]) (at_store w))"
proof -
  have dec: "b64_decode ps (b64_encode mp x) = Some x" for x
    using assms(1) by (simp add: suite_ok_def)
  have ver: "ed25519_verify ps (public_key mp k) m (ed25519_sign mp k m)" for k m
    using assms(1) by (simp add: suite_ok_def)
  have fj: "fetch_jwks ps w u = Inr [mock_jwk mp idp]"
    using assms(3,5) by (simp add: fetch_jwks_def reads_back_def jwks_json_def jwks_document_read)
  have key: "key_for ps cfg w (mock_kid idp) None = (Inr (public_key mp (keypair idp)),
      store_keys cfg (parse_jwks ps [mock_jwk mp idp]) (at_store w))"
    using assms(4,7) mock_jwks_key [OF assms(1), of idp]
    by (simp add: key_for_def cached_def refresh_def fj tryb_def store_keys_def)
  have hdr: "decode_header ps (b64_encode mp (json_text mp (mint_header idp)))
      = Some \<lparr>alg = ''EdDSA'', hdr_kid = mock_kid idp\<rparr>"
    using assms(3) by (simp add: decode_header_def decode_json_def dec reads_back_def mint_header_read)
  have "i64_ok (now_unix clk + ttl)"
    using assms(2) by (auto simp: mint_def Let_def split: if_splits)
  then have clm: "decode_claims ps (b64_encode mp (json_text mp (mint_payload idp (now_unix clk) subj tenant rs ttl)))
      = Some \<lparr>sub = subj, exp = now_unix clk + ttl, iss = mock_issuer idp,
             claim_tenant_id = Some tenant, sx_roles = Some rs\<rparr>"
    using assms(3) by (simp add: decode_claims_def decode_json_def dec reads_back_def mint_payload_read)
  have chk: "check_claims ps cfg (now_unix (since_epoch w)) \<lparr>sub = subj, exp = now_unix clk + ttl,
        iss = mock_issuer idp, claim_tenant_id = Some tenant, sx_roles = Some rs\<rparr>
      = (if now_unix clk + ttl \<noteq> 0 \<and> now_unix clk + ttl < now_unix (since_epoch w) then Inl Expired
         else Inr \<lparr>subject = subj, caller_tenant_id = uuid_parse_str ps tenant, roles = rs\<rparr>)"
    using assms(6) by (auto simp: check_claims_def)
  show ?thesis
    unfolding verify_def mint_segments [OF assms(1,2)]
    using hdr clm chk key ver [of "keypair idp"]
    by (simp add: tryb_def from_result_def dec)
qed

end
