(* ===== verification/AuthProperties.thy ===== *)
theory AuthProperties
  imports MockIdp
begin

text \<open>
  What a verified token proves: the properties of \<open>og-auth\<close>, with a small concrete suite of
  primitives on which each is exercised.
\<close>

section \<open>A concrete suite\<close>

text \<open>
  Dots are escaped, so encodings are dot-free and decode; a signature is the key followed by the
  message; the documents are recognised by their texts.
\<close>

fun esc :: "string \<Rightarrow> string" where
  "esc [] = []"
| "esc (c # cs) = (if c = CHR ''.'' then ''!d'' else if c = CHR ''!'' then ''!!'' else [c]) @ esc cs"

fun unesc :: "string \<Rightarrow> string" where
  "unesc (a # b # cs) = (if a = CHR ''!'' then (if b = CHR ''d'' then CHR ''.'' else CHR ''!'') # unesc cs
     else a # unesc (b # cs))"
| "unesc cs = cs"

lemma unesc_Cons: "a \<noteq> CHR ''!'' \<Longrightarrow> unesc (a # cs) = a # unesc cs"
  by (cases cs) auto

lemma unesc_esc [simp]: "unesc (esc s) = s"
  by (induction s) (auto simp: unesc_Cons)

lemma esc_no_dot [simp]: "CHR ''.'' \<notin> set (esc s)"
  by (induction s) auto

definition demo_text :: "json \<Rightarrow> bytes" where
  "demo_text j = (case j of JObj ((k, _) # _) \<Rightarrow>
     (if k = ''alg'' then ''header'' else if k = ''aud'' then ''payload'' else ''keys'') | _ \<Rightarrow> [])"

definition demo_mint :: mint_prims where
  "demo_mint = \<lparr>b64_encode = esc, json_text = demo_text, ed25519_sign = (\<lambda>k m. k @ m), public_key = (\<lambda>k. k)\<rparr>"

definition demo_idp :: MockIdp where
  "demo_idp = \<lparr>keypair = ''k'', mock_kid = ''ci-kid'', mock_issuer = ''idam''\<rparr>"

text \<open>The three documents: of a token that expires at a given second, and the keys.\<close>

definition demo_prims :: "int \<Rightarrow> prims" where
  "demo_prims e =
     \<lparr>header_to_str = Some, b64_decode = (\<lambda>s. Some (unesc s)),
      parse_json = (\<lambda>t. if t = ''header'' then Some (mint_header demo_idp)
        else if t = ''payload'' then Some (mint_payload demo_idp 100 ''client:ci'' ''t1'' [''admin''] (e - 100))
        else if t = ''keys'' then Some (jwks_document demo_mint demo_idp) else None),
      ed25519_verify = (\<lambda>k m sig. sig = k @ m), uuid_parse_str = (\<lambda>s. if s = ''t1'' then Some 1 else None),
      json_error = id\<rparr>"

definition demo_header :: Header where
  "demo_header = \<lparr>alg = ''EdDSA'', hdr_kid = ''ci-kid''\<rparr>"

definition demo_claims :: "int \<Rightarrow> Claims" where
  "demo_claims e = \<lparr>sub = ''client:ci'', exp = e, iss = ''idam'', claim_tenant_id = Some ''t1'', sx_roles = Some [''admin'']\<rparr>"

definition demo_auth :: AuthConfig where
  "demo_auth = \<lparr>jwks_url = Some ''jwks'', issuer = Some ''idam'', cache_ttl = 600\<rparr>"

definition demo_auth_world :: "nat \<Rightarrow> auth_world" where
  "demo_auth_world secs =
     \<lparr>at_lookup = 0, at_store = 1, at_recheck = 2, since_epoch = Some secs,
      fetch = (\<lambda>u. Inr (jwks_json demo_mint demo_idp))\<rparr>"

lemma demo_simps [simp]:
  "jwks_url demo_auth = Some ''jwks''" "issuer demo_auth = Some ''idam''" "cache_ttl demo_auth = 600"
  "at_lookup (demo_auth_world n) = 0" "at_store (demo_auth_world n) = 1" "at_recheck (demo_auth_world n) = 2"
  "since_epoch (demo_auth_world n) = Some n" "fetch (demo_auth_world n) u = Inr (jwks_json demo_mint demo_idp)"
  "mock_issuer demo_idp = ''idam''" "mock_kid demo_idp = ''ci-kid''"
  "uuid_parse_str (demo_prims e) s = (if s = ''t1'' then Some 1 else None)"
  "header_to_str (demo_prims e) = Some" "b64_decode (demo_prims e) s = Some (unesc s)"
  by (simp_all add: demo_auth_def demo_auth_world_def demo_idp_def demo_prims_def)

lemmas demo_auth_defs = demo_prims_def demo_mint_def demo_idp_def demo_header_def demo_claims_def
  demo_auth_def demo_auth_world_def demo_text_def

lemma demo_suite: "suite_ok (demo_prims e) demo_mint"
  by (simp add: suite_ok_def demo_prims_def demo_mint_def)

lemma demo_texts:
  "json_text demo_mint (jwks_document mp idp) = ''keys''" "json_text demo_mint (mint_header idp) = ''header''"
  "json_text demo_mint (mint_payload idp now subj tenant rs ttl) = ''payload''"
  by (simp_all add: demo_mint_def demo_text_def jwks_document_def mint_header_def mint_payload_def btree_of_def
      btree_insert_def)

lemma demo_reads_back:
  "reads_back (parse_json (demo_prims e)) (json_text demo_mint) [jwks_document demo_mint demo_idp, mint_header demo_idp,
     mint_payload demo_idp 100 ''client:ci'' ''t1'' [''admin''] (e - 100)]"
  by (simp add: reads_back_def demo_texts) (simp add: demo_prims_def)

lemma demo_decode:
  "fetch_jwks (demo_prims e) (demo_auth_world n) u = Inr [mock_jwk demo_mint demo_idp]"
  "decode_header (demo_prims e) ''header'' = Some demo_header"
  "i64_ok e \<Longrightarrow> decode_claims (demo_prims e) ''payload'' = Some (demo_claims e)"
  by (simp_all add: fetch_jwks_def decode_header_def decode_claims_def decode_json_def demo_auth_world_def jwks_json_def
      demo_texts)
    (simp_all add: demo_prims_def jwks_document_read mint_header_read mint_payload_read demo_header_def demo_claims_def
      demo_idp_def)

section \<open>Keys\<close>

lemma parse_jwks_source:
  assumes "parse_jwks ps jset kid = Some k"
  shows "\<exists>j \<in> set jset. jwk_kid j = kid \<and> jwk_kty j = ''OKP'' \<and> jwk_crv j = ''Ed25519''
      \<and> b64_decode ps (jwk_x j) = Some k"
  using assms
proof (induction jset rule: rev_induct)
  case Nil
  then show ?case by (simp add: parse_jwks_def)
next
  case (snoc j js)
  then show ?case
    by (auto simp: parse_jwks_snoc add_jwk_def split: if_splits option.splits)
qed

text \<open>Where the key of a verification may come from.\<close>

definition trusted_key :: "prims \<Rightarrow> AuthConfig \<Rightarrow> auth_world \<Rightarrow> CachedKeys option \<Rightarrow> string \<Rightarrow> bytes \<Rightarrow> bool" where
  "trusted_key ps cfg w cache kid k \<longleftrightarrow>
     (\<exists>c. cache = Some c \<and> keys c kid = Some k \<and> at_lookup w - fetched_at c \<le> cache_ttl cfg)
   \<or> (\<exists>u jset. jwks_url cfg = Some u \<and> fetch_jwks ps w u = Inr jset
        \<and> (\<exists>j \<in> set jset. jwk_kid j = kid \<and> jwk_kty j = ''OKP'' \<and> jwk_crv j = ''Ed25519''
             \<and> b64_decode ps (jwk_x j) = Some k))"

lemma key_for_trusted:
  assumes "key_for ps cfg w kid cache = (Inr k, cache')"
  shows "trusted_key ps cfg w cache kid k"
  using assms
proof (cases rule: key_for_cases)
  case hit
  then show ?thesis
    by (auto simp: trusted_key_def cached_def split: option.splits if_splits)
next
  case (fetched u ks)
  with parse_jwks_source [OF fetched(4)] show ?thesis by (auto simp: trusted_key_def)
qed

lemma key_for_state:
  assumes "key_for ps cfg w kid cache = (r, cache')"
  shows "cache' = cache \<or> (\<exists>u jset. jwks_url cfg = Some u \<and> fetch_jwks ps w u = Inr jset
      \<and> cache' = store_keys cfg (parse_jwks ps jset) (at_store w))"
proof (cases "cached cfg cache (at_lookup w) kid")
  case (Some k)
  with assms show ?thesis by (simp add: key_for_def)
next
  case None
  obtain r1 c1 where rf: "refresh ps cfg w cache = (r1, c1)" by fastforce
  with assms None have "cache' = c1"
    by (auto simp: key_for_def tryb_def split: sum.splits)
  with refresh_store [OF rf] show ?thesis by auto
qed

lemma verify_state:
  assumes "verify ps cfg w token cache = (r, cache')"
  shows "cache' = cache \<or> (\<exists>u jset. jwks_url cfg = Some u \<and> fetch_jwks ps w u = Inr jset
      \<and> cache' = store_keys cfg (parse_jwks ps jset) (at_store w))"
proof -
  consider "cache' = cache" | kid r1 where "key_for ps cfg w kid cache = (r1, cache')"
    using assms
    by (auto simp: verify_def tryb_def from_result_def split: list.splits sum.splits prod.splits if_splits)
  then show ?thesis using key_for_state by cases blast+
qed

section \<open>Properties\<close>

text \<open>C4: A token is accepted only if it has three segments, its header names EdDSA and a key that is
  cached and young or was just fetched as an RFC 8037 Ed25519 key, that key verifies the signature
  over the first two segments, the token is not expired (or carries no expiry) and the issuer is the
  configured one; the caller is what its claims say.\<close>

theorem verify_sound:
  assumes "verify ps cfg w token cache = (Inr c, cache')"
  shows "\<exists>h p s header k sig claims.
      split_on (CHR ''.'') token = [h, p, s]
    \<and> decode_header ps h = Some header \<and> alg header = ''EdDSA''
    \<and> trusted_key ps cfg w cache (hdr_kid header) k
    \<and> b64_decode ps s = Some sig \<and> ed25519_verify ps k (h @ ''.'' @ p) sig
    \<and> decode_claims ps p = Some claims
    \<and> (exp claims = 0 \<or> now_unix (since_epoch w) \<le> exp claims)
    \<and> (\<forall>i. issuer cfg = Some i \<longrightarrow> iss claims = i)
    \<and> subject c = sub claims
    \<and> caller_tenant_id c = Option.bind (claim_tenant_id claims) (uuid_parse_str ps)
    \<and> roles c = (case sx_roles claims of None \<Rightarrow> [] | Some rs \<Rightarrow> rs)"
  using assms
proof (rule verify_Inr)
  fix h p s header pubkey sig claims
  assume seg: "split_on (CHR ''.'') token = [h, p, s]" "decode_header ps h = Some header" "alg header = ''EdDSA''"
    and key: "key_for ps cfg w (hdr_kid header) cache = (Inr pubkey, cache')"
    and sig: "b64_decode ps s = Some sig" "ed25519_verify ps pubkey (h @ ''.'' @ p) sig"
    and clm: "decode_claims ps p = Some claims" "check_claims ps cfg (now_unix (since_epoch w)) claims = Inr c"
  show ?thesis
    using seg sig clm(1) check_claims_Inr [OF clm(2)] key_for_trusted [OF key]
    by (intro exI [of _ h] exI [of _ p] exI [of _ s] exI [of _ header] exI [of _ pubkey]
        exI [of _ sig] exI [of _ claims]) blast
qed

lemma demo_verify:
  "i64_ok e \<Longrightarrow> verify (demo_prims e) demo_auth (demo_auth_world n) ''header.payload.kheader!dpayload'' None =
   (if e \<noteq> 0 \<and> e < now_unix (Some n) then Inl Expired
    else Inr \<lparr>subject = ''client:ci'', caller_tenant_id = Some 1, roles = [''admin'']\<rparr>,
    store_keys demo_auth (parse_jwks (demo_prims e) [mock_jwk demo_mint demo_idp]) 1)"
proof -
  assume e: "i64_ok e"
  have now: "now_unix (Some 100) = 100" by (simp add: now_unix_def)
  have m: "mint demo_mint demo_idp (Some 100) ''client:ci'' ''t1'' [''admin''] (e - 100) = Some ''header.payload.kheader!dpayload''"
    using e by (simp add: mint_def demo_texts now Let_def) (simp add: demo_mint_def demo_idp_def)
  have r: "reads_back (parse_json (demo_prims e)) (json_text demo_mint) [jwks_document demo_mint demo_idp, mint_header demo_idp,
     mint_payload demo_idp (now_unix (Some 100)) ''client:ci'' ''t1'' [''admin''] (e - 100)]"
    unfolding now by (rule demo_reads_back)
  show ?thesis
    using minted_verifies [OF demo_suite m r, of demo_auth "''jwks''" "demo_auth_world n"]
    by (simp add: now)
qed

theorem verify_sound_witness:
  "\<exists>kid k. trusted_key (demo_prims 500) demo_auth
     (demo_auth_world 400) None kid k"
  using verify_sound [OF demo_verify [of 500 400, simplified now_unix_def i64_ok_def, simplified]] by blast

text \<open>Whatever tokens are presented and whether they verify or not, the key cache only ever holds
  keys the JWKS endpoint served.\<close>

definition keys_from :: "bytes set \<Rightarrow> CachedKeys option \<Rightarrow> bool" where
  "keys_from T cache \<longleftrightarrow> (\<forall>c kid k. cache = Some c \<longrightarrow> keys c kid = Some k \<longrightarrow> k \<in> T)"

theorem verify_keeps_cache:
  assumes "verify ps cfg w token cache = (r, cache')" "keys_from T cache"
    and "\<And>u jset j k. jwks_url cfg = Some u \<Longrightarrow> fetch_jwks ps w u = Inr jset \<Longrightarrow> j \<in> set jset
      \<Longrightarrow> b64_decode ps (jwk_x j) = Some k \<Longrightarrow> k \<in> T"
  shows "keys_from T cache'"
  using verify_state [OF assms(1)]
proof
  assume "cache' = cache"
  with assms(2) show ?thesis by simp
next
  assume "\<exists>u jset. jwks_url cfg = Some u \<and> fetch_jwks ps w u = Inr jset
      \<and> cache' = store_keys cfg (parse_jwks ps jset) (at_store w)"
  then obtain u jset where f: "jwks_url cfg = Some u" "fetch_jwks ps w u = Inr jset"
    "cache' = store_keys cfg (parse_jwks ps jset) (at_store w)" by blast
  then show ?thesis
    using parse_jwks_source assms(3) [OF f(1,2)] by (fastforce simp: keys_from_def store_keys_def)
qed

theorem verify_keeps_cache_witness:
  "keys_from {''k''} (store_keys demo_auth (parse_jwks (demo_prims 1)
      [mock_jwk demo_mint demo_idp]) 1)"
proof -
  have one: "i64_ok 1" by (simp add: i64_ok_def)
  show ?thesis
    by (rule verify_keeps_cache [OF demo_verify [OF one, of 9]])
      (auto simp: keys_from_def demo_decode mock_jwk_def demo_mint_def demo_idp_def)
qed

text \<open>C30: A token the mock identity provider mints is accepted by an authenticator that fetches its keys
  from the endpoint the provider serves, until it expires, and yields the subject, tenant and roles it
  was minted for; after its expiry it is refused as expired.\<close>

theorem mint_verify_roundtrip:
  assumes "suite_ok ps mp" "mint mp idp clk subj tenant rs ttl = Some token"
    and "reads_back (parse_json ps) (json_text mp)
      [jwks_document mp idp, mint_header idp, mint_payload idp (now_unix clk) subj tenant rs ttl]"
    and "mock_serve mp idp bound = Inr (base, app)" "jwks_url cfg = Some (base @ jwks_path)"
    and "fetch w (base @ jwks_path) = Inr (snd (snd (app ''GET'' jwks_path)))"
    and "issuer cfg = None \<or> issuer cfg = Some (mock_issuer idp)"
    and "at_recheck w - at_store w \<le> cache_ttl cfg"
  shows "fst (verify ps cfg w token None) =
     (if now_unix clk + ttl \<noteq> 0 \<and> now_unix clk + ttl < now_unix (since_epoch w) then Inl Expired
      else Inr \<lparr>subject = subj, caller_tenant_id = uuid_parse_str ps tenant, roles = rs\<rparr>)"
proof -
  have "app = mock_app mp idp"
    using assms(4) by (simp add: mock_serve_def split: sum.splits)
  then have "fetch w (base @ jwks_path) = Inr (jwks_json mp idp)"
    using assms(6) by (simp add: mock_app_def)
  from minted_verifies [OF assms(1-3,5) this assms(7,8)] show ?thesis by simp
qed

theorem mint_verify_roundtrip_witness:
  "fst (verify (demo_prims 400) (demo_auth\<lparr>jwks_url := Some ''http://127.0.0.1:4000/.well-known/jwks.json''\<rparr>) (demo_auth_world 350)
     (the (mint demo_mint demo_idp (Some 100) ''client:ci'' ''t1'' [''admin''] 300)) None) =
   Inr \<lparr>subject = ''client:ci'', caller_tenant_id = Some 1, roles = [''admin'']\<rparr>"
proof -
  obtain token where m: "mint demo_mint demo_idp (Some 100) ''client:ci'' ''t1'' [''admin''] 300 = Some token"
    by (simp add: mint_def i64_ok_def now_unix_def Let_def)
  have s: "mock_serve demo_mint demo_idp (Inr ''127.0.0.1:4000'') = Inr (''http://127.0.0.1:4000'', mock_app demo_mint demo_idp)"
    by (simp add: mock_serve_def)
  have r: "reads_back (parse_json (demo_prims 400)) (json_text demo_mint) [jwks_document demo_mint demo_idp, mint_header demo_idp,
     mint_payload demo_idp (now_unix (Some 100)) ''client:ci'' ''t1'' [''admin''] 300]"
    using demo_reads_back [of 400] by (simp add: now_unix_def)
  show ?thesis
    using mint_verify_roundtrip [OF demo_suite m r s, of "demo_auth\<lparr>jwks_url := Some ''http://127.0.0.1:4000/.well-known/jwks.json''\<rparr>"
        "demo_auth_world 350"]
    by (simp add: m jwks_path_def now_unix_def mock_app_def)
qed

text \<open>The cache after a history of verifications, each in a world of its own.\<close>

definition cache_after :: "prims \<Rightarrow> AuthConfig \<Rightarrow> (auth_world \<times> string) list \<Rightarrow> CachedKeys option" where
  "cache_after ps cfg calls = foldl (\<lambda>cache (w, token). snd (verify ps cfg w token cache)) None calls"

definition endpoint_served :: "prims \<Rightarrow> AuthConfig \<Rightarrow> auth_world \<Rightarrow> Jwk list \<Rightarrow> bool" where
  "endpoint_served ps cfg w jset \<longleftrightarrow> (\<exists>u. jwks_url cfg = Some u \<and> fetch_jwks ps w u = Inr jset)"

lemma cache_origin:
  assumes "cache_after ps cfg calls = Some c"
  shows "\<exists>w \<in> fst ` set calls. \<exists>jset. endpoint_served ps cfg w jset \<and> c = \<lparr>keys = parse_jwks ps jset, fetched_at = at_store w\<rparr>"
  using assms
proof (induction calls arbitrary: c rule: rev_induct)
  case Nil
  then show ?case by (simp add: cache_after_def)
next
  case (snoc call calls)
  obtain w token where call: "call = (w, token)" by fastforce
  obtain r c1 where v: "verify ps cfg w token (cache_after ps cfg calls) = (r, c1)" by fastforce
  with snoc.prems have c1: "c1 = Some c" by (simp add: cache_after_def call)
  from verify_state [OF v] show ?case
  proof
    assume "c1 = cache_after ps cfg calls"
    with snoc.IH [of c] c1 show ?thesis by fastforce
  next
    assume "\<exists>u jset. jwks_url cfg = Some u \<and> fetch_jwks ps w u = Inr jset \<and> c1 = store_keys cfg (parse_jwks ps jset) (at_store w)"
    with c1 show ?thesis by (auto simp: store_keys_def endpoint_served_def call)
  qed
qed

text \<open>C31: A key the provider no longer serves stops being trusted within the lifetime of the cache: over any
  history of verifications, whatever tokens they were of and however they ended, an accepted token was
  signed with a key that the endpoint served under the token's key identifier either in this very
  verification or in an earlier one at most \<open>cache_ttl\<close> ago.\<close>

theorem keys_fresh:
  assumes "verify ps cfg w token (cache_after ps cfg calls) = (Inr c, cache')"
  shows "\<exists>h p s header sig k w0 jset. split_on (CHR ''.'') token = [h, p, s] \<and> decode_header ps h = Some header
    \<and> b64_decode ps s = Some sig \<and> ed25519_verify ps k (h @ ''.'' @ p) sig
    \<and> endpoint_served ps cfg w0 jset \<and> (\<exists>j \<in> set jset. jwk_kid j = hdr_kid header \<and> b64_decode ps (jwk_x j) = Some k)
    \<and> (w0 = w \<or> w0 \<in> fst ` set calls \<and> at_lookup w - at_store w0 \<le> cache_ttl cfg)"
  using assms
proof (rule verify_Inr)
  fix h p s header k sig claims
  assume seg: "split_on (CHR ''.'') token = [h, p, s]" "decode_header ps h = Some header"
    and key: "key_for ps cfg w (hdr_kid header) (cache_after ps cfg calls) = (Inr k, cache')"
    and sig: "b64_decode ps s = Some sig" "ed25519_verify ps k (h @ ''.'' @ p) sig"
  have "\<exists>w0 jset. endpoint_served ps cfg w0 jset \<and> (\<exists>j \<in> set jset. jwk_kid j = hdr_kid header \<and> b64_decode ps (jwk_x j) = Some k)
      \<and> (w0 = w \<or> w0 \<in> fst ` set calls \<and> at_lookup w - at_store w0 \<le> cache_ttl cfg)"
    using key_for_trusted [OF key] unfolding trusted_key_def
  proof
    assume "\<exists>c. cache_after ps cfg calls = Some c \<and> keys c (hdr_kid header) = Some k \<and> at_lookup w - fetched_at c \<le> cache_ttl cfg"
    then obtain c1 where c1: "cache_after ps cfg calls = Some c1" "keys c1 (hdr_kid header) = Some k"
      "at_lookup w - fetched_at c1 \<le> cache_ttl cfg" by blast
    from cache_origin [OF c1(1)] obtain w0 jset where w0: "w0 \<in> fst ` set calls" "endpoint_served ps cfg w0 jset"
      "c1 = \<lparr>keys = parse_jwks ps jset, fetched_at = at_store w0\<rparr>" by blast
    with c1(2,3) parse_jwks_source [of ps jset "hdr_kid header" k] show ?thesis by auto
  next
    assume "\<exists>u jset. jwks_url cfg = Some u \<and> fetch_jwks ps w u = Inr jset
        \<and> (\<exists>j \<in> set jset. jwk_kid j = hdr_kid header \<and> jwk_kty j = ''OKP'' \<and> jwk_crv j = ''Ed25519''
             \<and> b64_decode ps (jwk_x j) = Some k)"
    then show ?thesis unfolding endpoint_served_def by blast
  qed
  then obtain w0 jset where origin: "endpoint_served ps cfg w0 jset"
    "\<exists>j \<in> set jset. jwk_kid j = hdr_kid header \<and> b64_decode ps (jwk_x j) = Some k"
    "w0 = w \<or> w0 \<in> fst ` set calls \<and> at_lookup w - at_store w0 \<le> cache_ttl cfg" by blast
  with seg sig show ?thesis
    by (intro exI [of _ h] exI [of _ p] exI [of _ s] exI [of _ header] exI [of _ sig] exI [of _ k] exI [of _ w0]
        exI [of _ jset] conjI) simp_all
qed

theorem keys_fresh_witness:
  "\<exists>jset. endpoint_served (demo_prims 500) demo_auth (demo_auth_world 400) jset"
proof -
  have e: "i64_ok 500" by (simp add: i64_ok_def)
  have "verify (demo_prims 500) demo_auth (demo_auth_world 400) ''header.payload.kheader!dpayload'' (cache_after (demo_prims 500) demo_auth [])
      = (Inr \<lparr>subject = ''client:ci'', caller_tenant_id = Some 1, roles = [''admin'']\<rparr>,
         store_keys demo_auth (parse_jwks (demo_prims 500) [mock_jwk demo_mint demo_idp]) 1)"
    using demo_verify [OF e, of 400] by (simp add: cache_after_def now_unix_def)
  from keys_fresh [OF this] show ?thesis by auto
qed

text \<open>A token whose claims carry no expiry is accepted at any time: once accepted, it is accepted
  with the same caller whatever the wall clock shows.\<close>

theorem no_expiry_never_expires:
  assumes "verify ps cfg w token cache = (Inr c, cache')"
    and "split_on (CHR ''.'') token = [h, p, s]" "decode_claims ps p = Some claims" "exp claims = 0"
  shows "verify ps cfg (w\<lparr>since_epoch := later\<rparr>) token cache = (Inr c, cache')"
proof -
  have rf: "refresh ps cfg (w\<lparr>since_epoch := later\<rparr>) = refresh ps cfg w"
    by (simp add: fun_eq_iff refresh_def fetch_jwks_def split: option.split sum.split)
  have key: "key_for ps cfg (w\<lparr>since_epoch := later\<rparr>) = key_for ps cfg w"
    by (intro ext) (simp add: key_for_def rf split: option.split)
  obtain header k sig where v: "decode_header ps h = Some header" "alg header = ''EdDSA''"
    "key_for ps cfg w (hdr_kid header) cache = (Inr k, cache')" "b64_decode ps s = Some sig"
    "ed25519_verify ps k (h @ ''.'' @ p) sig" "check_claims ps cfg (now_unix (since_epoch w)) claims = Inr c"
    using assms(1-3) by (elim verify_Inr) auto
  have "check_claims ps cfg (now_unix later) claims = Inr c"
    using v(6) assms(4) by (simp add: check_claims_def)
  then show ?thesis
    using v key by (simp add: verify_def assms(2,3) tryb_def from_result_def)
qed

theorem no_expiry_never_expires_witness:
  "fst (verify (demo_prims 0) demo_auth
     ((demo_auth_world 400)\<lparr>since_epoch := Some 999999999\<rparr>) ''header.payload.kheader!dpayload'' None)
   = Inr \<lparr>subject = ''client:ci'', caller_tenant_id = Some 1, roles = [''admin'']\<rparr>"
proof -
  let ?ps = "demo_prims 0"
  have v: "verify ?ps demo_auth (demo_auth_world 400) ''header.payload.kheader!dpayload'' None =
     (Inr \<lparr>subject = ''client:ci'', caller_tenant_id = Some 1, roles = [''admin'']\<rparr>,
      store_keys demo_auth (parse_jwks ?ps [mock_jwk demo_mint demo_idp]) 1)"
    by (simp add: demo_verify i64_ok_def)
  show ?thesis
    using no_expiry_never_expires [OF v, of "''header''" "''payload''" "''kheader!dpayload''" "demo_claims 0" "Some 999999999"]
    by (simp add: demo_decode i64_ok_def demo_claims_def)
qed

text \<open>With a JWKS endpoint configured, the middleware forwards a request outside the probe paths
  only with a caller, and that caller is the one of a bearer token that verified; everything else is
  answered 401. Without one it trusts the \<open>x-actor\<close> header, and then grants no tenant and no role.\<close>

theorem require_auth_enforces:
  assumes "path \<noteq> ''/health''" "path \<noteq> ''/metrics''" "require_auth ps cfg w path hs cache = (r, cache')"
  shows "r = Inl 401
     \<or> (enforcing cfg \<and> (\<exists>token c. bearer ps hs = Some token
          \<and> verify ps cfg w token cache = (Inr c, cache') \<and> r = Inr (Some c)))
     \<or> (\<not> enforcing cfg \<and> (\<exists>c. r = Inr (Some c) \<and> caller_tenant_id c = None \<and> roles c = [] \<and> cache' = cache))"
proof (cases "caller ps cfg w hs cache")
  case (Pair r1 c1)
  show ?thesis
  proof (cases r1)
    case (Inl e)
    with assms Pair show ?thesis by (simp add: require_auth_def)
  next
    case (Inr c)
    with assms Pair have rc: "r = Inr (Some c)" "cache' = c1" by (simp_all add: require_auth_def)
    show ?thesis
    proof (cases "enforcing cfg")
      case True
      with Pair Inr obtain token where "bearer ps hs = Some token" "verify ps cfg w token cache = (Inr c, c1)"
        by (auto simp: caller_def elim!: tryb_Inr from_result_Inr)
      with True rc show ?thesis by blast
    next
      case False
      with Pair Inr rc show ?thesis by (auto simp: caller_def)
    qed
  qed
qed

theorem require_auth_enforces_witness:
  "fst (require_auth (demo_prims 500) demo_auth (demo_auth_world 400)
     ''/api/v1/tenants'' (\<lambda>_. None) None) = Inl 401"
proof -
  let ?ps = "demo_prims 500"
  let ?run = "require_auth ?ps demo_auth (demo_auth_world 400) ''/api/v1/tenants'' (\<lambda>_. None) None"
  have "bearer (demo_prims 500) (\<lambda>_. None) = None" "enforcing demo_auth"
    by (simp_all add: bearer_def enforcing_def demo_auth_def)
  then show ?thesis
    using require_auth_enforces [of "''/api/v1/tenants''" ?ps demo_auth "demo_auth_world 400" "\<lambda>_. None" None
        "fst ?run" "snd ?run"] by simp
qed

end
