(* ===== verification/Examples.thy ===== *)
theory Examples
  imports ControlPlaneSystem AbuseServer AuthProperties
begin

text \<open>Concrete roles, callers and databases on which the properties are exercised.\<close>

definition app_role :: db_role where
  "app_role = \<lparr>rolsuper = False, rolbypassrls = False\<rparr>"

definition alice :: Caller where
  "alice = \<lparr>subject = ''alice'', caller_tenant_id = None, roles = []\<rparr>"

definition acme :: tenant_row where
  "acme = \<lparr>ten_id = 1, ten_slug = ''acme'', ten_name = ''Acme'', ten_plan = ''standard'',
     ten_status = ''active'', ten_created_at = 0, ten_updated_at = 0\<rparr>"

definition globex :: tenant_row where
  "globex = \<lparr>ten_id = 2, ten_slug = ''globex'', ten_name = ''Globex'', ten_plan = ''standard'',
     ten_status = ''active'', ten_created_at = 0, ten_updated_at = 0\<rparr>"

definition acme_domain :: Domain where
  "acme_domain = \<lparr>dom_id = 10, dom_tenant_id = 1, dom_fqdn = ''acme.io'', dom_status = ''active'', dom_created_at = 0\<rparr>"

definition globex_domain :: Domain where
  "globex_domain = \<lparr>dom_id = 20, dom_tenant_id = 2, dom_fqdn = ''globex.io'', dom_status = ''active'', dom_created_at = 0\<rparr>"

definition bob :: account_row where
  "bob = \<lparr>acc_id = 100, acc_tenant_id = 1, acc_domain_id = 10, acc_email = ''bob@acme.io'',
     acc_display_name = ''Bob'', acc_quota_mb = 1024, acc_status = ''pending_provisioning'', acc_created_at = 0,
     acc_sesame_user_id = None, acc_stalwart_principal = None, acc_updated_at = 0\<rparr>"

definition carol :: account_row where
  "carol = \<lparr>acc_id = 101, acc_tenant_id = 1, acc_domain_id = 10, acc_email = ''carol@acme.io'',
     acc_display_name = ''Carol'', acc_quota_mb = 1024, acc_status = ''pending_provisioning'', acc_created_at = 1,
     acc_sesame_user_id = None, acc_stalwart_principal = None, acc_updated_at = 1\<rparr>"

definition demo_cp :: control_plane where
  "demo_cp = \<lparr>audit_log = [], tenants = [acme, globex], domains = [acme_domain, globex_domain],
     accounts = [bob, carol], abuse_policies = []\<rparr>"

definition demo_session :: "'d \<Rightarrow> 'd session" where
  "demo_session d = \<lparr>committed = d, role = app_role, net = []\<rparr>"

definition demo_app :: "control_plane \<Rightarrow> app_state" where
  "demo_app d = \<lparr>app_db = demo_session d, app_sesame = None\<rparr>"

text \<open>Sesame answers with a token and the user 500, or does not answer.\<close>

definition demo_sesame :: "bool \<Rightarrow> sesame_world" where
  "demo_sesame up = \<lparr>clock_lookup = 0, clock_store = 0,
     token_endpoint = (\<lambda>r. if up then Response 200 ''token'' else SendFailed ''down''),
     users_endpoint = (\<lambda>r. if up then Response 201 ''user'' else SendFailed ''down''),
     status_text = (\<lambda>n. []),
     sesame_parse = (\<lambda>b. Some (JObj (if b = ''token'' then [(''access_token'', JStr ''tok''), (''expires_in'', JInt 3600)]
       else [(''user_id'', JStr ''u500''), (''email'', JStr ''bob@acme.io'')]))),
     sesame_uuid = (\<lambda>s. if s = ''u500'' then Some 500 else None), sesame_json_error = id\<rparr>"

lemma demo_sesame_answers [simp]:
  "decode_token (demo_sesame up) ''token'' = Inr (''tok'', 3600)" "decode_user (demo_sesame up) ''user'' = Inr 500"
  by (simp_all add: decode_token_def decode_user_def demo_sesame_def de_token_response_def de_created_user_def
      struct_fields_def required_def de_i32_def)

lemma demo_sesame_simps [simp]:
  "clock_lookup (demo_sesame up) = 0" "clock_store (demo_sesame up) = 0"
  "token_endpoint (demo_sesame up) r = (if up then Response 200 ''token'' else SendFailed ''down'')"
  "users_endpoint (demo_sesame up) r = (if up then Response 201 ''user'' else SendFailed ''down'')"
  by (simp_all add: demo_sesame_def)

definition demo_sesame_cfg :: SesameConfig where
  "demo_sesame_cfg = \<lparr>login_url = ''http://login/'', user_mgmt_url = ''http://users'',
     sesame_tenant = ''og'', client_id = ''id'', client_secret = ''secret''\<rparr>"

definition demo_world :: admin_world where
  "demo_world = \<lparr>aw_fresh = 77, aw_now = 5, aw_now2 = 6, aw_sesame = demo_sesame True, aw_other = id\<rparr>"

definition demo_cycle :: cycle_env where
  "demo_cycle = \<lparr>at_read = 9, at_row = (\<lambda>_. 10), meanwhile = (\<lambda>_. id)\<rparr>"

lemma app_role_unprivileged [simp]: "\<not> privileged app_role"
  by (simp add: app_role_def privileged_def)

lemma demo_session_simps [simp]:
  "committed (demo_session d) = d" "role (demo_session d) = app_role" "net (demo_session d) = []"
  by (simp_all add: demo_session_def)

lemma demo_app_simps [simp]: "app_db (demo_app d) = demo_session d" "app_sesame (demo_app d) = None"
  by (simp_all add: demo_app_def)

lemmas demo_rows = acme_def globex_def acme_domain_def globex_domain_def bob_def carol_def

lemma demo_names:
  "slug_check ''acme''" "slug_check ''globex''" "fqdn_check ''acme.io''" "fqdn_check ''globex.io''"
  "validate_local_part ''bob'' = Inr ()" "validate_local_part ''carol'' = Inr ()"
  by (simp_all add: slug_check_def fqdn_check_def label_check_def tld_check_def slug_char_def alnum_def
      ascii_lower_def ascii_digit_def validate_local_part_def local_char_def starts_with_def ends_with_def Let_def)

lemma demo_cp_wf [simp]: "cp_wf demo_cp"
proof -
  have "\<exists>l. validate_local_part l = Inr () \<and> ''bob@acme.io'' = l @ ''@'' @ ''acme.io''"
    by (rule exI [of _ "''bob''"]) (simp add: demo_names)
  moreover have "\<exists>l. validate_local_part l = Inr () \<and> ''carol@acme.io'' = l @ ''@'' @ ''acme.io''"
    by (rule exI [of _ "''carol''"]) (simp add: demo_names)
  ultimately show ?thesis
    by (simp add: cp_wf_def tenants_wf_def domains_wf_def accounts_wf_def account_wf_def policies_wf_def
        audit_wf_def demo_cp_def demo_rows demo_names has_tenant_def tenant_status_check_def
        domain_status_check_def account_status_check_def quota_check_def)
qed

end
