(* ===== verification/AdminProperties.thy ===== *)
theory AdminProperties
  imports Examples
begin

text \<open>The properties of the provisioning API, at the level of a request.\<close>

section \<open>Boundaries\<close>

text \<open>A request on the path of one tenant leaves everything every other tenant owns (rows and
  audit entries) as it was, whatever the caller, the network and sesame do, provided the service runs
  with an unprivileged role and so far as other sessions leave it alone too.\<close>

theorem admin_tenant_isolation:
  assumes "admin_tenant rq = Some t" "t' \<noteq> t" "\<not> privileged (role (app_db st))"
    and "\<And>d. tenant_part t' (aw_other aw d) = tenant_part t' d"
  shows "tenant_part t' (committed (app_db (snd (admin_handle rq aw c st))))
       = tenant_part t' (committed (app_db st))"
  using assms
  by (intro admin_handle_keeps [where P = "\<lambda>d. tenant_part t' d = tenant_part t' (committed (app_db st))"])
    (auto simp: domain_created_part account_created_part account_activated_part policy_set_part)

theorem admin_tenant_isolation_witness:
  "tenant_part 2 (committed (app_db (snd (admin_handle (PostDomain 1 \<lparr>cd_fqdn = ''mail.acme.io''\<rparr>)
     demo_world alice (demo_app demo_cp))))) = tenant_part 2 demo_cp"
  using admin_tenant_isolation [of "PostDomain 1 \<lparr>cd_fqdn = ''mail.acme.io''\<rparr>" 1 2 "demo_app demo_cp" demo_world alice]
  by (simp add: demo_world_def)

lemma read_same:
  assumes "net s1 = net s2" "role s1 = role s2" "\<And>sc d. st sc d = Inr (g sc d, d)"
    and "g (tenant_scope t now (role s1)) (committed s1) = g (tenant_scope t now (role s1)) (committed s2)"
  shows "fst (in_tx (tenant_tx t now) conv (exec conv st) s1) = fst (in_tx (tenant_tx t now) conv (exec conv st) s2)"
  using assms
  by (simp add: in_tx_def tenant_tx_def open_tx_def exec_def split: prod.splits outcome.splits)

lemma tryb_ok_fst:
  "fst (m s1) = fst (m s2) \<Longrightarrow> fst (tryb m (\<lambda>x. ok (f x)) s1) = fst (tryb m (\<lambda>x. ok (f x)) s2)"
  by (cases "m s1"; cases "m s2") (auto simp: tryb_def split: sum.splits)

lemma tenant_part_tables:
  "domains (tenant_part t d) = filter (\<lambda>r. Some (dom_tenant_id r) = Some t) (domains d)"
  "accounts (tenant_part t d) = filter (\<lambda>r. Some (acc_tenant_id r) = Some t) (accounts d)"
  "abuse_policies (tenant_part t d) = filter (\<lambda>r. Some (pol_tenant_id r) = Some t) (abuse_policies d)"
  by (simp_all add: tenant_part_def)

text \<open>What a tenant is answered depends on what that tenant owns and on nothing else: two
  databases that agree on the tenant's part give the same domains, accounts and policy.\<close>

theorem admin_reads_own_tenant:
  assumes "tenant_part t (committed s1) = tenant_part t (committed s2)"
    and "role s1 = role s2" "net s1 = net s2" "\<not> privileged (role s1)"
  shows "fst (list_domains now t s1) = fst (list_domains now t s2)
       \<and> fst (list_accounts now t s1) = fst (list_accounts now t s2)
       \<and> fst (get_policy now t s1) = fst (get_policy now t s2)"
proof -
  let ?sc = "tenant_scope t now (role s1)"
  have "select_rows domains_policy ?sc p (domains (committed s1)) = select_rows domains_policy ?sc p (domains (committed s2))" for p
    using arg_cong [OF assms(1), of domains] by (simp only: domains_rls.select_own [OF assms(4)] tenant_part_tables)
  then have d: "fst (list_domains now t s1) = fst (list_domains now t s2)"
    unfolding list_domains_def
    by (intro read_same [where g = "\<lambda>sc d. sort_key dom_created_at (select_rows domains_policy sc (\<lambda>_. True) (domains d))",
        OF assms(3,2)]) (simp_all add: select_domains_def)
  have "select_rows accounts_policy ?sc p (accounts (committed s1)) = select_rows accounts_policy ?sc p (accounts (committed s2))" for p
    using arg_cong [OF assms(1), of accounts] by (simp only: accounts_rls.select_own [OF assms(4)] tenant_part_tables)
  then have a: "fst (list_accounts now t s1) = fst (list_accounts now t s2)"
    unfolding list_accounts_def
    by (intro read_same [where g = "\<lambda>sc d. map Account.truncate (sort_key acc_created_at
        (select_rows accounts_policy sc (\<lambda>_. True) (accounts d)))", OF assms(3,2)]) (simp_all add: select_accounts_def)
  have "select_rows abuse_policy_policy ?sc p (abuse_policies (committed s1)) = select_rows abuse_policy_policy ?sc p (abuse_policies (committed s2))" for p
    using arg_cong [OF assms(1), of abuse_policies] by (simp only: policies_rls.select_own [OF assms(4)] tenant_part_tables)
  then have "fst (in_tx (tenant_tx t now) Db (exec Db (select_policy t)) s1) = fst (in_tx (tenant_tx t now) Db (exec Db (select_policy t)) s2)"
    by (intro read_same [where g = "\<lambda>sc d. fetch_optional (select_rows abuse_policy_policy sc
        (\<lambda>r. pol_tenant_id r = t) (abuse_policies d))", OF assms(3,2)]) (simp_all add: select_policy_def)
  then have "fst (get_policy now t s1) = fst (get_policy now t s2)"
    unfolding get_policy_def by (rule tryb_ok_fst)
  with d a show ?thesis by simp
qed

theorem admin_reads_own_tenant_witness:
  "fst (list_accounts 0 1 (demo_session demo_cp))
     = fst (list_accounts 0 1 (demo_session (demo_cp\<lparr>domains := [acme_domain], tenants := [acme]\<rparr>)))"
  using admin_reads_own_tenant [of 1 "demo_session demo_cp"
      "demo_session (demo_cp\<lparr>domains := [acme_domain], tenants := [acme]\<rparr>)" 0]
  by (simp add: tenant_part_def demo_cp_def demo_rows)

text \<open>C7: Every request that changes the database leaves audit entries, all of them under the name of
  its caller; a request without audit entries has changed nothing.\<close>

theorem admin_changes_audited:
  assumes "\<And>d. aw_other aw d = d"
  shows "\<exists>es. audit_log (committed (app_db (snd (admin_handle rq aw c st)))) = audit_log (committed (app_db st)) @ es
     \<and> (\<forall>e \<in> set es. ae_actor e = actor c)
     \<and> (es = [] \<longrightarrow> committed (app_db (snd (admin_handle rq aw c st))) = committed (app_db st))"
proof -
  let ?d0 = "committed (app_db st)"
  let ?P = "\<lambda>d. \<exists>es. audit_log d = audit_log ?d0 @ es \<and> (\<forall>e \<in> set es. ae_actor e = actor c) \<and> (es = [] \<longrightarrow> d = ?d0)"
  have ext: "?P d'" if ch: "audited_change t (actor c) act d d'" and p: "?P d" for t act d d'
  proof -
    from ch obtain e where e: "audit_log d' = audit_log d @ [e]" "ae_actor e = actor c"
      by (auto simp: audited_change_def)
    from p obtain es where "audit_log d = audit_log ?d0 @ es" "\<forall>e \<in> set es. ae_actor e = actor c" by blast
    with e show ?thesis by (intro exI [of _ "es @ [e]"]) simp
  qed
  show ?thesis
    by (rule admin_handle_keeps [where P = ?P, OF _ _ refl], simp, simp add: assms)
      (rule ext, erule audited_changes, assumption)+
qed

theorem admin_changes_audited_witness:
  "\<exists>es. audit_log (committed (app_db (snd (admin_handle (PostDomain 1 \<lparr>cd_fqdn = ''mail.acme.io''\<rparr>)
     demo_world alice (demo_app demo_cp))))) = es \<and> (\<forall>e \<in> set es. ae_actor e = ''alice'')"
  using admin_changes_audited [of demo_world "PostDomain 1 \<lparr>cd_fqdn = ''mail.acme.io''\<rparr>" alice "demo_app demo_cp"]
  by (auto simp: demo_world_def demo_cp_def actor_def alice_def)

text \<open>With token verification configured, nothing a request does reaches the database unless it
  carries a bearer token that verifies, and then it is exactly what the handler does for the caller of
  that token.\<close>

theorem admin_requires_token:
  assumes "serve ps cfg w (admin_path rq) hs (admin_handle rq aw) (ks, st) = (rep, ks', st')"
    and "st' \<noteq> st" "enforcing cfg"
  shows "\<exists>token c. bearer ps hs = Some token \<and> verify ps cfg w token ks = (Inr c, ks')
     \<and> st' = snd (admin_handle rq aw c st) \<and> rep = reply_of (fst (admin_handle rq aw c st))"
  using assms(1,2)
proof (rule admin.admitted)
  fix c assume c: "caller ps cfg w hs ks = (Inr c, ks')" "snd (admin_handle rq aw c st) = st'"
    "rep = reply_of (fst (admin_handle rq aw c st))"
  from c(1) assms(3) obtain token where "bearer ps hs = Some token" "verify ps cfg w token ks = (Inr c, ks')"
    by (auto simp: caller_def elim!: tryb_Inr from_result_Inr)
  with c show ?thesis by blast
qed

theorem admin_requires_token_witness:
  "\<exists>token. bearer (demo_prims 500)
     (\<lambda>h. if h = ''authorization'' then Some ''Bearer header.payload.kheader!dpayload'' else None) = Some token"
proof -
  let ?ps = "demo_prims 500"
  let ?hs = "\<lambda>h. if h = ''authorization'' then Some ''Bearer header.payload.kheader!dpayload'' else None"
  let ?rq = "PostTenant (create_tenant_req ''initech'' ''Initech'' None)"
  let ?run = "serve ?ps demo_auth (demo_auth_world 400) (admin_path ?rq) ?hs (admin_handle ?rq demo_world) (None, demo_app demo_cp)"
  have v: "verify ?ps demo_auth (demo_auth_world 400) ''header.payload.kheader!dpayload'' None =
     (Inr \<lparr>subject = ''client:ci'', caller_tenant_id = Some 1, roles = [''admin'']\<rparr>,
      store_keys demo_auth (parse_jwks ?ps [mock_jwk demo_mint demo_idp]) 1)"
    by (simp add: demo_verify now_unix_def i64_ok_def)
  have b: "bearer ?ps ?hs = Some ''header.payload.kheader!dpayload''"
    by (simp add: bearer_def)
  have e: "enforcing demo_auth" by (simp add: enforcing_def demo_auth_def)
  have c: "caller ?ps demo_auth (demo_auth_world 400) ?hs None =
     (Inr \<lparr>subject = ''client:ci'', caller_tenant_id = Some 1, roles = [''admin'']\<rparr>,
      store_keys demo_auth (parse_jwks ?ps [mock_jwk demo_mint demo_idp]) 1)"
    by (simp add: caller_def e b v tryb_def from_result_def)
  have "tenants (committed (app_db (snd (snd ?run)))) \<noteq> tenants demo_cp"
    by (simp add: serve_def require_auth_def c tryb_def from_result_def
        answer_def db_only_def create_tenant_def create_tenant_body_def create_tenant_req_def default_plan_def
        validate_slug_def slug_char_def ascii_lower_def ascii_digit_def starts_with_def ends_with_def
        in_tx_def platform_tx.open_quiet exec_def insert_tenant_def tenants_check_def slug_check_def
        record_audit_def insert_audit_def audit_fk_def has_tenant_def create_tenant_entry_def new_tenant_def
        Tenant.truncate_def demo_world_def demo_cp_def demo_rows Let_def)
  then have ne: "snd (snd ?run) \<noteq> demo_app demo_cp" by auto
  have "?run = (fst ?run, fst (snd ?run), snd (snd ?run))" by simp
  from admin_requires_token [OF this ne e] show ?thesis by blast
qed



section \<open>Functional behaviour without faults\<close>

text \<open>Creating a tenant, fault-free, on every branch: an invalid slug is refused with 422 before the
  database is asked; a slug (or identifier) in use is a unique violation, answered 409; otherwise the
  answer is 201 with the new active tenant, which is the last row of the table, and the audit log has
  one more entry.\<close>

theorem create_tenant_correct:
  assumes "net s = []"
  shows "create_tenant fresh now who req s =
    (let row = new_tenant fresh (ct_slug req) (ct_name req) (ct_plan req) (platform_scope now (role s)) in
     case validate_slug (ct_slug req) of
       Inl e \<Rightarrow> (Inl e, s)
     | Inr _ \<Rightarrow>
         if list_ex (\<lambda>r. ten_id r = fresh \<or> ten_slug r = ct_slug req) (tenants (committed s))
         then (Inl (Db (DbErr UniqueViolation)), s)
         else (Inr (201, Tenant.truncate row),
               s\<lparr>committed := (committed s)\<lparr>tenants := tenants (committed s) @ [row],
                  audit_log := audit_log (committed s) @ [audit_of (platform_scope now (role s))
                     (create_tenant_entry who (Tenant.truncate row))]\<rparr>\<rparr>))"
proof (cases "validate_slug (ct_slug req)")
  case (Inl e)
  then show ?thesis by (simp add: create_tenant_def tryb_def from_result_def Let_def)
next
  case (Inr u)
  then have ok: "slug_check (ct_slug req)"
    using validate_slug_iff [of "ct_slug req"] by simp
  have chk: "tenants_check (platform_scope now r) row" for r row
    by (simp add: tenants_check_def)
  have id: "ten_id (Tenant.truncate (new_tenant fresh a b c sc)) = fresh" for a b c sc
    by (simp add: new_tenant_def Tenant.truncate_def)
  show ?thesis
    using assms ok Inr chk
    by (auto simp: create_tenant_def create_tenant_body_def tx_quiet tryb_def from_result_def exec_def
        insert_tenant_def Let_def record_audit_def insert_audit_def audit_of_def audit_fk_def has_tenant_def
        create_tenant_entry_def new_tenant_def Tenant.truncate_def list_ex_iff split: prod.splits)
qed

theorem create_tenant_correct_witness:
  "fst (create_tenant 7 5 alice (create_tenant_req ''initech'' ''Initech'' None) (demo_session demo_cp))
     = Inr (201, \<lparr>ten_id = 7, ten_slug = ''initech'', ten_name = ''Initech'', ten_plan = ''standard'',
                   ten_status = ''active'', ten_created_at = 5\<rparr>)
   \<and> fst (create_tenant 7 5 alice (create_tenant_req ''acme'' ''Again'' None) (demo_session demo_cp))
     = Inl (Db (DbErr UniqueViolation))"
  by (simp add: create_tenant_correct create_tenant_req_def default_plan_def validate_slug_def slug_char_def
      ascii_lower_def ascii_digit_def starts_with_def ends_with_def demo_cp_def demo_rows new_tenant_def
      Tenant.truncate_def Let_def)

text \<open>C35: Creating a domain, fault-free and with the tenant's own scope, on every branch, in the order the
  checks fire: syntax (422), the schema's constraint, uniqueness over all tenants, existence of the
  tenant; the last three are database errors.\<close>

theorem create_domain_correct:
  assumes "net s = []"
  shows "create_domain fresh now t who req s =
    (let row = new_domain fresh t (cd_fqdn req) (tenant_scope t now (role s)) in
     case validate_fqdn (cd_fqdn req) of
       Inl e \<Rightarrow> (Inl e, s)
     | Inr _ \<Rightarrow>
         if \<not> fqdn_check (cd_fqdn req) then (Inl (Db (DbErr CheckViolation)), s)
         else if list_ex (\<lambda>r. dom_id r = fresh \<or> dom_fqdn r = cd_fqdn req) (domains (committed s))
         then (Inl (Db (DbErr UniqueViolation)), s)
         else if \<not> has_tenant t (committed s) then (Inl (Db (DbErr ForeignKeyViolation)), s)
         else (Inr (201, row),
               s\<lparr>committed := (committed s)\<lparr>domains := domains (committed s) @ [row],
                  audit_log := audit_log (committed s) @ [audit_of (tenant_scope t now (role s))
                     (create_domain_entry t who row)]\<rparr>\<rparr>))"
  using assms
  by (auto simp: create_domain_def create_domain_body_def tx_quiet tryb_def from_result_def exec_def
      insert_domain_def Let_def record_audit_def insert_audit_def audit_of_def audit_fk_def
      domains_policy_def create_domain_entry_def new_domain_def list_ex_iff split: prod.splits sum.splits)

text \<open>A name the API accepts and the database refuses: its top-level label has a digit.\<close>

theorem create_domain_correct_witness:
  "create_domain 7 5 1 alice \<lparr>cd_fqdn = ''mail.x1''\<rparr> (demo_session demo_cp)
     = (Inl (Db (DbErr CheckViolation)), demo_session demo_cp)
   \<and> fst (into_response (Db (DbErr CheckViolation))) = 500"
  by (simp add: create_domain_correct validate_fqdn_def fqdn_check_def label_ok_def tld_check_def slug_char_def
      ascii_lower_def ascii_digit_def starts_with_def ends_with_def into_response_def Let_def)

lemma fetch_optional_map: "fetch_optional (map f xs) = map_option f (fetch_optional xs)"
  by (cases xs) auto

text \<open>The transaction that creates an account, fault-free, on every branch: an invalid local part is
  refused with 422; a domain that is not the tenant's, or suspended, is answered 404; a quota outside
  1..1048576 and an address in use are refused by the database; otherwise the account is
  \<open>local@fqdn\<close>, pending, with one audit entry.\<close>

theorem create_account_tx_correct:
  assumes "net s = []" "\<not> privileged (role s)"
  shows "create_account_tx fresh now t who req s =
    (case validate_local_part (ca_local_part req) of
       Inl e \<Rightarrow> (Inl e, s)
     | Inr _ \<Rightarrow>
       (case fetch_optional (filter (\<lambda>r. dom_tenant_id r = t \<and> dom_id r = ca_domain_id req
                \<and> dom_status r \<noteq> ''suspended'') (domains (committed s))) of
          None \<Rightarrow> (Inl NotFound, s)
        | Some x \<Rightarrow>
          (let row = new_account fresh t (ca_domain_id req) (ca_local_part req @ ''@'' @ dom_fqdn x)
                       (ca_display_name req) (ca_quota_mb req) (tenant_scope t now (role s)) in
           if \<not> quota_check (ca_quota_mb req) then (Inl (Db (DbErr CheckViolation)), s)
           else if list_ex (\<lambda>r. acc_id r = fresh \<or> acc_email r = acc_email row) (accounts (committed s))
           then (Inl (Db (DbErr UniqueViolation)), s)
           else if \<not> has_tenant t (committed s) then (Inl (Db (DbErr ForeignKeyViolation)), s)
           else (Inr (Account.truncate row),
                 s\<lparr>committed := (committed s)\<lparr>accounts := accounts (committed s) @ [row],
                    audit_log := audit_log (committed s) @ [audit_of (tenant_scope t now (role s))
                       (create_account_entry t who (Account.truncate row))]\<rparr>\<rparr>))))"
proof (cases "validate_local_part (ca_local_part req)")
  case (Inl e)
  then show ?thesis by (simp add: create_account_tx_def tryb_def from_result_def)
next
  case (Inr u)
  let ?sc = "tenant_scope t now (role s)"
  let ?vis = "filter (\<lambda>r. dom_tenant_id r = t \<and> dom_id r = ca_domain_id req \<and> dom_status r \<noteq> ''suspended'')
      (domains (committed s))"
  have vis: "select_rows domains_policy ?sc (\<lambda>r. dom_id r = ca_domain_id req \<and> dom_status r \<noteq> ''suspended'')
      (domains (committed s)) = ?vis"
    using assms(2) by (simp add: select_rows_def domains_rls.using_tenant)
  have sel: "select_domain_fqdn (ca_domain_id req) ?sc (committed s)
      = Inr (map_option dom_fqdn (fetch_optional ?vis), committed s)"
    by (simp add: select_domain_fqdn_def vis fetch_optional_map)
  show ?thesis
  proof (cases "fetch_optional ?vis")
    case None
    then show ?thesis
      using assms(1) Inr sel
      by (simp add: create_account_tx_def create_account_body_def tx_quiet tryb_def from_result_def exec_def)
  next
    case (Some x)
    then have "x \<in> set ?vis" by (rule fetch_optional_Some)
    then have "has_domain (ca_domain_id req) (committed s)"
      by (auto simp: has_domain_def list_ex_iff)
    then show ?thesis
      using assms(1) Inr sel Some
      by (auto simp: create_account_tx_def create_account_body_def tx_quiet tryb_def from_result_def exec_def
          insert_account_def Let_def record_audit_def insert_audit_def audit_of_def audit_fk_def
          accounts_policy_def create_account_entry_def new_account_def Account.truncate_def list_ex_iff
          split: prod.splits sum.splits)
  qed
qed

theorem create_account_tx_correct_witness:
  "map_sum id acc_email (fst (create_account_tx 7 5 1 alice (create_account_req 10 ''dave'' None None) (demo_session demo_cp)))
     = Inr ''dave@acme.io''
   \<and> fst (create_account_tx 7 5 1 alice (create_account_req 20 ''dave'' None None) (demo_session demo_cp)) = Inl NotFound"
  by (simp add: create_account_tx_correct create_account_req_def default_quota_def validate_local_part_def local_char_def
      ascii_lower_def ascii_digit_def starts_with_def ends_with_def demo_cp_def demo_rows new_account_def
      Account.truncate_def quota_check_def has_tenant_def Let_def)

section \<open>Policies\<close>

lemma get_policy_quiet:
  assumes "net s = []" "\<not> privileged (role s)"
  shows "get_policy now t s =
     (Inr (case fetch_optional (filter (\<lambda>p. pol_tenant_id p = t) (abuse_policies (committed s))) of
             None \<Rightarrow> policy_defaults now t | Some p \<Rightarrow> p), s)"
proof -
  have "select_rows abuse_policy_policy (tenant_scope t now (role s)) (\<lambda>p. pol_tenant_id p = t) rows
      = filter (\<lambda>p. pol_tenant_id p = t) rows" for rows
    using assms(2) by (auto simp: select_rows_def policies_rls.using_tenant intro: filter_cong)
  then show ?thesis
    using assms(1) by (simp add: get_policy_def tx_quiet tryb_def exec_def select_policy_def)
qed

lemma policy_set_lookup:
  assumes "policy_set t who req sc d p d'" "cp_wf d"
  shows "fetch_optional (filter (\<lambda>q. pol_tenant_id q = t) (abuse_policies d')) = Some p"
proof -
  from assms(1) obtain d1 where
    ups: "upsert_policy t (sp_reject req) (sp_add_header req) (sp_greylist req) sc d = Inr (p, d1)"
    and d': "abuse_policies d' = abuse_policies d1"
    by (auto simp: policy_set_def)
  have p: "pol_tenant_id p = t" using upsert_policy_Inr(1) [OF ups] by simp
  show ?thesis
  proof (cases "\<exists>r \<in> set (abuse_policies d). pol_tenant_id r = t")
    case True
    then have "filter (\<lambda>q. pol_tenant_id q = t) (map (\<lambda>r. if pol_tenant_id r = t then p else r) rows)
        = map (\<lambda>_. p) (filter (\<lambda>q. pol_tenant_id q = t) rows)" for rows
      using p by (induction rows) auto
    moreover have "filter (\<lambda>q. pol_tenant_id q = t) (abuse_policies d) \<noteq> []"
      using True by (auto simp: filter_empty_conv)
    ultimately show ?thesis
      using upsert_policy_Inr(5) [OF ups True] d' by (cases "filter (\<lambda>q. pol_tenant_id q = t) (abuse_policies d)") auto
  next
    case False
    then have "filter (\<lambda>q. pol_tenant_id q = t) (abuse_policies d) = []" by (auto simp: filter_empty_conv)
    then show ?thesis
      using upsert_policy_Inr(6) [OF ups] False d' p by simp
  qed
qed

lemma put_policy_Inr:
  assumes "put_policy now t who req s = (Inr p, s1)"
  shows "validate_policy req = Inr () \<and> policy_set t who req (tenant_scope t now (role s)) (committed s) p (committed s1)"
proof -
  from assms have "validate_policy req = Inr ()" "in_tx (tenant_tx t now) Db (put_policy_body t who req) s = (Inr p, s1)"
    by (auto simp: put_policy_def elim!: tryb_Inr from_result_Inr)
  with put_policy.run_Inr show ?thesis by blast
qed

text \<open>A policy that was accepted is the policy read back, with the thresholds of the request, whatever
  the network did while it was set.\<close>

theorem policy_roundtrip:
  assumes "put_policy now t who req s = (Inr p, s1)" "cp_wf (committed s)"
    and "committed s2 = committed s1" "net s2 = []" "\<not> privileged (role s2)"
  shows "get_policy now2 t s2 = (Inr p, s2)
    \<and> pol_reject p = sp_reject req \<and> pol_add_header p = sp_add_header req \<and> pol_greylist p = sp_greylist req"
proof -
  from put_policy_Inr [OF assms(1)] have ps: "policy_set t who req (tenant_scope t now (role s)) (committed s) p (committed s1)" ..
  then obtain d1 where "upsert_policy t (sp_reject req) (sp_add_header req) (sp_greylist req)
      (tenant_scope t now (role s)) (committed s) = Inr (p, d1)" by (auto simp: policy_set_def)
  from upsert_policy_Inr(1) [OF this] get_policy_quiet [OF assms(4,5)] policy_set_lookup [OF ps assms(2)] assms(3)
  show ?thesis by simp
qed

lemma put_policy_quiet_demo:
  "put_policy 5 1 alice \<lparr>sp_reject = Finite 20, sp_add_header = Finite 8, sp_greylist = Finite 5\<rparr> (demo_session demo_cp) =
    (Inr \<lparr>pol_tenant_id = 1, pol_reject = Finite 20, pol_add_header = Finite 8, pol_greylist = Finite 5, pol_updated_at = 5\<rparr>,
     demo_session (demo_cp\<lparr>abuse_policies := [\<lparr>pol_tenant_id = 1, pol_reject = Finite 20, pol_add_header = Finite 8,
         pol_greylist = Finite 5, pol_updated_at = 5\<rparr>],
       audit_log := [audit_of (tenant_scope 1 5 app_role) (put_policy_entry 1 alice
          \<lparr>sp_reject = Finite 20, sp_add_header = Finite 8, sp_greylist = Finite 5\<rparr>)]\<rparr>))"
  by (simp add: put_policy_def put_policy_body_def validate_policy_def tx_quiet tryb_def from_result_def exec_def
      upsert_policy_def abuse_policy_policy_def policy_check_def demo_cp_def has_tenant_def demo_rows
      record_audit_def insert_audit_def audit_fk_def put_policy_entry_def audit_of_def demo_session_def Let_def)

theorem policy_roundtrip_witness:
  "fst (get_policy 9 1 (snd (put_policy 5 1 alice \<lparr>sp_reject = Finite 20, sp_add_header = Finite 8, sp_greylist = Finite 5\<rparr>
      (demo_session demo_cp))))
   = Inr \<lparr>pol_tenant_id = 1, pol_reject = Finite 20, pol_add_header = Finite 8, pol_greylist = Finite 5, pol_updated_at = 5\<rparr>"
  using policy_roundtrip [OF put_policy_quiet_demo _ refl, of 9] by (simp add: put_policy_quiet_demo)

lemma get_policy_effective:
  assumes "net s = []" "\<not> privileged (role s)"
  shows "\<exists>p. get_policy now t s = (Inr p, s) \<and> pol_tenant_id p = t
     \<and> (pol_reject p, pol_add_header p, pol_greylist p) = effective (committed s) t"
proof (cases "fetch_optional (filter (\<lambda>p. pol_tenant_id p = t) (abuse_policies (committed s)))")
  case None
  then show ?thesis
    by (simp add: get_policy_quiet [OF assms] effective_def coalesced_def policy_defaults_def REJECT_def
        ADD_HEADER_def GREYLIST_def)
next
  case (Some p)
  then have "p \<in> set (filter (\<lambda>p. pol_tenant_id p = t) (abuse_policies (committed s)))"
    by (rule fetch_optional_Some)
  with Some show ?thesis
    by (simp add: get_policy_quiet [OF assms] effective_def coalesced_def)
qed

text \<open>C26: The policy the API shows for a tenant has the thresholds the compiler renders for it, set or
  unset: the two programs agree on the defaults.\<close>

theorem policy_shown_is_effective:
  assumes "net s = []" "\<not> privileged (role s)"
  shows "\<exists>p. get_policy now t s = (Inr p, s) \<and> pol_tenant_id p = t
     \<and> (pol_reject p, pol_add_header p, pol_greylist p) = effective (committed s) t"
  by (rule get_policy_effective [OF assms])

theorem policy_shown_is_effective_witness:
  "\<exists>p. get_policy 9 1 (demo_session demo_cp) = (Inr p, demo_session demo_cp) \<and> pol_tenant_id p = 1
     \<and> (pol_reject p, pol_add_header p, pol_greylist p) = effective demo_cp 1"
  using policy_shown_is_effective [of "demo_session demo_cp" 9 1] by simp

section \<open>Accounts and the identity plane\<close>











lemma demo_provision:
  "provision_user demo_sesame_cfg (demo_sesame True) em dn None = (Inr 500, store_token ''tok'' 3600 0)"
  by (simp add: provision_user_def token_def cached_token_def is_success_def tryb_def)



text \<open>The activation that follows a successful answer of sesame has no guard on the account's status:
  an account that was suspended (or deleted) while sesame was called is made active again.\<close>

theorem provisioning_reactivates:
  assumes "provision_user cfg w (acc_email account) (acc_display_name account) slot = (Inr u, slot')"
    and "net s = []" "\<not> privileged (role s)" "cp_wf (other (committed s))"
    and "r \<in> set (accounts (other (committed s)))" "acc_id r = acc_id account" "acc_tenant_id r = t"
  shows "\<exists>a s'. provision_into_sesame w other now cfg slot t account who s = (a, slot', s')
     \<and> acc_status a = ''active''
     \<and> (\<exists>r' \<in> set (accounts (committed s')). acc_id r' = acc_id r \<and> acc_status r' = ''active'')"
proof -
  let ?d = "other (committed s)" and ?sc = "tenant_scope t now (role s)"
  have vis: "accounts_policy ?sc r"
    using assms(3,7) by (simp add: accounts_rls.using_tenant)
  have one: "select_rows accounts_policy ?sc (\<lambda>x. acc_id x = acc_id account) (accounts ?d) = [r]"
    by (rule select_key_unique [where key = acc_id]) (use assms vis in \<open>simp_all add: cp_wf_def accounts_wf_def\<close>)
  have ht: "has_tenant t ?d"
    using assms(4,5,7) by (auto simp: cp_wf_def accounts_wf_def account_wf_def)
  have mem: "activate u ?sc r \<in> set (update_rows accounts_policy ?sc (\<lambda>x. acc_id x = acc_id account) (activate u ?sc) (accounts ?d))"
    using assms(5,6) vis by (auto simp: update_rows_def intro!: image_eqI [of _ _ r])
  show ?thesis
    using assms(1,2) ht mem assms(6)
    by (simp add: provision_into_sesame_def tx_quiet provision_body_def tryb_def exec_def update_account_active_def
        updated_rows_def one record_audit_def insert_audit_def audit_fk_def provisioned_entry_def Account.truncate_def Let_def)
      (auto intro!: bexI [of _ "activate u ?sc r"])
qed

definition suspend_all :: "control_plane \<Rightarrow> control_plane" where
  "suspend_all d = d\<lparr>accounts := map (\<lambda>r. r\<lparr>acc_status := ''suspended''\<rparr>) (accounts d)\<rparr>"

theorem provisioning_reactivates_witness:
  "\<exists>a s'. provision_into_sesame (demo_sesame True) suspend_all 9 demo_sesame_cfg None 1 (Account.truncate bob) ''alice''
       (demo_session demo_cp) = (a, store_token ''tok'' 3600 0, s')
     \<and> acc_status a = ''active''
     \<and> (\<exists>r' \<in> set (accounts (committed s')). acc_id r' = 100 \<and> acc_status r' = ''active'')"
proof -
  have "cp_wf (suspend_all demo_cp)"
    using demo_cp_wf
    by (auto simp: cp_wf_def tenants_wf_def domains_wf_def accounts_wf_def account_wf_def policies_wf_def audit_wf_def
        suspend_all_def account_status_check_def o_def audit_fk_def split: option.splits)
  then show ?thesis
    using provisioning_reactivates [OF demo_provision, of "demo_session demo_cp" suspend_all
        "bob\<lparr>acc_status := ''suspended''\<rparr>" "Account.truncate bob" 1]
    by (simp add: suspend_all_def demo_cp_def bob_def Account.truncate_def)
qed

end
