(* ===== verification/AbuseProperties.thy ===== *)
theory AbuseProperties
  imports Examples
begin

text \<open>The properties of the abuse decision record and of the quarantine workflow.\<close>

section \<open>A concrete database\<close>

definition demo_req :: "string \<Rightarrow> string \<Rightarrow> RecordDecision" where
  "demo_req mref act = record_decision_req mref None ''bob@acme.io'' None (Finite 12) act (Some ''spam'') None None"

definition demo_decision :: AbuseDecision where
  "demo_decision = \<lparr>ad_id = 200, ad_tenant_id = 1, ad_message_ref = ''m1'', ad_direction = ''inbound'',
     ad_recipient = ''bob@acme.io'', ad_sender = [], ad_score = Finite 12, ad_action = ''quarantine'',
     ad_verdict = ''spam'', ad_symbols = JArr [], ad_scanned_at = 5\<rparr>"

definition demo_item :: QuarantineItem where
  "demo_item = \<lparr>qi_id = 300, qi_tenant_id = 1, qi_decision_id = 200, qi_message_ref = ''m1'',
     qi_recipient = ''bob@acme.io'', qi_sender = [], qi_subject = [], qi_reason = ''spam (score 12.0)'',
     qi_status = ''held'', qi_reported_as = None, qi_held_at = 5, qi_resolved_at = None, qi_resolved_by = None\<rparr>"

definition demo_fmt :: "f64 \<Rightarrow> string" where
  "demo_fmt x = (if x = Finite 12 then ''12.0'' else [])"

definition demo_held :: abuse_store where
  "demo_held = \<lparr>audit_log = [audit_of (tenant_scope 1 5 app_role) (decision_entry 1 alice (demo_req ''m1'' ''quarantine'') demo_decision)],
     decisions = [demo_decision], quarantine_items = [demo_item]\<rparr>"

lemmas demo_abuse_defs = demo_req_def demo_decision_def demo_item_def demo_held_def record_decision_req_def
  default_direction_def default_verdict_def

lemma demo_record:
  "record_decision demo_fmt 200 300 5 1 alice (demo_req ''m1'' ''quarantine'') (demo_session empty_abuse_store)
     = (Inr (201, demo_decision), demo_session demo_held)"
  by (simp add: record_decision_def record_decision_body_def VALID_ACTIONS_def VALID_VERDICTS_def tx_quiet tryb_def
      exec_def insert_decision_def decision_policy_def direction_check_def action_check_def verdict_check_def
      insert_item_def quarantine_policy_def new_decision_def new_item_def record_audit_def insert_audit_def
      abuse_audit_fk_def decision_entry_def audit_of_def empty_abuse_store_def demo_abuse_defs demo_fmt_def
      demo_session_def Let_def)

lemma demo_held_reachable: "abuse_reachable demo_fmt app_role demo_held"
proof -
  have "abuse_step demo_fmt app_role empty_abuse_store demo_held"
    using abuse_step.recording [OF demo_record, of app_role] by simp
  then show ?thesis by (rule abuse_reachable.step [OF abuse_reachable.start])
qed

section \<open>Invariant and boundary\<close>

text \<open>C6: In every reachable state of the abuse database: identifiers and (tenant, message) keys are
  unique, every value is one the schema allows, every item stems from a quarantine decision on the same
  message of the same tenant and every such decision has an item, an item is resolved (time and person)
  exactly when it is no longer held, and the log has exactly one entry per decision and one release
  entry per released item.\<close>

theorem abuse_invariant:
  assumes "abuse_reachable fmt1 ro d"
  shows "abuse_wf d"
  using assms by (rule abuse_reachable_wf)

theorem abuse_invariant_witness: "abuse_wf demo_held \<and> quarantine_items demo_held \<noteq> []"
  using abuse_invariant [OF demo_held_reachable] by (simp add: demo_held_def)

text \<open>A request to the abuse service on the path of one tenant leaves the decisions, the quarantine
  and the log of every other tenant as they were.\<close>

theorem abuse_tenant_isolation:
  assumes "\<not> privileged (role s)" "t' \<noteq> abuse_tenant rq"
  shows "abuse_part t' (committed (snd (abuse_handle rq bw c s))) = abuse_part t' (committed s)"
  using assms by (rule abuse_handle_part)

definition demo_abuse_world :: abuse_world where
  "demo_abuse_world = \<lparr>bw_fresh = 200, bw_fresh_item = 300, bw_now = 5, bw_fmt1 = demo_fmt\<rparr>"

theorem abuse_tenant_isolation_witness:
  "abuse_part 1 (committed (snd (abuse_handle (PostRelease 2 300) demo_abuse_world alice (demo_session demo_held))))
     = abuse_part 1 demo_held"
  using abuse_tenant_isolation [of "demo_session demo_held" 1 "PostRelease 2 300" demo_abuse_world alice] by simp

section \<open>The life of an item\<close>

lemma item_evolves_trans: "item_evolves a b \<Longrightarrow> item_evolves b c \<Longrightarrow> item_evolves a c"
  by (cases a; cases b; cases c) (auto simp: item_evolves_def)

text \<open>C15: Whatever requests follow, an item of a reachable state never disappears and never changes its
  message, recipient, decision or tenant; once it is no longer held, its status, the time and the person
  of its resolution are final.\<close>

theorem item_history:
  assumes "abuse_reachable fmt1 ro d" "(abuse_step fmt1 ro)\<^sup>*\<^sup>* d d'" "r \<in> set (quarantine_items d)"
  shows "\<exists>r' \<in> set (quarantine_items d'). item_evolves r r'"
  using assms(2)
proof (induction rule: rtranclp_induct)
  case base
  with assms(3) show ?case by (intro bexI [of _ r]) simp_all
next
  case (step d1 d2)
  from step.IH obtain r1 where r1: "r1 \<in> set (quarantine_items d1)" "item_evolves r r1" by blast
  have "abuse_reachable fmt1 ro d1"
    using step.hyps(1) assms(1) by (induction rule: rtranclp_induct) (auto intro: abuse_reachable.step)
  then have "abuse_wf d1" by (rule abuse_reachable_wf)
  from abuse_step_evolves [OF step.hyps(2) this r1(1)] r1(2) item_evolves_trans show ?case by blast
qed

definition demo_released :: abuse_store where
  "demo_released = committed (snd (release_item 8 1 300 alice (demo_session demo_held)))"

lemma demo_release_step: "abuse_step demo_fmt app_role demo_held demo_released"
  using abuse_step.release [OF surjective_pairing, where s = "demo_session demo_held"] by (simp add: demo_released_def)

theorem item_history_witness: "\<exists>r' \<in> set (quarantine_items demo_released). item_evolves demo_item r'"
  by (rule item_history [OF demo_held_reachable r_into_rtranclp [where r = "abuse_step demo_fmt app_role", OF demo_release_step]])
    (simp add: demo_held_def)

section \<open>The console\<close>

lemma visible_items:
  "\<not> privileged ro \<Longrightarrow> select_rows quarantine_policy (tenant_scope t now ro) p items
     = filter (\<lambda>r. qi_tenant_id r = t \<and> p r) items"
  by (auto simp: select_rows_def quarantine_rls.using_tenant intro: filter_cong)

text \<open>An update by identifier meets one item of the tenant or none.\<close>

lemma update_item_by_id:
  assumes "\<not> privileged ro" "abuse_wf d"
  shows "update_item (\<lambda>r. qi_id r = i \<and> q r) f (tenant_scope t now ro) d =
    (case filter (\<lambda>r. qi_tenant_id r = t \<and> qi_id r = i \<and> q r) (quarantine_items d) of
       [] \<Rightarrow> Inr (None, d)
     | r # _ \<Rightarrow> Inr (Some (f (tenant_scope t now ro) r), d\<lparr>quarantine_items :=
         map (\<lambda>x. if qi_id x = i then f (tenant_scope t now ro) r else x) (quarantine_items d)\<rparr>))"
proof -
  let ?sc = "tenant_scope t now ro" and ?p = "\<lambda>r. qi_id r = i \<and> q r"
  let ?hit = "filter (\<lambda>r. qi_tenant_id r = t \<and> ?p r) (quarantine_items d)"
  have sel: "select_rows quarantine_policy ?sc ?p (quarantine_items d) = ?hit"
    by (rule visible_items [OF assms(1)])
  show ?thesis
  proof (cases ?hit)
    case Nil
    then have "update_rows quarantine_policy ?sc ?p g (quarantine_items d) = quarantine_items d" for g
      using sel by (intro update_rows_none) simp
    with Nil sel show ?thesis by (simp add: update_item_def updated_rows_def)
  next
    case (Cons r rs)
    then have "r \<in> set ?hit" by simp
    then have r: "r \<in> set (quarantine_items d)" "qi_tenant_id r = t" "qi_id r = i" "q r" by simp_all
    have uniq: "x = r" if "x \<in> set (quarantine_items d)" "qi_id x = i" for x
      by (rule distinct_key [of qi_id "quarantine_items d"]) (use assms(2) that r in \<open>simp_all add: abuse_wf_def tables_wf_def\<close>)
    have "update_rows quarantine_policy ?sc ?p (f ?sc) (quarantine_items d)
        = map (\<lambda>x. if qi_id x = i then f ?sc r else x) (quarantine_items d)"
      unfolding update_rows_def
    proof (rule map_cong [OF refl])
      fix x assume x: "x \<in> set (quarantine_items d)"
      show "(if quarantine_policy ?sc x \<and> ?p x then f ?sc x else x) = (if qi_id x = i then f ?sc r else x)"
      proof (cases "qi_id x = i")
        case True
        with uniq [OF x] have "x = r" by simp
        with r assms(1) show ?thesis by (simp add: quarantine_rls.using_tenant)
      qed simp
    qed
    with Cons sel show ?thesis by (simp add: update_item_def updated_rows_def)
  qed
qed

text \<open>The console lists exactly the held items of its tenant, newest first.\<close>

theorem list_quarantine_correct:
  assumes "net s = []" "\<not> privileged (role s)"
  shows "\<exists>items. list_quarantine now t s = (Inr items, s)
     \<and> set items = {r \<in> set (quarantine_items (committed s)). qi_tenant_id r = t \<and> qi_status r = ''held''}
     \<and> length items = length (filter (\<lambda>r. qi_tenant_id r = t \<and> qi_status r = ''held'') (quarantine_items (committed s)))
     \<and> sorted_wrt (\<lambda>a b. qi_held_at b \<le> qi_held_at a) items"
proof -
  let ?xs = "filter (\<lambda>r. qi_tenant_id r = t \<and> qi_status r = ''held'') (quarantine_items (committed s))"
  let ?items = "sort_key (\<lambda>r. - qi_held_at r) ?xs"
  have "sorted (map (\<lambda>r. - qi_held_at r) ?items)" by (rule sorted_sort_key)
  then have "sorted_wrt (\<lambda>a b. qi_held_at b \<le> qi_held_at a) ?items"
    by (simp add: sorted_wrt_map)
  moreover have "list_quarantine now t s = (Inr ?items, s)"
    using assms by (simp add: list_quarantine_def tx_quiet exec_def select_held_def visible_items)
  ultimately show ?thesis by (intro exI [of _ ?items]) auto
qed

theorem list_quarantine_correct_witness:
  "list_quarantine 9 1 (demo_session demo_held) = (Inr [demo_item], demo_session demo_held)"
proof -
  obtain items where l: "list_quarantine 9 1 (demo_session demo_held) = (Inr items, demo_session demo_held)"
    "set items = {demo_item}" "length items = 1"
  proof -
    have "quarantine_items demo_held = [demo_item]" "qi_tenant_id demo_item = 1" "qi_status demo_item = ''held''"
      by (simp_all add: demo_held_def demo_item_def)
    with list_quarantine_correct [of "demo_session demo_held" 9 1] that show ?thesis
      by (simp cong: conj_cong) blast
  qed
  from l(3) obtain x where "items = [x]" by (auto simp: length_Suc_conv)
  with l(1,2) show ?thesis by simp
qed

text \<open>C34: Releasing, fault-free, on every branch: a held item of the tenant is released, with the time and
  the caller, and an audit entry is written; an item that is unknown, of another tenant or no longer held
  is answered 404 and nothing changes, so a second release of the same item fails.\<close>

theorem release_correct:
  assumes "net s = []" "\<not> privileged (role s)" "abuse_wf (committed s)"
  shows "(case filter (\<lambda>r. qi_tenant_id r = t \<and> qi_id r = i \<and> qi_status r = ''held'') (quarantine_items (committed s)) of
       [] \<Rightarrow> release_item now t i who s = (Inl NotFound, s)
     | r # _ \<Rightarrow>
        (let r' = r\<lparr>qi_status := ''released'', qi_resolved_at := Some now, qi_resolved_by := Some (subject who)\<rparr> in
         release_item now t i who s =
          (Inr r', s\<lparr>committed := (committed s)\<lparr>
             quarantine_items := map (\<lambda>x. if qi_id x = i then r' else x) (quarantine_items (committed s)),
             audit_log := audit_log (committed s) @ [audit_of (tenant_scope t now (role s)) (release_entry t who r')]\<rparr>\<rparr>)))"
  using assms(1) update_item_by_id [OF assms(2,3), of i "\<lambda>r. qi_status r = ''held''" "set_released (subject who)" t now]
  by (auto simp: release_item_def release_body_def tx_quiet tryb_def from_result_def exec_def release_update_def
      actor_def record_audit_def insert_audit_def abuse_audit_fk_def audit_of_def release_entry_def set_released_def Let_def
      split: list.splits)

theorem release_correct_witness:
  "fst (release_item 8 1 300 alice (demo_session demo_held))
     = Inr (demo_item\<lparr>qi_status := ''released'', qi_resolved_at := Some 8, qi_resolved_by := Some ''alice''\<rparr>)
   \<and> release_item 8 2 300 alice (demo_session demo_held) = (Inl NotFound, demo_session demo_held)"
proof -
  have wf: "abuse_wf demo_held" by (rule abuse_reachable_wf [OF demo_held_reachable])
  show ?thesis
    using release_correct [of "demo_session demo_held", where t = 1 and i = 300 and now = 8 and who = alice]
      release_correct [of "demo_session demo_held", where t = 2 and i = 300 and now = 8 and who = alice] wf
    by (simp add: demo_held_def demo_item_def alice_def Let_def)
qed

section \<open>Recording decisions\<close>



text \<open>C32: A quarantine decision that was answered with success guarantees an item for its message, whatever
  the network did; and that item is held, unless there was an item for the message before: then that one
  stays as it was, so a message that was released and is quarantined again is not held.\<close>

theorem quarantine_decision_holds:
  assumes "record_decision fmt1 fresh fresh_item now t who req s = (Inr (status, a), s')" "rd_action req = ''quarantine''"
  shows "\<exists>r \<in> set (quarantine_items (committed s')). qi_tenant_id r = t \<and> qi_message_ref r = rd_message_ref req
     \<and> (if r \<in> set (quarantine_items (committed s))
        then quarantine_items (committed s') = quarantine_items (committed s)
        else qi_status r = ''held'' \<and> qi_decision_id r = ad_id a)"
proof -
  let ?sy = "if rd_symbols req = JNull then JArr [] else rd_symbols req"
  from assms(1) obtain a' where tx: "in_tx (tenant_tx t now) Db (record_decision_body fmt1 fresh fresh_item t who req ?sy) s = (Inr a', s')"
    and a: "a' = a"
    by (auto simp: record_decision_def Let_def split: if_splits elim!: tryb_Inr)
  let ?reason = "rd_verdict req @ '' (score '' @ fmt1 (rd_score req) @ '')''"
  let ?item = "new_item fresh_item t fresh req ?reason (tenant_scope t now (role s))"
  have rel: "decision_recorded fmt1 fresh fresh_item t who req ?sy (tenant_scope t now (role s)) (committed s) a (committed s')"
    using record_decision.run_Inr [OF tx] a by simp
  show ?thesis
  proof (cases "held_item t req (committed s)")
    case True
    then obtain r where "r \<in> set (quarantine_items (committed s))" "qi_tenant_id r = t" "qi_message_ref r = rd_message_ref req"
      by (auto simp: held_item_def)
    with rel True show ?thesis by (intro bexI [of _ r]) (auto simp: decision_recorded_def Let_def)
  next
    case False
    have items: "quarantine_items (committed s') = quarantine_items (committed s) @ [?item]" "ad_id a = fresh"
      "\<forall>r \<in> set (quarantine_items (committed s)). qi_id r \<noteq> fresh_item"
      using rel False assms(2) by (auto simp: decision_recorded_def Let_def)
    then have "?item \<notin> set (quarantine_items (committed s))" by auto
    with items show ?thesis by (intro bexI [of _ ?item]) auto
  qed
qed

theorem quarantine_decision_holds_witness:
  "\<exists>r \<in> set (quarantine_items demo_held). qi_tenant_id r = 1 \<and> qi_message_ref r = ''m1'' \<and> qi_status r = ''held''"
  using quarantine_decision_holds [OF demo_record]
  by (simp add: demo_req_def record_decision_req_def empty_abuse_store_def) blast

text \<open>Reporting, fault-free, on every branch: a verdict other than spam or ham is refused with 422; an
  item that is unknown or of another tenant is answered 404; otherwise, whatever the status of the item,
  its reported verdict and nothing else of it changes, and an audit entry is written.\<close>

theorem report_correct:
  assumes "net s = []" "\<not> privileged (role s)" "abuse_wf (committed s)"
  shows "report_item now t i who verdict s =
    (if verdict \<notin> {''spam'', ''ham''}
     then (Inl (Validation (''verdict must be '' @ quoted ''spam'' @ '' or '' @ quoted ''ham'')), s)
     else (case filter (\<lambda>r. qi_tenant_id r = t \<and> qi_id r = i) (quarantine_items (committed s)) of
       [] \<Rightarrow> (Inl NotFound, s)
     | r # _ \<Rightarrow>
        (let r' = r\<lparr>qi_reported_as := Some verdict\<rparr> in
          (Inr r', s\<lparr>committed := (committed s)\<lparr>
             quarantine_items := map (\<lambda>x. if qi_id x = i then r' else x) (quarantine_items (committed s)),
             audit_log := audit_log (committed s) @ [audit_of (tenant_scope t now (role s)) (report_entry t who verdict r')]\<rparr>\<rparr>))))"
  using assms(1) update_item_by_id [OF assms(2,3), of i "\<lambda>_. True" "set_reported verdict" t now]
  by (auto simp: report_item_def report_body_def tx_quiet tryb_def from_result_def exec_def report_update_def
      record_audit_def insert_audit_def abuse_audit_fk_def audit_of_def report_entry_def set_reported_def Let_def
      split: list.splits)

theorem report_correct_witness:
  "fst (report_item 8 1 300 alice ''ham'' (demo_session demo_held)) = Inr (demo_item\<lparr>qi_reported_as := Some ''ham''\<rparr>)"
proof -
  have wf: "abuse_wf (committed (demo_session demo_held))"
    using abuse_reachable_wf [OF demo_held_reachable] by simp
  have hit: "filter (\<lambda>r. qi_tenant_id r = 1 \<and> qi_id r = 300) (quarantine_items demo_held) = [demo_item]"
    by (simp add: demo_held_def demo_item_def)
  show ?thesis
    using report_correct [OF _ _ wf, of 8 1 300 alice "''ham''"] hit by (simp add: Let_def)
qed

end
