(* ===== verification/FrontProperties.thy ===== *)
theory FrontProperties
  imports AbuseFront Answers Serving AdminProperties AbuseProperties
begin

text \<open>
  The two services as HTTP sees them: which requests reach a handler, what every other request is answered,
  and the boundaries of the services stated for requests as they arrive.
\<close>

section \<open>Requests that reach their handler\<close>

text \<open>C25: Each operation of both services has a request: sent with its method, on its path and with its
  document, it reaches exactly that operation with exactly those arguments, whatever its headers, provided
  its numbers have a JSON text (and a score is a single-precision number).\<close>

theorem requests_roundtrip:
  assumes "formats_ok f" "admin_sendable req" "abuse_sendable reb"
  shows "accepted admin_routes (admin_unpack f) (admin_asked hs req) = Inr req
    \<and> accepted abuse_routes (abuse_unpack f) (abuse_asked hs reb) = Inr reb"
  using assms by (simp add: admin_asked_accepted abuse_asked_accepted)

definition demo_formats :: formats where
  "demo_formats = \<lparr>seg_uuid = parse_uuid, doc_uuid = parse_uuid, time_text = (\<lambda>t. nat_text (nat t))\<rparr>"

lemma demo_formats_ok [simp]: "formats_ok demo_formats"
  by (simp add: formats_ok_def demo_formats_def)

theorem requests_roundtrip_witness:
  "accepted admin_routes (admin_unpack demo_formats)
     (admin_asked (\<lambda>_. None) (PutPolicy 1 \<lparr>sp_reject = Finite 15, sp_add_header = Finite 6, sp_greylist = Finite 4\<rparr>))
   = Inr (PutPolicy 1 \<lparr>sp_reject = Finite 15, sp_add_header = Finite 6, sp_greylist = Finite 4\<rparr>)"
  using requests_roundtrip [OF demo_formats_ok, of "PutPolicy 1 \<lparr>sp_reject = Finite 15, sp_add_header = Finite 6, sp_greylist = Finite 4\<rparr>"
      "PostRelease 1 2" "\<lambda>_. None"] by simp

section \<open>Every answer\<close>

definition answered :: "'a reply routed \<Rightarrow> bool" where
  "answered rep \<longleftrightarrow> rep \<in> {Health health, Metrics (fst metrics) (snd metrics)}
     \<or> (\<exists>r. rep = App r \<and> (expected_answer r \<or> (\<exists>status \<in> refusals. r = Refused status)))"

lemma handler_answer:
  assumes "fails_in plain_errors (handler c)" "\<And>status a s'. handler c s = (Inr (status, a), s') \<Longrightarrow> status = 200 \<or> status = 201"
  shows "expected_answer (reply_of (fst (handler c s)))"
proof -
  obtain r s' where h: "handler c s = (r, s')" by fastforce
  show ?thesis
  proof (cases r)
    case (Inl e)
    with assms(1) h have "e \<in> plain_errors" unfolding fails_in_def by blast
    with Inl h show ?thesis using plain_error_response by (simp add: reply_of_def)
  next
    case (Inr sa)
    with h assms(2) [of "fst sa" "snd sa" s'] show ?thesis by (auto simp: reply_of_def expected_answer_def split: prod.splits)
  qed
qed

lemma answered_App: "expected_answer r \<Longrightarrow> answered (App r)"
  by (simp add: answered_def)

text \<open>C24: Whatever HTTP request arrives at one of the services, with any method, path, headers and body, it
  is answered: a probe; 401; a refusal of axum (400, 404, 405, 413, 415, 422); 200 or 201 with a document; or
  404, 409, 422 or 500 with one message, for 500 always the same. Only a request that the layer admitted
  and that a handler was called for changes the database, and its answer is that handler's.\<close>

theorem http_answers:
  assumes "admin_http ps cfg w f aw rq (ks, st) = (rep, ks1, st')" "body_ok (rq_body rq)"
    and "abuse_http ps cfg w f bw rb (kb, s) = (rep_b, ks2, s')" "body_ok (rq_body rb)"
  shows "answered rep \<and> answered rep_b
    \<and> (st' = st \<or> (\<exists>c req. caller ps cfg w (rq_headers rq) ks = (Inr c, ks1)
         \<and> accepted admin_routes (admin_unpack f) rq = Inr req
         \<and> rep = App (reply_of (fst (admin_handle req aw c st))) \<and> st' = snd (admin_handle req aw c st)))
    \<and> (s' = s \<or> (\<exists>c req. caller ps cfg w (rq_headers rb) kb = (Inr c, ks2)
         \<and> accepted abuse_routes (abuse_unpack f) rb = Inr req
         \<and> rep_b = App (reply_of (fst (abuse_handle req bw c s))) \<and> s' = snd (abuse_handle req bw c s)))"
proof -
  have refused: "answered rep" if "rep \<in> {Health health, Metrics (fst metrics) (snd metrics)}
      \<or> (\<exists>status \<in> insert 401 refusals. rep = App (Refused status))" for rep :: "'x reply routed"
    using that by (auto simp: answered_def expected_answer_def)
  have admin: "answered (App (reply_of (fst (admin_handle req aw c st))))" for req c
    by (rule answered_App, rule handler_answer [where handler = "admin_handle req aw"])
      (rule admin_errors, erule admin.success)
  have abuse: "answered (App (reply_of (fst (abuse_handle req bw c s))))" for req c
    by (rule answered_App, rule handler_answer [where handler = "abuse_handle req bw"])
      (rule abuse_errors, erule abuse.success)
  from admin_front.http_effect [OF assms(1) [unfolded admin_http_def] assms(2)]
  have "answered rep \<and> (st' = st \<or> (\<exists>c req. caller ps cfg w (rq_headers rq) ks = (Inr c, ks1)
         \<and> accepted admin_routes (admin_unpack f) rq = Inr req
         \<and> rep = App (reply_of (fst (admin_handle req aw c st))) \<and> st' = snd (admin_handle req aw c st)))"
    (is "_ \<and> (_ \<or> ?handled)")
  proof
    assume ?handled
    with admin show ?thesis by metis
  qed (simp add: refused)
  moreover from abuse_front.http_effect [OF assms(3) [unfolded abuse_http_def] assms(4)]
  have "answered rep_b \<and> (s' = s \<or> (\<exists>c req. caller ps cfg w (rq_headers rb) kb = (Inr c, ks2)
         \<and> accepted abuse_routes (abuse_unpack f) rb = Inr req
         \<and> rep_b = App (reply_of (fst (abuse_handle req bw c s))) \<and> s' = snd (abuse_handle req bw c s)))"
    (is "_ \<and> (_ \<or> ?handled_b)")
  proof
    assume ?handled_b
    with abuse show ?thesis by metis
  qed (simp add: refused)
  ultimately show ?thesis by blast
qed

theorem http_answers_witness:
  "\<forall>ps w. answered (fst (admin_http ps (auth_from_env (\<lambda>_. None)) w demo_formats demo_world
     \<lparr>rq_method = OtherMethod ''DELETE'', rq_path = ''/api/v1/tenants'', rq_headers = (\<lambda>_. None), rq_body = NoDocument 415\<rparr>
     (None, demo_app demo_cp)))"
proof (intro allI)
  fix ps w
  let ?rq = "\<lparr>rq_method = OtherMethod ''DELETE'', rq_path = ''/api/v1/tenants'', rq_headers = (\<lambda>_. None), rq_body = NoDocument 415\<rparr>"
  let ?cfg = "auth_from_env (\<lambda>_. None)"
  have body: "body_ok (rq_body ?rq)" by (simp add: body_statuses_def)
  obtain r1 k1 s1 where a: "admin_http ps ?cfg w demo_formats demo_world ?rq (None, demo_app demo_cp) = (r1, k1, s1)"
    by (rule prod_cases3)
  obtain r2 k2 s2 where b: "abuse_http ps ?cfg w demo_formats demo_abuse_world ?rq (None, demo_session demo_held) = (r2, k2, s2)"
    by (rule prod_cases3)
  show "answered (fst (admin_http ps ?cfg w demo_formats demo_world ?rq (None, demo_app demo_cp)))"
    using http_answers [OF a body b body] by (simp add: a)
qed

section \<open>Boundaries\<close>

text \<open>The tenant a path names: the segment behind \<open>/api/v1/tenants/\<close>.\<close>

definition path_tenant :: "formats \<Rightarrow> string \<Rightarrow> uuid option" where
  "path_tenant f path = (case split_on (CHR ''/'') path of _ # _ # _ # _ # s # _ \<Rightarrow> seg_uuid f s | _ \<Rightarrow> None)"

lemma find_route_Some:
  "find_route table path = Some (methods, caps) \<Longrightarrow> \<exists>route. (route, methods) \<in> set table \<and> route_captures route path = Some caps"
  by (induction table path rule: find_route.induct) (auto split: option.splits)

lemma endpoint_Inr:
  assumes "endpoint table m path = Inr (h, caps)"
  shows "\<exists>(route, methods) \<in> set table. h \<in> snd ` set methods \<and> route_captures route path = Some caps"
proof -
  obtain methods where m: "find_route table path = Some (methods, caps)" "map_of methods (served_method m) = Some h"
    using assms by (auto simp: endpoint_def split: option.splits)
  from find_route_Some [OF m(1)] obtain route where "(route, methods) \<in> set table" "route_captures route path = Some caps" by blast
  moreover have "h \<in> snd ` set methods" using map_of_SomeD [OF m(2)] by force
  ultimately show ?thesis by blast
qed

text \<open>Every route of a tenant begins alike.\<close>

lemma tenant_patterns:
  "pattern_of ''/api/v1/tenants'' = map Lit [[], ''api'', ''v1'', ''tenants'']"
  "pattern_of ''/api/v1/tenants/{tenant_id}/domains'' = map Lit [[], ''api'', ''v1'', ''tenants''] @ [Param, Lit ''domains'']"
  "pattern_of ''/api/v1/tenants/{tenant_id}/accounts'' = map Lit [[], ''api'', ''v1'', ''tenants''] @ [Param, Lit ''accounts'']"
  "pattern_of ''/api/v1/tenants/{tenant_id}/policy'' = map Lit [[], ''api'', ''v1'', ''tenants''] @ [Param, Lit ''policy'']"
  "pattern_of ''/api/v1/tenants/{tenant_id}/abuse/decisions''
     = map Lit [[], ''api'', ''v1'', ''tenants''] @ [Param, Lit ''abuse'', Lit ''decisions'']"
  "pattern_of ''/api/v1/tenants/{tenant_id}/quarantine'' = map Lit [[], ''api'', ''v1'', ''tenants''] @ [Param, Lit ''quarantine'']"
  "pattern_of ''/api/v1/tenants/{tenant_id}/quarantine/{item_id}/release''
     = map Lit [[], ''api'', ''v1'', ''tenants''] @ [Param, Lit ''quarantine'', Param, Lit ''release'']"
  "pattern_of ''/api/v1/tenants/{tenant_id}/quarantine/{item_id}/report''
     = map Lit [[], ''api'', ''v1'', ''tenants''] @ [Param, Lit ''quarantine'', Param, Lit ''report'']"
  by (simp_all add: pattern_of_def starts_with_def)

lemma tenant_captured:
  assumes "captures (Lit [] # Lit ''api'' # Lit ''v1'' # Lit ''tenants'' # Param # ps) (split_on (CHR ''/'') path) = Some caps"
  shows "path_tenant f path = seg_uuid f (one_capture caps)"
  using assms unfolding captures_iff one_capture_def path_tenant_def by (elim exE conjE) simp

lemma admin_accepted_tenant:
  assumes "accepted admin_routes (admin_unpack f) rq = Inr req" "admin_tenant req = Some t"
  shows "path_tenant f (rq_path rq) = Some t"
proof -
  from assms(1) obtain h caps where ep: "endpoint admin_routes (rq_method rq) (rq_path rq) = Inr (h, caps)"
    and un: "admin_unpack f h caps (rq_body rq) = Inr req"
    by (auto simp: accepted_def and_then_Inr)
  have "seg_uuid f (one_capture caps) = Some t"
    using un assms(2) by (cases h) (auto simp: and_then_Inr path_uuid_def)
  moreover have "path_tenant f (rq_path rq) = seg_uuid f (one_capture caps)"
    using endpoint_Inr [OF ep] un assms(2)
    by (auto simp: admin_routes_def route_captures_def tenant_patterns and_then_Inr dest: tenant_captured)
  ultimately show ?thesis by simp
qed

lemma abuse_accepted_tenant:
  assumes "accepted abuse_routes (abuse_unpack f) rq = Inr req"
  shows "path_tenant f (rq_path rq) = Some (abuse_tenant req)"
proof -
  from assms(1) obtain h caps where ep: "endpoint abuse_routes (rq_method rq) (rq_path rq) = Inr (h, caps)"
    and un: "abuse_unpack f h caps (rq_body rq) = Inr req"
    by (auto simp: accepted_def and_then_Inr)
  have "seg_uuid f (one_capture caps) = Some (abuse_tenant req)"
    using un by (cases h) (auto simp: and_then_Inr path_uuid_def path_uuids_def)
  moreover have "path_tenant f (rq_path rq) = seg_uuid f (one_capture caps)"
    using endpoint_Inr [OF ep]
    by (auto simp: abuse_routes_def route_captures_def tenant_patterns dest: tenant_captured)
  ultimately show ?thesis by simp
qed

lemma tenant_created_part:
  "tenant_created fresh who req sc d a d' \<Longrightarrow> t \<noteq> fresh \<Longrightarrow> tenant_part t d' = tenant_part t d"
  by (auto simp: tenant_created_def tenant_part_def new_tenant_def create_tenant_entry_def Tenant.truncate_def Let_def)

text \<open>C1: An HTTP request of any shape changes what a tenant owns (in either database, audit entries included)
  only if its path names that tenant: its body, its headers and its caller cannot reach another one. The
  service must run with an unprivileged role, the database must not draw the tenant's identifier for a
  new one, and other sessions must leave the tenant alone too.\<close>

theorem http_tenant_isolation:
  assumes "admin_http ps cfg w f aw rq (ks, st) = (rep, ks1, st')" "path_tenant f (rq_path rq) \<noteq> Some t"
    and "\<not> privileged (role (app_db st))" "aw_fresh aw \<noteq> t" "\<And>d. tenant_part t (aw_other aw d) = tenant_part t d"
    and "abuse_http ps cfg w f bw rb (kb, s) = (rep_b, ks2, s')" "path_tenant f (rq_path rb) \<noteq> Some t"
    and "\<not> privileged (role s)"
  shows "tenant_part t (committed (app_db st')) = tenant_part t (committed (app_db st))
    \<and> abuse_part t (committed s') = abuse_part t (committed s)"
proof
  show "tenant_part t (committed (app_db st')) = tenant_part t (committed (app_db st))"
  proof (cases "st' = st")
    case False
    with assms(1) obtain c req where run: "accepted admin_routes (admin_unpack f) rq = Inr req" "st' = snd (admin_handle req aw c st)"
      unfolding admin_http_def by (rule admin_front.http_changes)
    have other: "admin_tenant req \<noteq> Some t"
      using admin_accepted_tenant [OF run(1)] assms(2) by auto
    let ?P = "\<lambda>d. tenant_part t d = tenant_part t (committed (app_db st))"
    show ?thesis
    proof (cases "admin_tenant req = None \<and> req \<noteq> GetTenants")
      case True
      then obtain ct where ct: "req = PostTenant ct" by (cases req) auto
      have "?P (committed (snd (create_tenant (aw_fresh aw) (aw_now aw) c ct (app_db st))))"
        by (rule create_tenant_keeps [where P = ?P]) (use assms(4) in \<open>auto simp: tenant_created_part\<close>)
      then show ?thesis by (simp add: run(2) ct)
    next
      case False
      then show ?thesis
        unfolding run(2)
        by (intro admin_handle_keeps [where P = ?P])
          (use other assms(3,5) in \<open>auto simp: domain_created_part account_created_part account_activated_part policy_set_part\<close>)
    qed
  qed simp
  show "abuse_part t (committed s') = abuse_part t (committed s)"
  proof (cases "s' = s")
    case False
    with assms(6) obtain c req where run: "accepted abuse_routes (abuse_unpack f) rb = Inr req" "s' = snd (abuse_handle req bw c s)"
      unfolding abuse_http_def by (rule abuse_front.http_changes)
    with abuse_accepted_tenant [OF run(1)] assms(7,8) show ?thesis
      by (simp add: abuse_handle_part)
  qed simp
qed

text \<open>A request whose body names a domain of another tenant, and one for a tenant that does not exist.\<close>

theorem http_tenant_isolation_witness:
  "\<forall>ps w. tenant_part 2 (committed (app_db (snd (snd (admin_http ps (auth_from_env (\<lambda>_. None)) w demo_formats demo_world
     (admin_asked (\<lambda>_. None) (PostAccount 1 (create_account_req 20 ''eve'' None None))) (None, demo_app demo_cp))))))
   = tenant_part 2 demo_cp"
proof (intro allI)
  fix ps w
  let ?cfg = "auth_from_env (\<lambda>_. None)"
  let ?rq = "admin_asked (\<lambda>_. None) (PostAccount 1 (create_account_req 20 ''eve'' None None))"
  let ?rb = "abuse_asked (\<lambda>_. None) (GetQuarantine 1)"
  obtain r1 k1 s1 where a: "admin_http ps ?cfg w demo_formats demo_world ?rq (None, demo_app demo_cp) = (r1, k1, s1)"
    by (rule prod_cases3)
  obtain r2 k2 s2 where b: "abuse_http ps ?cfg w demo_formats demo_abuse_world ?rb (None, demo_session demo_held) = (r2, k2, s2)"
    by (rule prod_cases3)
  have "path_tenant demo_formats (tenant_route 1 rest) = Some 1" if "rest = ''/accounts'' \<or> rest = ''/quarantine''" for rest
    using that split_on_append [of "CHR ''/''" "uuid_text 1"] uuid_text_segment [of 1]
    by (auto simp: path_tenant_def demo_formats_def)
  then have "path_tenant demo_formats (rq_path ?rq) \<noteq> Some 2" "path_tenant demo_formats (rq_path ?rb) \<noteq> Some 2"
    by (simp_all add: admin_asked_def abuse_asked_def del: tenant_route.simps)
  moreover have "aw_fresh demo_world \<noteq> 2" "aw_other demo_world d = d" for d
    by (simp_all add: demo_world_def)
  ultimately show "tenant_part 2 (committed (app_db (snd (snd (admin_http ps ?cfg w demo_formats demo_world ?rq (None, demo_app demo_cp))))))
      = tenant_part 2 demo_cp"
    using http_tenant_isolation [OF a _ _ _ _ b, of 2] by (simp add: a)
qed

lemma http_same_answer:
  assumes "\<And>c req. accepted table unpack rq = Inr req \<Longrightarrow> fst (handler req c app1) = fst (handler req c app2)"
  shows "fst (http_service ps cfg w table unpack handler rq (ks, app1)) = fst (http_service ps cfg w table unpack handler rq (ks, app2))"
proof -
  have "fst (layered ps cfg w table unpack handler rq (ks, app1)) = fst (layered ps cfg w table unpack handler rq (ks, app2))"
    using assms by (auto simp: layered_def serve_def split: sum.split option.split prod.split) (metis fst_conv)
  then show ?thesis by (auto simp: http_service_def mounted_def split: prod.splits)
qed

text \<open>Which handlers a GET may reach.\<close>

lemma admin_get:
  assumes "accepted admin_routes (admin_unpack f) rq = Inr req" "served_method (rq_method rq) = GET"
  shows "req = GetTenants \<or> (\<exists>t. req \<in> {GetDomains t, GetAccounts t, GetPolicy t})"
proof -
  from assms(1) obtain h caps where ep: "endpoint admin_routes (rq_method rq) (rq_path rq) = Inr (h, caps)"
    and un: "admin_unpack f h caps (rq_body rq) = Inr req"
    by (auto simp: accepted_def and_then_Inr)
  from ep obtain methods where "find_route admin_routes (rq_path rq) = Some (methods, caps)" "map_of methods GET = Some h"
    using assms(2) by (auto simp: endpoint_def split: option.splits)
  from find_route_Some [OF this(1)] this(2) have "h \<in> {H_list_tenants, H_list_domains, H_list_accounts, H_get_policy}"
    by (auto simp: admin_routes_def)
  with un show ?thesis by (auto simp: and_then_Inr)
qed

lemma abuse_get:
  assumes "accepted abuse_routes (abuse_unpack f) rq = Inr req" "served_method (rq_method rq) = GET"
  shows "\<exists>t. req = GetQuarantine t"
proof -
  from assms(1) obtain h caps where ep: "endpoint abuse_routes (rq_method rq) (rq_path rq) = Inr (h, caps)"
    and un: "abuse_unpack f h caps (rq_body rq) = Inr req"
    by (auto simp: accepted_def and_then_Inr)
  from ep obtain methods where "find_route abuse_routes (rq_path rq) = Some (methods, caps)" "map_of methods GET = Some h"
    using assms(2) by (auto simp: endpoint_def split: option.splits)
  from find_route_Some [OF this(1)] this(2) have "h = H_list_quarantine"
    by (auto simp: abuse_routes_def)
  with un show ?thesis by (auto simp: and_then_Inr)
qed

lemma tenants_list_path:
  assumes "accepted admin_routes (admin_unpack f) rq = Inr GetTenants"
  shows "path_tenant f (rq_path rq) = None"
proof -
  from assms obtain h caps where ep: "endpoint admin_routes (rq_method rq) (rq_path rq) = Inr (h, caps)"
    and un: "admin_unpack f h caps (rq_body rq) = Inr GetTenants"
    by (auto simp: accepted_def and_then_Inr)
  have "h = H_list_tenants" using un by (cases h) (auto simp: and_then_Inr)
  with endpoint_Inr [OF ep] show ?thesis
    by (auto simp: admin_routes_def route_captures_def tenant_patterns captures_iff path_tenant_def)
qed

lemma quarantine_own:
  assumes "abuse_part t (committed s1) = abuse_part t (committed s2)"
    and "role s1 = role s2" "net s1 = net s2" "\<not> privileged (role s1)"
  shows "fst (list_quarantine now t s1) = fst (list_quarantine now t s2)"
proof -
  have "filter (\<lambda>r. qi_tenant_id r = t) (quarantine_items (committed s1)) = filter (\<lambda>r. qi_tenant_id r = t) (quarantine_items (committed s2))"
    using arg_cong [OF assms(1), of quarantine_items] by (simp add: abuse_part_def)
  then have "select_rows quarantine_policy (tenant_scope t now (role s1)) p (quarantine_items (committed s1))
      = select_rows quarantine_policy (tenant_scope t now (role s1)) p (quarantine_items (committed s2))" for p
    by (simp add: quarantine_rls.select_own [OF assms(4)])
  then show ?thesis
    unfolding list_quarantine_def
    by (intro read_same [where g = "\<lambda>sc d. sort_key (\<lambda>r. - qi_held_at r)
        (select_rows quarantine_policy sc (\<lambda>r. qi_status r = ''held'') (quarantine_items d))", OF assms(3,2)])
      (simp_all add: select_held_def)
qed

lemma answer200_fst: "fst (m s1) = fst (m s2) \<Longrightarrow> fst (answer200 f m s1) = fst (answer200 f m s2)"
  unfolding answer200_def by (rule tryb_ok_fst)

lemma db_only_fst [simp]: "fst (db_only m st) = fst (m (app_db st))"
  by (simp add: db_only_def split: prod.splits)

text \<open>C9: What a GET or HEAD on the path of a tenant is answered, by either service, depends on what that tenant
  owns and on nothing else: databases that agree on the tenant's part give the same status and the same
  document, whatever other tenants have in them.\<close>

theorem http_reads_own_tenant:
  assumes "served_method (rq_method rq) = GET" "path_tenant f (rq_path rq) = Some t"
    and "tenant_part t (committed (app_db st1)) = tenant_part t (committed (app_db st2))"
    and "role (app_db st1) = role (app_db st2)" "net (app_db st1) = net (app_db st2)" "\<not> privileged (role (app_db st1))"
    and "abuse_part t (committed s1) = abuse_part t (committed s2)"
    and "role s1 = role s2" "net s1 = net s2" "\<not> privileged (role s1)"
  shows "fst (admin_http ps cfg w f aw rq (ks, st1)) = fst (admin_http ps cfg w f aw rq (ks, st2))
    \<and> fst (abuse_http ps cfg w f bw rq (kb, s1)) = fst (abuse_http ps cfg w f bw rq (kb, s2))"
proof
  show "fst (admin_http ps cfg w f aw rq (ks, st1)) = fst (admin_http ps cfg w f aw rq (ks, st2))"
    unfolding admin_http_def
  proof (rule http_same_answer)
    fix c req
    assume acc: "accepted admin_routes (admin_unpack f) rq = Inr req"
    then have "req \<noteq> GetTenants" using tenants_list_path assms(2) by force
    with admin_get [OF acc assms(1)] admin_accepted_tenant [OF acc] assms(2)
    have "req \<in> {GetDomains t, GetAccounts t, GetPolicy t}" by force
    then show "fst (admin_handle req aw c st1) = fst (admin_handle req aw c st2)"
      using admin_reads_own_tenant [OF assms(3-6), of "aw_now aw"] by (auto intro!: answer200_fst)
  qed
  show "fst (abuse_http ps cfg w f bw rq (kb, s1)) = fst (abuse_http ps cfg w f bw rq (kb, s2))"
    unfolding abuse_http_def
  proof (rule http_same_answer)
    fix c req
    assume acc: "accepted abuse_routes (abuse_unpack f) rq = Inr req"
    with abuse_get [OF acc assms(1)] abuse_accepted_tenant [OF acc] assms(2) have "req = GetQuarantine t" by auto
    then show "fst (abuse_handle req bw c s1) = fst (abuse_handle req bw c s2)"
      using quarantine_own [OF assms(7-10)] by (auto intro!: answer200_fst)
  qed
qed

text \<open>The accounts of the first tenant, with the second tenant in the database and without.\<close>

theorem http_reads_own_tenant_witness:
  "\<forall>ps w. fst (admin_http ps (auth_from_env (\<lambda>_. None)) w demo_formats demo_world
      (admin_asked (\<lambda>_. None) (GetAccounts 1)) (None, demo_app demo_cp))
    = fst (admin_http ps (auth_from_env (\<lambda>_. None)) w demo_formats demo_world
      (admin_asked (\<lambda>_. None) (GetAccounts 1)) (None, demo_app (demo_cp\<lparr>domains := [acme_domain], tenants := [acme]\<rparr>)))"
proof (intro allI)
  fix ps w
  let ?rq = "admin_asked (\<lambda>_. None) (GetAccounts 1)"
  have get: "served_method (rq_method ?rq) = GET" by (simp add: admin_asked_def)
  have path: "path_tenant demo_formats (rq_path ?rq) = Some 1"
    using split_on_append [of "CHR ''/''" "uuid_text 1"] uuid_text_segment [of 1]
    by (simp add: admin_asked_def path_tenant_def demo_formats_def)
  have "tenant_part 1 demo_cp = tenant_part 1 (demo_cp\<lparr>domains := [acme_domain], tenants := [acme]\<rparr>)"
    by (simp add: tenant_part_def demo_cp_def demo_rows)
  then show "fst (admin_http ps (auth_from_env (\<lambda>_. None)) w demo_formats demo_world ?rq (None, demo_app demo_cp))
    = fst (admin_http ps (auth_from_env (\<lambda>_. None)) w demo_formats demo_world ?rq
        (None, demo_app (demo_cp\<lparr>domains := [acme_domain], tenants := [acme]\<rparr>)))"
    using http_reads_own_tenant [OF get path, of "demo_app demo_cp" "demo_app (demo_cp\<lparr>domains := [acme_domain], tenants := [acme]\<rparr>)"
        "demo_session demo_held" "demo_session demo_held"]
    by simp
qed

text \<open>C8: Where tokens are demanded, whoever is answered anything but 401 outside the probe paths has
  presented a bearer token that verified, so that unknown paths, wrong methods and malformed bodies are not
  told from known ones without a token; and nothing changes but what the handler of an accepted request
  does for the caller of that token.\<close>

theorem http_requires_token:
  assumes "enforcing cfg" "body_ok (rq_body rq)" "rq_path rq \<notin> {''/health'', ''/metrics''}"
  shows "(admin_http ps cfg w f aw rq (ks, st) = (rep, ks1, st') \<longrightarrow>
      rep = App (Refused 401) \<and> st' = st
    \<or> (\<exists>token c. bearer ps (rq_headers rq) = Some token \<and> verify ps cfg w token ks = (Inr c, ks1)
        \<and> (st' = st \<or> (\<exists>req. accepted admin_routes (admin_unpack f) rq = Inr req
              \<and> rep = App (reply_of (fst (admin_handle req aw c st))) \<and> st' = snd (admin_handle req aw c st)))))
    \<and> (abuse_http ps cfg w f bw rq (kb, s) = (rep_b, ks2, s') \<longrightarrow>
      rep_b = App (Refused 401) \<and> s' = s
    \<or> (\<exists>token c. bearer ps (rq_headers rq) = Some token \<and> verify ps cfg w token kb = (Inr c, ks2)
        \<and> (s' = s \<or> (\<exists>req. accepted abuse_routes (abuse_unpack f) rq = Inr req
              \<and> rep_b = App (reply_of (fst (abuse_handle req bw c s))) \<and> s' = snd (abuse_handle req bw c s)))))"
  unfolding admin_http_def abuse_http_def
  by (intro conjI impI admin_front.http_token abuse_front.http_token assms)

theorem http_requires_token_witness:
  "\<forall>w aw. fst (admin_http (demo_prims 500) demo_auth w demo_formats aw
     \<lparr>rq_method = GET, rq_path = ''/no/such/path'', rq_headers = (\<lambda>_. None), rq_body = NoDocument 415\<rparr> (None, demo_app demo_cp))
   = App (Refused 401)"
proof (intro allI)
  fix w aw
  let ?rq = "\<lparr>rq_method = GET, rq_path = ''/no/such/path'', rq_headers = (\<lambda>_. None), rq_body = NoDocument 415\<rparr>"
  obtain r k s where a: "admin_http (demo_prims 500) demo_auth w demo_formats aw ?rq (None, demo_app demo_cp) = (r, k, s)"
    by (rule prod_cases3)
  have "bearer (demo_prims 500) (\<lambda>_. None) = None" "enforcing demo_auth" "body_ok (rq_body ?rq)"
    by (simp_all add: bearer_def enforcing_def body_statuses_def)
  then show "fst (admin_http (demo_prims 500) demo_auth w demo_formats aw ?rq (None, demo_app demo_cp)) = App (Refused 401)"
    using http_requires_token [THEN conjunct1, rule_format, OF _ _ _ a] by (simp add: a)
qed

section \<open>The end of a server\<close>





end
