(* ===== verification/Workers.thy ===== *)
theory Workers
  imports Reconcile CompilerCorrectness
begin

text \<open>
  The loops of the two workers, \<open>job-runner\<close> and \<open>config-compiler\<close>: a cycle, whatever it answers, then
  sleep, then the next cycle. \<open>worker_loop ... n\<close> and \<open>compiler_loop ... n\<close> are the states after \<open>n\<close>
  cycles, so a statement about all \<open>n\<close> is one about the endless loop. Here is what makes them converge:
  every cycle uses up at least one of the faults still to come, and once there are none a cycle does its
  whole work.
\<close>

section \<open>The loops\<close>

fun worker_loop :: "'p provisioner \<Rightarrow> (nat \<Rightarrow> cycle_env) \<Rightarrow> int \<Rightarrow> nat
    \<Rightarrow> 'p \<times> control_plane session \<Rightarrow> 'p \<times> control_plane session" where
  "worker_loop prov envs batch 0 ps = ps"
| "worker_loop prov envs batch (Suc n) ps =
     worker_loop prov (\<lambda>i. envs (Suc i)) batch n (snd (reconcile_once prov (envs 0) batch ps))"

record compile_env =
  ce_read :: time
  ce_audit :: time
  ce_other :: "control_plane \<Rightarrow> control_plane"

fun compiler_loop :: "(string \<Rightarrow> string) \<Rightarrow> jsonschema \<Rightarrow> (f64 \<Rightarrow> string) \<Rightarrow> (nat \<Rightarrow> compile_env) \<Rightarrow> string \<Rightarrow> nat
    \<Rightarrow> compiler_state \<Rightarrow> compiler_state" where
  "compiler_loop ck js fmt envs out_path 0 st = st"
| "compiler_loop ck js fmt envs out_path (Suc n) st =
     compiler_loop ck js fmt (\<lambda>i. envs (Suc i)) out_path n
       (snd (compile_once ck js fmt (ce_other (envs 0)) (ce_read (envs 0)) (ce_audit (envs 0)) out_path st))"

section \<open>Faults still to come\<close>

text \<open>A computation that never adds to what is left of a fault plan, and one that uses up some of it.\<close>

definition shrinks :: "('s \<Rightarrow> nat) \<Rightarrow> ('s, 'e, 'a) comp \<Rightarrow> bool" where
  "shrinks \<mu> m \<longleftrightarrow> (\<forall>s. \<mu> (snd (m s)) \<le> \<mu> s)"

definition consumes :: "('s \<Rightarrow> nat) \<Rightarrow> ('s, 'e, 'a) comp \<Rightarrow> bool" where
  "consumes \<mu> m \<longleftrightarrow> (\<forall>s. \<mu> (snd (m s)) \<le> \<mu> s - 1)"

lemma consumes_shrinks: "consumes \<mu> m \<Longrightarrow> shrinks \<mu> m"
  unfolding consumes_def shrinks_def using diff_le_self le_trans by blast

lemma shrinks_intros:
  "shrinks \<mu> (ok a)" "shrinks \<mu> (fail e)"
  "shrinks \<mu> m \<Longrightarrow> (\<And>x. shrinks \<mu> (f x)) \<Longrightarrow> shrinks \<mu> (tryb m f)"
  by (auto simp: shrinks_def tryb_def split: prod.splits sum.splits)
    (metis le_trans snd_conv | metis snd_conv)+

lemma consumes_tryb: "consumes \<mu> m \<Longrightarrow> (\<And>x. shrinks \<mu> (f x)) \<Longrightarrow> consumes \<mu> (tryb m f)"
  by (auto simp: shrinks_def consumes_def tryb_def split: prod.splits sum.splits)
    (metis le_trans snd_conv | metis snd_conv)+

abbreviation "work_left w \<equiv> length (wplan w)"
abbreviation "net_left s \<equiv> length (net s)"
abbreviation "io_left st \<equiv> length (io_plan st)"

lemma next_outcome_left: "next_outcome pl = (out, rest) \<Longrightarrow> length rest = length pl - 1"
  by (cases pl) auto

lemma exec_consumes: "consumes work_left (exec conv st)"
  by (auto simp: consumes_def exec_def split: prod.splits outcome.splits sum.splits dest!: next_outcome_left)

lemma open_tx_left: "open_tx sc s = (r, s1) \<Longrightarrow> net_left s1 \<le> net_left s - 1 \<and> (\<forall>w. r = Inr w \<longrightarrow> wplan w = net s1)"
  by (auto simp: open_tx_def split: prod.splits outcome.splits dest!: next_outcome_left)

lemma in_tx_consumes:
  assumes "shrinks work_left m"
  shows "consumes net_left (in_tx (tenant_tx t now) conv m)" "consumes net_left (in_tx (platform_tx now) conv m)"
proof -
  have "net_left (snd (in_tx (open_tx sc) conv m s)) \<le> net_left s - 1" for sc s
  proof -
    obtain r s1 where op: "open_tx sc s = (r, s1)" by fastforce
    note left = open_tx_left [OF op]
    show ?thesis
    proof (cases r)
      case (Inl e)
      with op left show ?thesis by (simp add: in_tx_def)
    next
      case (Inr w)
      obtain r2 w2 where b: "m w = (r2, w2)" by fastforce
      have "work_left w2 \<le> net_left s - 1"
        using assms left Inr b unfolding shrinks_def by (metis le_trans snd_conv)
      with op Inr b show ?thesis
        by (auto simp: in_tx_def split: sum.splits prod.splits outcome.splits dest!: next_outcome_left)
    qed
  qed
  then show "consumes net_left (in_tx (tenant_tx t now) conv m)" "consumes net_left (in_tx (platform_tx now) conv m)"
    by (simp_all add: consumes_def tenant_tx_def platform_tx_def)
qed

section \<open>The reconciliation loop\<close>

lemma reconcile_body_shrinks: "shrinks work_left (reconcile_body t i u)"
  unfolding reconcile_body_def record_audit_def
  by (intro shrinks_intros consumes_shrinks [OF exec_consumes])
    (auto intro!: shrinks_intros consumes_shrinks [OF exec_consumes])

lemma reconcile_rows_left: "net_left (snd (snd (reconcile_rows prov env k rows (p, s)))) \<le> net_left s"
proof (induction rows arbitrary: k p s)
  case Nil
  then show ?case by simp
next
  case (Cons row rows)
  obtain i t email dn where row: "row = (i, t, email, dn)" by (cases row)
  obtain r1 p1 where pr: "prov email dn p = (r1, p1)" by fastforce
  let ?s1 = "s\<lparr>committed := meanwhile env i (committed s)\<rparr>"
  show ?case
  proof (cases r1)
    case (Inl e)
    with row pr Cons [of k p1 ?s1] show ?thesis by simp
  next
    case (Inr u)
    obtain r2 s2 where tx: "in_tx (platform_tx (at_row env i)) id (reconcile_body t i u) ?s1 = (r2, s2)" by fastforce
    have "net_left s2 \<le> net_left ?s1 - 1"
      using in_tx_consumes(2) [OF reconcile_body_shrinks] tx unfolding consumes_def by (metis snd_conv)
    with row pr Inr tx show ?thesis
      using Cons [of "k + projr r2" p1 s2] by (auto split: sum.splits)
  qed
qed

lemma reconcile_once_left: "net_left (snd (snd (reconcile_once prov env batch (p, s)))) \<le> net_left s - 1"
proof -
  obtain r1 s1 where tx: "in_tx (platform_tx (at_read env)) id (exec id (select_pending batch)) s = (r1, s1)" by fastforce
  have "net_left s1 \<le> net_left s - 1"
    using in_tx_consumes(2) [OF consumes_shrinks [OF exec_consumes]] tx unfolding consumes_def by (metis snd_conv)
  with tx show ?thesis
    using reconcile_rows_left [of prov env 0 "map pending_row (projr r1)" p s1]
    by (auto simp: reconcile_once_def split: sum.splits)
qed

text \<open>A cycle without faults whose calls are all answered leaves nothing pending.\<close>

lemma provision_all_ok:
  assumes "\<And>email dn p. is_ok (fst (prov email dn p))"
  shows "\<forall>x \<in> set (provision_all prov rows p). is_ok (snd x)"
proof (induction rows arbitrary: p)
  case (Cons row rows)
  obtain i t email dn where row: "row = (i, t, email, dn)" by (cases row)
  obtain r1 q1 where pr: "prov email dn p = (r1, q1)" by fastforce
  with assms have "is_ok r1" by (metis fst_conv)
  with Cons.IH [of q1] row pr show ?case by simp
qed simp

lemma settle_clears:
  assumes "\<forall>x \<in> set res. is_ok (snd x)" "pending r \<Longrightarrow> acc_id r \<in> fst ` set res"
  shows "\<not> pending (settle env ro res r)"
proof (cases "pending r")
  case True
  with assms(2) obtain v where v: "map_of res (acc_id r) = Some v"
    by (metis map_of_eq_None_iff not_None_eq)
  then have "is_ok v" using assms(1) map_of_SomeD by fastforce
  then obtain u where "v = Inr u" by (cases v) auto
  with v show ?thesis by (simp add: settle_def)
next
  case False
  then show ?thesis by (simp add: settle_def split: option.split sum.split)
qed

lemma reconcile_once_recovers:
  assumes "net s = []" "cp_wf (committed s)" "\<And>i. meanwhile env i = id"
    and "int (pending_count (committed s)) \<le> batch"
    and "\<And>email dn p. is_ok (fst (prov email dn p))"
  shows "\<exists>p' s'. reconcile_once prov env batch (p, s) = (Inr (pending_count (committed s)), p', s')
       \<and> pending_count (committed s') = 0"
proof -
  let ?d = "committed s"
  let ?rows = "pending_batch batch ?d"
  define res where "res = provision_all prov ?rows p"
  obtain p' s' where run: "reconcile_once prov env batch (p, s) = (Inr (successes res), p', s')"
    and acc: "accounts (committed s') = map (settle env (role s) res) (accounts ?d)"
    using reconcile_once_quiet [OF assms(1-3), of batch res prov p] assms(4) by (auto simp: res_def)
  have ok: "\<forall>x \<in> set res. is_ok (snd x)"
    unfolding res_def by (rule provision_all_ok [OF assms(5)])
  have fsts: "map fst res = map fst ?rows"
    by (simp add: res_def provision_all_keys)
  have "fst ` set res = set (map fst res)" by simp
  also have "\<dots> = acc_id ` set (filter pending (accounts ?d))"
    unfolding fsts set_map by (rule pending_batch_all) (use assms(4) in simp)
  finally have "pending_count (committed s') = 0"
    using settle_clears [OF ok] by (auto simp: pending_count_def acc filter_empty_conv)
  moreover have "length res = length ?rows"
    using arg_cong [OF fsts, of length] by simp
  then have "successes res = pending_count ?d"
    using ok assms(4) by (simp add: successes_def filter_id_conv pending_batch_eq pending_count_def)
  ultimately show ?thesis using run by simp
qed

text \<open>What a cycle without interference keeps.\<close>

lemma reconcile_once_alone:
  assumes "cp_wf (committed s)" "\<And>i. meanwhile env i = id"
    and "reconcile_once prov env batch (p, s) = (r, p', s')"
  shows "cp_wf (committed s') \<and> pending_count (committed s') \<le> pending_count (committed s)"
proof (rule reconcile_once_keeps [where P = "\<lambda>d. cp_wf d \<and> pending_count d \<le> pending_count (committed s)", OF assms(3)])
  fix t i u now ro n d d'
  assume rel: "account_reconciled t i u (platform_scope now ro) d n d'"
    and d: "cp_wf d \<and> pending_count d \<le> pending_count (committed s)"
  with account_reconciled_effect [OF rel] have "reconciled n d d'" by simp
  then have "pending_count d = pending_count d' + n" by (simp add: reconciled_def)
  with d account_reconciled_wf [OF rel] show "cp_wf d' \<and> pending_count d' \<le> pending_count (committed s)" by simp
qed (use assms(1,2) in simp_all)

lemma worker_loop_settled:
  assumes "cp_wf (committed s)" "\<And>k i. meanwhile (envs k) i = id" "pending_count (committed s) = 0"
  shows "pending_count (committed (snd (worker_loop prov envs batch n (p, s)))) = 0"
  using assms
proof (induction n arbitrary: envs p s)
  case 0
  then show ?case by simp
next
  case (Suc n)
  obtain r p1 s1 where cyc: "reconcile_once prov (envs 0) batch (p, s) = (r, p1, s1)"
    by (metis prod_cases3)
  from reconcile_once_alone [OF Suc.prems(1,2) cyc] Suc.prems(3)
  have "cp_wf (committed s1)" "pending_count (committed s1) = 0" by simp_all
  with Suc.IH [of s1 "\<lambda>i. envs (Suc i)" p1] Suc.prems(2) cyc show ?case by simp
qed

lemma worker_loop_clears:
  assumes "cp_wf (committed s)" "\<And>k i. meanwhile (envs k) i = id"
    and "int (pending_count (committed s)) \<le> batch" "\<And>email dn p. is_ok (fst (prov email dn p))"
  shows "\<exists>n \<le> net_left s + 1. \<forall>m \<ge> n. pending_count (committed (snd (worker_loop prov envs batch m (p, s)))) = 0"
  using assms(1-3)
proof (induction "net_left s" arbitrary: envs p s rule: less_induct)
  case less
  obtain r p1 s1 where cyc: "reconcile_once prov (envs 0) batch (p, s) = (r, p1, s1)"
    by (metis prod_cases3)
  note keep = reconcile_once_alone [OF less.prems(1,2) cyc]
  have rest: "worker_loop prov envs batch (Suc m) (p, s) = worker_loop prov (\<lambda>i. envs (Suc i)) batch m (p1, s1)" for m
    using cyc by simp
  show ?case
  proof (cases "net s = []")
    case True
    have "\<exists>p' s'. reconcile_once prov (envs 0) batch (p, s) = (Inr (pending_count (committed s)), p', s')
        \<and> pending_count (committed s') = 0"
      by (rule reconcile_once_recovers) (use True less.prems assms(4) in simp_all)
    with cyc have "pending_count (committed s1) = 0" by simp
    then have "pending_count (committed (snd (worker_loop prov envs batch (Suc m) (p, s)))) = 0" for m
      unfolding rest using keep less.prems(2) by (intro worker_loop_settled) simp_all
    moreover have "m = Suc (m - 1)" if "1 \<le> m" for m :: nat using that by simp
    ultimately have "pending_count (committed (snd (worker_loop prov envs batch m (p, s)))) = 0" if "1 \<le> m" for m
      using that by metis
    then show ?thesis by (intro exI [of _ 1]) simp
  next
    case False
    have left: "net_left s1 < net_left s" "net_left s1 + 1 \<le> net_left s"
      using reconcile_once_left [of prov "envs 0" batch p s] cyc False by (simp_all, (cases "net s"; simp)+)
    obtain n where n: "n \<le> net_left s1 + 1"
      "\<forall>m \<ge> n. pending_count (committed (snd (worker_loop prov (\<lambda>i. envs (Suc i)) batch m (p1, s1)))) = 0"
      using less.hyps [OF left(1), of "\<lambda>i. envs (Suc i)" p1] keep less.prems(2,3) by auto
    have "pending_count (committed (snd (worker_loop prov envs batch m (p, s)))) = 0" if "Suc n \<le> m" for m
    proof -
      from that obtain k where k: "m = Suc k" "n \<le> k" by (cases m) auto
      with n(2) show ?thesis unfolding k(1) rest by simp
    qed
    then show ?thesis using n(1) left(2) by (intro exI [of _ "Suc n"]) simp
  qed
qed

section \<open>The compile loop\<close>

lemma sys_consumes: 
  assumes "\<And>st. io_plan (effect st) = io_plan st" "\<And>n st. io_plan (partial n st) = io_plan st"
  shows "consumes io_left (sys effect partial)"
  by (auto simp: consumes_def sys_def Let_def split: list.splits io_outcome.splits)

lemma write_atomic_consumes: "consumes io_left (write_atomic path contents)"
proof -
  have c: "consumes io_left (file_create p)" "consumes io_left (write_all p cs)" "consumes io_left flush"
    "consumes io_left (rename p q)" for p q cs
    unfolding file_create_def write_all_def flush_def rename_def by (rule sys_consumes; simp)+
  let ?rest = "tryb (file_create (tmp_path path)) (\<lambda>_. tryb (write_all (tmp_path path) contents)
      (\<lambda>_. tryb flush (\<lambda>_. rename (tmp_path path) path)))"
  have rest: "consumes io_left ?rest"
    by (intro consumes_tryb shrinks_intros c c [THEN consumes_shrinks])
  let ?dir = "case path_parent path of Some parent \<Rightarrow> create_dir_all parent | None \<Rightarrow> ok ()"
  have "consumes io_left (tryb ?dir (\<lambda>_. ?rest))"
  proof (cases "?dir = ok ()")
    case True
    then have "tryb ?dir (\<lambda>_. ?rest) = ?rest" by (simp add: fun_eq_iff tryb_def)
    with rest show ?thesis by simp
  next
    case False
    then have "consumes io_left ?dir"
      by (auto simp: create_dir_all_def intro!: sys_consumes split: option.splits if_splits)
    then show ?thesis by (rule consumes_tryb) (rule rest [THEN consumes_shrinks])
  qed
  then show ?thesis by (simp add: write_atomic_def)
qed

lemma write_atomic_quiet: "io_plan st = [] \<Longrightarrow> is_ok (fst (write_atomic path contents st))"
  by (auto simp: write_atomic_def create_dir_all_def file_create_def write_all_def flush_def rename_def sys_def tryb_def
      Let_def split: option.split)

lemma load_policies_quiet: "net s = [] \<Longrightarrow> is_ok (fst (load_policies ck now s))"
  by (simp add: load_policies_def tx_quiet exec_def select_desired_def tryb_def)

lemma load_policies_left: "net_left (snd (load_policies ck now s)) \<le> net_left s - 1"
proof -
  have "consumes net_left (load_policies ck now)"
    unfolding load_policies_def
    by (intro consumes_tryb in_tx_consumes consumes_shrinks [OF exec_consumes] shrinks_intros)
  then show ?thesis by (simp add: consumes_def)
qed

lemma compile_once_left:
  assumes "compile_once ck js fmt other now1 now2 path st = (r, st')"
  shows "net_left (comp_db st') \<le> net_left (comp_db st) - 1 \<and> io_left (comp_io st') \<le> io_left (comp_io st)"
proof -
  obtain r1 s1 where ld: "load_policies ck now1 (comp_db st) = (r1, s1)" by fastforce
  have n1: "net_left s1 \<le> net_left (comp_db st) - 1"
    using load_policies_left [of ck now1 "comp_db st"] ld by simp
  have wr: "io_left io \<le> io_left (comp_io st) - 1" if "write_atomic path c (comp_io st) = (r2, io)" for c r2 io
    using write_atomic_consumes that unfolding consumes_def by (metis snd_conv)
  have au: "net_left s2 \<le> net_left s1"
    if "in_tx (platform_tx now2) id (record_audit audit_fk id (compiled_entry path ps)) (s1\<lparr>committed := x\<rparr>) = (r3, s2)"
    for ps x r3 s2
  proof -
    have "net_left s2 \<le> net_left (s1\<lparr>committed := x\<rparr>) - 1"
      using in_tx_consumes(2) [OF consumes_shrinks [OF exec_consumes]] that
      unfolding consumes_def record_audit_def by (metis snd_conv)
    then show ?thesis by simp
  qed
  from assms ld n1 show ?thesis
    by (auto simp: compile_once_def split: sum.splits prod.splits dest!: wr au)
qed

lemma desired_state_log [simp]: "desired_state ck (d\<lparr>audit_log := l\<rparr>) = desired_state ck d"
proof -
  have "served (d\<lparr>audit_log := l\<rparr>) = served d" "desired_policy ck (d\<lparr>audit_log := l\<rparr>) = desired_policy ck d"
    by (simp_all add: fun_eq_iff desired_policy_def served_def active_domains_def effective_def)
  then show ?thesis by (simp add: desired_state_def)
qed

text \<open>One cycle: the settings file is right afterwards, or a fault was used up; right stays right.\<close>

lemma compile_once_progress:
  assumes "compile_once ck js fmt id now1 now2 path st = (r, st')"
    and "cp_wf (committed (comp_db st))" "standard_jsonschema rx js"
  defines "want \<equiv> Some (render_ucl fmt (desired_state ck (committed (comp_db st))))"
  shows "cp_wf (committed (comp_db st'))"
    and "desired_state ck (committed (comp_db st')) = desired_state ck (committed (comp_db st))"
    and "files (comp_io st) path = want \<Longrightarrow> files (comp_io st') path = want"
    and "files (comp_io st') path = want
       \<or> net_left (comp_db st') + io_left (comp_io st') < net_left (comp_db st) + io_left (comp_io st)"
proof -
  let ?d = "committed (comp_db st)"
  note written = write_atomic_cases [THEN conjunct2]
  note cases = compile_once_cases [OF assms(1-3)]
  have aud: "cp_wf d' \<and> desired_state ck d' = desired_state ck ?d" if "compile_audited path ps sc ?d () d'" for ps sc d'
    using compile_audited_wf [OF that assms(2)] that by (simp add: compile_audited_def)
  have same: "cp_wf (committed (comp_db st')) \<and> desired_state ck (committed (comp_db st')) = desired_state ck ?d"
    by (rule cases) (auto simp: assms(2) aud)
  then show "cp_wf (committed (comp_db st'))" "desired_state ck (committed (comp_db st')) = desired_state ck ?d" by simp_all
  show "files (comp_io st') path = want" if "files (comp_io st) path = want"
    by (rule cases) (use that written in \<open>auto simp: want_def\<close>)
  obtain r1 s1 where ld: "load_policies ck now1 (comp_db st) = (r1, s1)" by fastforce
  note left = compile_once_left [OF assms(1)]
  show "files (comp_io st') path = want
     \<or> net_left (comp_db st') + io_left (comp_io st') < net_left (comp_db st) + io_left (comp_io st)"
  proof (cases "net (comp_db st) = []")
    case False
    then have "0 < net_left (comp_db st)" by simp
    with left show ?thesis by linarith
  next
    case True
    obtain ps where ps: "r1 = Inr ps"
      using load_policies_quiet [OF True, of ck now1] ld by (cases r1) auto
    with load_policies_cases [OF ld assms(2)] have des: "ps = desired_state ck ?d" by simp
    obtain r2 io where wr: "write_atomic path (render_ucl fmt ps) (comp_io st) = (r2, io)" by fastforce
    have io: "comp_io st' = io"
      using assms(1) ld ps wr schema_accepts [OF assms(2,3), of ck]
      by (auto simp: compile_once_def des split: sum.splits prod.splits)
    show ?thesis
    proof (cases "is_ok r2")
      case True
      with written [OF wr] io show ?thesis by (simp add: want_def des)
    next
      case False
      then have "io_plan (comp_io st) \<noteq> []"
        using write_atomic_quiet [of "comp_io st" path "render_ucl fmt ps"] wr by auto
      moreover have "io_left io \<le> io_left (comp_io st) - 1"
        using write_atomic_consumes wr unfolding consumes_def by (metis snd_conv)
      ultimately have "io_left io < io_left (comp_io st)" by (cases "io_plan (comp_io st)") auto
      with left have "net_left (comp_db st') + io_left (comp_io st') < net_left (comp_db st) + io_left (comp_io st)"
        unfolding io by linarith
      then show ?thesis ..
    qed
  qed
qed

lemma compiler_loop_keeps:
  assumes "cp_wf (committed (comp_db st))" "standard_jsonschema rx js" "\<And>k. ce_other (envs k) = id"
    and "files (comp_io st) path = Some (render_ucl fmt (desired_state ck (committed (comp_db st))))"
  shows "files (comp_io (compiler_loop ck js fmt envs path n st)) path
       = Some (render_ucl fmt (desired_state ck (committed (comp_db st))))"
  using assms(1,3,4)
proof (induction n arbitrary: envs st)
  case 0
  then show ?case by simp
next
  case (Suc n)
  obtain r st1 where cyc: "compile_once ck js fmt (ce_other (envs 0)) (ce_read (envs 0)) (ce_audit (envs 0)) path st = (r, st1)"
    by fastforce
  then have "compile_once ck js fmt id (ce_read (envs 0)) (ce_audit (envs 0)) path st = (r, st1)"
    unfolding Suc.prems(2) .
  note prog = compile_once_progress [OF this Suc.prems(1) assms(2)]
  have "files (comp_io (compiler_loop ck js fmt (\<lambda>i. envs (Suc i)) path n st1)) path
      = Some (render_ucl fmt (desired_state ck (committed (comp_db st1))))"
    using Suc.IH [of st1 "\<lambda>i. envs (Suc i)"] prog(1,2) prog(3) [OF Suc.prems(3)] Suc.prems(2) by simp
  with cyc prog(2) show ?case by simp
qed

lemma compiler_loop_converges:
  assumes "cp_wf (committed (comp_db st))" "standard_jsonschema rx js" "\<And>k. ce_other (envs k) = id"
  shows "\<exists>n \<le> net_left (comp_db st) + io_left (comp_io st) + 1. \<forall>m \<ge> n.
      files (comp_io (compiler_loop ck js fmt envs path m st)) path
        = Some (render_ucl fmt (desired_state ck (committed (comp_db st))))"
  using assms(1,3)
proof (induction "net_left (comp_db st) + io_left (comp_io st)" arbitrary: envs st rule: less_induct)
  case less
  obtain r st1 where cyc: "compile_once ck js fmt (ce_other (envs 0)) (ce_read (envs 0)) (ce_audit (envs 0)) path st = (r, st1)"
    by fastforce
  then have "compile_once ck js fmt id (ce_read (envs 0)) (ce_audit (envs 0)) path st = (r, st1)"
    unfolding less.prems(2) .
  note prog = compile_once_progress [OF this less.prems(1) assms(2)]
  let ?want = "Some (render_ucl fmt (desired_state ck (committed (comp_db st))))"
  have rest: "compiler_loop ck js fmt envs path (Suc m) st = compiler_loop ck js fmt (\<lambda>i. envs (Suc i)) path m st1" for m
    using cyc by simp
  show ?case
  proof (cases "files (comp_io st1) path = ?want")
    case True
    have "files (comp_io (compiler_loop ck js fmt envs path m st)) path = ?want" if "1 \<le> m" for m
    proof -
      from that obtain k where m: "m = Suc k" by (cases m) auto
      show ?thesis
        unfolding m rest
        using compiler_loop_keeps [OF prog(1) assms(2), of "\<lambda>i. envs (Suc i)" path fmt ck k] less.prems(2) True prog(2)
        by simp
    qed
    then show ?thesis by (intro exI [of _ 1]) simp
  next
    case False
    with prog(4) have left: "net_left (comp_db st1) + io_left (comp_io st1) < net_left (comp_db st) + io_left (comp_io st)"
      by simp
    obtain n where n: "n \<le> net_left (comp_db st1) + io_left (comp_io st1) + 1"
      "\<forall>m \<ge> n. files (comp_io (compiler_loop ck js fmt (\<lambda>i. envs (Suc i)) path m st1)) path = ?want"
      using less.hyps [OF left prog(1), of "\<lambda>i. envs (Suc i)"] less.prems(2) prog(2) by auto
    have "files (comp_io (compiler_loop ck js fmt envs path m st)) path = ?want" if "Suc n \<le> m" for m
    proof -
      from that obtain k where k: "m = Suc k" "n \<le> k" by (cases m) auto
      with n(2) show ?thesis unfolding k(1) rest by simp
    qed
    then show ?thesis using n(1) left by (intro exI [of _ "Suc n"]) simp
  qed
qed

end
