(* ===== verification/SystemProperties.thy ===== *)
theory SystemProperties
  imports FrontProperties Workers
begin

text \<open>Properties of the three programs that share the control-plane database, together.\<close>

section \<open>A reachable control plane\<close>

text \<open>The control plane after its first request: one tenant, one audit entry.\<close>

definition demo_first :: control_plane where
  "demo_first = empty_control_plane
     \<lparr>tenants := [acme\<lparr>ten_id := 77, ten_created_at := 5, ten_updated_at := 5\<rparr>],
      audit_log := [audit_of (platform_scope 5 app_role) (create_tenant_entry alice
         \<lparr>ten_id = 77, ten_slug = ''acme'', ten_name = ''Acme'', ten_plan = ''standard'',
          ten_status = ''active'', ten_created_at = 5\<rparr>)]\<rparr>"

lemma demo_first_created:
  "snd (admin_handle (PostTenant (create_tenant_req ''acme'' ''Acme'' None)) demo_world alice
      (demo_app empty_control_plane)) = demo_app demo_first"
  by (simp add: demo_app_def demo_session_def db_only_def create_tenant_def create_tenant_body_def tx_quiet tryb_def
      from_result_def exec_def insert_tenant_def Let_def record_audit_def insert_audit_def audit_of_def audit_fk_def
      has_tenant_def create_tenant_entry_def new_tenant_def Tenant.truncate_def create_tenant_req_def
      default_plan_def validate_slug_def slug_check_def alnum_def slug_char_def ascii_lower_def ascii_digit_def starts_with_def
      ends_with_def tenants_check_def empty_control_plane_def demo_first_def acme_def demo_world_def)

lemma demo_first_reachable: "cp_reachable app_role demo_first"
proof -
  let ?rq = "PostTenant (create_tenant_req ''acme'' ''Acme'' None)"
  have "cp_step app_role (committed (app_db (demo_app empty_control_plane)))
      (committed (app_db (snd (admin_handle ?rq demo_world alice (demo_app empty_control_plane)))))"
    by (rule cp_step.request [OF prod.collapse [symmetric]]) (simp_all add: demo_world_def)
  then show ?thesis
    using cp_reachable.step [OF cp_reachable.start] unfolding demo_first_created by simp
qed

section \<open>Invariants of the whole\<close>

text \<open>C2: In every state that requests, reconciliation cycles and compile cycles can reach, in any
  interleaving, with any faults of the network and any answers of sesame: identifiers, slugs, names and
  addresses are unique, every row belongs to an existing tenant (every account to a domain of its own
  tenant, with that domain's address), every value is one the schema allows, every policy has finite
  thresholds in order, every active account has its sesame user, and every audit entry is of an existing tenant or of the platform.\<close>

theorem control_plane_invariant:
  assumes "cp_reachable ro d" "\<not> privileged ro"
  shows "cp_wf d"
  using assms by (rule cp_reachable_wf)

theorem control_plane_invariant_witness: "cp_wf demo_first"
  using control_plane_invariant [OF demo_first_reachable] by simp



section \<open>From the request to the mail filter\<close>







section \<open>From the request to the user\<close>









end
