(* ===== verification/Programs.thy ===== *)
theory Programs
  imports ServiceKit Workers AdminServer AbuseServer
begin

text \<open>
  The \<open>main\<close> functions of \<open>admin-api\<close>, \<open>abuse-api\<close>, \<open>job-runner\<close> and \<open>config-compiler\<close>: what each
  program does before it serves, in order, with the early returns of the code. The answers of the
  database server and of the operating system are given; the events say how far the process came. A
  background loop is an event here, its behaviour is the theory of the workers.
\<close>

section \<open>Connecting\<close>

text \<open>What a process finds: the pool, the role and the contents of the database behind a URL, the faults
  to come, and the answer of the migrator.\<close>

record 'd server =
  sv_pool :: "string \<Rightarrow> outcome"
  sv_role :: "string \<Rightarrow> sqlx_error + db_role"
  sv_data :: "string \<Rightarrow> 'd"
  sv_plan :: "outcome list"
  sv_migrator :: "string + unit"

definition connect_to :: "environment \<Rightarrow> 'd server \<Rightarrow> string \<Rightarrow> sqlx_error + 'd session" where
  "connect_to env sv db_url =
     connect (sv_pool sv db_url) (sv_role sv db_url) (env ''OPENGROUPWARE_ALLOW_UNSAFE_DB'') (sv_data sv db_url) (sv_plan sv)"

section \<open>The two services\<close>

datatype MainError = MissingDatabaseUrl | MainDb sqlx_error | MainService ServiceError

text \<open>The state handed to the router: the handle of the database, the sesame client, the authenticator.\<close>

record admin_app =
  aa_db :: "control_plane session"
  aa_sesame :: "SesameClient option"
  aa_auth :: Authenticator

record abuse_app =
  ba_db :: "abuse_store session"
  ba_auth :: Authenticator

definition migrate_step :: "environment \<Rightarrow> 'd server \<Rightarrow> (('app, 's) process, MainError, unit) comp" where
  "migrate_step env sv =
     (if flag env ''RUN_MIGRATIONS'' \<or> flag env ''MIGRATE_ONLY''
      then tryb (emit Migrating) (\<lambda>_. map_err MainDb (from_result (run_migrations (sv_migrator sv))))
      else ok ())"

definition admin_main :: "os \<Rightarrow> environment \<Rightarrow> control_plane server \<Rightarrow> ((admin_app, unit) process, MainError, unit) comp" where
  "admin_main os env sv =
     tryb (from_result (ok_or MissingDatabaseUrl (env ''DATABASE_URL''))) (\<lambda>db_url.
     tryb (map_err MainDb (from_result (connect_to env sv db_url))) (\<lambda>db.
     tryb (migrate_step env sv) (\<lambda>_.
     if flag env ''MIGRATE_ONLY'' then ok ()
     else map_err MainService
            (run os env ''admin-api'' 8080
               \<lparr>aa_db = db, aa_sesame = map_option sesame_client_new (sesame_from_env env),
                aa_auth = authenticator_new (auth_from_env env)\<rparr>))))"

definition abuse_main :: "os \<Rightarrow> environment \<Rightarrow> abuse_store server \<Rightarrow> ((abuse_app, unit) process, MainError, unit) comp" where
  "abuse_main os env sv =
     tryb (from_result (ok_or MissingDatabaseUrl (env ''DATABASE_URL''))) (\<lambda>db_url.
     tryb (map_err MainDb (from_result (connect_to env sv db_url))) (\<lambda>db.
     tryb (migrate_step env sv) (\<lambda>_.
     if flag env ''MIGRATE_ONLY'' then ok ()
     else map_err MainService
            (run os env ''abuse-api'' 8081 \<lparr>ba_db = db, ba_auth = authenticator_new (auth_from_env env)\<rparr>))))"

section \<open>The two workers\<close>

text \<open>\<open>StartupError\<close> of \<open>job-runner\<close>.\<close>

datatype JobStartupError = JobNoDatabaseUrl | JobDb sqlx_error | JobService ServiceError

text \<open>
  \<open>job-runner\<close>. The state is the database after a one-shot cycle. The calls of sesame and the clocks
  of the cycle are given.
\<close>

definition job_main :: "os \<Rightarrow> environment \<Rightarrow> control_plane server \<Rightarrow> (nat \<Rightarrow> sesame_world) \<Rightarrow> cycle_env
    \<Rightarrow> ((unit, control_plane session option) process, JobStartupError, unit) comp" where
  "job_main os env sv calls cenv =
     tryb (from_result (ok_or JobNoDatabaseUrl (env ''DATABASE_URL''))) (\<lambda>db_url.
     tryb (map_err JobDb (from_result (connect_to env sv db_url))) (\<lambda>db.
     let batch = env_parse (parse_signed 64) env ''RECONCILE_BATCH'' 50;
         once = once_flag env ''RECONCILE_ONCE'';
         interval = env_parse (parse_unsigned 64) env ''RECONCILE_INTERVAL_SECS'' 30;
         serve_health = map_err JobService (run os env ''job-runner'' 8082 ())
     in case sesame_from_env env of
          Some cfg \<Rightarrow>
            if once then
              tryb (emit Cycling) (\<lambda>_ p.
                (case reconcile_once (sesame_provisioner cfg calls) cenv batch ((0, None), db) of
                   (r, _, db') \<Rightarrow>
                     (case r of Inl e \<Rightarrow> Inl (JobDb e) | Inr n \<Rightarrow> Inr (), (fst p, Some db'))))
            else tryb (emit (Spawned (ReconcileTask batch interval))) (\<lambda>_. serve_health)
        | None \<Rightarrow> if once then ok () else serve_health))"

text \<open>\<open>StartupError\<close> of \<open>config-compiler\<close>.\<close>

datatype StartupError = NoDatabaseUrl | StartDb sqlx_error | StartCompile CompileError | StartService ServiceError

text \<open>\<open>config-compiler\<close>. The state is what a one-shot compile leaves.\<close>

definition default_settings_path :: string where
  "default_settings_path = ''/etc/opengroupware/rspamd/settings.conf''"

definition compiler_main :: "os \<Rightarrow> environment \<Rightarrow> control_plane server \<Rightarrow> io_state \<Rightarrow> (string \<Rightarrow> string)
    \<Rightarrow> jsonschema \<Rightarrow> (f64 \<Rightarrow> string) \<Rightarrow> compile_env
    \<Rightarrow> ((unit, compiler_state option) process, StartupError, unit) comp" where
  "compiler_main os env sv io ck js fmt cenv =
     tryb (from_result (ok_or NoDatabaseUrl (env ''DATABASE_URL''))) (\<lambda>db_url.
     tryb (map_err StartDb (from_result (connect_to env sv db_url))) (\<lambda>db.
     let out_path = (case env ''RSPAMD_SETTINGS_PATH'' of None \<Rightarrow> default_settings_path | Some p \<Rightarrow> p);
         interval = env_parse (parse_unsigned 64) env ''RENDER_INTERVAL_SECS'' 60
     in if once_flag env ''RENDER_ONCE'' then
          tryb (emit Cycling) (\<lambda>_ p.
            (case compile_once ck js fmt (ce_other cenv) (ce_read cenv) (ce_audit cenv) out_path
                    \<lparr>comp_db = db, comp_io = io\<rparr> of
               (r, st) \<Rightarrow> (case r of Inl e \<Rightarrow> Inl (StartCompile e) | Inr n \<Rightarrow> Inr (), (fst p, Some st))))
        else
          tryb (emit (Spawned (CompileTask out_path interval))) (\<lambda>_.
            map_err StartService (run os env ''config-compiler'' 8083 ()))))"

section \<open>What the programs share\<close>

text \<open>The role under which a process may go past its connection.\<close>

definition admitted_role :: "environment \<Rightarrow> db_role \<Rightarrow> bool" where
  "admitted_role env r \<longleftrightarrow> \<not> privileged r \<or> env ''OPENGROUPWARE_ALLOW_UNSAFE_DB'' = Some ''1''"

lemma connect_to_Inr:
  assumes "connect_to env sv db_url = Inr s"
  shows "sv_role sv db_url = Inr (role s) \<and> admitted_role env (role s) \<and> committed s = sv_data sv db_url \<and> net s = sv_plan sv"
  using assms
  by (auto simp: connect_to_def connect_def assert_rls_safe_role_def admitted_role_def privileged_def
      split: if_splits sum.splits)

lemma connect_to_refused:
  assumes "sv_role sv u = Inr r" "\<not> admitted_role env r"
  shows "\<exists>e. connect_to env sv u = Inl e"
  using connect_to_Inr [of env sv u] assms by (cases "connect_to env sv u") auto

lemma migrate_step_events:
  assumes "migrate_step env sv (es, x) = (r, p')"
  shows "snd p' = x \<and> fst p' = es @ (if flag env ''RUN_MIGRATIONS'' \<or> flag env ''MIGRATE_ONLY'' then [Migrating] else [])"
  using assms
  by (auto simp: migrate_step_def tryb_def emit_def map_err_def from_result_def split: if_splits sum.splits prod.splits)

lemma map_err_apply: "fst (map_err f m s) = (case fst (m s) of Inl e \<Rightarrow> Inl (f e) | Inr a \<Rightarrow> Inr a)"
    "snd (map_err f m s) = snd (m s)"
  by (simp_all add: map_err_def split: prod.splits sum.splits)

text \<open>The events of a run: at most one, \<open>Serving\<close>, after the bind.\<close>

lemma run_events:
  "fst (snd (run os env name dflt app (es, x))) = es
     @ (case os_bind os (''0.0.0.0:'' @ nat_text (resolve_port env dflt)) of
          Inl _ \<Rightarrow> [] | Inr _ \<Rightarrow> [Serving name (''0.0.0.0:'' @ nat_text (resolve_port env dflt)) app])"
  "snd (snd (run os env name dflt app (es, x))) = x"
  by (simp_all add: run_def Let_def tryb_def emit_def split: sum.splits)

text \<open>The shape of both services: what can be served, and from where.\<close>

lemma service_serving:
  fixes app :: 'app
  assumes "Serving name addr app \<in> set (fst (snd (tryb (from_result (ok_or MissingDatabaseUrl (env ''DATABASE_URL''))) (\<lambda>u.
      tryb (map_err MainDb (from_result (connect_to env sv u))) (\<lambda>db.
      tryb (migrate_step env sv) (\<lambda>_. if stop then ok () else map_err MainService (run os env title port (mk db))))) ([], ()))))"
  shows "\<exists>u db. connect_to env sv u = Inr db \<and> app = mk db \<and> addr = ''0.0.0.0:'' @ nat_text (resolve_port env port)"
proof (cases "env ''DATABASE_URL''")
  case None
  with assms show ?thesis by (simp add: tryb_def from_result_def)
next
  case (Some u)
  show ?thesis
  proof (cases "connect_to env sv u")
    case (Inl e)
    with assms Some show ?thesis by (simp add: tryb_def from_result_def map_err_def)
  next
    case (Inr db)
    obtain r x where mg: "migrate_step env sv ([] :: 'app event list, ()) = (r, x)" by (rule prod.exhaust)
    from migrate_step_events [OF mg] obtain es where x: "x = (es, ())" "set es \<subseteq> {Migrating}"
      by (cases x) (auto split: if_splits)
    from assms have "Serving name addr app \<in> set (fst (snd (run os env title port (mk db) x)))"
      using Some Inr mg x by (auto simp: tryb_def from_result_def map_err_def split: sum.splits if_splits prod.splits)
    then have "app = mk db \<and> addr = ''0.0.0.0:'' @ nat_text (resolve_port env port)"
      using x by (auto simp: run_events split: sum.splits)
    with Inr show ?thesis by blast
  qed
qed

end
