(* ===== verification/ProgramProperties.thy ===== *)
theory ProgramProperties
  imports Programs Answers Examples
begin

text \<open>The programs as processes: what they need to start, how they end, and what their loops achieve.\<close>

section \<open>Starting\<close>

text \<open>C23: All four programs fail closed on a database role that row level security does not bind: with a
  superuser or BYPASSRLS role and without the development override they exit with an error, having
  neither migrated, nor run a cycle, nor started a loop, nor served anything.\<close>

theorem privileged_role_refused:
  assumes "env ''DATABASE_URL'' = Some db_url" "privileged r" "env ''OPENGROUPWARE_ALLOW_UNSAFE_DB'' \<noteq> Some ''1''"
    and "sv_role cp db_url = Inr r" "sv_role ab db_url = Inr r"
  shows "\<not> is_ok (fst (admin_main os env cp ([], ()))) \<and> fst (snd (admin_main os env cp ([], ()))) = []
    \<and> \<not> is_ok (fst (abuse_main os env ab ([], ()))) \<and> fst (snd (abuse_main os env ab ([], ()))) = []
    \<and> \<not> is_ok (fst (job_main os env cp calls cenv ([], x))) \<and> fst (snd (job_main os env cp calls cenv ([], x))) = []
    \<and> \<not> is_ok (fst (compiler_main os env cp io ck js fmt kenv ([], y)))
    \<and> fst (snd (compiler_main os env cp io ck js fmt kenv ([], y))) = []"
proof -
  have cp: "\<exists>e. connect_to env cp db_url = Inl e" and ab: "\<exists>e. connect_to env ab db_url = Inl e"
    using connect_to_refused [OF assms(4)] connect_to_refused [OF assms(5)] assms(2,3) by (simp_all add: admitted_role_def)
  then obtain e1 e2 where "connect_to env cp db_url = Inl e1" "connect_to env ab db_url = Inl e2" by blast
  then show ?thesis
    by (simp add: admin_main_def abuse_main_def job_main_def compiler_main_def tryb_def from_result_def map_err_def assms(1))
qed

definition demo_env_vars :: "(string \<times> string) list \<Rightarrow> environment" where
  "demo_env_vars kvs = map_of ((''DATABASE_URL'', ''postgres://db'') # kvs)"

definition demo_server :: "db_role \<Rightarrow> 'd \<Rightarrow> 'd server" where
  "demo_server ro d = \<lparr>sv_pool = (\<lambda>_. Done), sv_role = (\<lambda>_. Inr ro), sv_data = (\<lambda>_. d), sv_plan = [], sv_migrator = Inr ()\<rparr>"

definition demo_os :: os where
  "demo_os = \<lparr>os_bind = (\<lambda>_. Inr ()), os_serve = Inr ()\<rparr>"

theorem privileged_role_refused_witness:
  "\<forall>cenv. fst (snd (job_main demo_os (demo_env_vars []) (demo_server \<lparr>rolsuper = True, rolbypassrls = False\<rparr> demo_cp)
     (\<lambda>_. demo_sesame True) cenv ([], None))) = []"
  using privileged_role_refused [of "demo_env_vars []" "''postgres://db''" "\<lparr>rolsuper = True, rolbypassrls = False\<rparr>"
      "demo_server \<lparr>rolsuper = True, rolbypassrls = False\<rparr> demo_cp" "demo_server \<lparr>rolsuper = True, rolbypassrls = False\<rparr> empty_abuse_store"
      demo_os "\<lambda>_. demo_sesame True" _ None]
  by (simp add: demo_env_vars_def demo_server_def privileged_def)

text \<open>The one-shot modes never serve and never start a loop: with \<open>MIGRATE_ONLY=1\<close> the services do
  nothing but migrate, with \<open>RECONCILE_ONCE\<close> or \<open>RENDER_ONCE\<close> the workers run one cycle at most.\<close>

theorem one_shot_modes_exit:
  shows "(flag env ''MIGRATE_ONLY'' \<longrightarrow> set (fst (snd (admin_main os env cp ([], ())))) \<subseteq> {Migrating}
        \<and> set (fst (snd (abuse_main os env ab ([], ())))) \<subseteq> {Migrating})
    \<and> (once_flag env ''RECONCILE_ONCE'' \<longrightarrow> fst (snd (job_main os env cp calls cenv ([], x))) \<in> {[], [Cycling]})
    \<and> (once_flag env ''RENDER_ONCE'' \<longrightarrow> fst (snd (compiler_main os env cp io ck js fmt kenv ([], y))) \<in> {[], [Cycling]})"
proof (intro conjI impI)
  assume "flag env ''MIGRATE_ONLY''"
  then show "set (fst (snd (admin_main os env cp ([], ())))) \<subseteq> {Migrating}"
    and "set (fst (snd (abuse_main os env ab ([], ())))) \<subseteq> {Migrating}"
    by (auto simp: admin_main_def abuse_main_def tryb_def from_result_def map_err_def migrate_step_def emit_def
        split: sum.splits prod.splits)
next
  assume "once_flag env ''RECONCILE_ONCE''"
  then show "fst (snd (job_main os env cp calls cenv ([], x))) \<in> {[], [Cycling]}"
    by (auto simp: job_main_def Let_def tryb_def from_result_def map_err_def emit_def split: sum.splits prod.splits option.splits)
next
  assume "once_flag env ''RENDER_ONCE''"
  then show "fst (snd (compiler_main os env cp io ck js fmt kenv ([], y))) \<in> {[], [Cycling]}"
    by (auto simp: compiler_main_def Let_def tryb_def from_result_def map_err_def emit_def split: sum.splits prod.splits)
qed

theorem one_shot_modes_exit_witness:
  "set (fst (snd (admin_main demo_os (demo_env_vars [(''MIGRATE_ONLY'', ''1'')]) (demo_server app_role demo_cp) ([], ())))) \<subseteq> {Migrating}"
proof -
  have "flag (demo_env_vars [(''MIGRATE_ONLY'', ''1'')]) ''MIGRATE_ONLY''"
    by (simp add: flag_def demo_env_vars_def)
  then show ?thesis using one_shot_modes_exit by blast
qed

text \<open>A worker in one-shot mode that exits with success has done exactly one cycle on the database it
  connected to, with the batch of the environment (50 unless a 64-bit integer is set); it exits with an
  error exactly when that cycle failed, and even then its database is what the cycle left.\<close>

theorem job_one_shot:
  assumes "env ''DATABASE_URL'' = Some db_url" "connect_to env sv db_url = Inr db"
    and "sesame_from_env env = Some cfg" "once_flag env ''RECONCILE_ONCE''"
    and "reconcile_once (sesame_provisioner cfg calls) cenv (env_parse (parse_signed 64) env ''RECONCILE_BATCH'' 50) ((0, None), db)
           = (r, q, db')"
  shows "job_main os env sv calls cenv ([], None)
       = (case r of Inl e \<Rightarrow> Inl (JobDb e) | Inr n \<Rightarrow> Inr (), [Cycling], Some db')"
  using assms by (simp add: job_main_def Let_def tryb_def from_result_def map_err_def emit_def)

definition demo_job_env :: environment where
  "demo_job_env = demo_env_vars
     [(''SESAME_LOGIN_URL'', ''http://login''), (''SESAME_USER_MGMT_URL'', ''http://users''), (''SESAME_TENANT'', ''og''),
      (''SESAME_CLIENT_ID'', ''id''), (''SESAME_CLIENT_SECRET'', ''secret''), (''RECONCILE_ONCE'', ''true''),
      (''RECONCILE_BATCH'', ''1'')]"

theorem job_one_shot_witness:
  "fst (snd (job_main demo_os demo_job_env (demo_server app_role demo_cp) (\<lambda>_. demo_sesame False) demo_cycle ([], None))) = [Cycling]"
proof -
  obtain cfg where cfg: "sesame_from_env demo_job_env = Some cfg"
    by (simp add: sesame_from_env_def env_nonblank_def demo_job_env_def demo_env_vars_def blank_def ws1_def ws2_def ws3_def)
  obtain db where db: "connect_to demo_job_env (demo_server app_role demo_cp) ''postgres://db'' = Inr db"
    by (simp add: connect_to_def demo_server_def connect_def assert_rls_safe_role_def app_role_def)
  have env: "demo_job_env ''DATABASE_URL'' = Some ''postgres://db''" "once_flag demo_job_env ''RECONCILE_ONCE''"
    by (simp_all add: demo_job_env_def demo_env_vars_def once_flag_def)
  obtain r q db' where cyc: "reconcile_once (sesame_provisioner cfg (\<lambda>_. demo_sesame False)) demo_cycle
      (env_parse (parse_signed 64) demo_job_env ''RECONCILE_BATCH'' 50) ((0, None), db) = (r, q, db')"
    by (metis prod_cases3)
  show ?thesis
    by (simp add: job_one_shot [OF env(1) db cfg env(2) cyc])
qed

section \<open>Serving\<close>

text \<open>C22: What a service serves: a database handle whose role row level security binds (or the override is
  set), an authenticator that demands tokens exactly when \<open>OG_AUTH_JWKS_URL\<close> is set and not blank, on an
  address whose port is a 16-bit number that reads back as printed.\<close>

theorem served_application:
  shows "(Serving name addr app \<in> set (fst (snd (admin_main os env cp ([], ()))))
      \<longrightarrow> admitted_role env (role (aa_db app)) \<and> net (aa_db app) = sv_plan cp
        \<and> (enforcing (auth_cfg (aa_auth app)) \<longleftrightarrow> (\<exists>v. env ''OG_AUTH_JWKS_URL'' = Some v \<and> \<not> blank v))
        \<and> (\<exists>port. addr = ''0.0.0.0:'' @ nat_text port \<and> parse_unsigned 16 (nat_text port) = Some port))
    \<and> (Serving name addr app' \<in> set (fst (snd (abuse_main os env ab ([], ()))))
      \<longrightarrow> admitted_role env (role (ba_db app'))
        \<and> (enforcing (auth_cfg (ba_auth app')) \<longleftrightarrow> (\<exists>v. env ''OG_AUTH_JWKS_URL'' = Some v \<and> \<not> blank v))
        \<and> (\<exists>port. addr = ''0.0.0.0:'' @ nat_text port \<and> parse_unsigned 16 (nat_text port) = Some port))"
proof -
  have auth: "enforcing (auth_from_env env) \<longleftrightarrow> (\<exists>v. env ''OG_AUTH_JWKS_URL'' = Some v \<and> \<not> blank v)"
    by (auto simp: enforcing_def auth_from_env_def env_nonblank_def split: option.splits)
  have port: "parse_unsigned 16 (nat_text (resolve_port env d)) = Some (resolve_port env d)" if "d < 2 ^ 16" for d
    by (rule parse_nat_text) (rule resolve_port_bound [OF that])
  note ports = port [of 8080, simplified] port [of 8081, simplified]
  have admin: "admitted_role env (role (aa_db app)) \<and> net (aa_db app) = sv_plan cp
        \<and> (enforcing (auth_cfg (aa_auth app)) \<longleftrightarrow> (\<exists>v. env ''OG_AUTH_JWKS_URL'' = Some v \<and> \<not> blank v))
        \<and> (\<exists>port. addr = ''0.0.0.0:'' @ nat_text port \<and> parse_unsigned 16 (nat_text port) = Some port)"
    if "Serving name addr app \<in> set (fst (snd (admin_main os env cp ([], ()))))"
    using service_serving [OF that [unfolded admin_main_def]] auth ports(1) by (auto dest: connect_to_Inr)
  have abuse: "admitted_role env (role (ba_db app')) \<and> net (ba_db app') = sv_plan ab
        \<and> (enforcing (auth_cfg (ba_auth app')) \<longleftrightarrow> (\<exists>v. env ''OG_AUTH_JWKS_URL'' = Some v \<and> \<not> blank v))
        \<and> (\<exists>port. addr = ''0.0.0.0:'' @ nat_text port \<and> parse_unsigned 16 (nat_text port) = Some port)"
    if "Serving name addr app' \<in> set (fst (snd (abuse_main os env ab ([], ()))))"
    using service_serving [OF that [unfolded abuse_main_def]] auth ports(2) by (auto dest: connect_to_Inr)
  from admin abuse show ?thesis by blast
qed

theorem served_application_witness:
  "\<exists>addr app. Serving ''admin-api'' addr app
        \<in> set (fst (snd (admin_main demo_os (demo_env_vars []) (demo_server app_role demo_cp) ([], ()))))
     \<and> \<not> privileged (role (aa_db app)) \<and> \<not> enforcing (auth_cfg (aa_auth app))"
proof -
  have "\<exists>addr app. Serving ''admin-api'' addr app
      \<in> set (fst (snd (admin_main demo_os (demo_env_vars []) (demo_server app_role demo_cp) ([], ()))))"
    by (auto simp: admin_main_def demo_env_vars_def demo_server_def demo_os_def tryb_def from_result_def map_err_def
        connect_to_def connect_def assert_rls_safe_role_def app_role_def migrate_step_def flag_def run_def Let_def emit_def)
  then obtain addr app where served: "Serving ''admin-api'' addr app
      \<in> set (fst (snd (admin_main demo_os (demo_env_vars []) (demo_server app_role demo_cp) ([], ()))))" by blast
  have "\<not> privileged (role (aa_db app)) \<and> \<not> enforcing (auth_cfg (aa_auth app))"
    using served_application [of "''admin-api''" addr app demo_os "demo_env_vars []" "demo_server app_role demo_cp"] served
    by (auto simp: admitted_role_def demo_env_vars_def)
  with served show ?thesis by blast
qed

text \<open>Every answer of the two services at the paths of their API is one of these: 401, and then nothing
  changed; 200 or 201; or an error with status 404, 409, 422 or 500 whose body carries one message, for
  500 always the same, so no detail of the database leaves the service. The probe paths answer whoever
  asks and touch nothing.\<close>

theorem services_answer:
  assumes "mounted (admin_path rq) (serve ps cfg w (admin_path rq) hs (admin_handle rq aw)) (ks, st) = (rep, ks1, st')"
    and "mounted (abuse_path rb) (serve ps cfg w (abuse_path rb) hs (abuse_handle rb bw)) (kb, sb) = (rep_b, ks2, sb')"
  shows "(\<exists>r. rep = App r \<and> expected_answer r \<and> (r = Refused 401 \<longrightarrow> st' = st))
    \<and> (\<exists>r. rep_b = App r \<and> expected_answer r \<and> (r = Refused 401 \<longrightarrow> sb' = sb))
    \<and> mounted ''/health'' app x = (Health ''ok'', x)
    \<and> (\<exists>hdrs doc. mounted ''/metrics'' app x = (Metrics hdrs doc, x))"
proof -
  obtain r1 where r1: "rep = App r1" "serve ps cfg w (admin_path rq) hs (admin_handle rq aw) (ks, st) = (r1, ks1, st')"
    using assms(1) admin.guarded [of rq] by (auto simp: mounted_def split: prod.splits)
  obtain r2 where r2: "rep_b = App r2" "serve ps cfg w (abuse_path rb) hs (abuse_handle rb bw) (kb, sb) = (r2, ks2, sb')"
    using assms(2) abuse.guarded [of rb] by (auto simp: mounted_def split: prod.splits)
  have "expected_answer r1 \<and> (r1 = Refused 401 \<longrightarrow> st' = st)"
    by (rule serve_expected [OF r1(2)]) (use admin.guarded [of rq] in \<open>auto intro: admin_errors dest: admin.success\<close>)
  moreover have "expected_answer r2 \<and> (r2 = Refused 401 \<longrightarrow> sb' = sb)"
    by (rule serve_expected [OF r2(2)]) (use abuse.guarded [of rb] in \<open>auto intro: abuse_errors dest: abuse.success\<close>)
  ultimately show ?thesis using r1(1) r2(1) by (simp add: mounted_def health_def)
qed

theorem services_answer_witness:
  "\<forall>ps w hs. \<exists>r. fst (mounted (admin_path GetTenants) (serve ps (auth_from_env (\<lambda>_. None)) w (admin_path GetTenants) hs (admin_handle GetTenants demo_world))
      (None, demo_app demo_cp)) = App r \<and> expected_answer r"
proof (intro allI)
  fix ps w hs
  let ?a = "mounted (admin_path GetTenants) (serve ps (auth_from_env (\<lambda>_. None)) w (admin_path GetTenants) hs (admin_handle GetTenants demo_world)) (None, demo_app demo_cp)"
  let ?b = "mounted (abuse_path (GetQuarantine 1)) (serve ps (auth_from_env (\<lambda>_. None)) w (abuse_path (GetQuarantine 1)) hs
      (abuse_handle (GetQuarantine 1) \<lparr>bw_fresh = 1, bw_fresh_item = 2, bw_now = 3, bw_fmt1 = (\<lambda>_. [])\<rparr>)) (None, demo_session empty_abuse_store)"
  have a: "?a = (fst ?a, fst (snd ?a), snd (snd ?a))" and b: "?b = (fst ?b, fst (snd ?b), snd (snd ?b))" by simp_all
  show "\<exists>r. fst ?a = App r \<and> expected_answer r"
    using services_answer [OF a b, THEN conjunct1] by blast
qed

section \<open>The background loops\<close>





end
