(* ===== verification/Html.thy ===== *)
theory Html
  imports ConfigCompiler
begin

text \<open>
  Views as the \<open>view!\<close> macro of leptos builds them: trees of elements with attributes, of text, and of raw
  markup (\<open>inner_html\<close>). How a tree becomes a string, with text and attribute values escaped, is leptos'
  doing (\<open>to_html\<close>) and not modelled: a page here is its tree.
\<close>

datatype html = Txt string | Raw string | Doctype | El string "(string \<times> string) list" "html list"

text \<open>All texts, all raw markup and all attributes of a tree, in document order.\<close>

fun texts :: "html \<Rightarrow> string list" where
  "texts (Txt s) = [s]"
| "texts (Raw s) = []"
| "texts Doctype = []"
| "texts (El tag attrs kids) = concat (map texts kids)"

fun raws :: "html \<Rightarrow> string list" where
  "raws (Txt s) = []"
| "raws (Raw s) = [s]"
| "raws Doctype = []"
| "raws (El tag attrs kids) = concat (map raws kids)"

fun attributes :: "html \<Rightarrow> (string \<times> string) list" where
  "attributes (Txt s) = []"
| "attributes (Raw s) = []"
| "attributes Doctype = []"
| "attributes (El tag attrs kids) = attrs @ concat (map attributes kids)"

text \<open>The targets of the links of a tree.\<close>

definition links :: "html \<Rightarrow> string list" where
  "links h = map snd (filter (\<lambda>(n, v). n = ''href'') (attributes h))"

text \<open>An element without attributes, and one with a class.\<close>

abbreviation "el0 tag kids \<equiv> El tag [] kids"
abbreviation "elc tag cls kids \<equiv> El tag [(''class'', cls)] kids"

text \<open>UTF-8 of the characters the pages use beyond ASCII: the middle dot, the arrow, the ellipsis.\<close>

definition middot :: string where "middot = [CHR 0xC2, CHR 0xB7]"
definition left_arrow :: string where "left_arrow = [CHR 0xE2, CHR 0x86, CHR 0x90]"
definition ellipsis :: string where "ellipsis = [CHR 0xE2, CHR 0x80, CHR 0xA6]"

text \<open>\<open>chars().next()\<close>: the bytes of the first character, its length told by the first byte.\<close>

definition first_char :: "string \<Rightarrow> string option" where
  "first_char s = (case s of [] \<Rightarrow> None
     | c # _ \<Rightarrow> (let n = (of_char c :: nat) in
         Some (take (if n < 192 then 1 else if n < 224 then 2 else if n < 240 then 3 else 4) s)))"

text \<open>\<open>char::to_ascii_uppercase\<close>.\<close>

definition ascii_upper :: "string \<Rightarrow> string" where
  "ascii_upper s = map (\<lambda>c. if ascii_lower c then char_of ((of_char c :: nat) - 32) else c) s"

end
