(* ===== verification/AdminConsole.thy ===== *)
theory AdminConsole
  imports Html AdminFront
begin

text \<open>
  \<open>crates/admin-console\<close>: the read-only console over \<open>admin-api\<close>. The client (\<open>client.rs\<close>), the views
  (\<open>app.rs\<close>) and the handlers with their routes (\<open>main.rs\<close>). The answers of admin-api are given; the
  composition with the admin-api of this development is in the properties.
\<close>

section \<open>The client\<close>

record TenantDto =
  td_id :: uuid
  td_slug :: string
  td_name :: string
  td_plan :: string
  td_status :: string

record DomainDto =
  dd_fqdn :: string
  dd_status :: string

record AccountDto =
  ac_email :: string
  ac_display_name :: string
  ac_quota_mb :: "32 word"
  ac_status :: string

record PolicyDto =
  pd_reject :: f64
  pd_add_header :: f64
  pd_greylist :: f64

record AdminApi =
  api_base :: string
  api_actor :: string

definition api_from_env :: "environment \<Rightarrow> AdminApi" where
  "api_from_env env =
     \<lparr>api_base = trim_end_matches (CHR ''/'') (case env ''ADMIN_API_URL'' of None \<Rightarrow> ''http://127.0.0.1:8080'' | Some u \<Rightarrow> u),
      api_actor = (case env ''ADMIN_CONSOLE_ACTOR'' of None \<Rightarrow> ''admin-console'' | Some a \<Rightarrow> a)\<rparr>"

text \<open>\<open>Deserialize\<close> of the four: the fields the console knows, whatever else the document has.\<close>

definition de_tenant_dto :: "formats \<Rightarrow> json \<Rightarrow> TenantDto option" where
  "de_tenant_dto f d = do {
     kvs \<leftarrow> struct_fields [''id'', ''slug'', ''name'', ''plan'', ''status''] d;
     i \<leftarrow> required ''id'' (de_uuid (doc_uuid f)) kvs;
     slug \<leftarrow> required ''slug'' de_string kvs;
     name \<leftarrow> required ''name'' de_string kvs;
     plan \<leftarrow> required ''plan'' de_string kvs;
     status \<leftarrow> required ''status'' de_string kvs;
     Some \<lparr>td_id = i, td_slug = slug, td_name = name, td_plan = plan, td_status = status\<rparr> }"

definition de_domain_dto :: "json \<Rightarrow> DomainDto option" where
  "de_domain_dto d = do {
     kvs \<leftarrow> struct_fields [''fqdn'', ''status''] d;
     fqdn \<leftarrow> required ''fqdn'' de_string kvs;
     status \<leftarrow> required ''status'' de_string kvs;
     Some \<lparr>dd_fqdn = fqdn, dd_status = status\<rparr> }"

definition de_account_dto :: "json \<Rightarrow> AccountDto option" where
  "de_account_dto d = do {
     kvs \<leftarrow> struct_fields [''email'', ''display_name'', ''quota_mb'', ''status''] d;
     email \<leftarrow> required ''email'' de_string kvs;
     display_name \<leftarrow> required ''display_name'' de_string kvs;
     quota_mb \<leftarrow> required ''quota_mb'' de_i32 kvs;
     status \<leftarrow> required ''status'' de_string kvs;
     Some \<lparr>ac_email = email, ac_display_name = display_name, ac_quota_mb = quota_mb, ac_status = status\<rparr> }"

definition de_policy_dto :: "json \<Rightarrow> PolicyDto option" where
  "de_policy_dto d = do {
     kvs \<leftarrow> struct_fields [''reject'', ''add_header'', ''greylist''] d;
     reject \<leftarrow> required ''reject'' de_f64 kvs;
     add_header \<leftarrow> required ''add_header'' de_f64 kvs;
     greylist \<leftarrow> required ''greylist'' de_f64 kvs;
     Some \<lparr>pd_reject = reject, pd_add_header = add_header, pd_greylist = greylist\<rparr> }"

text \<open>
  The other end: what a GET of a URL with an \<open>x-actor\<close> header (and no other) is answered, how a status
  prints, the reader of JSON texts and of UUIDs, and how \<open>reqwest\<close> words a body that does not decode.
\<close>

record api_world =
  api_get :: "string \<Rightarrow> string \<Rightarrow> http_outcome"
  api_status_text :: "nat \<Rightarrow> string"
  api_parse :: "bytes \<Rightarrow> json option"
  api_formats :: formats
  api_json_error :: "bytes \<Rightarrow> string"

definition get_json :: "api_world \<Rightarrow> AdminApi \<Rightarrow> (json \<Rightarrow> 'a option) \<Rightarrow> string \<Rightarrow> string + 'a" where
  "get_json w api dec path =
     (case api_get w (api_base api @ path) (api_actor api) of
        SendFailed e \<Rightarrow> Inl (''request to '' @ path @ '' failed: '' @ e)
      | Response status doc \<Rightarrow>
          if \<not> is_success status then Inl (path @ '' returned '' @ api_status_text w status)
          else (case Option.bind (api_parse w doc) dec of
                  None \<Rightarrow> Inl (''decoding '' @ path @ '': '' @ api_json_error w doc) | Some a \<Rightarrow> Inr a))"

definition api_tenants :: "api_world \<Rightarrow> AdminApi \<Rightarrow> string + TenantDto list" where
  "api_tenants w api = get_json w api (de_vec (de_tenant_dto (api_formats w))) ''/api/v1/tenants''"

definition api_domains :: "api_world \<Rightarrow> AdminApi \<Rightarrow> uuid \<Rightarrow> string + DomainDto list" where
  "api_domains w api t = get_json w api (de_vec de_domain_dto) (''/api/v1/tenants/'' @ uuid_text t @ ''/domains'')"

definition api_accounts :: "api_world \<Rightarrow> AdminApi \<Rightarrow> uuid \<Rightarrow> string + AccountDto list" where
  "api_accounts w api t = get_json w api (de_vec de_account_dto) (''/api/v1/tenants/'' @ uuid_text t @ ''/accounts'')"

definition api_policy :: "api_world \<Rightarrow> AdminApi \<Rightarrow> uuid \<Rightarrow> string + PolicyDto" where
  "api_policy w api t = get_json w api de_policy_dto (''/api/v1/tenants/'' @ uuid_text t @ ''/policy'')"

section \<open>The views\<close>

definition STYLE :: string where
  "STYLE = nl
     @ ''* { box-sizing: border-box; }'' @ nl
     @ ''body { margin:0; font-family:-apple-system,BlinkMacSystemFont,'Segoe UI',Roboto,Helvetica,Arial,sans-serif; color:#1c1c1c; background:#f7f7f5; }'' @ nl
     @ ''a { color:#185fa5; text-decoration:none; }'' @ nl
     @ ''a:hover { text-decoration:underline; }'' @ nl
     @ ''.nav { display:flex; align-items:center; gap:20px; padding:12px 24px; background:#fff; border-bottom:1px solid #e6e6e2; }'' @ nl
     @ ''.nav .brand { font-weight:600; }'' @ nl
     @ ''.wrap { max-width:900px; margin:24px auto; padding:0 24px; }'' @ nl
     @ ''h1 { font-size:22px; font-weight:600; margin:0 0 16px; }'' @ nl
     @ ''h2 { font-size:15px; font-weight:600; margin:22px 0 8px; color:#555; }'' @ nl
     @ ''.card { background:#fff; border:1px solid #e6e6e2; border-radius:12px; overflow:hidden; }'' @ nl
     @ ''table { width:100%; border-collapse:collapse; font-size:14px; }'' @ nl
     @ ''th { text-align:left; font-weight:600; font-size:12px; color:#666; padding:10px 14px; }'' @ nl
     @ ''td { padding:10px 14px; border-top:1px solid #efefeb; }'' @ nl
     @ ''.mono { font-family:ui-monospace,SFMono-Regular,Menlo,monospace; }'' @ nl
     @ ''.muted { color:#666; }'' @ nl
     @ ''.right { text-align:right; }'' @ nl
     @ ''.badge { display:inline-block; font-size:12px; padding:2px 9px; border-radius:20px; background:#eee; color:#444; }'' @ nl
     @ ''.badge.ok { background:#e1f5ee; color:#0f6e56; }'' @ nl
     @ ''.badge.warn { background:#faeeda; color:#854f0b; }'' @ nl
     @ ''.headrow { display:flex; align-items:center; gap:12px; margin:4px 0 8px; }'' @ nl
     @ ''.avatar { width:40px; height:40px; border-radius:8px; background:#e6f1fb; color:#185fa5; display:flex; align-items:center; justify-content:center; font-weight:600; }'' @ nl
     @ ''.cards3 { display:grid; grid-template-columns:repeat(3,1fr); gap:10px; }'' @ nl
     @ ''.metric { background:#f1efe8; border-radius:8px; padding:10px 12px; }'' @ nl
     @ ''.metric .k { font-size:12px; color:#666; }'' @ nl
     @ ''.metric .v { font-size:20px; font-weight:600; }'' @ nl
     @ ''.err { background:#fcebeb; color:#a32d2d; border:1px solid #f09595; padding:12px 14px; border-radius:8px; }'' @ nl
     @ ''.empty { padding:16px; color:#666; }'' @ nl"

definition page :: "string \<Rightarrow> html list \<Rightarrow> html list" where
  "page title content =
     [Doctype,
      El ''html'' [(''lang'', ''en'')]
        [el0 ''head''
           [El ''meta'' [(''charset'', ''utf-8'')] [],
            El ''meta'' [(''name'', ''viewport''), (''content'', ''width=device-width, initial-scale=1'')] [],
            el0 ''title'' [Txt (title @ '' '' @ middot @ '' opengroupware admin'')],
            el0 ''style'' [Raw STYLE]],
         el0 ''body''
           [elc ''header'' ''nav''
              [elc ''span'' ''brand'' [Txt ''opengroupware admin''],
               El ''a'' [(''href'', ''/'')] [Txt ''Tenants'']],
            elc ''main'' ''wrap'' content]]]"

definition badge_class :: "string \<Rightarrow> string" where
  "badge_class status =
     (if status = ''active'' then ''badge ok''
      else if status = ''suspended'' \<or> strip_prefix ''pending'' status \<noteq> None then ''badge warn''
      else ''badge'')"

definition badge :: "string \<Rightarrow> html" where
  "badge status = elc ''span'' (badge_class status) [Txt status]"

definition tenant_line :: "TenantDto \<Rightarrow> html" where
  "tenant_line t =
     el0 ''tr''
       [elc ''td'' ''mono'' [El ''a'' [(''href'', ''/tenants/'' @ uuid_text (td_id t))] [Txt (td_slug t)]],
        el0 ''td'' [Txt (td_name t)],
        elc ''td'' ''muted'' [Txt (td_plan t)],
        el0 ''td'' [badge (td_status t)]]"

definition tenants_view :: "TenantDto list \<Rightarrow> html list" where
  "tenants_view ts =
     [el0 ''h1'' [Txt ''Tenants''],
      elc ''div'' ''card''
        [el0 ''table''
           [el0 ''thead'' [el0 ''tr'' [el0 ''th'' [Txt ''Slug''], el0 ''th'' [Txt ''Name''], el0 ''th'' [Txt ''Plan''],
              el0 ''th'' [Txt ''Status'']]],
            el0 ''tbody''
              (map tenant_line ts
               @ (if ts = []
                  then [el0 ''tr'' [El ''td'' [(''class'', ''empty''), (''colspan'', ''4'')] [Txt ''No tenants yet.'']]]
                  else []))]]]"

definition domain_line :: "DomainDto \<Rightarrow> html" where
  "domain_line d = el0 ''tr'' [elc ''td'' ''mono'' [Txt (dd_fqdn d)], elc ''td'' ''right'' [badge (dd_status d)]]"

definition account_line :: "AccountDto \<Rightarrow> html" where
  "account_line a =
     el0 ''tr''
       [elc ''td'' ''mono'' [Txt (ac_email a)],
        elc ''td'' ''muted'' [Txt (ac_display_name a)],
        elc ''td'' ''right muted'' [Txt ((if sint (ac_quota_mb a) < 0 then ''-'' else []) @ nat_text (nat \<bar>sint (ac_quota_mb a)\<bar>) @ '' MB'')],
        elc ''td'' ''right'' [badge (ac_status a)]]"

definition metric_card :: "string \<Rightarrow> string \<Rightarrow> html" where
  "metric_card k v = elc ''div'' ''metric'' [elc ''div'' ''k'' [Txt k], elc ''div'' ''v'' [Txt v]]"

text \<open>\<open>fmt1\<close> is \<open>format!("{v:.1}")\<close>.\<close>

definition detail_view :: "(f64 \<Rightarrow> string) \<Rightarrow> TenantDto \<Rightarrow> DomainDto list \<Rightarrow> AccountDto list \<Rightarrow> PolicyDto \<Rightarrow> html list" where
  "detail_view fmt1 t ds acs policy =
     [el0 ''p'' [El ''a'' [(''href'', ''/'')] [Txt (left_arrow @ '' Tenants'')]],
      elc ''div'' ''headrow''
        [elc ''div'' ''avatar'' [Txt (case first_char (td_name t) of None \<Rightarrow> ''?'' | Some c \<Rightarrow> ascii_upper c)],
         el0 ''div''
           [El ''h1'' [(''style'', ''margin:0'')] [Txt (td_name t)],
            elc ''div'' ''muted mono''
              [Txt (td_slug t @ '' '' @ middot @ '' '' @ td_plan t @ '' '' @ middot @ '' '' @ td_status t)]]],
      el0 ''h2'' [Txt ''Domains''],
      elc ''div'' ''card''
        [el0 ''table''
           [el0 ''tbody''
              (map domain_line ds
               @ (if ds = [] then [el0 ''tr'' [elc ''td'' ''empty'' [Txt ''No domains.'']]] else []))]],
      el0 ''h2'' [Txt ''Accounts''],
      elc ''div'' ''card''
        [el0 ''table''
           [el0 ''thead'' [el0 ''tr'' [el0 ''th'' [Txt ''Email''], el0 ''th'' [Txt ''Name''],
              elc ''th'' ''right'' [Txt ''Quota''], elc ''th'' ''right'' [Txt ''Status'']]],
            el0 ''tbody''
              (map account_line acs
               @ (if acs = []
                  then [el0 ''tr'' [El ''td'' [(''class'', ''empty''), (''colspan'', ''4'')] [Txt ''No accounts.'']]]
                  else []))]],
      el0 ''h2'' [Txt ''Abuse policy''],
      elc ''div'' ''cards3''
        [metric_card ''greylist'' (fmt1 (pd_greylist policy)),
         metric_card ''add header'' (fmt1 (pd_add_header policy)),
         metric_card ''reject'' (fmt1 (pd_reject policy))]]"

definition error_view :: "string \<Rightarrow> string \<Rightarrow> html list" where
  "error_view title msg =
     [el0 ''h1'' [Txt title],
      elc ''div'' ''err'' [Txt msg],
      el0 ''p'' [El ''a'' [(''href'', ''/'')] [Txt (left_arrow @ '' Back to tenants'')]]]"

definition render_tenants_page :: "TenantDto list \<Rightarrow> html list" where
  "render_tenants_page ts = page ''Tenants'' (tenants_view ts)"

definition render_detail_page :: "(f64 \<Rightarrow> string) \<Rightarrow> TenantDto \<Rightarrow> DomainDto list \<Rightarrow> AccountDto list \<Rightarrow> PolicyDto \<Rightarrow> html list" where
  "render_detail_page fmt1 tenant ds acs policy =
     page (td_name tenant) (detail_view fmt1 tenant ds acs policy)"

definition render_error_page :: "string \<Rightarrow> string \<Rightarrow> html list" where
  "render_error_page title msg = page title (error_view title msg)"

section \<open>The handlers\<close>

definition tenants_page :: "api_world \<Rightarrow> AdminApi \<Rightarrow> html list" where
  "tenants_page w api =
     (case api_tenants w api of
        Inr ts \<Rightarrow> render_tenants_page ts
      | Inl e \<Rightarrow> render_error_page ''Tenants'' e)"

text \<open>\<open>Result::unwrap_or_default\<close> on a list.\<close>

definition or_empty :: "'e + 'a list \<Rightarrow> 'a list" where
  "or_empty r = (case r of Inl _ \<Rightarrow> [] | Inr xs \<Rightarrow> xs)"

definition tenant_detail_page :: "(f64 \<Rightarrow> string) \<Rightarrow> api_world \<Rightarrow> AdminApi \<Rightarrow> uuid \<Rightarrow> html list" where
  "tenant_detail_page fmt1 w api i =
     (case api_tenants w api of
        Inl e \<Rightarrow> render_error_page ''Tenant'' e
      | Inr ts \<Rightarrow>
          (case find (\<lambda>t. td_id t = i) ts of
             None \<Rightarrow> render_error_page ''Tenant not found'' ''No tenant with that id.''
           | Some tenant \<Rightarrow>
               (let ds = api_domains w api i; acs = api_accounts w api i; policy = api_policy w api i in
                case policy of
                  Inl e \<Rightarrow> render_error_page (td_name tenant) e
                | Inr p \<Rightarrow> render_detail_page fmt1 tenant (or_empty ds) (or_empty acs) p)))"

text \<open>The routes: a path is the segment of a tenant only if it reads as a UUID (400 otherwise).\<close>

datatype console_request = GetTenantsPage | GetDetailPage uuid | GetConsoleHealth

datatype console_answer = Page "html list" | Plain string

datatype console_handler = H_tenants_page | H_tenant_detail_page | H_health

definition console_routes :: "console_handler routes" where
  "console_routes =
     [(''/'', [(GET, H_tenants_page)]), (''/tenants/{id}'', [(GET, H_tenant_detail_page)]), (''/health'', [(GET, H_health)])]"

fun console_unpack :: "formats \<Rightarrow> (console_handler, console_request) extractor" where
  "console_unpack f H_tenants_page caps b = Inr GetTenantsPage"
| "console_unpack f H_tenant_detail_page caps b = and_then (path_uuid (seg_uuid f) (one_capture caps)) (\<lambda>i. Inr (GetDetailPage i))"
| "console_unpack f H_health caps b = Inr GetConsoleHealth"

fun console_handle :: "(f64 \<Rightarrow> string) \<Rightarrow> api_world \<Rightarrow> AdminApi \<Rightarrow> console_request \<Rightarrow> console_answer" where
  "console_handle fmt1 w api GetTenantsPage = Page (tenants_page w api)"
| "console_handle fmt1 w api (GetDetailPage i) = Page (tenant_detail_page fmt1 w api i)"
| "console_handle fmt1 w api GetConsoleHealth = Plain ''ok''"

text \<open>Every page has status 200, also the one that reports an error.\<close>

definition console_http :: "(f64 \<Rightarrow> string) \<Rightarrow> api_world \<Rightarrow> AdminApi \<Rightarrow> http_request \<Rightarrow> nat + console_answer" where
  "console_http fmt1 w api rq =
     map_sum id (console_handle fmt1 w api) (accepted console_routes (console_unpack (api_formats w)) rq)"

text \<open>The process: on port 3001 unless \<open>PORT\<close> says otherwise.\<close>

definition console_listen_addr :: "environment \<Rightarrow> string" where
  "console_listen_addr env =
     ''0.0.0.0:'' @ nat_text (case Option.bind (env ''PORT'') (parse_unsigned 16) of None \<Rightarrow> 3001 | Some p \<Rightarrow> p)"

definition console_main :: "os \<Rightarrow> environment \<Rightarrow> ((AdminApi, unit) process, string, unit) comp" where
  "console_main os env =
     (let addr = console_listen_addr env; api = api_from_env env in
      case os_bind os addr of
        Inl e \<Rightarrow> fail e
      | Inr _ \<Rightarrow> tryb (emit (Serving ''admin-console'' addr api)) (\<lambda>_. from_result (os_serve os)))"

end
