(* ===== verification/ConsoleProperties.thy ===== *)
theory ConsoleProperties
  imports AdminConsole FrontProperties
begin

text \<open>The console: what its pages contain, and what it shows of the admin-api of this development.\<close>

section \<open>Nothing is injected\<close>

text \<open>The attributes with which the pages are written; the only others are links to a tenant.\<close>

definition page_attributes :: "(string \<times> string) set" where
  "page_attributes = {(''lang'', ''en''), (''charset'', ''utf-8''), (''name'', ''viewport''),
     (''content'', ''width=device-width, initial-scale=1''), (''style'', ''margin:0''), (''colspan'', ''4''), (''href'', ''/'')}
   \<union> {''class''} \<times> {''nav'', ''brand'', ''wrap'', ''badge'', ''badge ok'', ''badge warn'', ''mono'', ''muted'', ''card'', ''empty'',
      ''right'', ''right muted'', ''headrow'', ''avatar'', ''muted mono'', ''cards3'', ''metric'', ''k'', ''v'', ''err''}"

definition own_attribute :: "string \<times> string \<Rightarrow> bool" where
  "own_attribute a \<longleftrightarrow> a \<in> page_attributes \<or> (\<exists>i. a = (''href'', ''/tenants/'' @ uuid_text i))"

definition harmless :: "html \<Rightarrow> bool" where
  "harmless h \<longleftrightarrow> raws h = [] \<and> list_all own_attribute (attributes h)"

lemma harmless_El: "harmless (El tag attrs kids) \<longleftrightarrow> list_all own_attribute attrs \<and> list_all harmless kids"
  by (induction kids) (auto simp: harmless_def)

lemma harmless_Txt [simp]: "harmless (Txt s)"
  by (simp add: harmless_def)

lemma own_attributes [simp]: "a \<in> page_attributes \<Longrightarrow> own_attribute a" "own_attribute (''href'', ''/tenants/'' @ uuid_text i)"
  by (auto simp: own_attribute_def)

lemma badge_harmless [simp]: "harmless (badge s)"
  by (simp add: badge_def badge_class_def harmless_El own_attribute_def page_attributes_def)

lemma lines_harmless [simp]: "harmless (tenant_line t)" "harmless (domain_line d)" "harmless (account_line a)" "harmless (metric_card k v)"
  by (simp_all add: tenant_line_def domain_line_def account_line_def metric_card_def harmless_El)
    (simp_all add: page_attributes_def own_attribute_def)

lemma views_harmless:
  "list_all harmless (tenants_view ts)" "list_all harmless (detail_view fmt1 t ds acs p)" "list_all harmless (error_view title msg)"
proof -
  have maps: "list_all harmless (map tenant_line ts)" "list_all harmless (map domain_line ds)"
    "list_all harmless (map account_line acs)"
    by (simp_all add: list_all_iff)
  show "list_all harmless (tenants_view ts)" "list_all harmless (detail_view fmt1 t ds acs p)"
    "list_all harmless (error_view title msg)"
    using maps
    by (simp_all add: tenants_view_def detail_view_def error_view_def harmless_El own_attribute_def page_attributes_def)
qed

lemma page_harmless:
  assumes "list_all harmless content"
  shows "concat (map raws (page title content)) = [STYLE]
    \<and> list_all own_attribute (concat (map attributes (page title content)))"
proof -
  have "concat (map raws content) = [] \<and> list_all own_attribute (concat (map attributes content))"
    using assms by (induction content) (auto simp: harmless_def)
  then show ?thesis
    by (simp add: page_def) (simp add: own_attribute_def page_attributes_def)
qed

text \<open>C28: Whatever admin-api answers and whatever path is asked for, no page carries it as markup: the only raw text of a page is the style
  sheet of the program, and every attribute is one the program writes, a link to a tenant by its
  identifier, or a class out of the style sheet; all data are text nodes.\<close>

theorem pages_inject_nothing:
  assumes "console_http fmt1 w api rq = Inr (Page p)"
  shows "concat (map raws p) = [STYLE]
    \<and> (\<forall>a \<in> set (concat (map attributes p)). a \<in> page_attributes \<or> (\<exists>i. a = (''href'', ''/tenants/'' @ uuid_text i)))"
proof -
  have "concat (map raws (tenants_page w api)) = [STYLE] \<and> list_all own_attribute (concat (map attributes (tenants_page w api)))"
    by (auto simp: tenants_page_def render_tenants_page_def render_error_page_def page_harmless views_harmless split: sum.split)
  moreover have "concat (map raws (tenant_detail_page fmt1 w api i)) = [STYLE]
      \<and> list_all own_attribute (concat (map attributes (tenant_detail_page fmt1 w api i)))" for i
    by (auto simp: tenant_detail_page_def render_detail_page_def render_error_page_def page_harmless views_harmless Let_def
        split: sum.split option.split)
  ultimately have pages: "concat (map raws q) = [STYLE] \<and> list_all own_attribute (concat (map attributes q))"
    if "q = tenants_page w api \<or> (\<exists>i. q = tenant_detail_page fmt1 w api i)" for q
    using that by auto
  have "concat (map raws p) = [STYLE] \<and> list_all own_attribute (concat (map attributes p))"
  proof -
    obtain req where "console_handle fmt1 w api req = Page p"
      using assms by (cases "accepted console_routes (console_unpack (api_formats w)) rq") (auto simp: console_http_def)
    then show ?thesis by (cases req) (auto intro!: pages [THEN conjunct1] pages [THEN conjunct2])
  qed
  then show ?thesis by (simp add: list_all_iff own_attribute_def)
qed

definition demo_api :: AdminApi where
  "demo_api = \<lparr>api_base = ''http://admin-api:8080'', api_actor = ''admin-console''\<rparr>"

text \<open>
  An admin-api with a canned document for each path, whose bodies are the URLs they answer; and one that
  answers with a hostile name, without the domains unless they are added.
\<close>

definition canned_api :: "(string \<times> json) list \<Rightarrow> api_world" where
  "canned_api docs = \<lparr>api_get = (\<lambda>u _. Response 200 u), api_status_text = nat_text, api_parse = map_of docs,
     api_formats = demo_formats, api_json_error = (\<lambda>_. ''EOF'')\<rparr>"

definition hostile_docs :: "(string \<times> json) list" where
  "hostile_docs =
     [(api_base demo_api @ ''/api/v1/tenants'', JArr [JObj [(''id'', JStr (uuid_text 1)), (''slug'', JStr ''acme''),
        (''name'', JStr ''<script>''), (''plan'', JStr ''x''), (''status'', JStr ''active'')]]),
      (api_base demo_api @ tenant_route 1 ''/accounts'', JArr []),
      (api_base demo_api @ tenant_route 1 ''/policy'', JObj [(''reject'', JInt 15), (''add_header'', JInt 6), (''greylist'', JInt 4)])]"

definition hostile_tenant :: TenantDto where
  "hostile_tenant = \<lparr>td_id = 1, td_slug = ''acme'', td_name = ''<script>'', td_plan = ''x'', td_status = ''active''\<rparr>"

definition no_domains :: "string \<times> json" where
  "no_domains = (api_base demo_api @ tenant_route 1 ''/domains'', JArr [])"

lemma api_canned:
  "api_tenants (canned_api (hostile_docs @ docs)) demo_api = Inr [hostile_tenant]"
  "api_accounts (canned_api (hostile_docs @ docs)) demo_api 1 = Inr []"
  "api_policy (canned_api (hostile_docs @ docs)) demo_api 1
     = Inr \<lparr>pd_reject = Finite 15, pd_add_header = Finite 6, pd_greylist = Finite 4\<rparr>"
  "api_domains (canned_api hostile_docs) demo_api 1
     = Inl (''decoding '' @ tenant_route 1 ''/domains'' @ '': EOF'')"
  "api_domains (canned_api (hostile_docs @ [no_domains])) demo_api 1 = Inr []"
  by (simp_all add: api_tenants_def api_accounts_def api_policy_def api_domains_def get_json_def canned_api_def hostile_docs_def
      no_domains_def is_success_def map_add_def de_tenant_dto_def de_policy_dto_def struct_fields_def hostile_tenant_def
      demo_formats_def f64_of_int_exact)

theorem pages_inject_nothing_witness:
  "\<exists>p. console_http (\<lambda>_. ''1.0'') (canned_api hostile_docs) demo_api
      \<lparr>rq_method = GET, rq_path = ''/'', rq_headers = (\<lambda>_. None), rq_body = NoDocument 415\<rparr> = Inr (Page p)
    \<and> concat (map raws p) = [STYLE]"
proof -
  have "console_http (\<lambda>_. ''1.0'') (canned_api hostile_docs) demo_api
      \<lparr>rq_method = GET, rq_path = ''/'', rq_headers = (\<lambda>_. None), rq_body = NoDocument 415\<rparr>
    = Inr (Page (tenants_page (canned_api hostile_docs) demo_api))"
    by (simp add: console_http_def accepted_def endpoint_def console_routes_def route_captures_def pattern_of_def starts_with_def)
  with pages_inject_nothing [OF this] show ?thesis by blast
qed

section \<open>A failure the pages hide\<close>

text \<open>The page of a tenant whose domains cannot be had (the request fails, or is refused, or cannot be
  decoded) is the page of a tenant without domains, "No domains." included; the same holds for its
  accounts. Only a failure of the tenant list or of the policy shows.\<close>

theorem failed_lists_look_empty:
  assumes "api_tenants w api = Inr ts" "t \<in> set ts" "td_id t = i" "api_policy w api i = Inr p"
    and "api_tenants w' api = api_tenants w api" "api_policy w' api i = api_policy w api i"
    and "api_domains w api i = Inl e" "api_domains w' api i = Inr []"
    and "api_accounts w api i = Inl e' \<and> api_accounts w' api i = Inr [] \<or> api_accounts w api i = api_accounts w' api i"
  shows "tenant_detail_page fmt1 w api i = tenant_detail_page fmt1 w' api i
    \<and> ''No domains.'' \<in> set (concat (map texts (tenant_detail_page fmt1 w api i)))"
proof -
  obtain t' where t': "find (\<lambda>t. td_id t = i) ts = Some t'"
    using assms(2,3) by (cases "find (\<lambda>t. td_id t = i) ts") (auto simp: find_None_iff)
  have "tenant_detail_page fmt1 v api i = render_detail_page fmt1 t' [] (or_empty (api_accounts w api i)) p"
    if "v = w \<or> v = w'" for v
    using assms t' that by (auto simp: tenant_detail_page_def or_empty_def)
  then show ?thesis
    by (simp add: render_detail_page_def page_def detail_view_def)
qed

theorem failed_lists_look_empty_witness:
  "tenant_detail_page (\<lambda>_. ''1.0'') (canned_api hostile_docs) demo_api 1
     = tenant_detail_page (\<lambda>_. ''1.0'') (canned_api (hostile_docs @ [no_domains])) demo_api 1"
  using failed_lists_look_empty [of "canned_api hostile_docs" demo_api "[hostile_tenant]" hostile_tenant 1 _
      "canned_api (hostile_docs @ [no_domains])" _ _ "\<lambda>_. ''1.0''"] api_canned(1-3) [of "[]"]
      api_canned(1-3) [of "[no_domains]"] api_canned(4,5)
  by (simp add: hostile_tenant_def)

section \<open>The console over admin-api\<close>

text \<open>
  The wire between the two programs: the console's request carries the \<open>x-actor\<close> header and no other, the
  router of admin-api answers it as it would any request, and the answer is printed as JSON, which the
  console reads.
\<close>

definition console_headers :: "string \<Rightarrow> headers" where
  "console_headers who = [''x-actor'' \<mapsto> who]"

fun on_the_wire :: "formats \<Rightarrow> (json \<Rightarrow> bytes) \<Rightarrow> admin_answer reply routed \<Rightarrow> http_outcome" where
  "on_the_wire f print (App (Refused status)) = Response status []"
| "on_the_wire f print (App (Failure status doc)) = Response status (print doc)"
| "on_the_wire f print (App (Answer status a)) = Response status (print (answer_json f a))"
| "on_the_wire f print (Health s) = Response 200 s"
| "on_the_wire f print (Metrics _ s) = Response 200 s"

definition console_world :: "prims \<Rightarrow> AuthConfig \<Rightarrow> auth_world \<Rightarrow> formats \<Rightarrow> admin_world \<Rightarrow> CachedKeys option \<times> app_state
    \<Rightarrow> (json \<Rightarrow> bytes) \<Rightarrow> string \<Rightarrow> api_world" where
  "console_world ps cfg aw f world st print base =
     \<lparr>api_get = (\<lambda>u who. case strip_prefix base u of
          None \<Rightarrow> SendFailed ''unknown host''
        | Some path \<Rightarrow> on_the_wire f print (fst (admin_http ps cfg aw f world
            \<lparr>rq_method = GET, rq_path = path, rq_headers = console_headers who, rq_body = NoDocument 415\<rparr> st))),
      api_status_text = nat_text, api_parse = parse_json ps, api_formats = f, api_json_error = json_error ps\<rparr>"

lemma console_world_simps [simp]:
  "api_status_text (console_world ps cfg aw f world st print base) = nat_text"
  "api_parse (console_world ps cfg aw f world st print base) = parse_json ps"
  "api_formats (console_world ps cfg aw f world st print base) = f"
  by (simp_all add: console_world_def)

definition console_reads :: "uuid \<Rightarrow> admin_request set" where
  "console_reads i = {GetTenants, GetDomains i, GetAccounts i, GetPolicy i}"

text \<open>Each request of the console is one of admin-api.\<close>

lemma console_world_get:
  assumes "formats_ok f" "rq \<in> console_reads i"
  shows "api_get (console_world ps cfg aw f world st print base) (base @ admin_path rq) who
    = on_the_wire f print (App (fst (serve ps cfg aw (admin_path rq) (console_headers who) (admin_handle rq world) st)))"
proof -
  have rq: "admin_sendable rq" "admin_asked (console_headers who) rq
      = \<lparr>rq_method = GET, rq_path = admin_path rq, rq_headers = console_headers who, rq_body = NoDocument 415\<rparr>"
    using assms(2) by (auto simp: console_reads_def admin_asked_def)
  have "accepted admin_routes (admin_unpack f) \<lparr>rq_method = GET, rq_path = admin_path rq, rq_headers = console_headers who,
      rq_body = NoDocument 415\<rparr> = Inr rq"
    using admin_asked_accepted [OF assms(1) rq(1), of "console_headers who"] by (simp add: rq(2))
  then show ?thesis
    using admin.guarded [of rq]
    by (simp add: console_world_def admin_http_def http_service_def mounted_def layered_def split: prod.split)
qed

text \<open>Against an admin-api that demands tokens the console shows error pages only, for it sends none:
  every page is the error page that says the list of tenants was answered 401.\<close>

theorem console_locked_out:
  assumes "formats_ok f" "enforcing cfg" "w = console_world ps cfg aw f world st print (api_base api)"
  shows "tenants_page w api = render_error_page ''Tenants'' ''/api/v1/tenants returned 401''
    \<and> tenant_detail_page fmt1 w api i = render_error_page ''Tenant'' ''/api/v1/tenants returned 401''"
proof -
  have "caller ps cfg aw (console_headers who) ks = (Inl MissingToken, ks)" for ks who
    using assms(2) by (simp add: caller_def bearer_def console_headers_def tryb_def from_result_def)
  then have "api_get w (api_base api @ admin_path GetTenants) (api_actor api) = Response 401 []"
    using console_world_get [OF assms(1), of GetTenants 0] admin.guarded [of GetTenants]
    by (simp add: assms(3) console_reads_def serve_def require_auth_def split: prod.splits)
  then have "api_tenants w api = Inl ''/api/v1/tenants returned 401''"
    by (simp add: api_tenants_def get_json_def is_success_def assms(3) nat_text.simps char_of_def bit_0)
  then show ?thesis by (simp add: tenants_page_def tenant_detail_page_def)
qed

theorem console_locked_out_witness:
  "tenants_page (console_world (demo_prims 500) demo_auth (demo_auth_world 400) demo_formats demo_world (None, demo_app demo_cp)
     (\<lambda>_. []) (api_base demo_api)) demo_api = render_error_page ''Tenants'' ''/api/v1/tenants returned 401''"
  by (rule console_locked_out [THEN conjunct1, OF demo_formats_ok _ refl]) (simp add: enforcing_def)




















end
