(* ===== verification/PrivateStores.thy ===== *)
theory PrivateStores
  imports AbuseFront
begin

text \<open>
  One database for all tenants against one database per tenant. A computation is \<open>viewed\<close> through a function
  \<open>v\<close> of its state if running it on the view gives the same answer and the view of the state it leaves. A
  service that is viewed through the part of the tenant its request names, and keeps the parts of the others,
  answers as if each tenant had a database of its own; the locale \<open>shared_store\<close> states what that takes.
\<close>

section \<open>Computations seen through a view\<close>

definition viewed :: "('s \<Rightarrow> 's) \<Rightarrow> ('s \<Rightarrow> 'r \<times> 's) \<Rightarrow> 's \<Rightarrow> bool" where
  "viewed v m s \<longleftrightarrow> m (v s) = apsnd v (m s)"

definition on_work :: "('d \<Rightarrow> 'd) \<Rightarrow> 'd work \<Rightarrow> 'd work" where
  "on_work p w = w\<lparr>wdb := p (wdb w)\<rparr>"

definition on_session :: "('d \<Rightarrow> 'd) \<Rightarrow> 'd session \<Rightarrow> 'd session" where
  "on_session p s = s\<lparr>committed := p (committed s)\<rparr>"

lemma on_work_simps [simp]:
  "wdb (on_work p w) = p (wdb w)" "wscope (on_work p w) = wscope w" "wplan (on_work p w) = wplan w"
  by (simp_all add: on_work_def)

lemma on_session_simps [simp]:
  "committed (on_session p s) = p (committed s)" "role (on_session p s) = role s" "net (on_session p s) = net s"
  by (simp_all add: on_session_def)

lemma viewed_ok: "viewed v (ok a) s" and viewed_fail: "viewed v (fail e) s" and viewed_result: "viewed v (from_result r) s"
  by (simp_all add: viewed_def ok_def fail_def from_result_def)

lemma viewed_tryb:
  assumes "viewed v m s" "\<And>a s'. m s = (Inr a, s') \<Longrightarrow> viewed v (k a) s'"
  shows "viewed v (tryb m k) s"
  using assms unfolding viewed_def tryb_def by (auto split: sum.splits prod.splits)

text \<open>A statement, and a transaction around a viewed body.\<close>

lemma viewed_exec:
  assumes "st (wscope w) (p (wdb w)) = map_sum id (apsnd p) (st (wscope w) (wdb w))"
  shows "viewed (on_work p) (exec conv st) w"
  using assms unfolding viewed_def exec_def
  by (auto simp: on_work_def split: prod.splits outcome.splits sum.splits)

lemma viewed_in_tx:
  assumes "\<And>w. wdb w = committed s \<Longrightarrow> wscope w = tenant_scope t now (role s) \<Longrightarrow> viewed (on_work p) act w"
  shows "viewed (on_session p) (in_tx (tenant_tx t now) conv act) s"
proof (cases "tenant_tx t now s")
  case (Pair r s1)
  show ?thesis
  proof (cases r)
    case (Inl e)
    with Pair have "tenant_tx t now (on_session p s) = (Inl e, on_session p s1)"
      by (auto simp: tenant_tx_def open_tx_def on_session_def split: prod.splits outcome.splits)
    with Pair Inl show ?thesis by (simp add: viewed_def in_tx_def)
  next
    case (Inr w)
    from Pair Inr have w: "wdb w = committed s" "wscope w = tenant_scope t now (role s)"
      using tenant_tx.open_ok by blast+
    from Pair Inr have op: "tenant_tx t now (on_session p s) = (Inr (on_work p w), on_session p s1)"
      by (auto simp: tenant_tx_def open_tx_def on_session_def on_work_def split: prod.splits outcome.splits)
    obtain b w' where b: "act w = (b, w')" by fastforce
    with assms [OF w] have "act (on_work p w) = (b, on_work p w')" by (simp add: viewed_def)
    with Pair Inr op b show ?thesis
      by (auto simp: viewed_def in_tx_def on_session_def split: sum.splits prod.splits outcome.splits)
  qed
qed

lemma viewed_answer: "viewed v m s \<Longrightarrow> viewed v (answer g m) s" and viewed_answer200: "viewed v m1 s \<Longrightarrow> viewed v (answer200 g1 m1) s"
  unfolding answer_def answer200_def by (auto intro!: viewed_tryb viewed_ok simp: split_def)

text \<open>The router in front adds nothing to what its handlers see.\<close>

lemma viewed_http:
  assumes "\<And>c req. accepted table unpack rq = Inr req \<Longrightarrow> viewed v (handler req c) s"
  shows "viewed (apsnd v) (http_service ps cfg w table unpack handler rq) (ks, s)"
proof -
  have "viewed (apsnd v) (layered ps cfg w table unpack handler rq) (ks, s)"
    using assms unfolding viewed_def
    by (auto simp: layered_def serve_def split: sum.splits option.splits prod.splits)
  then show ?thesis by (auto simp: viewed_def http_service_def mounted_def split: prod.splits)
qed

section \<open>Arrivals at a service\<close>

text \<open>A request with what it meets outside: the provider and the clock, the world of the handler, the connection.\<close>

record 'w arrival =
  ar_request :: http_request
  ar_auth :: auth_world
  ar_world :: 'w
  ar_net :: "outcome list"

type_synonym ('w, 'd, 'r) http_app =
  "auth_world \<Rightarrow> 'w \<Rightarrow> http_request \<Rightarrow> CachedKeys option \<times> 'd session \<Rightarrow> 'r \<times> CachedKeys option \<times> 'd session"

definition answer_on :: "('w, 'd, 'r) http_app \<Rightarrow> db_role \<Rightarrow> 'w arrival \<Rightarrow> CachedKeys option \<Rightarrow> 'd \<Rightarrow> 'r \<times> CachedKeys option \<times> 'd" where
  "answer_on app ro a ks d =
     (case app (ar_auth a) (ar_world a) (ar_request a) (ks, \<lparr>committed = d, role = ro, net = ar_net a\<rparr>) of
        (rep, ks', s') \<Rightarrow> (rep, ks', committed s'))"

text \<open>One database; and one per tenant, where a request that names none is answered over an empty one.\<close>

fun shared_run :: "('w, 'd, 'r) http_app \<Rightarrow> db_role \<Rightarrow> 'w arrival list \<Rightarrow> CachedKeys option \<Rightarrow> 'd \<Rightarrow> 'r list \<times> 'd" where
  "shared_run app ro [] ks d = ([], d)"
| "shared_run app ro (a # as) ks d =
     (case answer_on app ro a ks d of (rep, ks', d') \<Rightarrow> apfst (Cons rep) (shared_run app ro as ks' d'))"

fun private_run :: "('w, 'd, 'r) http_app \<Rightarrow> db_role \<Rightarrow> (http_request \<Rightarrow> uuid option) \<Rightarrow> 'd \<Rightarrow> 'w arrival list
    \<Rightarrow> CachedKeys option \<Rightarrow> (uuid \<Rightarrow> 'd) \<Rightarrow> 'r list \<times> (uuid \<Rightarrow> 'd)" where
  "private_run app ro owner none [] ks dbs = ([], dbs)"
| "private_run app ro owner none (a # as) ks dbs =
     (case owner (ar_request a) of
        None \<Rightarrow> (case answer_on app ro a ks none of (rep, ks', _) \<Rightarrow>
          apfst (Cons rep) (private_run app ro owner none as ks' dbs))
      | Some t \<Rightarrow> (case answer_on app ro a ks (dbs t) of (rep, ks', d') \<Rightarrow>
          apfst (Cons rep) (private_run app ro owner none as ks' (dbs(t := d')))))"

text \<open>Identifiers the database draws are not drawn again, and not in use.\<close>

primrec fresh_draws :: "('w \<Rightarrow> 'k set) \<Rightarrow> 'k set \<Rightarrow> 'w arrival list \<Rightarrow> bool" where
  "fresh_draws drawn used [] = True"
| "fresh_draws drawn used (a # as) \<longleftrightarrow>
     drawn (ar_world a) \<inter> used = {} \<and> fresh_draws drawn (used \<union> drawn (ar_world a)) as"

lemma fresh_draws_mono: "fresh_draws drawn used as \<Longrightarrow> used' \<subseteq> used \<Longrightarrow> fresh_draws drawn used' as"
  by (induction as arbitrary: used used') (auto, metis Un_mono order_refl)

section \<open>What lets tenants share a store\<close>

locale shared_store =
  fixes table :: "'h routes" and unpack :: "('h, 'req) extractor"
    and handle :: "'req \<Rightarrow> 'w \<Rightarrow> Caller \<Rightarrow> ('d session, api_error, nat \<times> 'a) comp"
    and owner :: "http_request \<Rightarrow> uuid option"
    and part :: "uuid \<Rightarrow> 'd \<Rightarrow> 'd"
    and used :: "'d \<Rightarrow> 'k set" and drawn :: "'w \<Rightarrow> 'k set"
  assumes addressed: "accepted table unpack rq = Inr req \<Longrightarrow> owner rq \<noteq> None"
    and own: "accepted table unpack rq = Inr req \<Longrightarrow> owner rq = Some t \<Longrightarrow> \<not> privileged (role s)
      \<Longrightarrow> drawn bw \<inter> used (committed s) = {} \<Longrightarrow> viewed (on_session (part t)) (handle req bw c) s"
    and foreign: "accepted table unpack rq = Inr req \<Longrightarrow> owner rq \<noteq> Some t \<Longrightarrow> \<not> privileged (role s)
      \<Longrightarrow> part t (committed (snd (handle req bw c s))) = part t (committed s)"
    and draws: "accepted table unpack rq = Inr req
      \<Longrightarrow> used (committed (snd (handle req bw c s))) \<subseteq> used (committed s) \<union> drawn bw"
begin

abbreviation app :: "prims \<Rightarrow> AuthConfig \<Rightarrow> ('w, 'd, 'a reply routed) http_app" where
  "app ps cfg \<equiv> \<lambda>w bw rq. http_service ps cfg w table unpack (\<lambda>req. handle req bw) rq"

lemma answer_effect:
  assumes "answer_on (app ps cfg) ro a ks d = (rep, ks', d')"
  shows "d' = d \<or> (\<exists>req c. accepted table unpack (ar_request a) = Inr req
    \<and> d' = committed (snd (handle req (ar_world a) c \<lparr>committed = d, role = ro, net = ar_net a\<rparr>)))"
proof (cases "accepted table unpack (ar_request a)")
  case (Inl status)
  with assms show ?thesis
    by (auto simp: answer_on_def http_service_def mounted_def layered_def split: prod.splits sum.splits if_splits)
next
  case (Inr req)
  let ?s = "\<lparr>committed = d, role = ro, net = ar_net a\<rparr>"
  from assms Inr have "d' = d \<or> (\<exists>c. d' = committed (snd (handle req (ar_world a) c ?s)))"
    by (auto simp: answer_on_def http_service_def mounted_def layered_def serve_def
        split: prod.splits sum.splits option.splits if_splits) (metis snd_conv)+
  with Inr show ?thesis by blast
qed

lemma answer_viewed:
  assumes "\<And>c req. accepted table unpack (ar_request a) = Inr req
      \<Longrightarrow> viewed (on_session v) (handle req (ar_world a) c) \<lparr>committed = d, role = ro, net = ar_net a\<rparr>"
  shows "answer_on (app ps cfg) ro a ks (v d) = apsnd (apsnd v) (answer_on (app ps cfg) ro a ks d)"
proof -
  let ?s = "\<lparr>committed = d, role = ro, net = ar_net a\<rparr>"
  have "viewed (apsnd (on_session v)) (app ps cfg (ar_auth a) (ar_world a) (ar_request a)) (ks, ?s)"
    by (rule viewed_http) (rule assms)
  then show ?thesis
    by (auto simp: viewed_def answer_on_def on_session_def split: prod.splits)
qed

theorem private_stores:
  assumes "\<not> privileged ro" "fresh_draws drawn (used d) as"
  shows "private_run (app ps cfg) ro owner none as ks (\<lambda>t. part t d)
    = apsnd (\<lambda>d' t. part t d') (shared_run (app ps cfg) ro as ks d)"
  using assms(2)
proof (induction as arbitrary: ks d)
  case (Cons a as)
  obtain rep ks' d' where ans: "answer_on (app ps cfg) ro a ks d = (rep, ks', d')" by (metis prod_cases3)
  have "used d' \<subseteq> used d \<union> drawn (ar_world a)"
    using answer_effect [OF ans] draws by fastforce
  with Cons.prems have "fresh_draws drawn (used d') as"
    by (auto intro: fresh_draws_mono)
  from Cons.IH [OF this] have rest: "private_run (app ps cfg) ro owner none as ks' (\<lambda>t. part t d')
      = apsnd (\<lambda>d' t. part t d') (shared_run (app ps cfg) ro as ks' d')" .
  have kept: "part t d' = part t d" if "owner (ar_request a) \<noteq> Some t" for t
    using answer_effect [OF ans] foreign [OF _ that] assms(1) by fastforce
  show ?case
  proof (cases "owner (ar_request a)")
    case None
    then have no: "accepted table unpack (ar_request a) \<noteq> Inr req" for req using addressed by blast
    have "answer_on (app ps cfg) ro a ks none = (rep, ks', none)"
      using answer_viewed [where v = "\<lambda>_. none" and a = a and d = d and ro = ro] no ans by simp
    moreover have "(\<lambda>t. part t d') = (\<lambda>t. part t d)" using kept None by auto
    ultimately show ?thesis using None ans rest by (simp add: apfst_def apsnd_def prod.map_comp o_def)
  next
    case (Some t)
    have "answer_on (app ps cfg) ro a ks (part t d) = (rep, ks', part t d')"
      by (subst answer_viewed) (use own [OF _ Some] Cons.prems assms(1) ans in auto)
    moreover have "(\<lambda>u. part u d)(t := part t d') = (\<lambda>u. part u d')" using kept Some by auto
    ultimately show ?thesis using Some ans rest by (simp add: apfst_def apsnd_def prod.map_comp o_def)
  qed
qed simp

end

section \<open>The tables of a tenant\<close>

context rls_table
begin

text \<open>Reading and updating a table under a tenant's scope is reading and updating the tenant's rows.\<close>

lemma select_view:
  assumes "\<not> privileged ro"
  shows "select_rows vis (tenant_scope t now ro) p (filter (\<lambda>r. owner r = Some t) rows)
    = select_rows vis (tenant_scope t now ro) p rows"
  by (simp add: select_own [OF assms] conj_commute)

lemma update_view:
  assumes "\<And>r. owner (f r) = owner r"
  shows "update_rows vis sc p f (filter (\<lambda>r. owner r = Some t) rows)
    = filter (\<lambda>r. owner r = Some t) (update_rows vis sc p f rows)"
  using assms by (induction rows) (auto simp: update_rows_def)

end

section \<open>The handlers of abuse-api\<close>

text \<open>What the database draws for a request, and what is in use: identifiers of decisions and of items.\<close>

definition abuse_drawn :: "abuse_world \<Rightarrow> (uuid + uuid) set" where
  "abuse_drawn bw = {Inl (bw_fresh bw), Inr (bw_fresh_item bw)}"

definition abuse_used :: "abuse_store \<Rightarrow> (uuid + uuid) set" where
  "abuse_used d = Inl ` ad_id ` set (decisions d) \<union> Inr ` qi_id ` set (quarantine_items d)"

lemma abuse_part_simps [simp]:
  "decisions (abuse_part t d) = filter (\<lambda>r. ad_tenant_id r = t) (decisions d)"
  "quarantine_items (abuse_part t d) = filter (\<lambda>r. qi_tenant_id r = t) (quarantine_items d)"
  "audit_log (abuse_part t d) = filter (\<lambda>r. ae_tenant_id r = Some t) (audit_log d)"
  by (simp_all add: abuse_part_def)

lemma select_held_view:
  assumes "\<not> privileged ro"
  shows "select_held (tenant_scope t now ro) (abuse_part t d)
    = map_sum id (apsnd (abuse_part t)) (select_held (tenant_scope t now ro) d)"
  using quarantine_rls.select_view [OF assms, of t now _ "quarantine_items d"] by (simp add: select_held_def)

lemma update_item_view:
  assumes "\<not> privileged ro" "\<And>r. qi_tenant_id (f (tenant_scope t now ro) r) = qi_tenant_id r"
  shows "update_item p f (tenant_scope t now ro) (abuse_part t d)
    = map_sum id (apsnd (abuse_part t)) (update_item p f (tenant_scope t now ro) d)"
  using quarantine_rls.select_view [OF assms(1), of t now p "quarantine_items d"]
    quarantine_rls.update_view [of "f (tenant_scope t now ro)" "tenant_scope t now ro" p t "quarantine_items d"] assms(2)
  by (simp add: update_item_def updated_rows_def abuse_part_def)

lemma insert_audit_view:
  assumes "ae_tenant_id e = Some t"
  shows "insert_audit abuse_audit_fk e sc (abuse_part t d)
    = map_sum id (apsnd (abuse_part t)) (insert_audit abuse_audit_fk e sc d)"
  using assms
  by (simp add: insert_audit_def abuse_audit_fk_def abuse_part_def AuditEntry.defs audit_row.defs)

lemma insert_decision_view:
  assumes "fresh \<notin> ad_id ` set (decisions d)"
  shows "insert_decision fresh t req symbols sc (abuse_part t d)
    = map_sum id (apsnd (abuse_part t)) (insert_decision fresh t req symbols sc d)"
  using assms by (auto simp: insert_decision_def abuse_part_def new_decision_def list_ex_iff Let_def)

lemma insert_item_view:
  assumes "fresh \<notin> qi_id ` set (quarantine_items d)" "\<exists>r \<in> set (decisions d). ad_id r = i \<and> ad_tenant_id r = t"
  shows "insert_item fresh t i req reason sc (abuse_part t d)
    = map_sum id (apsnd (abuse_part t)) (insert_item fresh t i req reason sc d)"
  using assms by (auto simp: insert_item_def abuse_part_def new_item_def list_ex_iff Let_def)

lemma record_audit_view:
  "ae_tenant_id e = Some t \<Longrightarrow> viewed (on_work (abuse_part t)) (record_audit abuse_audit_fk conv e) w"
  unfolding record_audit_def by (intro viewed_exec insert_audit_view)

lemma record_decision_view:
  assumes "\<not> privileged (role s)" "abuse_drawn bw \<inter> abuse_used (committed s) = {}"
  shows "viewed (on_session (abuse_part t))
    (record_decision fmt1 (bw_fresh bw) (bw_fresh_item bw) now t who req) s"
proof -
  from assms(2) have fresh: "bw_fresh bw \<notin> ad_id ` set (decisions (committed s))"
      "bw_fresh_item bw \<notin> qi_id ` set (quarantine_items (committed s))"
    by (auto simp: abuse_drawn_def abuse_used_def)
  have "viewed (on_work (abuse_part t)) (record_decision_body fmt1 (bw_fresh bw) (bw_fresh_item bw) t who req symbols) w"
    if w: "wdb w = committed s" for w symbols
    unfolding record_decision_body_def
  proof (intro viewed_tryb)
    show "viewed (on_work (abuse_part t)) (exec Db (insert_decision (bw_fresh bw) t req symbols)) w"
      by (intro viewed_exec insert_decision_view) (use fresh w in simp)
  next
    fix r w1 assume "exec Db (insert_decision (bw_fresh bw) t req symbols) w = (Inr r, w1)"
    then have "r = new_decision (bw_fresh bw) t req symbols (wscope w)"
      "wdb w1 = (committed s)\<lparr>decisions := decisions (committed s) @ [r]\<rparr>"
      by (auto elim!: exec_Inr simp: insert_decision_def w Let_def split: if_splits)
    then have "\<exists>x \<in> set (decisions (wdb w1)). ad_id x = ad_id r \<and> ad_tenant_id x = t"
      "bw_fresh_item bw \<notin> qi_id ` set (quarantine_items (wdb w1))"
      using fresh by (auto simp: new_decision_def)
    then show "viewed (on_work (abuse_part t)) (if rd_action req = ''quarantine''
           then exec Db (insert_item (bw_fresh_item bw) t (ad_id r) req
                  (rd_verdict req @ '' (score '' @ fmt1 (rd_score req) @ '')''))
           else ok ()) w1"
      by (auto intro!: viewed_exec insert_item_view viewed_ok)
  next
    fix r w2 show "viewed (on_work (abuse_part t)) (record_audit abuse_audit_fk Db (decision_entry t who req r)) w2"
      by (rule record_audit_view) (simp add: decision_entry_def)
  qed (rule viewed_ok)
  then show ?thesis
    by (auto simp: record_decision_def Let_def intro!: viewed_fail viewed_tryb viewed_in_tx viewed_ok)
qed

lemma update_body_view:
  assumes "\<not> privileged ro" "wscope w = tenant_scope t now ro"
    and "\<And>sc r. qi_tenant_id (f sc r) = qi_tenant_id r" "\<And>item. ae_tenant_id (entry item) = Some t"
  shows "viewed (on_work (abuse_part t)) (tryb (exec Db (update_item p f)) (\<lambda>found.
     tryb (from_result (ok_or NotFound found)) (\<lambda>item.
     tryb (record_audit abuse_audit_fk Db (entry item)) (\<lambda>_. ok item)))) w"
  using assms by (intro viewed_tryb viewed_exec viewed_result viewed_ok record_audit_view) (simp_all add: update_item_view)

lemma abuse_handle_view:
  assumes "\<not> privileged (role s)" "abuse_drawn bw \<inter> abuse_used (committed s) = {}"
  shows "viewed (on_session (abuse_part (abuse_tenant rq))) (abuse_handle rq bw c) s"
proof (cases rq)
  case (PostDecision t req)
  with record_decision_view [OF assms] show ?thesis by (simp add: viewed_answer)
next
  case (GetQuarantine t)
  then show ?thesis
    by (auto simp: list_quarantine_def intro!: viewed_answer200 viewed_in_tx viewed_exec select_held_view assms)
next
  case (PostRelease t i)
  then show ?thesis
    by (auto simp: release_item_def release_body_def release_update_def set_released_def release_entry_def
        intro!: viewed_answer200 viewed_in_tx update_body_view [OF assms(1)])
next
  case (PostReport t i v)
  then show ?thesis
    by (auto simp: report_item_def report_body_def report_update_def set_reported_def report_entry_def
        intro!: viewed_answer200 viewed_in_tx viewed_fail update_body_view [OF assms(1)])
qed

lemma abuse_handle_draws:
  "abuse_used (committed (snd (abuse_handle rq bw c s))) \<subseteq> abuse_used (committed s) \<union> abuse_drawn bw"
proof (cases rq)
  case (PostDecision t req)
  obtain r s' where run: "record_decision (bw_fmt1 bw) (bw_fresh bw) (bw_fresh_item bw) (bw_now bw) t c req s = (r, s')"
    by fastforce
  from record_decision_cases [OF run] show ?thesis
    using PostDecision run
    by (auto simp: decision_recorded_def abuse_used_def abuse_drawn_def new_decision_def new_item_def Let_def split: if_splits)
next
  case (GetQuarantine t)
  obtain r s' where "list_quarantine (bw_now bw) t s = (r, s')" by fastforce
  from list_quarantine_keeps [OF this] this GetQuarantine show ?thesis by simp
next
  case (PostRelease t i)
  obtain r s' where run: "in_tx (tenant_tx t (bw_now bw)) Db (release_body t i c) s = (r, s')" by fastforce
  from release.run_either [OF run] PostRelease run show ?thesis
    by (auto simp: release_item_def item_released_def item_updated_def abuse_used_def set_released_def dest!: set_update_rows)
next
  case (PostReport t i v)
  obtain r s' where run: "report_item (bw_now bw) t i c v s = (r, s')" by fastforce
  from report_item_cases [OF run] PostReport run show ?thesis
    by (auto simp: item_reported_def item_updated_def abuse_used_def set_reported_def dest!: set_update_rows)
qed

end
