(* ===== verification/IsolationProperties.thy ===== *)
theory IsolationProperties
  imports PrivateStores FrontProperties
begin

text \<open>
  The refinement that multi-tenancy promises: the one database of \<open>abuse-api\<close>, shared by all tenants behind row
  level security, cannot be told from a database per tenant.
\<close>

interpretation abuse_store: shared_store abuse_routes "abuse_unpack f" "\<lambda>rq bw. abuse_handle rq bw" "\<lambda>rq. path_tenant f (rq_path rq)"
    abuse_part abuse_used abuse_drawn for f
proof
  fix rq :: http_request and req t and s :: "abuse_store session" and bw c
  assume acc: "accepted abuse_routes (abuse_unpack f) rq = Inr req"
  note tenant = abuse_accepted_tenant [OF acc]
  show "path_tenant f (rq_path rq) \<noteq> None" using tenant by simp
  show "abuse_used (committed (snd (abuse_handle req bw c s))) \<subseteq> abuse_used (committed s) \<union> abuse_drawn bw"
    by (rule abuse_handle_draws)
  show "viewed (on_session (abuse_part t)) (abuse_handle req bw c) s"
    if "path_tenant f (rq_path rq) = Some t" "\<not> privileged (role s)" "abuse_drawn bw \<inter> abuse_used (committed s) = {}"
    using abuse_handle_view [OF that(2,3), of req c] that(1) tenant by simp
  show "abuse_part t (committed (snd (abuse_handle req bw c s))) = abuse_part t (committed s)"
    if "path_tenant f (rq_path rq) \<noteq> Some t" "\<not> privileged (role s)"
    using abuse_handle_part [OF that(2), of t req] that(1) tenant by auto
qed

text \<open>C3: A sequence of HTTP requests of any shape, by any callers for any tenants, with any failures of the
  connection, is answered by abuse-api as if every tenant had a database of its own: the answers are those of
  the run in which a request sees and changes the private database of the tenant its path names and nothing
  else (the key cache stays one), and the shared database always holds, for each tenant, what the private one
  holds. The connection must have an unprivileged role, and the identifiers the database draws must be new.\<close>

theorem abuse_private_databases:
  assumes "\<not> privileged ro" "fresh_draws abuse_drawn (abuse_used d) arrivals"
  shows "private_run (\<lambda>w bw rq. abuse_http ps cfg w f bw rq) ro (\<lambda>rq. path_tenant f (rq_path rq)) empty_abuse_store
      arrivals ks (\<lambda>t. abuse_part t d)
    = apsnd (\<lambda>d' t. abuse_part t d') (shared_run (\<lambda>w bw rq. abuse_http ps cfg w f bw rq) ro arrivals ks d)"
  unfolding abuse_http_def by (rule abuse_store.private_stores [OF assms])

text \<open>The second tenant files a message under the reference the first one uses, then the first releases its item.\<close>

definition demo_arrivals :: "auth_world \<Rightarrow> abuse_world arrival list" where
  "demo_arrivals w =
     [\<lparr>ar_request = abuse_asked (\<lambda>_. None) (PostDecision 2 (demo_req ''m1'' ''quarantine'')), ar_auth = w,
        ar_world = demo_abuse_world\<lparr>bw_fresh := 201, bw_fresh_item := 301\<rparr>, ar_net = []\<rparr>,
      \<lparr>ar_request = abuse_asked (\<lambda>_. None) (PostRelease 1 300), ar_auth = w,
        ar_world = demo_abuse_world\<lparr>bw_fresh := 202, bw_fresh_item := 302\<rparr>, ar_net = [Done, Done, Lost]\<rparr>]"

theorem abuse_private_databases_witness:
  "\<forall>ps w. private_run (\<lambda>w bw rq. abuse_http ps (auth_from_env (\<lambda>_. None)) w demo_formats bw rq) app_role
      (\<lambda>rq. path_tenant demo_formats (rq_path rq)) empty_abuse_store (demo_arrivals w) None (\<lambda>t. abuse_part t demo_held)
    = apsnd (\<lambda>d' t. abuse_part t d') (shared_run (\<lambda>w bw rq. abuse_http ps (auth_from_env (\<lambda>_. None)) w demo_formats bw rq)
      app_role (demo_arrivals w) None demo_held)
  \<and> path_tenant demo_formats (rq_path (ar_request (demo_arrivals w ! 0))) = Some 2
  \<and> path_tenant demo_formats (rq_path (ar_request (demo_arrivals w ! 1))) = Some 1"
proof (intro allI conjI)
  fix ps w
  have "fresh_draws abuse_drawn (abuse_used demo_held) (demo_arrivals w)"
    by (simp add: demo_arrivals_def abuse_drawn_def abuse_used_def demo_abuse_defs demo_abuse_world_def)
  then show "private_run (\<lambda>w bw rq. abuse_http ps (auth_from_env (\<lambda>_. None)) w demo_formats bw rq) app_role
      (\<lambda>rq. path_tenant demo_formats (rq_path rq)) empty_abuse_store (demo_arrivals w) None (\<lambda>t. abuse_part t demo_held)
    = apsnd (\<lambda>d' t. abuse_part t d') (shared_run (\<lambda>w bw rq. abuse_http ps (auth_from_env (\<lambda>_. None)) w demo_formats bw rq)
      app_role (demo_arrivals w) None demo_held)"
    by (rule abuse_private_databases [OF app_role_unprivileged])
  have seg: "path_tenant demo_formats (tenant_route t (CHR ''/'' # rest)) = Some t" for t rest
    using split_on_append [of "CHR ''/''" "uuid_text t"] uuid_text_segment [of t]
    by (simp add: path_tenant_def demo_formats_def)
  show "path_tenant demo_formats (rq_path (ar_request (demo_arrivals w ! 0))) = Some 2"
    and "path_tenant demo_formats (rq_path (ar_request (demo_arrivals w ! 1))) = Some 1"
    using seg [of 2] seg [of 1] by (simp_all add: demo_arrivals_def abuse_asked_def)
qed

end
