(* ===== verification/SesameProperties.thy ===== *)
theory SesameProperties
  imports Examples
begin

text \<open>The token of the sesame client over any history of calls.\<close>

text \<open>The token endpoint of this world hands out the token, with its lifetime in seconds.\<close>

definition issues :: "SesameConfig \<Rightarrow> sesame_world \<Rightarrow> string \<Rightarrow> 32 word \<Rightarrow> bool" where
  "issues cfg w tok e \<longleftrightarrow>
     (case token_endpoint w (token_request cfg) of
        SendFailed _ \<Rightarrow> False
      | Response status bytes \<Rightarrow> is_success status \<and> decode_token w bytes = Inr (tok, e) \<and> tok \<noteq> [])"

text \<open>The slot after a history of calls, each in a world of its own.\<close>

type_synonym sesame_call = "sesame_world \<times> string \<times> string"

definition slot_after :: "SesameConfig \<Rightarrow> sesame_call list \<Rightarrow> CachedToken option" where
  "slot_after cfg calls = foldl (\<lambda>slot (w, email, dn). snd (provision_user cfg w email dn slot)) None calls"

lemma slot_after_snoc:
  "slot_after cfg (calls @ [(w, email, dn)]) = snd (provision_user cfg w email dn (slot_after cfg calls))"
  by (simp add: slot_after_def)

lemma provision_user_slot: "snd (provision_user cfg w email dn slot) = snd (token cfg w slot)"
  by (auto simp: provision_user_def tryb_def split: prod.splits sum.splits http_outcome.splits)

lemma token_slot:
  obtains "snd (token cfg w slot) = slot"
  | tok e where "issues cfg w tok e" "snd (token cfg w slot) = store_token tok e (clock_store w)"
  by (cases "snd (token cfg w slot) = slot")
    (auto simp: token_def issues_def split: option.splits http_outcome.splits if_splits sum.splits prod.splits)

text \<open>What a history can leave in the slot.\<close>

lemma slot_origin:
  assumes "slot_after cfg calls = Some t"
  shows "\<exists>c \<in> set calls. \<exists>e. issues cfg (fst c) (access_token t) e
    \<and> valid_until t = clock_store (fst c) + from_secs (token_ttl e)"
  using assms
proof (induction calls rule: rev_induct)
  case Nil
  then show ?case by (simp add: slot_after_def)
next
  case (snoc c calls)
  obtain w email dn where c: "c = (w, email, dn)" by (cases c)
  show ?case
  proof (rule token_slot [of cfg w "slot_after cfg calls"])
    assume "snd (token cfg w (slot_after cfg calls)) = slot_after cfg calls"
    with snoc c show ?thesis by (auto simp: slot_after_snoc provision_user_slot)
  next
    fix tok e
    assume "issues cfg w tok e" "snd (token cfg w (slot_after cfg calls)) = store_token tok e (clock_store w)"
    with snoc.prems c show ?thesis by (auto simp: slot_after_snoc provision_user_slot store_token_def)
  qed
qed

text \<open>C29: Whatever the identity plane answered over any history of calls, a token is used either in the call
  that fetched it, or at a moment earlier than its stated lifetime less a minute (but at least a second)
  after an earlier call has fetched it. The 32-bit arithmetic of the lifetime never wraps.\<close>

theorem sesame_tokens_in_time:
  assumes "token cfg w (slot_after cfg calls) = (Inr tok, slot')"
  shows "(\<exists>e. issues cfg w tok e)
    \<or> (\<exists>c \<in> set calls. \<exists>e. issues cfg (fst c) tok e
         \<and> clock_lookup w < clock_store (fst c) + from_secs (max (sint e - 60) 1))"
  using assms
proof (cases rule: token_cases)
  case hit
  then obtain t where t: "slot_after cfg calls = Some t" "clock_lookup w < valid_until t" "access_token t = tok"
    by (auto simp: cached_token_def split: option.splits if_splits)
  moreover have "token_ttl e = max (sint e - 60) 1" for e
    by (simp add: token_ttl_eq max_def)
  ultimately show ?thesis using slot_origin [OF t(1)] by metis
next
  case (fetched status bytes e)
  then show ?thesis by (auto simp: issues_def)
qed

theorem sesame_tokens_in_time_witness:
  "clock_lookup ((demo_sesame False)\<lparr>clock_lookup := 5\<rparr>) < 0 + from_secs (max 3540 1)
    \<and> fst (token demo_sesame_cfg ((demo_sesame False)\<lparr>clock_lookup := 5\<rparr>)
        (slot_after demo_sesame_cfg [(demo_sesame True, ''bob@acme.io'', ''Bob'')])) = Inr ''tok''"
proof -
  let ?calls = "[(demo_sesame True, ''bob@acme.io'', ''Bob'')]" and ?w = "(demo_sesame False)\<lparr>clock_lookup := 5\<rparr>"
  have slot: "slot_after demo_sesame_cfg ?calls = store_token ''tok'' 3600 0"
    by (simp add: slot_after_def provision_user_slot token_def cached_token_def is_success_def)
  have run: "token demo_sesame_cfg ?w (slot_after demo_sesame_cfg ?calls) = (Inr ''tok'', store_token ''tok'' 3600 0)"
    unfolding slot by (simp add: token_def cached_token_def store_token_def token_ttl_eq from_secs_def)
  have "issues demo_sesame_cfg (demo_sesame True) ''tok'' e \<longleftrightarrow> e = 3600" "\<not> issues demo_sesame_cfg ?w ''tok'' e" for e
    by (auto simp: issues_def is_success_def)
  with sesame_tokens_in_time [OF run] run show ?thesis
    by simp
qed

end
