(* ===== verification/ReconcileProperties.thy ===== *)
theory ReconcileProperties
  imports Examples Workers
begin

text \<open>The properties of the reconciliation worker.\<close>

section \<open>Every cycle, failed or not\<close>



definition demo_env :: cycle_env where
  "demo_env = \<lparr>at_read = 9, at_row = (\<lambda>i. 10), meanwhile = (\<lambda>i. id)\<rparr>"

lemma demo_meanwhile: "meanwhile demo_env i = id" by (simp add: demo_env_def)

lemma demo_pending: "pending_count demo_cp = 2"
  by (simp add: pending_count_def demo_cp_def bob_def carol_def pending_def)

text \<open>A provisioner that counts its calls and serves one address only.\<close>

definition demo_provisioner :: "string list \<Rightarrow> nat provisioner" where
  "demo_provisioner known email dn n = (if email \<in> set known then Inr (word_of_nat n) else Inl (Unavailable ''down''), Suc n)"


text \<open>An account that is not pending stays exactly as it is through a cycle, whatever other sessions
  do to the other accounts in between: the guard of the update makes the retry safe against a
  concurrent activation, suspension or deletion.\<close>

theorem reconcile_spares_settled:
  assumes "reconcile_once prov env batch (p, s) = (r, p', s')" "x \<in> set (accounts (committed s))" "\<not> pending x"
    and "\<And>i d. x \<in> set (accounts d) \<Longrightarrow> x \<in> set (accounts (meanwhile env i d))"
  shows "x \<in> set (accounts (committed s'))"
proof (rule reconcile_once_keeps [where P = "\<lambda>d. x \<in> set (accounts d)", OF assms(1)])
  fix t i u now ro n d d'
  assume "account_reconciled t i u (platform_scope now ro) d n d'" "x \<in> set (accounts d)"
  with assms(3) show "x \<in> set (accounts d')"
    by (auto simp: account_reconciled_def Let_def update_rows_def intro!: image_eqI [of _ _ x] split: if_splits)
qed (use assms in simp_all)

definition suspended_bob :: account_row where
  "suspended_bob = bob\<lparr>acc_status := ''suspended''\<rparr>"

theorem reconcile_spares_settled_witness:
  "suspended_bob \<in> set (accounts (committed (snd (snd (reconcile_once (demo_provisioner [''bob@acme.io'', ''carol@acme.io''])
     demo_env 50 (0, demo_session (demo_cp\<lparr>accounts := [suspended_bob, carol]\<rparr>)))))))"
proof -
  let ?run = "reconcile_once (demo_provisioner [''bob@acme.io'', ''carol@acme.io'']) demo_env 50
      (0, demo_session (demo_cp\<lparr>accounts := [suspended_bob, carol]\<rparr>))"
  have "?run = (fst ?run, fst (snd ?run), snd (snd ?run))" by simp
  from reconcile_spares_settled [OF this, of suspended_bob] show ?thesis
    by (simp add: demo_env_def suspended_bob_def bob_def pending_def)
qed

section \<open>What a cycle asks of the identity plane\<close>







section \<open>Cycles without faults and interference\<close>

text \<open>C14: Without faults and interference a cycle is the function of the provisioner's answers one
  expects: it takes the oldest pending accounts, activates exactly those for which a user came back, with
  that user, leaves all others as they are, and returns how many it activated.\<close>

theorem reconcile_correct:
  assumes "net s = []" "cp_wf (committed s)" "\<And>i. meanwhile env i = id" "0 \<le> batch"
    and "res = provision_all prov (pending_batch batch (committed s)) p"
  shows "\<exists>p' s'. reconcile_once prov env batch (p, s) = (Inr (successes res), p', s')
       \<and> accounts (committed s') = map (settle env (role s) res) (accounts (committed s))"
  by (rule reconcile_once_quiet [OF assms])

lemma demo_batch:
  "pending_batch 50 demo_cp = [(100, 1, ''bob@acme.io'', ''Bob''), (101, 1, ''carol@acme.io'', ''Carol'')]"
  "pending_batch 1 demo_cp = [(100, 1, ''bob@acme.io'', ''Bob'')]"
  by (simp_all add: pending_batch_eq demo_cp_def bob_def carol_def pending_def)

theorem reconcile_correct_witness:
  "\<exists>p' s'. reconcile_once (demo_provisioner [''carol@acme.io'']) demo_env 50 (0, demo_session demo_cp) = (Inr 1, p', s')
     \<and> accounts (committed s') = [bob, activate 1 (platform_scope 10 app_role) carol]"
proof -
  let ?res = "[(100, Inl (Unavailable ''down'')), (101, Inr 1)]"
  have res: "?res = provision_all (demo_provisioner [''carol@acme.io'']) (pending_batch 50 (committed (demo_session demo_cp))) 0"
    by (simp add: demo_batch demo_provisioner_def)
  have acc: "map (settle demo_env app_role ?res) (accounts demo_cp) = [bob, activate 1 (platform_scope 10 app_role) carol]"
    by (simp add: settle_def demo_cp_def bob_def carol_def demo_env_def)
  show ?thesis
    using reconcile_correct [of "demo_session demo_cp" demo_env 50, OF _ _ demo_meanwhile _ res] acc by simp
qed

text \<open>When sesame is back, one cycle whose batch is large enough clears the backlog: with every call
  answered, no account is pending afterwards and the cycle returns how many were.\<close>

theorem reconcile_recovers:
  assumes "net s = []" "cp_wf (committed s)" "\<And>i. meanwhile env i = id"
    and "int (pending_count (committed s)) \<le> batch"
    and "\<And>email dn p. is_ok (fst (prov email dn p))"
  shows "\<exists>p' s'. reconcile_once prov env batch (p, s) = (Inr (pending_count (committed s)), p', s')
       \<and> pending_count (committed s') = 0"
  by (rule reconcile_once_recovers [OF assms])

theorem reconcile_recovers_witness:
  "\<exists>p' s'. reconcile_once (\<lambda>email dn n. (Inr (word_of_nat n), Suc n)) demo_env 50 (0, demo_session demo_cp) = (Inr 2, p', s')
     \<and> pending_count (committed s') = 0"
  using reconcile_recovers [of "demo_session demo_cp" demo_env 50 "\<lambda>email dn n. (Inr (word_of_nat n), Suc n)" 0]
  by (simp add: demo_pending demo_meanwhile)

text \<open>The batch is always the oldest pending accounts, so if sesame refuses each of those, the cycle
  does nothing at all, and so does every later one: accounts behind them are never tried.\<close>

theorem reconcile_starves:
  assumes "net s = []" "0 \<le> batch"
    and "\<And>i. meanwhile env i = id"
    and "\<And>row q. row \<in> set (pending_batch batch (committed s)) \<Longrightarrow> \<not> is_ok (fst (prov (fst (snd (snd row))) (snd (snd (snd row))) q))"
  shows "\<exists>p'. reconcile_once prov env batch (p, s) = (Inr 0, p', s)"
proof -
  have loop: "\<exists>p'. reconcile_rows prov env k rows (q, s) = (Inr k, p', s)"
    if "\<forall>row \<in> set rows. \<forall>q. \<not> is_ok (fst (prov (fst (snd (snd row))) (snd (snd (snd row))) q))" for rows k q
    using that
  proof (induction rows arbitrary: q)
    case Nil
    then show ?case by simp
  next
    case (Cons row rows)
    obtain i t email dn where row: "row = (i, t, email, dn)" by (cases row)
    obtain r1 q1 where pr: "prov email dn q = (r1, q1)" by fastforce
    with Cons.prems row have "\<not> is_ok r1" by (metis fst_conv list.set_intros(1) snd_conv)
    then obtain e where "r1 = Inl e" by (cases r1) auto
    then show ?case
      using Cons.IH [of q1] Cons.prems row pr assms(3) by simp
  qed
  show ?thesis
    using loop [of "pending_batch batch (committed s)" 0 p] assms(4)
    by (simp add: reconcile_once_def select_pending_quiet [OF assms(1,2)] pending_batch_def)
qed

theorem reconcile_starves_witness:
  "\<exists>p'. reconcile_once (demo_provisioner [''carol@acme.io'']) demo_env 1 (0, demo_session demo_cp)
     = (Inr 0, p', demo_session demo_cp)"
  using reconcile_starves [of "demo_session demo_cp" 1 demo_env "demo_provisioner [''carol@acme.io'']" 0]
  by (simp add: demo_env_def demo_batch demo_provisioner_def)

end
