(* ===== verification/CompilerProperties.thy ===== *)
theory CompilerProperties
  imports Examples
begin

text \<open>The properties of the configuration compiler.\<close>

section \<open>What is read\<close>

text \<open>C16: When the desired state is read, what is read is one policy per active tenant with at least one
  active domain, in the order of the slugs, each with the fully qualified names of exactly its active
  domains and with its own thresholds or the defaults.\<close>

theorem load_policies_correct:
  assumes "load_policies ck now s = (Inr ps, s')" "cp_wf (committed s)"
  shows "ps = desired_state ck (committed s)
     \<and> set (map tp_slug ps) = {ten_slug t |t. t \<in> set (tenants (committed s)) \<and> served (committed s) t}
     \<and> sorted_wrt (<) (map tp_slug ps)
     \<and> (\<forall>p \<in> set ps. \<exists>t \<in> set (tenants (committed s)). tp_slug p = ten_slug t
          \<and> set (tp_domains p) = dom_fqdn ` set (active_domains (committed s) (ten_id t))
          \<and> (tp_reject p, tp_add_header p, tp_greylist p) = effective (committed s) (ten_id t))"
proof -
  let ?d = "committed s"
  let ?ts = "sort_key ten_slug (filter (served ?d) (tenants ?d))"
  have ps: "ps = desired_state ck ?d"
    using load_policies_cases [OF assms] by simp
  have slug: "tp_slug (desired_policy ck ?d t) = ten_slug t" for t
    by (simp add: desired_policy_def tenant_policy_of_def split: prod.splits)
  have fields: "set (tp_domains (desired_policy ck ?d t)) = dom_fqdn ` set (active_domains ?d (ten_id t))"
    "(tp_reject (desired_policy ck ?d t), tp_add_header (desired_policy ck ?d t), tp_greylist (desired_policy ck ?d t))
       = effective ?d (ten_id t)" for t
    by (simp_all add: desired_policy_def tenant_policy_of_def split: prod.splits)
  have slugs: "map tp_slug ps = map ten_slug ?ts"
    by (simp add: ps desired_state_def slug)
  have "distinct (map ten_slug (filter (served ?d) (tenants ?d)))"
    using assms(2) by (simp add: cp_wf_def tenants_wf_def distinct_map_filter)
  then have "distinct (map ten_slug ?ts)" by (simp add: distinct_map)
  then have "sorted_wrt (<) (map tp_slug ps)"
    unfolding slugs by (simp add: strict_sorted_iff)
  moreover have "set (map tp_slug ps) = {ten_slug t |t. t \<in> set (tenants ?d) \<and> served ?d t}"
    unfolding slugs by auto
  moreover have "\<forall>p \<in> set ps. \<exists>t \<in> set (tenants ?d). tp_slug p = ten_slug t
          \<and> set (tp_domains p) = dom_fqdn ` set (active_domains ?d (ten_id t))
          \<and> (tp_reject p, tp_add_header p, tp_greylist p) = effective ?d (ten_id t)"
    unfolding ps desired_state_def using slug fields by auto
  ultimately show ?thesis using ps by blast
qed

definition demo_desired :: "TenantPolicy list" where
  "demo_desired =
     [\<lparr>tp_slug = ''acme'', tp_settings_id = ''tenant_acme'', tp_domains = [''acme.io''],
       tp_reject = Finite 15, tp_add_header = Finite 6, tp_greylist = Finite 4\<rparr>,
      \<lparr>tp_slug = ''globex'', tp_settings_id = ''tenant_globex'', tp_domains = [''globex.io''],
       tp_reject = Finite 15, tp_add_header = Finite 6, tp_greylist = Finite 4\<rparr>]"

lemma demo_desired_rows:
  "desired_rows (platform_scope now ro) demo_cp =
     [(''acme'', ''acme.io'', Finite 15, Finite 6, Finite 4), (''globex'', ''globex.io'', Finite 15, Finite 6, Finite 4)]"
  by (simp add: desired_rows_def select_rows_def left_join_def coalesced_def REJECT_def ADD_HEADER_def GREYLIST_def
      demo_cp_def demo_rows)

lemma demo_grouped:
  "map tenant_policy_of (group_rows (sort_key (\<lambda>(slug, fqdn, _). (id slug, id fqdn)) (desired_rows (platform_scope now ro) demo_cp)))
     = demo_desired"
  by (simp add: demo_desired_rows group_rows_def tenant_policy_of_def settings_id_def demo_desired_def)

lemma demo_desired_state: "desired_state id demo_cp = demo_desired"
  using group_rows_desired [OF demo_cp_wf refl, of id 0 app_role] demo_grouped [of 0 app_role] by simp

lemma demo_load:
  "load_policies id now (demo_session demo_cp) = (Inr demo_desired, demo_session demo_cp)"
  using demo_grouped by (simp add: load_policies_def tx_quiet tryb_def exec_def select_desired_def)

theorem load_policies_correct_witness: "demo_desired = desired_state id demo_cp"
  using load_policies_correct [OF demo_load] by simp

text \<open>The settings identifiers of the tenants are pairwise different and match the pattern of the
  schema: replacing the hyphens by underscores merges no two slugs.\<close>

theorem settings_ids_distinct:
  assumes "cp_wf d"
  shows "distinct (map tp_settings_id (desired_state ck d))
     \<and> list_all settings_id_ok (map tp_settings_id (desired_state ck d))"
proof -
  let ?ts = "sort_key ten_slug (filter (served d) (tenants d))"
  have ids: "map tp_settings_id (desired_state ck d) = map (\<lambda>t. settings_id (ten_slug t)) ?ts"
    by (simp add: desired_state_def desired_policy_def tenant_policy_of_def split: prod.splits)
  have slug: "slug_check (ten_slug t)" if "t \<in> set ?ts" for t
    using assms that by (simp add: cp_wf_def tenants_wf_def)
  have "distinct (map ten_slug (filter (served d) (tenants d)))"
    using assms by (simp add: cp_wf_def tenants_wf_def distinct_map_filter)
  then have dist: "distinct ?ts" "inj_on ten_slug (set ?ts)" by (simp_all add: distinct_map)
  have "inj_on (\<lambda>t. settings_id (ten_slug t)) (set ?ts)"
  proof (rule inj_onI)
    fix a b assume "a \<in> set ?ts" "b \<in> set ?ts" "settings_id (ten_slug a) = settings_id (ten_slug b)"
    then show "a = b" using settings_id_inj [OF slug slug] inj_onD [OF dist(2)] by blast
  qed
  with dist show ?thesis
    unfolding ids using slug settings_id_ok_slug by (auto simp: distinct_map list_all_iff)
qed

theorem settings_ids_distinct_witness: "distinct (map tp_settings_id (desired_state id demo_cp))"
  using settings_ids_distinct [OF demo_cp_wf, of id] by simp

section \<open>What is written\<close>

text \<open>C17: The UCL text determines the desired state: two well-formed control planes that render to the same
  text have the same policies, so nothing in a name can end a block, a list or a pattern early. (The
  formatting of numbers is assumed to separate the thresholds in use and to contain no semicolon.)\<close>

theorem render_ucl_injective:
  assumes "cp_wf d" "cp_wf e" "render_ucl fmt (desired_state ck d) = render_ucl fmt (desired_state ck e)"
    and "\<And>x. CHR '';'' \<notin> set (fmt x)" "fmt_separates fmt (desired_state ck d @ desired_state ck e)"
  shows "desired_state ck d = desired_state ck e"
proof (rule blocks_inj [where fmt = fmt])
  have "list_all (policy_printable fmt) (desired_state ck c)" if wf: "cp_wf c" for c
    unfolding list_all_iff
  proof
    fix p assume "p \<in> set (desired_state ck c)"
    then show "policy_printable fmt p"
      by (rule served_wf [OF wf]) (use assms(4) in \<open>auto simp: policy_printable_def list_all_iff\<close>)
  qed
  with assms(1,2) show "list_all (policy_printable fmt) (desired_state ck d)" "list_all (policy_printable fmt) (desired_state ck e)"
    by blast+
qed (use assms(3,5) in \<open>simp_all add: render_ucl_concat\<close>)

definition demo_num :: "f64 \<Rightarrow> string" where
  "demo_num x = (if x = Finite 15 then ''15'' else if x = Finite 6 then ''6'' else ''4'')"

theorem render_ucl_injective_witness:
  "desired_state id demo_cp = desired_state id (demo_cp\<lparr>accounts := []\<rparr>)"
proof (rule render_ucl_injective [where fmt = demo_num, OF demo_cp_wf])
  show "cp_wf (demo_cp\<lparr>accounts := []\<rparr>)"
    using demo_cp_wf
    by (auto simp: cp_wf_def tenants_wf_def domains_wf_def accounts_wf_def policies_wf_def audit_wf_def audit_fk_def
        split: option.splits)
  have "served (demo_cp\<lparr>accounts := []\<rparr>) = served demo_cp"
    "desired_policy id (demo_cp\<lparr>accounts := []\<rparr>) = desired_policy id demo_cp"
    by (simp_all add: fun_eq_iff desired_policy_def served_def active_domains_def effective_def)
  then have same: "desired_state id (demo_cp\<lparr>accounts := []\<rparr>) = desired_state id demo_cp"
    by (simp add: desired_state_def)
  show "render_ucl demo_num (desired_state id demo_cp) = render_ucl demo_num (desired_state id (demo_cp\<lparr>accounts := []\<rparr>))"
    by (simp add: same)
  show "CHR '';'' \<notin> set (demo_num x)" for x by (simp add: demo_num_def)
  show "fmt_separates demo_num (desired_state id demo_cp @ desired_state id (demo_cp\<lparr>accounts := []\<rparr>))"
    by (simp add: same demo_desired_state demo_desired_def fmt_separates_def demo_num_def)
qed

text \<open>C18: At every step of the write, and after it, whatever call fails and however many bytes a failed
  call has written, the settings file holds either what it held before or the whole new text; it holds
  the new text exactly when the write succeeds.\<close>

theorem write_is_atomic:
  assumes "write_atomic path contents st = (r, st')"
  shows "(\<exists>new. seen st' = seen st @ new \<and> (\<forall>f \<in> set new. f path = files st path \<or> f path = Some contents))
     \<and> files st' path = (if is_ok r then Some contents else files st path)"
  using assms by (rule write_atomic_cases)

definition demo_io :: "io_outcome list \<Rightarrow> io_state" where
  "demo_io pl = \<lparr>files = Map.empty(''/etc/r.conf'' \<mapsto> ''old''), dirs = [], io_plan = pl, seen = []\<rparr>"

theorem write_is_atomic_witness:
  "files (snd (write_atomic ''/etc/r.conf'' ''new text'' (demo_io [IoOk, IoOk, IoErr 3 ''disk full'']))) ''/etc/r.conf'' = Some ''old''"
proof -
  let ?run = "write_atomic ''/etc/r.conf'' ''new text'' (demo_io [IoOk, IoOk, IoErr 3 ''disk full''])"
  have "\<not> is_ok (fst ?run)"
    by (simp add: write_atomic_def path_parent_def trim_end_matches_def create_dir_all_def file_create_def
        write_all_def sys_def tryb_def demo_io_def Let_def)
  with write_is_atomic [of "''/etc/r.conf''" "''new text''" "demo_io [IoOk, IoOk, IoErr 3 ''disk full'']" "fst ?run" "snd ?run"]
  show ?thesis by (simp add: demo_io_def)
qed

section \<open>The whole cycle\<close>


definition demo_compiler :: "outcome list \<Rightarrow> io_outcome list \<Rightarrow> compiler_state" where
  "demo_compiler pl io = \<lparr>comp_db = (demo_session demo_cp)\<lparr>net := pl\<rparr>, comp_io = demo_io io\<rparr>"


text \<open>A compiled file is not always audited: when the write succeeds and the audit transaction cannot
  be opened, the cycle reports a database error with the new text already in place and no entry in the
  log.\<close>

theorem compile_unaudited:
  assumes "load_policies ck now1 (comp_db st) = (Inr ps, s1)" "cp_wf (committed (comp_db st))"
    and "standard_jsonschema rx js" "net s1 = Failed # rest"
    and "write_atomic path (render_ucl fmt ps) (comp_io st) = (Inr (), io)"
  shows "\<exists>st'. compile_once ck js fmt (\<lambda>d. d) now1 now2 path st = (Inl (CompileDb Io), st')
     \<and> files (comp_io st') path = Some (render_ucl fmt ps)
     \<and> audit_log (committed (comp_db st')) = audit_log (committed (comp_db st))"
proof -
  have l: "committed s1 = committed (comp_db st)" "ps = desired_state ck (committed (comp_db st))"
    using load_policies_cases [OF assms(1,2)] by simp_all
  have "validate_json js settings_schema (render_doc ps) = Inr ()"
    unfolding l(2) by (rule schema_accepts [OF assms(2,3)])
  moreover have "files io path = Some (render_ucl fmt ps)"
    using write_atomic_cases [OF assms(5)] by simp
  ultimately show ?thesis
    using assms(1,4,5) l(1) by (simp add: compile_once_def in_tx_def platform_tx_def open_tx_def)
qed

theorem compile_unaudited_witness:
  "\<exists>st'. compile_once id reference_jsonschema demo_num (\<lambda>d. d) 1 2 ''/etc/r.conf''
       (demo_compiler [Done, Done, Done, Done, Failed] []) = (Inl (CompileDb Io), st')
     \<and> audit_log (committed (comp_db st')) = []"
proof -
  let ?st = "demo_compiler [Done, Done, Done, Done, Failed] []"
  have ld: "load_policies id 1 (comp_db ?st) = (Inr demo_desired, (demo_session demo_cp)\<lparr>net := [Failed]\<rparr>)"
    using demo_grouped [of 1 app_role]
    by (simp add: load_policies_def in_tx_def platform_tx_def open_tx_def tryb_def exec_def select_desired_def
        demo_compiler_def demo_session_def)
  have w: "\<exists>io. write_atomic ''/etc/r.conf'' c (comp_io ?st) = (Inr (), io)" for c
    by (simp add: write_atomic_def path_parent_def trim_end_matches_def create_dir_all_def file_create_def
        write_all_def flush_def rename_def sys_def tryb_def demo_io_def demo_compiler_def Let_def)
  then obtain io where "write_atomic ''/etc/r.conf'' (render_ucl demo_num demo_desired) (comp_io ?st) = (Inr (), io)" by blast
  moreover have "cp_wf (committed (comp_db ?st))" by (simp add: demo_compiler_def)
  ultimately show ?thesis
    using compile_unaudited [OF ld _ reference_standard, of "[]" "''/etc/r.conf''" demo_num io 2]
    by (auto simp: demo_compiler_def demo_cp_def)
qed

end
