(* ===== verification/DomainTypes.thy ===== *)
theory DomainTypes
  imports Sesame
begin

text \<open>
  \<open>crates/types\<close>: the domain types behind the provider interfaces. Enums travel as their variant names
  in snake case (\<open>serde(rename_all = "snake_case")\<close>), which the interface \<open>wire_enum\<close> captures; structs
  are records. \<open>ProviderError\<close> stands with the sesame client, its first user.
\<close>

section \<open>Enums and their wire names\<close>

text \<open>
  What the derived codec does with the identifier of a variant: an underscore before every capital but
  the first, and all in lower case. Decoding looks the name up among the variants.
\<close>

definition ascii_capital :: "char \<Rightarrow> bool" where
  "ascii_capital c \<longleftrightarrow> 65 \<le> (of_char c :: nat) \<and> (of_char c :: nat) \<le> 90"

definition lower_char :: "char \<Rightarrow> char" where
  "lower_char c = (if ascii_capital c then char_of ((of_char c :: nat) + 32) else c)"

definition snake_case :: "string \<Rightarrow> string" where
  "snake_case v = (case v of [] \<Rightarrow> []
     | c # cs \<Rightarrow> lower_char c # concat (map (\<lambda>x. if ascii_capital x then [CHR ''_'', lower_char x] else [x]) cs))"

definition encode_variant :: "('v \<Rightarrow> string) \<Rightarrow> 'v \<Rightarrow> string" where
  "encode_variant ident v = snake_case (ident v)"

definition decode_variant :: "'v list \<Rightarrow> ('v \<Rightarrow> string) \<Rightarrow> string \<Rightarrow> 'v option" where
  "decode_variant variants ident s = find (\<lambda>v. encode_variant ident v = s) variants"

locale wire_enum =
  fixes variants :: "'v list" and ident :: "'v \<Rightarrow> string"
  assumes all_variants: "v \<in> set variants"
    and distinct_names: "distinct (map (encode_variant ident) variants)"
begin

lemma encode_inj: "encode_variant ident v = encode_variant ident w \<longleftrightarrow> v = w"
  using distinct_names all_variants by (auto simp: distinct_map dest: inj_onD)

lemma decode_iff: "decode_variant variants ident s = Some v \<longleftrightarrow> encode_variant ident v = s"
proof
  assume "decode_variant variants ident s = Some v"
  then show "encode_variant ident v = s"
    by (auto simp: decode_variant_def find_Some_iff)
next
  assume s: "encode_variant ident v = s"
  then have "find (\<lambda>w. w = v) variants = Some v"
    using all_variants [of v] by (induction variants) auto
  then show "decode_variant variants ident s = Some v"
    by (simp add: decode_variant_def encode_inj flip: s)
qed

lemma decode_refused: "decode_variant variants ident s = None \<longleftrightarrow> s \<notin> encode_variant ident ` set variants"
  by (auto simp: decode_variant_def find_None_iff)

end

datatype TenantStatus = Active | Suspended | Terminated

fun TenantStatus_ident :: "TenantStatus \<Rightarrow> string" where
  "TenantStatus_ident Active = ''Active''"
| "TenantStatus_ident Suspended = ''Suspended''"
| "TenantStatus_ident Terminated = ''Terminated''"

definition TenantStatus_variants :: "TenantStatus list" where
  "TenantStatus_variants = [Active, Suspended, Terminated]"

datatype AccountStatus = Active | Disabled | Locked

fun AccountStatus_ident :: "AccountStatus \<Rightarrow> string" where
  "AccountStatus_ident Active = ''Active''"
| "AccountStatus_ident Disabled = ''Disabled''"
| "AccountStatus_ident Locked = ''Locked''"

definition AccountStatus_variants :: "AccountStatus list" where
  "AccountStatus_variants = [Active, Disabled, Locked]"

datatype QuarantineStatus = Pending | Released | Deleted

fun QuarantineStatus_ident :: "QuarantineStatus \<Rightarrow> string" where
  "QuarantineStatus_ident Pending = ''Pending''"
| "QuarantineStatus_ident Released = ''Released''"
| "QuarantineStatus_ident Deleted = ''Deleted''"

definition QuarantineStatus_variants :: "QuarantineStatus list" where
  "QuarantineStatus_variants = [Pending, Released, Deleted]"

datatype QuarantineDecision = AdminRelease | AdminDelete | UserRelease | UserDelete

fun QuarantineDecision_ident :: "QuarantineDecision \<Rightarrow> string" where
  "QuarantineDecision_ident AdminRelease = ''AdminRelease''"
| "QuarantineDecision_ident AdminDelete = ''AdminDelete''"
| "QuarantineDecision_ident UserRelease = ''UserRelease''"
| "QuarantineDecision_ident UserDelete = ''UserDelete''"

definition QuarantineDecision_variants :: "QuarantineDecision list" where
  "QuarantineDecision_variants = [AdminRelease, AdminDelete, UserRelease, UserDelete]"

datatype BookingStatus = Confirmed | Pending | Cancelled

fun BookingStatus_ident :: "BookingStatus \<Rightarrow> string" where
  "BookingStatus_ident Confirmed = ''Confirmed''"
| "BookingStatus_ident Pending = ''Pending''"
| "BookingStatus_ident Cancelled = ''Cancelled''"

definition BookingStatus_variants :: "BookingStatus list" where
  "BookingStatus_variants = [Confirmed, Pending, Cancelled]"

datatype DmarcResult = Pass | Fail | Softfail | DmarcNone

fun DmarcResult_ident :: "DmarcResult \<Rightarrow> string" where
  "DmarcResult_ident Pass = ''Pass''"
| "DmarcResult_ident Fail = ''Fail''"
| "DmarcResult_ident Softfail = ''Softfail''"
| "DmarcResult_ident DmarcNone = ''None''"

definition DmarcResult_variants :: "DmarcResult list" where
  "DmarcResult_variants = [Pass, Fail, Softfail, DmarcNone]"

datatype ScoringAction = Accept | Greylist | Quarantine | Reject

fun ScoringAction_ident :: "ScoringAction \<Rightarrow> string" where
  "ScoringAction_ident Accept = ''Accept''"
| "ScoringAction_ident Greylist = ''Greylist''"
| "ScoringAction_ident Quarantine = ''Quarantine''"
| "ScoringAction_ident Reject = ''Reject''"

definition ScoringAction_variants :: "ScoringAction list" where
  "ScoringAction_variants = [Accept, Greylist, Quarantine, Reject]"

datatype ThreatIndicatorType = IpAddress | Domain | Url | FileHash | EmailAddress

fun ThreatIndicatorType_ident :: "ThreatIndicatorType \<Rightarrow> string" where
  "ThreatIndicatorType_ident IpAddress = ''IpAddress''"
| "ThreatIndicatorType_ident Domain = ''Domain''"
| "ThreatIndicatorType_ident Url = ''Url''"
| "ThreatIndicatorType_ident FileHash = ''FileHash''"
| "ThreatIndicatorType_ident EmailAddress = ''EmailAddress''"

definition ThreatIndicatorType_variants :: "ThreatIndicatorType list" where
  "ThreatIndicatorType_variants = [IpAddress, Domain, Url, FileHash, EmailAddress]"

datatype ThreatSeverity = Low | Medium | High | Critical

fun ThreatSeverity_ident :: "ThreatSeverity \<Rightarrow> string" where
  "ThreatSeverity_ident Low = ''Low''"
| "ThreatSeverity_ident Medium = ''Medium''"
| "ThreatSeverity_ident High = ''High''"
| "ThreatSeverity_ident Critical = ''Critical''"

definition ThreatSeverity_variants :: "ThreatSeverity list" where
  "ThreatSeverity_variants = [Low, Medium, High, Critical]"

datatype BackupStatus = Pending | Running | Completed | Failed | Cancelled

fun BackupStatus_ident :: "BackupStatus \<Rightarrow> string" where
  "BackupStatus_ident Pending = ''Pending''"
| "BackupStatus_ident Running = ''Running''"
| "BackupStatus_ident Completed = ''Completed''"
| "BackupStatus_ident Failed = ''Failed''"
| "BackupStatus_ident Cancelled = ''Cancelled''"

definition BackupStatus_variants :: "BackupStatus list" where
  "BackupStatus_variants = [Pending, Running, Completed, Failed, Cancelled]"

datatype ExportFormat = Pst | Mbox | Eml

fun ExportFormat_ident :: "ExportFormat \<Rightarrow> string" where
  "ExportFormat_ident Pst = ''Pst''"
| "ExportFormat_ident Mbox = ''Mbox''"
| "ExportFormat_ident Eml = ''Eml''"

definition ExportFormat_variants :: "ExportFormat list" where
  "ExportFormat_variants = [Pst, Mbox, Eml]"

lemmas variants_defs = TenantStatus_variants_def AccountStatus_variants_def QuarantineStatus_variants_def QuarantineDecision_variants_def BookingStatus_variants_def DmarcResult_variants_def ScoringAction_variants_def ThreatIndicatorType_variants_def ThreatSeverity_variants_def BackupStatus_variants_def ExportFormat_variants_def

lemmas snake_defs = encode_variant_def snake_case_def lower_char_def ascii_capital_def

interpretation tenant_status: wire_enum TenantStatus_variants TenantStatus_ident
proof
  show "v \<in> set TenantStatus_variants" for v by (cases v) (simp_all add: variants_defs)
  show "distinct (map (encode_variant TenantStatus_ident) TenantStatus_variants)" by code_simp
qed

interpretation account_status: wire_enum AccountStatus_variants AccountStatus_ident
proof
  show "v \<in> set AccountStatus_variants" for v by (cases v) (simp_all add: variants_defs)
  show "distinct (map (encode_variant AccountStatus_ident) AccountStatus_variants)" by code_simp
qed

interpretation quarantine_status: wire_enum QuarantineStatus_variants QuarantineStatus_ident
proof
  show "v \<in> set QuarantineStatus_variants" for v by (cases v) (simp_all add: variants_defs)
  show "distinct (map (encode_variant QuarantineStatus_ident) QuarantineStatus_variants)" by code_simp
qed

interpretation quarantine_decision: wire_enum QuarantineDecision_variants QuarantineDecision_ident
proof
  show "v \<in> set QuarantineDecision_variants" for v by (cases v) (simp_all add: variants_defs)
  show "distinct (map (encode_variant QuarantineDecision_ident) QuarantineDecision_variants)" by code_simp
qed

interpretation booking_status: wire_enum BookingStatus_variants BookingStatus_ident
proof
  show "v \<in> set BookingStatus_variants" for v by (cases v) (simp_all add: variants_defs)
  show "distinct (map (encode_variant BookingStatus_ident) BookingStatus_variants)" by code_simp
qed

interpretation dmarc_result: wire_enum DmarcResult_variants DmarcResult_ident
proof
  show "v \<in> set DmarcResult_variants" for v by (cases v) (simp_all add: variants_defs)
  show "distinct (map (encode_variant DmarcResult_ident) DmarcResult_variants)" by code_simp
qed

interpretation scoring_action: wire_enum ScoringAction_variants ScoringAction_ident
proof
  show "v \<in> set ScoringAction_variants" for v by (cases v) (simp_all add: variants_defs)
  show "distinct (map (encode_variant ScoringAction_ident) ScoringAction_variants)" by code_simp
qed

interpretation threat_indicator_type: wire_enum ThreatIndicatorType_variants ThreatIndicatorType_ident
proof
  show "v \<in> set ThreatIndicatorType_variants" for v by (cases v) (simp_all add: variants_defs)
  show "distinct (map (encode_variant ThreatIndicatorType_ident) ThreatIndicatorType_variants)" by code_simp
qed

interpretation threat_severity: wire_enum ThreatSeverity_variants ThreatSeverity_ident
proof
  show "v \<in> set ThreatSeverity_variants" for v by (cases v) (simp_all add: variants_defs)
  show "distinct (map (encode_variant ThreatSeverity_ident) ThreatSeverity_variants)" by code_simp
qed

interpretation backup_status: wire_enum BackupStatus_variants BackupStatus_ident
proof
  show "v \<in> set BackupStatus_variants" for v by (cases v) (simp_all add: variants_defs)
  show "distinct (map (encode_variant BackupStatus_ident) BackupStatus_variants)" by code_simp
qed

interpretation export_format: wire_enum ExportFormat_variants ExportFormat_ident
proof
  show "v \<in> set ExportFormat_variants" for v by (cases v) (simp_all add: variants_defs)
  show "distinct (map (encode_variant ExportFormat_ident) ExportFormat_variants)" by code_simp
qed


section \<open>Structs\<close>

text \<open>Wire names aside, the fields are those of the source, with a prefix per struct; \<open>u8\<close>, \<open>u32\<close> and \<open>u64\<close> are words.\<close>

record TypesTenant =
  ty_id :: uuid
  ty_domain :: string
  ty_status :: TenantStatus
  ty_created_at :: time
  ty_updated_at :: time

record TypesAccount =
  ta_id :: uuid
  ta_tenant_id :: uuid
  ta_email :: string
  ta_display_name :: string
  ta_status :: AccountStatus
  ta_mfa_enabled :: bool
  ta_created_at :: time
  ta_updated_at :: time

record MailboxFlags =
  mbf_has_children :: bool
  mbf_no_inferiors :: bool
  mbf_no_select :: bool
  mbf_marked :: bool
  mbf_unanswered :: bool
  mbf_deleted :: bool

record Mailbox =
  mb_id :: uuid
  mb_account_id :: uuid
  mb_tenant_id :: uuid
  mb_name :: string
  mb_path :: string
  mb_flags :: MailboxFlags
  mb_created_at :: time

record MessageFlags =
  mf_seen :: bool
  mf_answered :: bool
  mf_flagged :: bool
  mf_deleted :: bool
  mf_draft :: bool

record Message =
  msg_id :: uuid
  msg_mailbox_id :: uuid
  msg_tenant_id :: uuid
  msg_uid :: "32 word"
  msg_from :: "string list"
  msg_to :: "string list"
  msg_subject :: string
  msg_received_at :: time
  msg_size_bytes :: "64 word"
  msg_has_attachments :: bool
  msg_flags :: MessageFlags

record TypesQuarantineItem =
  tq_id :: uuid
  tq_tenant_id :: uuid
  tq_mailbox_id :: uuid
  tq_message_id :: uuid
  tq_spam_score :: f64
  tq_virus :: bool
  tq_status :: QuarantineStatus
  tq_created_at :: time
  tq_decision :: "QuarantineDecision option"

record SearchResult =
  sr_message_id :: uuid
  sr_mailbox_id :: uuid
  sr_tenant_id :: uuid
  sr_subject :: string
  sr_from :: string
  sr_received_at :: time
  sr_snippet :: string

record BlobRef =
  blob_id :: uuid
  blob_tenant_id :: uuid
  blob_content_type :: string
  blob_size_bytes :: "64 word"
  blob_etag :: string

record ProviderContext =
  ctx_tenant_id :: uuid
  ctx_account_id :: "uuid option"

record SmtpConfig =
  smtp_max_message_size :: "64 word"
  smtp_rate_limit_per_minute :: "32 word"
  smtp_require_auth_for_outbound :: bool
  smtp_enable_dmarc_reject :: bool
  smtp_shadow_copy_enabled :: bool

record MailboxConfig =
  mbc_max_storage_bytes :: "64 word"
  mbc_enable_imap :: bool
  mbc_enable_jmap :: bool
  mbc_enable_caldav :: bool
  mbc_enable_carddav :: bool
  mbc_enable_sieve :: bool
  mbc_default_quota_mb :: "64 word"

record TypesRspamdConfig =
  rsc_bayes_enabled :: bool
  rsc_neutral_on_spam :: bool
  rsc_quarantine_on_virus :: bool
  rsc_threat_intel_enabled :: bool

record TenantResourceQuota =
  trq_max_storage_bytes :: "64 word"
  trq_max_accounts :: "32 word"
  trq_max_domains :: "32 word"
  trq_max_api_requests_per_minute :: "32 word"
  trq_max_concurrent_connections :: "32 word"

record TenantConfig =
  tc_tenant_id :: uuid
  tc_domain :: string
  tc_policy_profile :: string
  tc_smtp_config :: SmtpConfig
  tc_mailbox_config :: MailboxConfig
  tc_rspamd_config :: TypesRspamdConfig
  tc_tenant_resource_quota :: TenantResourceQuota

record RawMessage =
  raw_id :: uuid
  raw_from :: "string list"
  raw_to :: "string list"
  raw_cc :: "string list"
  raw_bcc :: "string list"
  raw_subject :: string
  raw_body_html :: "string option"
  raw_body_text :: "string option"
  raw_headers :: "string \<Rightarrow> string option"
  raw_received_at :: time

record Attachment =
  att_id :: uuid
  att_message_id :: uuid
  att_filename :: string
  att_content_type :: string
  att_size_bytes :: "64 word"
  att_blob_key :: string

record CalendarEvent =
  cal_id :: uuid
  cal_mailbox_id :: uuid
  cal_summary :: string
  cal_description :: "string option"
  cal_location :: "string option"
  cal_start :: time
  cal_end :: time
  cal_organizer :: string
  cal_attendees :: "string list"

record Contact =
  con_id :: uuid
  con_mailbox_id :: uuid
  con_first_name :: string
  con_last_name :: string
  con_email :: string
  con_phone :: "string option"

record Resource =
  res_id :: uuid
  res_tenant_id :: uuid
  res_name :: string
  res_description :: "string option"
  res_capacity :: "32 word"
  res_location :: "string option"

record ResourceBooking =
  bk_id :: uuid
  bk_resource_id :: uuid
  bk_event_id :: uuid
  bk_start :: time
  bk_end :: time
  bk_status :: BookingStatus

record SieveScript =
  sv_id :: uuid
  sv_mailbox_id :: uuid
  sv_name :: string
  sv_script :: string
  sv_active :: bool

record ScoringResult =
  sc_message_id :: uuid
  sc_tenant_id :: uuid
  sc_spam_score :: f64
  sc_spam_threshold :: f64
  sc_is_spam :: bool
  sc_virus :: bool
  sc_phishing_score :: f64
  sc_dmarc_result :: "DmarcResult option"
  sc_action :: ScoringAction

record ThreatIntelObservation =
  tio_id :: uuid
  tio_tenant_id :: uuid
  tio_indicator_type :: ThreatIndicatorType
  tio_indicator_value :: string
  tio_severity :: ThreatSeverity
  tio_source :: string
  tio_observed_at :: time

record BackupJob =
  bj_id :: uuid
  bj_tenant_id :: uuid
  bj_account_id :: "uuid option"
  bj_status :: BackupStatus
  bj_progress_percent :: "8 word"
  bj_message_count :: "64 word"
  bj_message_progress :: "64 word"
  bj_started_at :: time
  bj_completed_at :: "time option"

record TokenInfo =
  ti_tenant_id :: uuid
  ti_account_id :: uuid
  ti_email :: string
  ti_display_name :: string
  ti_is_admin :: bool
  ti_mfa_enabled :: bool

record AppPassword =
  ap_id :: uuid
  ap_account_id :: uuid
  ap_tenant_id :: uuid
  ap_name :: string
  ap_created_at :: time
  ap_expires_at :: "time option"
  ap_last_used_at :: "time option"

record SessionInfo =
  si_id :: uuid
  si_account_id :: uuid
  si_tenant_id :: uuid
  si_device :: "string option"
  si_ip :: "string option"
  si_created_at :: time
  si_last_activity :: time
  si_is_active :: bool

record 'a Page =
  pg_items :: "'a list"
  pg_next_cursor :: "string option"
  pg_has_more :: bool

record 'a ListResponse =
  ls_items :: "'a list"

text \<open>The two constructors of the context, and the defaults of the flags.\<close>

definition provider_context_new :: "uuid \<Rightarrow> ProviderContext" where
  "provider_context_new t = \<lparr>ctx_tenant_id = t, ctx_account_id = None\<rparr>"

definition provider_context_for_account :: "uuid \<Rightarrow> uuid \<Rightarrow> ProviderContext" where
  "provider_context_for_account t a = \<lparr>ctx_tenant_id = t, ctx_account_id = Some a\<rparr>"

end
