(* ===== verification/Providers.thy ===== *)
theory Providers
  imports DomainTypes
begin

text \<open>
  \<open>crates/wrappers\<close> beside the sesame client: the adapters behind the provider interfaces of
  \<open>crates/types/src/providers\<close>. None of them calls its backend yet; each method is modelled as it stands.
  \<open>Uuid::new_v4\<close> draws from a supply of identifiers, the state of every method.
\<close>

named_theorems stub_defs

type_synonym 'a provided = "(nat \<Rightarrow> uuid, ProviderError, 'a) comp"

definition new_v4 :: "uuid provided" where
  "new_v4 supply = (Inr (supply 0), \<lambda>n. supply (Suc n))"

definition not_implemented :: ProviderError where
  "not_implemented = Unavailable ''not implemented: real client lands with MVP slice 1 (docs/13)''"

definition no_page :: "'a Page" where
  "no_page = \<lparr>pg_items = [], pg_next_cursor = None, pg_has_more = False\<rparr>"

section \<open>The Stalwart client and the mail provider\<close>

record StalwartClient =
  sw_api_url :: string
  sw_admin_api_key :: string

definition stalwart_client_new :: "string \<Rightarrow> string \<Rightarrow> StalwartClient" where
  "stalwart_client_new api_url admin_api_key = \<lparr>sw_api_url = api_url, sw_admin_api_key = admin_api_key\<rparr>"

definition tenant_path :: "StalwartClient \<Rightarrow> uuid \<Rightarrow> string" where
  "tenant_path self t = sw_api_url self @ ''/api/tenants/'' @ uuid_text t"

definition tenant_create :: "StalwartClient \<Rightarrow> ProviderContext \<Rightarrow> unit provided" where
  [stub_defs]: "tenant_create self ctx = ok ()"

definition tenant_suspend :: "StalwartClient \<Rightarrow> ProviderContext \<Rightarrow> unit provided" where
  [stub_defs]: "tenant_suspend self ctx = ok ()"

definition tenant_terminate :: "StalwartClient \<Rightarrow> ProviderContext \<Rightarrow> unit provided" where
  [stub_defs]: "tenant_terminate self ctx = ok ()"

definition account_create :: "StalwartClient \<Rightarrow> ProviderContext \<Rightarrow> string \<Rightarrow> string \<Rightarrow> uuid provided" where
  [stub_defs]: "account_create self ctx email display_name = new_v4"

definition account_delete :: "StalwartClient \<Rightarrow> ProviderContext \<Rightarrow> uuid \<Rightarrow> unit provided" where
  [stub_defs]: "account_delete self ctx account_id = ok ()"

definition account_list :: "StalwartClient \<Rightarrow> ProviderContext \<Rightarrow> string option \<Rightarrow> 32 word \<Rightarrow> (TypesAccount ListResponse) provided" where
  [stub_defs]: "account_list self ctx cursor max_items = ok \<lparr>ls_items = []\<rparr>"

definition mailbox_create :: "StalwartClient \<Rightarrow> ProviderContext \<Rightarrow> uuid \<Rightarrow> string \<Rightarrow> string option \<Rightarrow> uuid provided" where
  [stub_defs]: "mailbox_create self ctx account_id title parent_path = new_v4"

definition mailbox_delete :: "StalwartClient \<Rightarrow> ProviderContext \<Rightarrow> uuid \<Rightarrow> string \<Rightarrow> unit provided" where
  [stub_defs]: "mailbox_delete self ctx account_id pth = ok ()"

definition mailbox_list :: "StalwartClient \<Rightarrow> ProviderContext \<Rightarrow> uuid \<Rightarrow> (Mailbox list) provided" where
  [stub_defs]: "mailbox_list self ctx account_id = ok []"

definition message_store :: "StalwartClient \<Rightarrow> ProviderContext \<Rightarrow> RawMessage \<Rightarrow> uuid provided" where
  [stub_defs]: "message_store self ctx msg = new_v4"

definition message_get :: "StalwartClient \<Rightarrow> ProviderContext \<Rightarrow> uuid \<Rightarrow> uuid \<Rightarrow> Message provided" where
  [stub_defs]: "message_get self ctx account_id message_id = fail not_implemented"

definition message_update_flags :: "StalwartClient \<Rightarrow> ProviderContext \<Rightarrow> uuid \<Rightarrow> uuid \<Rightarrow> MessageFlags \<Rightarrow> unit provided" where
  [stub_defs]: "message_update_flags self ctx account_id message_id flags = ok ()"

definition message_delete :: "StalwartClient \<Rightarrow> ProviderContext \<Rightarrow> uuid \<Rightarrow> uuid \<Rightarrow> unit provided" where
  [stub_defs]: "message_delete self ctx account_id message_id = ok ()"

definition message_search :: "StalwartClient \<Rightarrow> ProviderContext \<Rightarrow> string \<Rightarrow> string option \<Rightarrow> string option \<Rightarrow> string option \<Rightarrow> time option \<Rightarrow> time option \<Rightarrow> 32 word \<Rightarrow> (SearchResult Page) provided" where
  [stub_defs]: "message_search self ctx q sender recipient subj date_from date_to max_items = ok no_page"

definition attachment_list :: "StalwartClient \<Rightarrow> ProviderContext \<Rightarrow> uuid \<Rightarrow> (Attachment list) provided" where
  [stub_defs]: "attachment_list self ctx message_id = ok []"

definition attachment_get :: "StalwartClient \<Rightarrow> ProviderContext \<Rightarrow> string \<Rightarrow> bytes provided" where
  [stub_defs]: "attachment_get self ctx blob_key = fail not_implemented"

definition event_create :: "StalwartClient \<Rightarrow> ProviderContext \<Rightarrow> CalendarEvent \<Rightarrow> uuid provided" where
  [stub_defs]: "event_create self ctx ev = new_v4"

definition event_get :: "StalwartClient \<Rightarrow> ProviderContext \<Rightarrow> uuid \<Rightarrow> CalendarEvent provided" where
  [stub_defs]: "event_get self ctx event_id = fail not_implemented"

definition event_list :: "StalwartClient \<Rightarrow> ProviderContext \<Rightarrow> uuid \<Rightarrow> time \<Rightarrow> time \<Rightarrow> (CalendarEvent list) provided" where
  [stub_defs]: "event_list self ctx account_id since until = ok []"

definition contact_create :: "StalwartClient \<Rightarrow> ProviderContext \<Rightarrow> Contact \<Rightarrow> uuid provided" where
  [stub_defs]: "contact_create self ctx who = new_v4"

definition contact_list :: "StalwartClient \<Rightarrow> ProviderContext \<Rightarrow> uuid \<Rightarrow> (Contact list) provided" where
  [stub_defs]: "contact_list self ctx account_id = ok []"

definition resource_create :: "StalwartClient \<Rightarrow> ProviderContext \<Rightarrow> Resource \<Rightarrow> uuid provided" where
  [stub_defs]: "resource_create self ctx what = new_v4"

definition resource_book :: "StalwartClient \<Rightarrow> ProviderContext \<Rightarrow> uuid \<Rightarrow> uuid \<Rightarrow> time \<Rightarrow> time \<Rightarrow> uuid provided" where
  [stub_defs]: "resource_book self ctx resource_id event_id since until = new_v4"

definition booking_cancel :: "StalwartClient \<Rightarrow> ProviderContext \<Rightarrow> uuid \<Rightarrow> unit provided" where
  [stub_defs]: "booking_cancel self ctx booking_id = ok ()"

definition sieve_install :: "StalwartClient \<Rightarrow> ProviderContext \<Rightarrow> SieveScript \<Rightarrow> unit provided" where
  [stub_defs]: "sieve_install self ctx sieve = ok ()"

definition sieve_list :: "StalwartClient \<Rightarrow> ProviderContext \<Rightarrow> uuid \<Rightarrow> (SieveScript list) provided" where
  [stub_defs]: "sieve_list self ctx mailbox_id = ok []"

record StalwartMailProvider =
  mp_client :: StalwartClient

definition stalwart_mail_new :: "string \<Rightarrow> string \<Rightarrow> StalwartMailProvider" where
  "stalwart_mail_new api_url admin_api_key = \<lparr>mp_client = stalwart_client_new api_url admin_api_key\<rparr>"

definition mail_create_tenant :: "StalwartMailProvider \<Rightarrow> ProviderContext \<Rightarrow> unit provided" where
  [stub_defs]: "mail_create_tenant self ctx = tenant_create (mp_client self) ctx"

definition mail_suspend_tenant :: "StalwartMailProvider \<Rightarrow> ProviderContext \<Rightarrow> unit provided" where
  [stub_defs]: "mail_suspend_tenant self ctx = tenant_suspend (mp_client self) ctx"

definition mail_terminate_tenant :: "StalwartMailProvider \<Rightarrow> ProviderContext \<Rightarrow> unit provided" where
  [stub_defs]: "mail_terminate_tenant self ctx = tenant_terminate (mp_client self) ctx"

definition mail_create_account :: "StalwartMailProvider \<Rightarrow> ProviderContext \<Rightarrow> string \<Rightarrow> string \<Rightarrow> uuid provided" where
  [stub_defs]: "mail_create_account self ctx email display_name = account_create (mp_client self) ctx email display_name"

definition mail_delete_account :: "StalwartMailProvider \<Rightarrow> ProviderContext \<Rightarrow> uuid \<Rightarrow> unit provided" where
  [stub_defs]: "mail_delete_account self ctx account_id = account_delete (mp_client self) ctx account_id"

definition mail_list_accounts :: "StalwartMailProvider \<Rightarrow> ProviderContext \<Rightarrow> string option \<Rightarrow> 32 word \<Rightarrow> (TypesAccount ListResponse) provided" where
  [stub_defs]: "mail_list_accounts self ctx cursor max_items = account_list (mp_client self) ctx cursor max_items"

definition mail_create_mailbox :: "StalwartMailProvider \<Rightarrow> ProviderContext \<Rightarrow> uuid \<Rightarrow> string \<Rightarrow> string option \<Rightarrow> uuid provided" where
  [stub_defs]: "mail_create_mailbox self ctx account_id title parent_path = mailbox_create (mp_client self) ctx account_id title parent_path"

definition mail_delete_mailbox :: "StalwartMailProvider \<Rightarrow> ProviderContext \<Rightarrow> uuid \<Rightarrow> string \<Rightarrow> unit provided" where
  [stub_defs]: "mail_delete_mailbox self ctx account_id pth = mailbox_delete (mp_client self) ctx account_id pth"

definition mail_list_mailboxes :: "StalwartMailProvider \<Rightarrow> ProviderContext \<Rightarrow> uuid \<Rightarrow> (Mailbox list) provided" where
  [stub_defs]: "mail_list_mailboxes self ctx account_id = mailbox_list (mp_client self) ctx account_id"

definition mail_store_message :: "StalwartMailProvider \<Rightarrow> ProviderContext \<Rightarrow> RawMessage \<Rightarrow> uuid provided" where
  [stub_defs]: "mail_store_message self ctx msg = message_store (mp_client self) ctx msg"

definition mail_get_message :: "StalwartMailProvider \<Rightarrow> ProviderContext \<Rightarrow> uuid \<Rightarrow> uuid \<Rightarrow> Message provided" where
  [stub_defs]: "mail_get_message self ctx account_id message_id = message_get (mp_client self) ctx account_id message_id"

definition mail_update_message_flags :: "StalwartMailProvider \<Rightarrow> ProviderContext \<Rightarrow> uuid \<Rightarrow> uuid \<Rightarrow> MessageFlags \<Rightarrow> unit provided" where
  [stub_defs]: "mail_update_message_flags self ctx account_id message_id flags = message_update_flags (mp_client self) ctx account_id message_id flags"

definition mail_delete_message :: "StalwartMailProvider \<Rightarrow> ProviderContext \<Rightarrow> uuid \<Rightarrow> uuid \<Rightarrow> unit provided" where
  [stub_defs]: "mail_delete_message self ctx account_id message_id = message_delete (mp_client self) ctx account_id message_id"

definition mail_search_messages :: "StalwartMailProvider \<Rightarrow> ProviderContext \<Rightarrow> string \<Rightarrow> string option \<Rightarrow> string option \<Rightarrow> string option \<Rightarrow> time option \<Rightarrow> time option \<Rightarrow> 32 word \<Rightarrow> (SearchResult Page) provided" where
  [stub_defs]: "mail_search_messages self ctx q sender recipient subj date_from date_to max_items = message_search (mp_client self) ctx q sender recipient subj date_from date_to max_items"

definition mail_list_attachments :: "StalwartMailProvider \<Rightarrow> ProviderContext \<Rightarrow> uuid \<Rightarrow> (Attachment list) provided" where
  [stub_defs]: "mail_list_attachments self ctx message_id = attachment_list (mp_client self) ctx message_id"

definition mail_get_attachment :: "StalwartMailProvider \<Rightarrow> ProviderContext \<Rightarrow> string \<Rightarrow> bytes provided" where
  [stub_defs]: "mail_get_attachment self ctx blob_key = attachment_get (mp_client self) ctx blob_key"

definition mail_create_event :: "StalwartMailProvider \<Rightarrow> ProviderContext \<Rightarrow> CalendarEvent \<Rightarrow> uuid provided" where
  [stub_defs]: "mail_create_event self ctx ev = event_create (mp_client self) ctx ev"

definition mail_get_event :: "StalwartMailProvider \<Rightarrow> ProviderContext \<Rightarrow> uuid \<Rightarrow> CalendarEvent provided" where
  [stub_defs]: "mail_get_event self ctx event_id = event_get (mp_client self) ctx event_id"

definition mail_list_events :: "StalwartMailProvider \<Rightarrow> ProviderContext \<Rightarrow> uuid \<Rightarrow> time \<Rightarrow> time \<Rightarrow> (CalendarEvent list) provided" where
  [stub_defs]: "mail_list_events self ctx account_id since until = event_list (mp_client self) ctx account_id since until"

definition mail_create_contact :: "StalwartMailProvider \<Rightarrow> ProviderContext \<Rightarrow> Contact \<Rightarrow> uuid provided" where
  [stub_defs]: "mail_create_contact self ctx who = contact_create (mp_client self) ctx who"

definition mail_list_contacts :: "StalwartMailProvider \<Rightarrow> ProviderContext \<Rightarrow> uuid \<Rightarrow> (Contact list) provided" where
  [stub_defs]: "mail_list_contacts self ctx account_id = contact_list (mp_client self) ctx account_id"

definition mail_create_resource :: "StalwartMailProvider \<Rightarrow> ProviderContext \<Rightarrow> Resource \<Rightarrow> uuid provided" where
  [stub_defs]: "mail_create_resource self ctx what = resource_create (mp_client self) ctx what"

definition mail_book_resource :: "StalwartMailProvider \<Rightarrow> ProviderContext \<Rightarrow> uuid \<Rightarrow> uuid \<Rightarrow> time \<Rightarrow> time \<Rightarrow> uuid provided" where
  [stub_defs]: "mail_book_resource self ctx resource_id event_id since until = resource_book (mp_client self) ctx resource_id event_id since until"

definition mail_cancel_booking :: "StalwartMailProvider \<Rightarrow> ProviderContext \<Rightarrow> uuid \<Rightarrow> unit provided" where
  [stub_defs]: "mail_cancel_booking self ctx booking_id = booking_cancel (mp_client self) ctx booking_id"

definition mail_install_sieve_script :: "StalwartMailProvider \<Rightarrow> ProviderContext \<Rightarrow> SieveScript \<Rightarrow> unit provided" where
  [stub_defs]: "mail_install_sieve_script self ctx sieve = sieve_install (mp_client self) ctx sieve"

definition mail_list_sieve_scripts :: "StalwartMailProvider \<Rightarrow> ProviderContext \<Rightarrow> uuid \<Rightarrow> (SieveScript list) provided" where
  [stub_defs]: "mail_list_sieve_scripts self ctx mailbox_id = sieve_list (mp_client self) ctx mailbox_id"

section \<open>Identity\<close>

record StalwartIdentityProvider =
  ip_client_url :: string
  ip_admin_api_key :: string

definition stalwart_identity_new :: "string \<Rightarrow> string \<Rightarrow> StalwartIdentityProvider" where
  "stalwart_identity_new client_url admin_api_key = \<lparr>ip_client_url = client_url, ip_admin_api_key = admin_api_key\<rparr>"

definition identity_authenticate_oidc :: "StalwartIdentityProvider \<Rightarrow> string \<Rightarrow> TokenInfo provided" where
  [stub_defs]: "identity_authenticate_oidc self bearer_token = fail not_implemented"

definition identity_authenticate_password :: "StalwartIdentityProvider \<Rightarrow> string \<Rightarrow> string \<Rightarrow> (uuid \<times> TokenInfo) provided" where
  [stub_defs]: "identity_authenticate_password self email password = fail not_implemented"

definition identity_verify_mfa :: "StalwartIdentityProvider \<Rightarrow> ProviderContext \<Rightarrow> uuid \<Rightarrow> string \<Rightarrow> bool provided" where
  [stub_defs]: "identity_verify_mfa self ctx account_id code = ok True"

definition identity_create_app_password :: "StalwartIdentityProvider \<Rightarrow> ProviderContext \<Rightarrow> uuid \<Rightarrow> string \<Rightarrow> AppPassword provided" where
  [stub_defs]: "identity_create_app_password self ctx account_id title = fail not_implemented"

definition identity_revoke_app_password :: "StalwartIdentityProvider \<Rightarrow> ProviderContext \<Rightarrow> uuid \<Rightarrow> uuid \<Rightarrow> unit provided" where
  [stub_defs]: "identity_revoke_app_password self ctx account_id password_id = ok ()"

definition identity_list_app_passwords :: "StalwartIdentityProvider \<Rightarrow> ProviderContext \<Rightarrow> uuid \<Rightarrow> (AppPassword list) provided" where
  [stub_defs]: "identity_list_app_passwords self ctx account_id = ok []"

definition identity_create_session :: "StalwartIdentityProvider \<Rightarrow> ProviderContext \<Rightarrow> uuid \<Rightarrow> string option \<Rightarrow> string option \<Rightarrow> uuid provided" where
  [stub_defs]: "identity_create_session self ctx account_id device ip = new_v4"

definition identity_validate_session :: "StalwartIdentityProvider \<Rightarrow> uuid \<Rightarrow> (SessionInfo option) provided" where
  [stub_defs]: "identity_validate_session self session_id = fail not_implemented"

definition identity_revoke_session :: "StalwartIdentityProvider \<Rightarrow> ProviderContext \<Rightarrow> uuid \<Rightarrow> unit provided" where
  [stub_defs]: "identity_revoke_session self ctx session_id = ok ()"

definition identity_list_sessions :: "StalwartIdentityProvider \<Rightarrow> ProviderContext \<Rightarrow> uuid \<Rightarrow> (SessionInfo list) provided" where
  [stub_defs]: "identity_list_sessions self ctx account_id = ok []"

section \<open>Backup\<close>

record StalwartBackupProvider =
  bp_client_url :: string
  bp_admin_api_key :: string

definition stalwart_backup_new :: "string \<Rightarrow> string \<Rightarrow> StalwartBackupProvider" where
  "stalwart_backup_new client_url admin_api_key = \<lparr>bp_client_url = client_url, bp_admin_api_key = admin_api_key\<rparr>"

definition backup_start_backup :: "StalwartBackupProvider \<Rightarrow> ProviderContext \<Rightarrow> uuid option \<Rightarrow> uuid provided" where
  [stub_defs]: "backup_start_backup self ctx account_id = new_v4"

definition backup_cancel_backup :: "StalwartBackupProvider \<Rightarrow> ProviderContext \<Rightarrow> uuid \<Rightarrow> unit provided" where
  [stub_defs]: "backup_cancel_backup self ctx job_id = ok ()"

definition backup_get_backup_status :: "StalwartBackupProvider \<Rightarrow> ProviderContext \<Rightarrow> uuid \<Rightarrow> BackupJob provided" where
  [stub_defs]: "backup_get_backup_status self ctx job_id = fail not_implemented"

definition backup_start_restore :: "StalwartBackupProvider \<Rightarrow> ProviderContext \<Rightarrow> uuid \<Rightarrow> uuid \<Rightarrow> uuid provided" where
  [stub_defs]: "backup_start_restore self ctx account_id backup_job_id = new_v4"

definition backup_list_backups :: "StalwartBackupProvider \<Rightarrow> ProviderContext \<Rightarrow> (BackupJob list) provided" where
  [stub_defs]: "backup_list_backups self ctx = ok []"

definition backup_export_mailbox :: "StalwartBackupProvider \<Rightarrow> ProviderContext \<Rightarrow> uuid \<Rightarrow> ExportFormat \<Rightarrow> uuid provided" where
  [stub_defs]: "backup_export_mailbox self ctx account_id format = new_v4"

definition backup_import_mailbox :: "StalwartBackupProvider \<Rightarrow> ProviderContext \<Rightarrow> uuid \<Rightarrow> string \<Rightarrow> uuid provided" where
  [stub_defs]: "backup_import_mailbox self ctx account_id source_blob_key = new_v4"

section \<open>Abuse scoring\<close>

record RspamdConfig =
  rc_host :: string
  rc_port :: "16 word"
  rc_password :: string
  rc_bayes_path :: string

definition rspamd_abuse_new :: "string \<Rightarrow> 16 word \<Rightarrow> string \<Rightarrow> string \<Rightarrow> RspamdConfig" where
  "rspamd_abuse_new host port password bayes_path = \<lparr>rc_host = host, rc_port = port, rc_password = password, rc_bayes_path = bayes_path\<rparr>"

definition abuse_score_message :: "RspamdConfig \<Rightarrow> ProviderContext \<Rightarrow> bytes \<Rightarrow> ScoringResult provided" where
  [stub_defs]: "abuse_score_message self ctx raw_message = tryb new_v4 (\<lambda>i. ok
       \<lparr>sc_message_id = i, sc_tenant_id = ctx_tenant_id ctx, sc_spam_score = Finite 0, sc_spam_threshold = Finite 5,
        sc_is_spam = False, sc_virus = False, sc_phishing_score = Finite 0, sc_dmarc_result = Some Pass,
        sc_action = Accept\<rparr>)"

definition abuse_check_threat_intel :: "RspamdConfig \<Rightarrow> ProviderContext \<Rightarrow> ThreatIndicatorType \<Rightarrow> string \<Rightarrow> (ThreatIntelObservation option) provided" where
  [stub_defs]: "abuse_check_threat_intel self ctx indicator_type indicator_value = ok None"

definition abuse_train_bayes :: "RspamdConfig \<Rightarrow> ProviderContext \<Rightarrow> uuid \<Rightarrow> bool \<Rightarrow> unit provided" where
  [stub_defs]: "abuse_train_bayes self ctx message_id is_spam = ok ()"

definition abuse_quarantine_message :: "RspamdConfig \<Rightarrow> ProviderContext \<Rightarrow> uuid \<Rightarrow> string \<Rightarrow> ScoringResult \<Rightarrow> uuid provided" where
  [stub_defs]: "abuse_quarantine_message self ctx message_id why scoring_result = new_v4"

definition abuse_release_quarantine :: "RspamdConfig \<Rightarrow> ProviderContext \<Rightarrow> uuid \<Rightarrow> uuid \<Rightarrow> unit provided" where
  [stub_defs]: "abuse_release_quarantine self ctx quarantine_id account_id = ok ()"

definition abuse_delete_quarantine :: "RspamdConfig \<Rightarrow> ProviderContext \<Rightarrow> uuid \<Rightarrow> unit provided" where
  [stub_defs]: "abuse_delete_quarantine self ctx quarantine_id = ok ()"

definition abuse_list_quarantine :: "RspamdConfig \<Rightarrow> ProviderContext \<Rightarrow> uuid \<Rightarrow> string option \<Rightarrow> 32 word \<Rightarrow> (TypesQuarantineItem Page) provided" where
  [stub_defs]: "abuse_list_quarantine self ctx account_id cursor max_items = ok no_page"

section \<open>Object storage\<close>

record MinioStorageProvider =
  mi_endpoint :: string
  mi_bucket :: string
  mi_access_key :: string
  mi_secret_key :: string
  mi_use_ssl :: bool

definition minio_storage_new :: "string \<Rightarrow> string \<Rightarrow> string \<Rightarrow> string \<Rightarrow> bool \<Rightarrow> MinioStorageProvider" where
  "minio_storage_new endpoint bucket access_key secret_key use_ssl = \<lparr>mi_endpoint = endpoint, mi_bucket = bucket, mi_access_key = access_key, mi_secret_key = secret_key, mi_use_ssl = use_ssl\<rparr>"

definition storage_upload :: "MinioStorageProvider \<Rightarrow> ProviderContext \<Rightarrow> bytes \<Rightarrow> string \<Rightarrow> string option \<Rightarrow> uuid provided" where
  [stub_defs]: "storage_upload self ctx content content_type filename = new_v4"

definition storage_download :: "MinioStorageProvider \<Rightarrow> ProviderContext \<Rightarrow> string \<Rightarrow> bytes provided" where
  [stub_defs]: "storage_download self ctx blob_key = ok []"

definition storage_delete :: "MinioStorageProvider \<Rightarrow> ProviderContext \<Rightarrow> string \<Rightarrow> unit provided" where
  [stub_defs]: "storage_delete self ctx blob_key = ok ()"

definition storage_list :: "MinioStorageProvider \<Rightarrow> ProviderContext \<Rightarrow> string option \<Rightarrow> string option \<Rightarrow> 32 word \<Rightarrow> (BlobRef Page) provided" where
  [stub_defs]: "storage_list self ctx pfx cursor max_items = ok no_page"

definition storage_signed_url :: "MinioStorageProvider \<Rightarrow> ProviderContext \<Rightarrow> string \<Rightarrow> 32 word \<Rightarrow> string provided" where
  [stub_defs]: "storage_signed_url self ctx blob_key expiry_seconds = ok (''https://'' @ mi_endpoint self @ ''.'' @ mi_bucket self @ ''.com/'' @ blob_key)"

definition storage_metadata :: "MinioStorageProvider \<Rightarrow> ProviderContext \<Rightarrow> string \<Rightarrow> BlobRef provided" where
  [stub_defs]: "storage_metadata self ctx blob_key = fail not_implemented"

section \<open>Search\<close>

record TantivyIndexConfig =
  tx_data_path :: string
  tx_max_docs_per_segment :: "64 word"

definition tantivy_search_new :: "string \<Rightarrow> 64 word \<Rightarrow> TantivyIndexConfig" where
  "tantivy_search_new data_path max_docs_per_segment = \<lparr>tx_data_path = data_path, tx_max_docs_per_segment = max_docs_per_segment\<rparr>"

definition search_index_message :: "TantivyIndexConfig \<Rightarrow> ProviderContext \<Rightarrow> Message \<Rightarrow> string \<Rightarrow> unit provided" where
  [stub_defs]: "search_index_message self ctx message doc = ok ()"

definition search_remove_message :: "TantivyIndexConfig \<Rightarrow> ProviderContext \<Rightarrow> uuid \<Rightarrow> unit provided" where
  [stub_defs]: "search_remove_message self ctx message_id = ok ()"

definition search_search :: "TantivyIndexConfig \<Rightarrow> ProviderContext \<Rightarrow> string \<Rightarrow> string option \<Rightarrow> string option \<Rightarrow> string option \<Rightarrow> time option \<Rightarrow> time option \<Rightarrow> 32 word \<Rightarrow> (SearchResult Page) provided" where
  [stub_defs]: "search_search self ctx q sender recipient subj date_from date_to max_items = ok no_page"

definition search_rebuild :: "TantivyIndexConfig \<Rightarrow> ProviderContext \<Rightarrow> uuid \<Rightarrow> unit provided" where
  [stub_defs]: "search_rebuild self ctx account_id = ok ()"

end
