(* ===== verification/ProviderTraits.thy ===== *)
theory ProviderTraits
  imports Providers
begin

text \<open>
  The traits of \<open>crates/types/src/providers\<close>. A trait object is a record of its methods over the state
  \<open>'w\<close> of the provider behind it, and an \<open>impl\<close> of \<open>crates/wrappers\<close> is an instance of the record.
  The methods that take no \<open>ProviderContext\<close> are those that find out who is calling.
\<close>

type_synonym ('w, 'a) fallible = "('w, ProviderError, 'a) comp"

section \<open>MailProvider\<close>

text \<open>In three stages, one for the administration, one for the messages, one for the rest.\<close>

record 'w MailAdministration =
  Mail_create_tenant :: "ProviderContext \<Rightarrow> ('w, unit) fallible"
  Mail_suspend_tenant :: "ProviderContext \<Rightarrow> ('w, unit) fallible"
  Mail_terminate_tenant :: "ProviderContext \<Rightarrow> ('w, unit) fallible"
  Mail_create_account :: "ProviderContext \<Rightarrow> string \<Rightarrow> string \<Rightarrow> ('w, uuid) fallible"
  Mail_delete_account :: "ProviderContext \<Rightarrow> uuid \<Rightarrow> ('w, unit) fallible"
  Mail_list_accounts :: "ProviderContext \<Rightarrow> string option \<Rightarrow> 32 word \<Rightarrow> ('w, TypesAccount ListResponse) fallible"
  Mail_create_mailbox :: "ProviderContext \<Rightarrow> uuid \<Rightarrow> string \<Rightarrow> string option \<Rightarrow> ('w, uuid) fallible"
  Mail_delete_mailbox :: "ProviderContext \<Rightarrow> uuid \<Rightarrow> string \<Rightarrow> ('w, unit) fallible"
  Mail_list_mailboxes :: "ProviderContext \<Rightarrow> uuid \<Rightarrow> ('w, Mailbox list) fallible"

record 'w MailStore = "'w MailAdministration" +
  Mail_store_message :: "ProviderContext \<Rightarrow> RawMessage \<Rightarrow> ('w, uuid) fallible"
  Mail_get_message :: "ProviderContext \<Rightarrow> uuid \<Rightarrow> uuid \<Rightarrow> ('w, Message) fallible"
  Mail_update_message_flags :: "ProviderContext \<Rightarrow> uuid \<Rightarrow> uuid \<Rightarrow> MessageFlags \<Rightarrow> ('w, unit) fallible"
  Mail_delete_message :: "ProviderContext \<Rightarrow> uuid \<Rightarrow> uuid \<Rightarrow> ('w, unit) fallible"
  Mail_search_messages :: "ProviderContext \<Rightarrow> string \<Rightarrow> string option \<Rightarrow> string option \<Rightarrow> string option \<Rightarrow> time option \<Rightarrow> time option \<Rightarrow> 32 word \<Rightarrow> ('w, SearchResult Page) fallible"
  Mail_list_attachments :: "ProviderContext \<Rightarrow> uuid \<Rightarrow> ('w, Attachment list) fallible"
  Mail_get_attachment :: "ProviderContext \<Rightarrow> string \<Rightarrow> ('w, bytes) fallible"

record 'w MailProvider = "'w MailStore" +
  Mail_create_event :: "ProviderContext \<Rightarrow> CalendarEvent \<Rightarrow> ('w, uuid) fallible"
  Mail_get_event :: "ProviderContext \<Rightarrow> uuid \<Rightarrow> ('w, CalendarEvent) fallible"
  Mail_list_events :: "ProviderContext \<Rightarrow> uuid \<Rightarrow> time \<Rightarrow> time \<Rightarrow> ('w, CalendarEvent list) fallible"
  Mail_create_contact :: "ProviderContext \<Rightarrow> Contact \<Rightarrow> ('w, uuid) fallible"
  Mail_list_contacts :: "ProviderContext \<Rightarrow> uuid \<Rightarrow> ('w, Contact list) fallible"
  Mail_create_resource :: "ProviderContext \<Rightarrow> Resource \<Rightarrow> ('w, uuid) fallible"
  Mail_book_resource :: "ProviderContext \<Rightarrow> uuid \<Rightarrow> uuid \<Rightarrow> time \<Rightarrow> time \<Rightarrow> ('w, uuid) fallible"
  Mail_cancel_booking :: "ProviderContext \<Rightarrow> uuid \<Rightarrow> ('w, unit) fallible"
  Mail_install_sieve_script :: "ProviderContext \<Rightarrow> SieveScript \<Rightarrow> ('w, unit) fallible"
  Mail_list_sieve_scripts :: "ProviderContext \<Rightarrow> uuid \<Rightarrow> ('w, SieveScript list) fallible"

definition stalwart_mail_dyn :: "StalwartMailProvider \<Rightarrow> (nat \<Rightarrow> uuid) MailProvider" where
  "stalwart_mail_dyn self =
     \<lparr>Mail_create_tenant = mail_create_tenant self,
      Mail_suspend_tenant = mail_suspend_tenant self,
      Mail_terminate_tenant = mail_terminate_tenant self,
      Mail_create_account = mail_create_account self,
      Mail_delete_account = mail_delete_account self,
      Mail_list_accounts = mail_list_accounts self,
      Mail_create_mailbox = mail_create_mailbox self,
      Mail_delete_mailbox = mail_delete_mailbox self,
      Mail_list_mailboxes = mail_list_mailboxes self,
      Mail_store_message = mail_store_message self,
      Mail_get_message = mail_get_message self,
      Mail_update_message_flags = mail_update_message_flags self,
      Mail_delete_message = mail_delete_message self,
      Mail_search_messages = mail_search_messages self,
      Mail_list_attachments = mail_list_attachments self,
      Mail_get_attachment = mail_get_attachment self,
      Mail_create_event = mail_create_event self,
      Mail_get_event = mail_get_event self,
      Mail_list_events = mail_list_events self,
      Mail_create_contact = mail_create_contact self,
      Mail_list_contacts = mail_list_contacts self,
      Mail_create_resource = mail_create_resource self,
      Mail_book_resource = mail_book_resource self,
      Mail_cancel_booking = mail_cancel_booking self,
      Mail_install_sieve_script = mail_install_sieve_script self,
      Mail_list_sieve_scripts = mail_list_sieve_scripts self\<rparr>"

section \<open>IdentityProvider\<close>

record 'w IdentityProvider =
  Identity_authenticate_oidc :: "string \<Rightarrow> ('w, TokenInfo) fallible"
  Identity_authenticate_password :: "string \<Rightarrow> string \<Rightarrow> ('w, uuid \<times> TokenInfo) fallible"
  Identity_verify_mfa :: "ProviderContext \<Rightarrow> uuid \<Rightarrow> string \<Rightarrow> ('w, bool) fallible"
  Identity_create_app_password :: "ProviderContext \<Rightarrow> uuid \<Rightarrow> string \<Rightarrow> ('w, AppPassword) fallible"
  Identity_revoke_app_password :: "ProviderContext \<Rightarrow> uuid \<Rightarrow> uuid \<Rightarrow> ('w, unit) fallible"
  Identity_list_app_passwords :: "ProviderContext \<Rightarrow> uuid \<Rightarrow> ('w, AppPassword list) fallible"
  Identity_create_session :: "ProviderContext \<Rightarrow> uuid \<Rightarrow> string option \<Rightarrow> string option \<Rightarrow> ('w, uuid) fallible"
  Identity_validate_session :: "uuid \<Rightarrow> ('w, SessionInfo option) fallible"
  Identity_revoke_session :: "ProviderContext \<Rightarrow> uuid \<Rightarrow> ('w, unit) fallible"
  Identity_list_sessions :: "ProviderContext \<Rightarrow> uuid \<Rightarrow> ('w, SessionInfo list) fallible"

definition stalwart_identity_dyn :: "StalwartIdentityProvider \<Rightarrow> (nat \<Rightarrow> uuid) IdentityProvider" where
  "stalwart_identity_dyn self =
     \<lparr>Identity_authenticate_oidc = identity_authenticate_oidc self,
      Identity_authenticate_password = identity_authenticate_password self,
      Identity_verify_mfa = identity_verify_mfa self,
      Identity_create_app_password = identity_create_app_password self,
      Identity_revoke_app_password = identity_revoke_app_password self,
      Identity_list_app_passwords = identity_list_app_passwords self,
      Identity_create_session = identity_create_session self,
      Identity_validate_session = identity_validate_session self,
      Identity_revoke_session = identity_revoke_session self,
      Identity_list_sessions = identity_list_sessions self\<rparr>"

section \<open>AbuseProvider\<close>

record 'w AbuseProvider =
  Abuse_score_message :: "ProviderContext \<Rightarrow> bytes \<Rightarrow> ('w, ScoringResult) fallible"
  Abuse_check_threat_intel :: "ProviderContext \<Rightarrow> ThreatIndicatorType \<Rightarrow> string \<Rightarrow> ('w, ThreatIntelObservation option) fallible"
  Abuse_train_bayes :: "ProviderContext \<Rightarrow> uuid \<Rightarrow> bool \<Rightarrow> ('w, unit) fallible"
  Abuse_quarantine_message :: "ProviderContext \<Rightarrow> uuid \<Rightarrow> string \<Rightarrow> ScoringResult \<Rightarrow> ('w, uuid) fallible"
  Abuse_release_quarantine :: "ProviderContext \<Rightarrow> uuid \<Rightarrow> uuid \<Rightarrow> ('w, unit) fallible"
  Abuse_delete_quarantine :: "ProviderContext \<Rightarrow> uuid \<Rightarrow> ('w, unit) fallible"
  Abuse_list_quarantine :: "ProviderContext \<Rightarrow> uuid \<Rightarrow> string option \<Rightarrow> 32 word \<Rightarrow> ('w, TypesQuarantineItem Page) fallible"

definition rspamd_abuse_dyn :: "RspamdConfig \<Rightarrow> (nat \<Rightarrow> uuid) AbuseProvider" where
  "rspamd_abuse_dyn self =
     \<lparr>Abuse_score_message = abuse_score_message self,
      Abuse_check_threat_intel = abuse_check_threat_intel self,
      Abuse_train_bayes = abuse_train_bayes self,
      Abuse_quarantine_message = abuse_quarantine_message self,
      Abuse_release_quarantine = abuse_release_quarantine self,
      Abuse_delete_quarantine = abuse_delete_quarantine self,
      Abuse_list_quarantine = abuse_list_quarantine self\<rparr>"

section \<open>BackupProvider\<close>

record 'w BackupProvider =
  Backup_start_backup :: "ProviderContext \<Rightarrow> uuid option \<Rightarrow> ('w, uuid) fallible"
  Backup_cancel_backup :: "ProviderContext \<Rightarrow> uuid \<Rightarrow> ('w, unit) fallible"
  Backup_get_backup_status :: "ProviderContext \<Rightarrow> uuid \<Rightarrow> ('w, BackupJob) fallible"
  Backup_start_restore :: "ProviderContext \<Rightarrow> uuid \<Rightarrow> uuid \<Rightarrow> ('w, uuid) fallible"
  Backup_list_backups :: "ProviderContext \<Rightarrow> ('w, BackupJob list) fallible"
  Backup_export_mailbox :: "ProviderContext \<Rightarrow> uuid \<Rightarrow> ExportFormat \<Rightarrow> ('w, uuid) fallible"
  Backup_import_mailbox :: "ProviderContext \<Rightarrow> uuid \<Rightarrow> string \<Rightarrow> ('w, uuid) fallible"

definition stalwart_backup_dyn :: "StalwartBackupProvider \<Rightarrow> (nat \<Rightarrow> uuid) BackupProvider" where
  "stalwart_backup_dyn self =
     \<lparr>Backup_start_backup = backup_start_backup self,
      Backup_cancel_backup = backup_cancel_backup self,
      Backup_get_backup_status = backup_get_backup_status self,
      Backup_start_restore = backup_start_restore self,
      Backup_list_backups = backup_list_backups self,
      Backup_export_mailbox = backup_export_mailbox self,
      Backup_import_mailbox = backup_import_mailbox self\<rparr>"

section \<open>SearchProvider\<close>

record 'w SearchProvider =
  Search_index_message :: "ProviderContext \<Rightarrow> Message \<Rightarrow> string \<Rightarrow> ('w, unit) fallible"
  Search_remove_message :: "ProviderContext \<Rightarrow> uuid \<Rightarrow> ('w, unit) fallible"
  Search_search :: "ProviderContext \<Rightarrow> string \<Rightarrow> string option \<Rightarrow> string option \<Rightarrow> string option \<Rightarrow> time option \<Rightarrow> time option \<Rightarrow> 32 word \<Rightarrow> ('w, SearchResult Page) fallible"
  Search_rebuild :: "ProviderContext \<Rightarrow> uuid \<Rightarrow> ('w, unit) fallible"

definition tantivy_search_dyn :: "TantivyIndexConfig \<Rightarrow> (nat \<Rightarrow> uuid) SearchProvider" where
  "tantivy_search_dyn self =
     \<lparr>Search_index_message = search_index_message self,
      Search_remove_message = search_remove_message self,
      Search_search = search_search self,
      Search_rebuild = search_rebuild self\<rparr>"

section \<open>StorageProvider\<close>

record 'w StorageProvider =
  Storage_upload :: "ProviderContext \<Rightarrow> bytes \<Rightarrow> string \<Rightarrow> string option \<Rightarrow> ('w, uuid) fallible"
  Storage_download :: "ProviderContext \<Rightarrow> string \<Rightarrow> ('w, bytes) fallible"
  Storage_delete :: "ProviderContext \<Rightarrow> string \<Rightarrow> ('w, unit) fallible"
  Storage_list :: "ProviderContext \<Rightarrow> string option \<Rightarrow> string option \<Rightarrow> 32 word \<Rightarrow> ('w, BlobRef Page) fallible"
  Storage_signed_url :: "ProviderContext \<Rightarrow> string \<Rightarrow> 32 word \<Rightarrow> ('w, string) fallible"
  Storage_metadata :: "ProviderContext \<Rightarrow> string \<Rightarrow> ('w, BlobRef) fallible"

definition minio_storage_dyn :: "MinioStorageProvider \<Rightarrow> (nat \<Rightarrow> uuid) StorageProvider" where
  "minio_storage_dyn self =
     \<lparr>Storage_upload = storage_upload self,
      Storage_download = storage_download self,
      Storage_delete = storage_delete self,
      Storage_list = storage_list self,
      Storage_signed_url = storage_signed_url self,
      Storage_metadata = storage_metadata self\<rparr>"

section \<open>What every implementation promises so far\<close>

text \<open>
  An adapter whose backend is still to come answers, or says that it is unavailable, and draws at most one
  identifier.
\<close>

definition provisional :: "'a provided \<Rightarrow> bool" where
  "provisional m \<longleftrightarrow> (\<forall>ids. (fst (m ids) = Inl not_implemented \<or> is_ok (fst (m ids)))
     \<and> snd (m ids) \<in> {ids, \<lambda>n. ids (Suc n)})"

lemma provisional_intros [simp, intro]:
  "provisional (ok x)" "provisional new_v4" "provisional (fail not_implemented)"
  "provisional (tryb new_v4 (\<lambda>i. ok (f i)))"
  by (simp_all add: provisional_def ok_def fail_def new_v4_def tryb_def)

lemma stalwart_mail_answers:
  "(\<forall>a. provisional (Mail_create_tenant (stalwart_mail_dyn self) a))
   \<and> (\<forall>a. provisional (Mail_suspend_tenant (stalwart_mail_dyn self) a))
   \<and> (\<forall>a. provisional (Mail_terminate_tenant (stalwart_mail_dyn self) a))
   \<and> (\<forall>a b c. provisional (Mail_create_account (stalwart_mail_dyn self) a b c))
   \<and> (\<forall>a b. provisional (Mail_delete_account (stalwart_mail_dyn self) a b))
   \<and> (\<forall>a b c. provisional (Mail_list_accounts (stalwart_mail_dyn self) a b c))
   \<and> (\<forall>a b c d. provisional (Mail_create_mailbox (stalwart_mail_dyn self) a b c d))
   \<and> (\<forall>a b c. provisional (Mail_delete_mailbox (stalwart_mail_dyn self) a b c))
   \<and> (\<forall>a b. provisional (Mail_list_mailboxes (stalwart_mail_dyn self) a b))
   \<and> (\<forall>a b. provisional (Mail_store_message (stalwart_mail_dyn self) a b))
   \<and> (\<forall>a b c. provisional (Mail_get_message (stalwart_mail_dyn self) a b c))
   \<and> (\<forall>a b c d. provisional (Mail_update_message_flags (stalwart_mail_dyn self) a b c d))
   \<and> (\<forall>a b c. provisional (Mail_delete_message (stalwart_mail_dyn self) a b c))
   \<and> (\<forall>a b c d e f g h. provisional (Mail_search_messages (stalwart_mail_dyn self) a b c d e f g h))
   \<and> (\<forall>a b. provisional (Mail_list_attachments (stalwart_mail_dyn self) a b))
   \<and> (\<forall>a b. provisional (Mail_get_attachment (stalwart_mail_dyn self) a b))
   \<and> (\<forall>a b. provisional (Mail_create_event (stalwart_mail_dyn self) a b))
   \<and> (\<forall>a b. provisional (Mail_get_event (stalwart_mail_dyn self) a b))
   \<and> (\<forall>a b c d. provisional (Mail_list_events (stalwart_mail_dyn self) a b c d))
   \<and> (\<forall>a b. provisional (Mail_create_contact (stalwart_mail_dyn self) a b))
   \<and> (\<forall>a b. provisional (Mail_list_contacts (stalwart_mail_dyn self) a b))
   \<and> (\<forall>a b. provisional (Mail_create_resource (stalwart_mail_dyn self) a b))
   \<and> (\<forall>a b c d e. provisional (Mail_book_resource (stalwart_mail_dyn self) a b c d e))
   \<and> (\<forall>a b. provisional (Mail_cancel_booking (stalwart_mail_dyn self) a b))
   \<and> (\<forall>a b. provisional (Mail_install_sieve_script (stalwart_mail_dyn self) a b))
   \<and> (\<forall>a b. provisional (Mail_list_sieve_scripts (stalwart_mail_dyn self) a b))"
  by (simp add: stalwart_mail_dyn_def stub_defs)

lemma stalwart_identity_answers:
  "(\<forall>a. provisional (Identity_authenticate_oidc (stalwart_identity_dyn self) a))
   \<and> (\<forall>a b. provisional (Identity_authenticate_password (stalwart_identity_dyn self) a b))
   \<and> (\<forall>a b c. provisional (Identity_verify_mfa (stalwart_identity_dyn self) a b c))
   \<and> (\<forall>a b c. provisional (Identity_create_app_password (stalwart_identity_dyn self) a b c))
   \<and> (\<forall>a b c. provisional (Identity_revoke_app_password (stalwart_identity_dyn self) a b c))
   \<and> (\<forall>a b. provisional (Identity_list_app_passwords (stalwart_identity_dyn self) a b))
   \<and> (\<forall>a b c d. provisional (Identity_create_session (stalwart_identity_dyn self) a b c d))
   \<and> (\<forall>a. provisional (Identity_validate_session (stalwart_identity_dyn self) a))
   \<and> (\<forall>a b. provisional (Identity_revoke_session (stalwart_identity_dyn self) a b))
   \<and> (\<forall>a b. provisional (Identity_list_sessions (stalwart_identity_dyn self) a b))"
  by (simp add: stalwart_identity_dyn_def stub_defs)

lemma rspamd_abuse_answers:
  "(\<forall>a b. provisional (Abuse_score_message (rspamd_abuse_dyn self) a b))
   \<and> (\<forall>a b c. provisional (Abuse_check_threat_intel (rspamd_abuse_dyn self) a b c))
   \<and> (\<forall>a b c. provisional (Abuse_train_bayes (rspamd_abuse_dyn self) a b c))
   \<and> (\<forall>a b c d. provisional (Abuse_quarantine_message (rspamd_abuse_dyn self) a b c d))
   \<and> (\<forall>a b c. provisional (Abuse_release_quarantine (rspamd_abuse_dyn self) a b c))
   \<and> (\<forall>a b. provisional (Abuse_delete_quarantine (rspamd_abuse_dyn self) a b))
   \<and> (\<forall>a b c d. provisional (Abuse_list_quarantine (rspamd_abuse_dyn self) a b c d))"
  by (simp add: rspamd_abuse_dyn_def stub_defs)

lemma stalwart_backup_answers:
  "(\<forall>a b. provisional (Backup_start_backup (stalwart_backup_dyn self) a b))
   \<and> (\<forall>a b. provisional (Backup_cancel_backup (stalwart_backup_dyn self) a b))
   \<and> (\<forall>a b. provisional (Backup_get_backup_status (stalwart_backup_dyn self) a b))
   \<and> (\<forall>a b c. provisional (Backup_start_restore (stalwart_backup_dyn self) a b c))
   \<and> (\<forall>a. provisional (Backup_list_backups (stalwart_backup_dyn self) a))
   \<and> (\<forall>a b c. provisional (Backup_export_mailbox (stalwart_backup_dyn self) a b c))
   \<and> (\<forall>a b c. provisional (Backup_import_mailbox (stalwart_backup_dyn self) a b c))"
  by (simp add: stalwart_backup_dyn_def stub_defs)

lemma tantivy_search_answers:
  "(\<forall>a b c. provisional (Search_index_message (tantivy_search_dyn self) a b c))
   \<and> (\<forall>a b. provisional (Search_remove_message (tantivy_search_dyn self) a b))
   \<and> (\<forall>a b c d e f g h. provisional (Search_search (tantivy_search_dyn self) a b c d e f g h))
   \<and> (\<forall>a b. provisional (Search_rebuild (tantivy_search_dyn self) a b))"
  by (simp add: tantivy_search_dyn_def stub_defs)

lemma minio_storage_answers:
  "(\<forall>a b c d. provisional (Storage_upload (minio_storage_dyn self) a b c d))
   \<and> (\<forall>a b. provisional (Storage_download (minio_storage_dyn self) a b))
   \<and> (\<forall>a b. provisional (Storage_delete (minio_storage_dyn self) a b))
   \<and> (\<forall>a b c d. provisional (Storage_list (minio_storage_dyn self) a b c d))
   \<and> (\<forall>a b c. provisional (Storage_signed_url (minio_storage_dyn self) a b c))
   \<and> (\<forall>a b. provisional (Storage_metadata (minio_storage_dyn self) a b))"
  by (simp add: minio_storage_dyn_def stub_defs)

end
