(* ===== verification/TypesJson.thy ===== *)
theory TypesJson
  imports DomainTypes Serde UuidText
begin

text \<open>
  The JSON form of the structs of \<open>crates/types\<close>: what \<open>derive(Serialize)\<close> writes for each and what
  \<open>derive(Deserialize)\<close> reads back. The interface \<open>json_codec\<close> states what a type with both promises; it is closed
  under the generic types of the crate, and interpreted for every struct.
\<close>

section \<open>The types of the fields\<close>

text \<open>How UUIDs and times are read and printed, and the order in which a \<open>HashMap\<close> gives its entries.\<close>

record wire =
  w_uuid :: "string \<Rightarrow> uuid option"
  w_time :: "string \<Rightarrow> time option"
  w_time_text :: "time \<Rightarrow> string"
  w_entries :: "(string \<Rightarrow> string option) \<Rightarrow> (string \<times> string) list"

definition wire_ok :: "wire \<Rightarrow> bool" where
  "wire_ok f \<longleftrightarrow> (\<forall>u. w_uuid f (uuid_text u) = Some u) \<and> (\<forall>t. w_time f (w_time_text f t) = Some t)"

text \<open>A \<open>HashMap\<close> gives each of its entries once.\<close>

definition listed :: "wire \<Rightarrow> (string \<Rightarrow> string option) \<Rightarrow> bool" where
  "listed f m \<longleftrightarrow> distinct (map fst (w_entries f m)) \<and> map_of (w_entries f m) = m"

definition en_uuid :: "uuid \<Rightarrow> json" where
  "en_uuid u = JStr (uuid_text u)"

definition en_time :: "wire \<Rightarrow> time \<Rightarrow> json" where
  "en_time f t = JStr (w_time_text f t)"

fun de_time :: "wire \<Rightarrow> json \<Rightarrow> time option" where
  "de_time f (JStr s) = w_time f s"
| "de_time f _ = None"

fun de_bool :: "json \<Rightarrow> bool option" where
  "de_bool (JBool b) = Some b"
| "de_bool _ = None"

text \<open>Unsigned integers of any width.\<close>

definition en_word :: "'n::len word \<Rightarrow> json" where
  "en_word n = JInt (uint n)"

definition de_word :: "json \<Rightarrow> 'n::len word option" where
  "de_word d = map_option word_of_int (de_int 0 (2 ^ LENGTH('n) - 1) d)"

text \<open>A variant without data is its name, and is also read from an object that maps the name to \<open>null\<close>.\<close>

definition en_enum :: "('v \<Rightarrow> string) \<Rightarrow> 'v \<Rightarrow> json" where
  "en_enum ident v = JStr (encode_variant ident v)"

fun de_enum :: "'v list \<Rightarrow> ('v \<Rightarrow> string) \<Rightarrow> json \<Rightarrow> 'v option" where
  "de_enum variants ident (JStr s) = decode_variant variants ident s"
| "de_enum variants ident (JObj [(s, JNull)]) = decode_variant variants ident s"
| "de_enum variants ident _ = None"

fun en_option :: "('a \<Rightarrow> json) \<Rightarrow> 'a option \<Rightarrow> json" where
  "en_option enc None = JNull"
| "en_option enc (Some x) = enc x"

definition en_vec :: "('a \<Rightarrow> json) \<Rightarrow> 'a list \<Rightarrow> json" where
  "en_vec enc xs = JArr (map enc xs)"

text \<open>A \<open>HashMap\<close> of strings; of entries with the same key the last one counts.\<close>

definition en_headers :: "wire \<Rightarrow> (string \<Rightarrow> string option) \<Rightarrow> json" where
  "en_headers f m = JObj (map (\<lambda>(k, v). (k, JStr v)) (w_entries f m))"

fun de_headers :: "json \<Rightarrow> (string \<Rightarrow> string option) option" where
  "de_headers (JObj kvs) = map_option (\<lambda>vs. map_of (rev (zip (map fst kvs) vs))) (those (map (de_string \<circ> snd) kvs))"
| "de_headers _ = None"

text \<open>
  A struct of this crate has no field with \<open>serde(default)\<close>, so an array must hold all of its fields; in an
  object an \<open>Option\<close> may be absent.
\<close>

definition derived :: "string list \<Rightarrow> json \<Rightarrow> (string \<times> json) list option" where
  "derived names d = (case d of
     JArr vs \<Rightarrow> if length vs = length names then Some (zip names vs) else None
   | _ \<Rightarrow> struct_fields names d)"

definition nullable :: "string \<Rightarrow> (json \<Rightarrow> 'a option) \<Rightarrow> (string \<times> json) list \<Rightarrow> 'a option option" where
  "nullable k dec kvs = defaulted k (de_option dec) None kvs"

section \<open>The interface\<close>

text \<open>What is written is read back, and is never \<open>null\<close>, which stands for an absent option.\<close>

locale json_codec =
  fixes en :: "'a \<Rightarrow> json" and de :: "json \<Rightarrow> 'a option" and sound :: "'a \<Rightarrow> bool"
  assumes decodes: "sound x \<Longrightarrow> de (en x) = Some x"
    and not_null: "sound x \<Longrightarrow> en x \<noteq> JNull"
begin

lemma en_inj: "sound x \<Longrightarrow> sound y \<Longrightarrow> en x = en y \<longleftrightarrow> x = y"
  by (metis decodes option.inject)

lemma option_decodes: "pred_option sound x \<Longrightarrow> de_option de (en_option en x) = Some x"
proof (cases x)
  case (Some y)
  assume "pred_option sound x"
  with Some have "en y \<noteq> JNull" "de (en y) = Some y" by (simp_all add: decodes not_null)
  with Some show ?thesis by (cases "en y") simp_all
qed simp

lemma vec_decodes: "list_all sound xs \<Longrightarrow> de_vec de (en_vec en xs) = Some xs"
  by (simp add: en_vec_def list_all_iff comp_def) (use those_map_Some [of xs "\<lambda>x. de (en x)" "\<lambda>x. x"] decodes in simp)

end

interpretation uuid_value: json_codec en_uuid "de_uuid (w_uuid f)" "\<lambda>_. wire_ok f" for f
  by unfold_locales (simp_all add: en_uuid_def wire_ok_def)

interpretation time_value: json_codec "en_time f" "de_time f" "\<lambda>_. wire_ok f" for f
  by unfold_locales (simp_all add: en_time_def wire_ok_def)

interpretation string_value: json_codec JStr de_string "\<lambda>_. True"
  by unfold_locales simp_all

interpretation bool_value: json_codec JBool de_bool "\<lambda>_. True"
  by unfold_locales simp_all

interpretation word_value: json_codec "en_word :: 'n::len word \<Rightarrow> json" de_word "\<lambda>_. True"
  by unfold_locales (simp_all add: en_word_def de_word_def)

interpretation float_value: json_codec json_f64 de_f64 is_finite
proof
  show "de_f64 (json_f64 x) = Some x" "json_f64 x \<noteq> JNull" if "is_finite x" for x
    using that by (cases x; simp)+
qed

context wire_enum
begin

lemma enum_decodes: "de_enum variants ident (en_enum ident v) = Some v"
  by (simp add: en_enum_def decode_iff)

end

lemma headers_decode:
  assumes "listed f m"
  shows "de_headers (en_headers f m) = Some m"
proof -
  let ?es = "w_entries f m"
  have es: "distinct (map fst ?es)" "map_of ?es = m" using assms by (simp_all add: listed_def)
  have fsts: "map (fst \<circ> (\<lambda>(k, v). (k, JStr v))) ?es = map fst ?es" by (simp add: split_def comp_def)
  have "those (map (de_string \<circ> snd \<circ> (\<lambda>(k, v). (k, JStr v))) ?es) = Some (map snd ?es)"
    by (rule those_map_Some) auto
  moreover have "map_of (rev ?es) = m"
    using es map_of_inject_set [of "rev ?es" ?es] by (simp flip: rev_map)
  ultimately show ?thesis
    by (simp add: en_headers_def fsts zip_map_fst_snd comp_assoc)
qed

lemma derived_struct: "distinct (map fst kvs) \<Longrightarrow> derived names (JObj kvs) = Some kvs"
  by (simp add: derived_def struct_fields_distinct)

text \<open>The laws of the fields, for the proofs about structs.\<close>

lemma option_fields:
  "wire_ok f \<Longrightarrow> de_option (de_uuid (w_uuid f)) (en_option en_uuid o1) = Some o1"
  "de_option de_string (en_option JStr o2) = Some o2"
  "wire_ok f \<Longrightarrow> de_option (de_time f) (en_option (en_time f) o3) = Some o3"
  "de_vec de_string (en_vec JStr ss) = Some ss"
  by (simp_all add: uuid_value.option_decodes string_value.option_decodes time_value.option_decodes
      string_value.vec_decodes pred_option_def list_all_iff)

lemma option_enums:
  "de_option (de_enum QuarantineDecision_variants QuarantineDecision_ident) (en_option (en_enum QuarantineDecision_ident) q) = Some q"
  "de_option (de_enum DmarcResult_variants DmarcResult_ident) (en_option (en_enum DmarcResult_ident) m) = Some m"
  by (cases q; simp add: en_enum_def quarantine_decision.decode_iff) (cases m; simp add: en_enum_def dmarc_result.decode_iff)

lemmas codec_laws = uuid_value.decodes time_value.decodes word_value.decodes float_value.decodes headers_decode
  option_fields option_enums nullable_def
  tenant_status.enum_decodes account_status.enum_decodes quarantine_status.enum_decodes quarantine_decision.enum_decodes booking_status.enum_decodes dmarc_result.enum_decodes scoring_action.enum_decodes threat_indicator_type.enum_decodes threat_severity.enum_decodes backup_status.enum_decodes

section \<open>The structs\<close>

definition en_Tenant :: "wire \<Rightarrow> TypesTenant \<Rightarrow> json" where
  "en_Tenant f x = JObj
     [(''id'', en_uuid (ty_id x)),
      (''domain'', JStr (ty_domain x)),
      (''status'', en_enum TenantStatus_ident (ty_status x)),
      (''created_at'', en_time f (ty_created_at x)),
      (''updated_at'', en_time f (ty_updated_at x))]"

definition de_Tenant :: "wire \<Rightarrow> json \<Rightarrow> TypesTenant option" where
  "de_Tenant f d = do {
     kvs \<leftarrow> derived [''id'', ''domain'', ''status'', ''created_at'', ''updated_at''] d;
     id' \<leftarrow> required ''id'' (de_uuid (w_uuid f)) kvs;
     domain' \<leftarrow> required ''domain'' de_string kvs;
     status' \<leftarrow> required ''status'' (de_enum TenantStatus_variants TenantStatus_ident) kvs;
     created_at' \<leftarrow> required ''created_at'' (de_time f) kvs;
     updated_at' \<leftarrow> required ''updated_at'' (de_time f) kvs;
     Some \<lparr>ty_id = id', ty_domain = domain', ty_status = status', ty_created_at = created_at',
       ty_updated_at = updated_at'\<rparr> }"

definition en_Account :: "wire \<Rightarrow> TypesAccount \<Rightarrow> json" where
  "en_Account f x = JObj
     [(''id'', en_uuid (ta_id x)),
      (''tenant_id'', en_uuid (ta_tenant_id x)),
      (''email'', JStr (ta_email x)),
      (''display_name'', JStr (ta_display_name x)),
      (''status'', en_enum AccountStatus_ident (ta_status x)),
      (''mfa_enabled'', JBool (ta_mfa_enabled x)),
      (''created_at'', en_time f (ta_created_at x)),
      (''updated_at'', en_time f (ta_updated_at x))]"

definition de_Account :: "wire \<Rightarrow> json \<Rightarrow> TypesAccount option" where
  "de_Account f d = do {
     kvs \<leftarrow> derived [''id'', ''tenant_id'', ''email'', ''display_name'', ''status'', ''mfa_enabled'',
       ''created_at'', ''updated_at''] d;
     id' \<leftarrow> required ''id'' (de_uuid (w_uuid f)) kvs;
     tenant_id' \<leftarrow> required ''tenant_id'' (de_uuid (w_uuid f)) kvs;
     email' \<leftarrow> required ''email'' de_string kvs;
     display_name' \<leftarrow> required ''display_name'' de_string kvs;
     status' \<leftarrow> required ''status'' (de_enum AccountStatus_variants AccountStatus_ident) kvs;
     mfa_enabled' \<leftarrow> required ''mfa_enabled'' de_bool kvs;
     created_at' \<leftarrow> required ''created_at'' (de_time f) kvs;
     updated_at' \<leftarrow> required ''updated_at'' (de_time f) kvs;
     Some \<lparr>ta_id = id', ta_tenant_id = tenant_id', ta_email = email', ta_display_name = display_name',
       ta_status = status', ta_mfa_enabled = mfa_enabled', ta_created_at = created_at',
       ta_updated_at = updated_at'\<rparr> }"

definition en_MailboxFlags :: "wire \<Rightarrow> MailboxFlags \<Rightarrow> json" where
  "en_MailboxFlags f x = JObj
     [(''has_children'', JBool (mbf_has_children x)),
      (''no_inferiors'', JBool (mbf_no_inferiors x)),
      (''no_select'', JBool (mbf_no_select x)),
      (''marked'', JBool (mbf_marked x)),
      (''unanswered'', JBool (mbf_unanswered x)),
      (''deleted'', JBool (mbf_deleted x))]"

definition de_MailboxFlags :: "wire \<Rightarrow> json \<Rightarrow> MailboxFlags option" where
  "de_MailboxFlags f d = do {
     kvs \<leftarrow> derived [''has_children'', ''no_inferiors'', ''no_select'', ''marked'', ''unanswered'',
       ''deleted''] d;
     has_children' \<leftarrow> required ''has_children'' de_bool kvs;
     no_inferiors' \<leftarrow> required ''no_inferiors'' de_bool kvs;
     no_select' \<leftarrow> required ''no_select'' de_bool kvs;
     marked' \<leftarrow> required ''marked'' de_bool kvs;
     unanswered' \<leftarrow> required ''unanswered'' de_bool kvs;
     deleted' \<leftarrow> required ''deleted'' de_bool kvs;
     Some \<lparr>mbf_has_children = has_children', mbf_no_inferiors = no_inferiors',
       mbf_no_select = no_select', mbf_marked = marked', mbf_unanswered = unanswered', mbf_deleted = deleted'\<rparr> }"

definition en_Mailbox :: "wire \<Rightarrow> Mailbox \<Rightarrow> json" where
  "en_Mailbox f x = JObj
     [(''id'', en_uuid (mb_id x)),
      (''account_id'', en_uuid (mb_account_id x)),
      (''tenant_id'', en_uuid (mb_tenant_id x)),
      (''name'', JStr (mb_name x)),
      (''path'', JStr (mb_path x)),
      (''flags'', en_MailboxFlags f (mb_flags x)),
      (''created_at'', en_time f (mb_created_at x))]"

definition de_Mailbox :: "wire \<Rightarrow> json \<Rightarrow> Mailbox option" where
  "de_Mailbox f d = do {
     kvs \<leftarrow> derived [''id'', ''account_id'', ''tenant_id'', ''name'', ''path'', ''flags'',
       ''created_at''] d;
     id' \<leftarrow> required ''id'' (de_uuid (w_uuid f)) kvs;
     account_id' \<leftarrow> required ''account_id'' (de_uuid (w_uuid f)) kvs;
     tenant_id' \<leftarrow> required ''tenant_id'' (de_uuid (w_uuid f)) kvs;
     name' \<leftarrow> required ''name'' de_string kvs;
     path' \<leftarrow> required ''path'' de_string kvs;
     flags' \<leftarrow> required ''flags'' (de_MailboxFlags f) kvs;
     created_at' \<leftarrow> required ''created_at'' (de_time f) kvs;
     Some \<lparr>mb_id = id', mb_account_id = account_id', mb_tenant_id = tenant_id', mb_name = name',
       mb_path = path', mb_flags = flags', mb_created_at = created_at'\<rparr> }"

definition en_MessageFlags :: "wire \<Rightarrow> MessageFlags \<Rightarrow> json" where
  "en_MessageFlags f x = JObj
     [(''seen'', JBool (mf_seen x)),
      (''answered'', JBool (mf_answered x)),
      (''flagged'', JBool (mf_flagged x)),
      (''deleted'', JBool (mf_deleted x)),
      (''draft'', JBool (mf_draft x))]"

definition de_MessageFlags :: "wire \<Rightarrow> json \<Rightarrow> MessageFlags option" where
  "de_MessageFlags f d = do {
     kvs \<leftarrow> derived [''seen'', ''answered'', ''flagged'', ''deleted'', ''draft''] d;
     seen' \<leftarrow> required ''seen'' de_bool kvs;
     answered' \<leftarrow> required ''answered'' de_bool kvs;
     flagged' \<leftarrow> required ''flagged'' de_bool kvs;
     deleted' \<leftarrow> required ''deleted'' de_bool kvs;
     draft' \<leftarrow> required ''draft'' de_bool kvs;
     Some \<lparr>mf_seen = seen', mf_answered = answered', mf_flagged = flagged', mf_deleted = deleted',
       mf_draft = draft'\<rparr> }"

definition en_Message :: "wire \<Rightarrow> Message \<Rightarrow> json" where
  "en_Message f x = JObj
     [(''id'', en_uuid (msg_id x)),
      (''mailbox_id'', en_uuid (msg_mailbox_id x)),
      (''tenant_id'', en_uuid (msg_tenant_id x)),
      (''uid'', en_word (msg_uid x)),
      (''from'', en_vec JStr (msg_from x)),
      (''to'', en_vec JStr (msg_to x)),
      (''subject'', JStr (msg_subject x)),
      (''received_at'', en_time f (msg_received_at x)),
      (''size_bytes'', en_word (msg_size_bytes x)),
      (''has_attachments'', JBool (msg_has_attachments x)),
      (''flags'', en_MessageFlags f (msg_flags x))]"

definition de_Message :: "wire \<Rightarrow> json \<Rightarrow> Message option" where
  "de_Message f d = do {
     kvs \<leftarrow> derived [''id'', ''mailbox_id'', ''tenant_id'', ''uid'', ''from'', ''to'', ''subject'',
       ''received_at'', ''size_bytes'', ''has_attachments'', ''flags''] d;
     id' \<leftarrow> required ''id'' (de_uuid (w_uuid f)) kvs;
     mailbox_id' \<leftarrow> required ''mailbox_id'' (de_uuid (w_uuid f)) kvs;
     tenant_id' \<leftarrow> required ''tenant_id'' (de_uuid (w_uuid f)) kvs;
     uid' \<leftarrow> required ''uid'' de_word kvs;
     from' \<leftarrow> required ''from'' (de_vec de_string) kvs;
     to' \<leftarrow> required ''to'' (de_vec de_string) kvs;
     subject' \<leftarrow> required ''subject'' de_string kvs;
     received_at' \<leftarrow> required ''received_at'' (de_time f) kvs;
     size_bytes' \<leftarrow> required ''size_bytes'' de_word kvs;
     has_attachments' \<leftarrow> required ''has_attachments'' de_bool kvs;
     flags' \<leftarrow> required ''flags'' (de_MessageFlags f) kvs;
     Some \<lparr>msg_id = id', msg_mailbox_id = mailbox_id', msg_tenant_id = tenant_id', msg_uid = uid',
       msg_from = from', msg_to = to', msg_subject = subject', msg_received_at = received_at',
       msg_size_bytes = size_bytes', msg_has_attachments = has_attachments', msg_flags = flags'\<rparr> }"

definition en_QuarantineItem :: "wire \<Rightarrow> TypesQuarantineItem \<Rightarrow> json" where
  "en_QuarantineItem f x = JObj
     [(''id'', en_uuid (tq_id x)),
      (''tenant_id'', en_uuid (tq_tenant_id x)),
      (''mailbox_id'', en_uuid (tq_mailbox_id x)),
      (''message_id'', en_uuid (tq_message_id x)),
      (''spam_score'', json_f64 (tq_spam_score x)),
      (''virus'', JBool (tq_virus x)),
      (''status'', en_enum QuarantineStatus_ident (tq_status x)),
      (''created_at'', en_time f (tq_created_at x)),
      (''decision'', en_option (en_enum QuarantineDecision_ident) (tq_decision x))]"

definition de_QuarantineItem :: "wire \<Rightarrow> json \<Rightarrow> TypesQuarantineItem option" where
  "de_QuarantineItem f d = do {
     kvs \<leftarrow> derived [''id'', ''tenant_id'', ''mailbox_id'', ''message_id'', ''spam_score'',
       ''virus'', ''status'', ''created_at'', ''decision''] d;
     id' \<leftarrow> required ''id'' (de_uuid (w_uuid f)) kvs;
     tenant_id' \<leftarrow> required ''tenant_id'' (de_uuid (w_uuid f)) kvs;
     mailbox_id' \<leftarrow> required ''mailbox_id'' (de_uuid (w_uuid f)) kvs;
     message_id' \<leftarrow> required ''message_id'' (de_uuid (w_uuid f)) kvs;
     spam_score' \<leftarrow> required ''spam_score'' de_f64 kvs;
     virus' \<leftarrow> required ''virus'' de_bool kvs;
     status' \<leftarrow> required ''status'' (de_enum QuarantineStatus_variants QuarantineStatus_ident) kvs;
     created_at' \<leftarrow> required ''created_at'' (de_time f) kvs;
     decision' \<leftarrow> nullable ''decision'' (de_enum QuarantineDecision_variants QuarantineDecision_ident) kvs;
     Some \<lparr>tq_id = id', tq_tenant_id = tenant_id', tq_mailbox_id = mailbox_id',
       tq_message_id = message_id', tq_spam_score = spam_score', tq_virus = virus', tq_status = status',
       tq_created_at = created_at', tq_decision = decision'\<rparr> }"

definition en_SearchResult :: "wire \<Rightarrow> SearchResult \<Rightarrow> json" where
  "en_SearchResult f x = JObj
     [(''message_id'', en_uuid (sr_message_id x)),
      (''mailbox_id'', en_uuid (sr_mailbox_id x)),
      (''tenant_id'', en_uuid (sr_tenant_id x)),
      (''subject'', JStr (sr_subject x)),
      (''from'', JStr (sr_from x)),
      (''received_at'', en_time f (sr_received_at x)),
      (''snippet'', JStr (sr_snippet x))]"

definition de_SearchResult :: "wire \<Rightarrow> json \<Rightarrow> SearchResult option" where
  "de_SearchResult f d = do {
     kvs \<leftarrow> derived [''message_id'', ''mailbox_id'', ''tenant_id'', ''subject'', ''from'',
       ''received_at'', ''snippet''] d;
     message_id' \<leftarrow> required ''message_id'' (de_uuid (w_uuid f)) kvs;
     mailbox_id' \<leftarrow> required ''mailbox_id'' (de_uuid (w_uuid f)) kvs;
     tenant_id' \<leftarrow> required ''tenant_id'' (de_uuid (w_uuid f)) kvs;
     subject' \<leftarrow> required ''subject'' de_string kvs;
     from' \<leftarrow> required ''from'' de_string kvs;
     received_at' \<leftarrow> required ''received_at'' (de_time f) kvs;
     snippet' \<leftarrow> required ''snippet'' de_string kvs;
     Some \<lparr>sr_message_id = message_id', sr_mailbox_id = mailbox_id', sr_tenant_id = tenant_id',
       sr_subject = subject', sr_from = from', sr_received_at = received_at', sr_snippet = snippet'\<rparr> }"

definition en_BlobRef :: "wire \<Rightarrow> BlobRef \<Rightarrow> json" where
  "en_BlobRef f x = JObj
     [(''id'', en_uuid (blob_id x)),
      (''tenant_id'', en_uuid (blob_tenant_id x)),
      (''content_type'', JStr (blob_content_type x)),
      (''size_bytes'', en_word (blob_size_bytes x)),
      (''etag'', JStr (blob_etag x))]"

definition de_BlobRef :: "wire \<Rightarrow> json \<Rightarrow> BlobRef option" where
  "de_BlobRef f d = do {
     kvs \<leftarrow> derived [''id'', ''tenant_id'', ''content_type'', ''size_bytes'', ''etag''] d;
     id' \<leftarrow> required ''id'' (de_uuid (w_uuid f)) kvs;
     tenant_id' \<leftarrow> required ''tenant_id'' (de_uuid (w_uuid f)) kvs;
     content_type' \<leftarrow> required ''content_type'' de_string kvs;
     size_bytes' \<leftarrow> required ''size_bytes'' de_word kvs;
     etag' \<leftarrow> required ''etag'' de_string kvs;
     Some \<lparr>blob_id = id', blob_tenant_id = tenant_id', blob_content_type = content_type',
       blob_size_bytes = size_bytes', blob_etag = etag'\<rparr> }"

definition en_SmtpConfig :: "wire \<Rightarrow> SmtpConfig \<Rightarrow> json" where
  "en_SmtpConfig f x = JObj
     [(''max_message_size'', en_word (smtp_max_message_size x)),
      (''rate_limit_per_minute'', en_word (smtp_rate_limit_per_minute x)),
      (''require_auth_for_outbound'', JBool (smtp_require_auth_for_outbound x)),
      (''enable_dmarc_reject'', JBool (smtp_enable_dmarc_reject x)),
      (''shadow_copy_enabled'', JBool (smtp_shadow_copy_enabled x))]"

definition de_SmtpConfig :: "wire \<Rightarrow> json \<Rightarrow> SmtpConfig option" where
  "de_SmtpConfig f d = do {
     kvs \<leftarrow> derived [''max_message_size'', ''rate_limit_per_minute'', ''require_auth_for_outbound'',
       ''enable_dmarc_reject'', ''shadow_copy_enabled''] d;
     max_message_size' \<leftarrow> required ''max_message_size'' de_word kvs;
     rate_limit_per_minute' \<leftarrow> required ''rate_limit_per_minute'' de_word kvs;
     require_auth_for_outbound' \<leftarrow> required ''require_auth_for_outbound'' de_bool kvs;
     enable_dmarc_reject' \<leftarrow> required ''enable_dmarc_reject'' de_bool kvs;
     shadow_copy_enabled' \<leftarrow> required ''shadow_copy_enabled'' de_bool kvs;
     Some \<lparr>smtp_max_message_size = max_message_size',
       smtp_rate_limit_per_minute = rate_limit_per_minute',
       smtp_require_auth_for_outbound = require_auth_for_outbound',
       smtp_enable_dmarc_reject = enable_dmarc_reject', smtp_shadow_copy_enabled = shadow_copy_enabled'\<rparr> }"

definition en_MailboxConfig :: "wire \<Rightarrow> MailboxConfig \<Rightarrow> json" where
  "en_MailboxConfig f x = JObj
     [(''max_storage_bytes'', en_word (mbc_max_storage_bytes x)),
      (''enable_imap'', JBool (mbc_enable_imap x)),
      (''enable_jmap'', JBool (mbc_enable_jmap x)),
      (''enable_caldav'', JBool (mbc_enable_caldav x)),
      (''enable_carddav'', JBool (mbc_enable_carddav x)),
      (''enable_sieve'', JBool (mbc_enable_sieve x)),
      (''default_quota_mb'', en_word (mbc_default_quota_mb x))]"

definition de_MailboxConfig :: "wire \<Rightarrow> json \<Rightarrow> MailboxConfig option" where
  "de_MailboxConfig f d = do {
     kvs \<leftarrow> derived [''max_storage_bytes'', ''enable_imap'', ''enable_jmap'', ''enable_caldav'',
       ''enable_carddav'', ''enable_sieve'', ''default_quota_mb''] d;
     max_storage_bytes' \<leftarrow> required ''max_storage_bytes'' de_word kvs;
     enable_imap' \<leftarrow> required ''enable_imap'' de_bool kvs;
     enable_jmap' \<leftarrow> required ''enable_jmap'' de_bool kvs;
     enable_caldav' \<leftarrow> required ''enable_caldav'' de_bool kvs;
     enable_carddav' \<leftarrow> required ''enable_carddav'' de_bool kvs;
     enable_sieve' \<leftarrow> required ''enable_sieve'' de_bool kvs;
     default_quota_mb' \<leftarrow> required ''default_quota_mb'' de_word kvs;
     Some \<lparr>mbc_max_storage_bytes = max_storage_bytes', mbc_enable_imap = enable_imap',
       mbc_enable_jmap = enable_jmap', mbc_enable_caldav = enable_caldav',
       mbc_enable_carddav = enable_carddav', mbc_enable_sieve = enable_sieve',
       mbc_default_quota_mb = default_quota_mb'\<rparr> }"

definition en_RspamdConfig :: "wire \<Rightarrow> TypesRspamdConfig \<Rightarrow> json" where
  "en_RspamdConfig f x = JObj
     [(''bayes_enabled'', JBool (rsc_bayes_enabled x)),
      (''neutral_on_spam'', JBool (rsc_neutral_on_spam x)),
      (''quarantine_on_virus'', JBool (rsc_quarantine_on_virus x)),
      (''threat_intel_enabled'', JBool (rsc_threat_intel_enabled x))]"

definition de_RspamdConfig :: "wire \<Rightarrow> json \<Rightarrow> TypesRspamdConfig option" where
  "de_RspamdConfig f d = do {
     kvs \<leftarrow> derived [''bayes_enabled'', ''neutral_on_spam'', ''quarantine_on_virus'',
       ''threat_intel_enabled''] d;
     bayes_enabled' \<leftarrow> required ''bayes_enabled'' de_bool kvs;
     neutral_on_spam' \<leftarrow> required ''neutral_on_spam'' de_bool kvs;
     quarantine_on_virus' \<leftarrow> required ''quarantine_on_virus'' de_bool kvs;
     threat_intel_enabled' \<leftarrow> required ''threat_intel_enabled'' de_bool kvs;
     Some \<lparr>rsc_bayes_enabled = bayes_enabled', rsc_neutral_on_spam = neutral_on_spam',
       rsc_quarantine_on_virus = quarantine_on_virus', rsc_threat_intel_enabled = threat_intel_enabled'\<rparr> }"

definition en_TenantResourceQuota :: "wire \<Rightarrow> TenantResourceQuota \<Rightarrow> json" where
  "en_TenantResourceQuota f x = JObj
     [(''max_storage_bytes'', en_word (trq_max_storage_bytes x)),
      (''max_accounts'', en_word (trq_max_accounts x)),
      (''max_domains'', en_word (trq_max_domains x)),
      (''max_api_requests_per_minute'', en_word (trq_max_api_requests_per_minute x)),
      (''max_concurrent_connections'', en_word (trq_max_concurrent_connections x))]"

definition de_TenantResourceQuota :: "wire \<Rightarrow> json \<Rightarrow> TenantResourceQuota option" where
  "de_TenantResourceQuota f d = do {
     kvs \<leftarrow> derived [''max_storage_bytes'', ''max_accounts'', ''max_domains'',
       ''max_api_requests_per_minute'', ''max_concurrent_connections''] d;
     max_storage_bytes' \<leftarrow> required ''max_storage_bytes'' de_word kvs;
     max_accounts' \<leftarrow> required ''max_accounts'' de_word kvs;
     max_domains' \<leftarrow> required ''max_domains'' de_word kvs;
     max_api_requests_per_minute' \<leftarrow> required ''max_api_requests_per_minute'' de_word kvs;
     max_concurrent_connections' \<leftarrow> required ''max_concurrent_connections'' de_word kvs;
     Some \<lparr>trq_max_storage_bytes = max_storage_bytes', trq_max_accounts = max_accounts',
       trq_max_domains = max_domains', trq_max_api_requests_per_minute = max_api_requests_per_minute',
       trq_max_concurrent_connections = max_concurrent_connections'\<rparr> }"

definition en_TenantConfig :: "wire \<Rightarrow> TenantConfig \<Rightarrow> json" where
  "en_TenantConfig f x = JObj
     [(''tenant_id'', en_uuid (tc_tenant_id x)),
      (''domain'', JStr (tc_domain x)),
      (''policy_profile'', JStr (tc_policy_profile x)),
      (''smtp_config'', en_SmtpConfig f (tc_smtp_config x)),
      (''mailbox_config'', en_MailboxConfig f (tc_mailbox_config x)),
      (''rspamd_config'', en_RspamdConfig f (tc_rspamd_config x)),
      (''tenant_resource_quota'', en_TenantResourceQuota f (tc_tenant_resource_quota x))]"

definition de_TenantConfig :: "wire \<Rightarrow> json \<Rightarrow> TenantConfig option" where
  "de_TenantConfig f d = do {
     kvs \<leftarrow> derived [''tenant_id'', ''domain'', ''policy_profile'', ''smtp_config'',
       ''mailbox_config'', ''rspamd_config'', ''tenant_resource_quota''] d;
     tenant_id' \<leftarrow> required ''tenant_id'' (de_uuid (w_uuid f)) kvs;
     domain' \<leftarrow> required ''domain'' de_string kvs;
     policy_profile' \<leftarrow> required ''policy_profile'' de_string kvs;
     smtp_config' \<leftarrow> required ''smtp_config'' (de_SmtpConfig f) kvs;
     mailbox_config' \<leftarrow> required ''mailbox_config'' (de_MailboxConfig f) kvs;
     rspamd_config' \<leftarrow> required ''rspamd_config'' (de_RspamdConfig f) kvs;
     tenant_resource_quota' \<leftarrow> required ''tenant_resource_quota'' (de_TenantResourceQuota f) kvs;
     Some \<lparr>tc_tenant_id = tenant_id', tc_domain = domain', tc_policy_profile = policy_profile',
       tc_smtp_config = smtp_config', tc_mailbox_config = mailbox_config', tc_rspamd_config = rspamd_config',
       tc_tenant_resource_quota = tenant_resource_quota'\<rparr> }"

definition en_RawMessage :: "wire \<Rightarrow> RawMessage \<Rightarrow> json" where
  "en_RawMessage f x = JObj
     [(''id'', en_uuid (raw_id x)),
      (''from'', en_vec JStr (raw_from x)),
      (''to'', en_vec JStr (raw_to x)),
      (''cc'', en_vec JStr (raw_cc x)),
      (''bcc'', en_vec JStr (raw_bcc x)),
      (''subject'', JStr (raw_subject x)),
      (''body_html'', en_option JStr (raw_body_html x)),
      (''body_text'', en_option JStr (raw_body_text x)),
      (''headers'', en_headers f (raw_headers x)),
      (''received_at'', en_time f (raw_received_at x))]"

definition de_RawMessage :: "wire \<Rightarrow> json \<Rightarrow> RawMessage option" where
  "de_RawMessage f d = do {
     kvs \<leftarrow> derived [''id'', ''from'', ''to'', ''cc'', ''bcc'', ''subject'', ''body_html'',
       ''body_text'', ''headers'', ''received_at''] d;
     id' \<leftarrow> required ''id'' (de_uuid (w_uuid f)) kvs;
     from' \<leftarrow> required ''from'' (de_vec de_string) kvs;
     to' \<leftarrow> required ''to'' (de_vec de_string) kvs;
     cc' \<leftarrow> required ''cc'' (de_vec de_string) kvs;
     bcc' \<leftarrow> required ''bcc'' (de_vec de_string) kvs;
     subject' \<leftarrow> required ''subject'' de_string kvs;
     body_html' \<leftarrow> nullable ''body_html'' de_string kvs;
     body_text' \<leftarrow> nullable ''body_text'' de_string kvs;
     headers' \<leftarrow> required ''headers'' de_headers kvs;
     received_at' \<leftarrow> required ''received_at'' (de_time f) kvs;
     Some \<lparr>raw_id = id', raw_from = from', raw_to = to', raw_cc = cc', raw_bcc = bcc',
       raw_subject = subject', raw_body_html = body_html', raw_body_text = body_text', raw_headers = headers',
       raw_received_at = received_at'\<rparr> }"

definition en_Attachment :: "wire \<Rightarrow> Attachment \<Rightarrow> json" where
  "en_Attachment f x = JObj
     [(''id'', en_uuid (att_id x)),
      (''message_id'', en_uuid (att_message_id x)),
      (''filename'', JStr (att_filename x)),
      (''content_type'', JStr (att_content_type x)),
      (''size_bytes'', en_word (att_size_bytes x)),
      (''blob_key'', JStr (att_blob_key x))]"

definition de_Attachment :: "wire \<Rightarrow> json \<Rightarrow> Attachment option" where
  "de_Attachment f d = do {
     kvs \<leftarrow> derived [''id'', ''message_id'', ''filename'', ''content_type'', ''size_bytes'',
       ''blob_key''] d;
     id' \<leftarrow> required ''id'' (de_uuid (w_uuid f)) kvs;
     message_id' \<leftarrow> required ''message_id'' (de_uuid (w_uuid f)) kvs;
     filename' \<leftarrow> required ''filename'' de_string kvs;
     content_type' \<leftarrow> required ''content_type'' de_string kvs;
     size_bytes' \<leftarrow> required ''size_bytes'' de_word kvs;
     blob_key' \<leftarrow> required ''blob_key'' de_string kvs;
     Some \<lparr>att_id = id', att_message_id = message_id', att_filename = filename',
       att_content_type = content_type', att_size_bytes = size_bytes', att_blob_key = blob_key'\<rparr> }"

definition en_CalendarEvent :: "wire \<Rightarrow> CalendarEvent \<Rightarrow> json" where
  "en_CalendarEvent f x = JObj
     [(''id'', en_uuid (cal_id x)),
      (''mailbox_id'', en_uuid (cal_mailbox_id x)),
      (''summary'', JStr (cal_summary x)),
      (''description'', en_option JStr (cal_description x)),
      (''location'', en_option JStr (cal_location x)),
      (''start'', en_time f (cal_start x)),
      (''end'', en_time f (cal_end x)),
      (''organizer'', JStr (cal_organizer x)),
      (''attendees'', en_vec JStr (cal_attendees x))]"

definition de_CalendarEvent :: "wire \<Rightarrow> json \<Rightarrow> CalendarEvent option" where
  "de_CalendarEvent f d = do {
     kvs \<leftarrow> derived [''id'', ''mailbox_id'', ''summary'', ''description'', ''location'', ''start'',
       ''end'', ''organizer'', ''attendees''] d;
     id' \<leftarrow> required ''id'' (de_uuid (w_uuid f)) kvs;
     mailbox_id' \<leftarrow> required ''mailbox_id'' (de_uuid (w_uuid f)) kvs;
     summary' \<leftarrow> required ''summary'' de_string kvs;
     description' \<leftarrow> nullable ''description'' de_string kvs;
     location' \<leftarrow> nullable ''location'' de_string kvs;
     start' \<leftarrow> required ''start'' (de_time f) kvs;
     end' \<leftarrow> required ''end'' (de_time f) kvs;
     organizer' \<leftarrow> required ''organizer'' de_string kvs;
     attendees' \<leftarrow> required ''attendees'' (de_vec de_string) kvs;
     Some \<lparr>cal_id = id', cal_mailbox_id = mailbox_id', cal_summary = summary',
       cal_description = description', cal_location = location', cal_start = start', cal_end = end',
       cal_organizer = organizer', cal_attendees = attendees'\<rparr> }"

definition en_Contact :: "wire \<Rightarrow> Contact \<Rightarrow> json" where
  "en_Contact f x = JObj
     [(''id'', en_uuid (con_id x)),
      (''mailbox_id'', en_uuid (con_mailbox_id x)),
      (''first_name'', JStr (con_first_name x)),
      (''last_name'', JStr (con_last_name x)),
      (''email'', JStr (con_email x)),
      (''phone'', en_option JStr (con_phone x))]"

definition de_Contact :: "wire \<Rightarrow> json \<Rightarrow> Contact option" where
  "de_Contact f d = do {
     kvs \<leftarrow> derived [''id'', ''mailbox_id'', ''first_name'', ''last_name'', ''email'', ''phone''] d;
     id' \<leftarrow> required ''id'' (de_uuid (w_uuid f)) kvs;
     mailbox_id' \<leftarrow> required ''mailbox_id'' (de_uuid (w_uuid f)) kvs;
     first_name' \<leftarrow> required ''first_name'' de_string kvs;
     last_name' \<leftarrow> required ''last_name'' de_string kvs;
     email' \<leftarrow> required ''email'' de_string kvs;
     phone' \<leftarrow> nullable ''phone'' de_string kvs;
     Some \<lparr>con_id = id', con_mailbox_id = mailbox_id', con_first_name = first_name',
       con_last_name = last_name', con_email = email', con_phone = phone'\<rparr> }"

definition en_Resource :: "wire \<Rightarrow> Resource \<Rightarrow> json" where
  "en_Resource f x = JObj
     [(''id'', en_uuid (res_id x)),
      (''tenant_id'', en_uuid (res_tenant_id x)),
      (''name'', JStr (res_name x)),
      (''description'', en_option JStr (res_description x)),
      (''capacity'', en_word (res_capacity x)),
      (''location'', en_option JStr (res_location x))]"

definition de_Resource :: "wire \<Rightarrow> json \<Rightarrow> Resource option" where
  "de_Resource f d = do {
     kvs \<leftarrow> derived [''id'', ''tenant_id'', ''name'', ''description'', ''capacity'', ''location''] d;
     id' \<leftarrow> required ''id'' (de_uuid (w_uuid f)) kvs;
     tenant_id' \<leftarrow> required ''tenant_id'' (de_uuid (w_uuid f)) kvs;
     name' \<leftarrow> required ''name'' de_string kvs;
     description' \<leftarrow> nullable ''description'' de_string kvs;
     capacity' \<leftarrow> required ''capacity'' de_word kvs;
     location' \<leftarrow> nullable ''location'' de_string kvs;
     Some \<lparr>res_id = id', res_tenant_id = tenant_id', res_name = name', res_description = description',
       res_capacity = capacity', res_location = location'\<rparr> }"

definition en_ResourceBooking :: "wire \<Rightarrow> ResourceBooking \<Rightarrow> json" where
  "en_ResourceBooking f x = JObj
     [(''id'', en_uuid (bk_id x)),
      (''resource_id'', en_uuid (bk_resource_id x)),
      (''event_id'', en_uuid (bk_event_id x)),
      (''start'', en_time f (bk_start x)),
      (''end'', en_time f (bk_end x)),
      (''status'', en_enum BookingStatus_ident (bk_status x))]"

definition de_ResourceBooking :: "wire \<Rightarrow> json \<Rightarrow> ResourceBooking option" where
  "de_ResourceBooking f d = do {
     kvs \<leftarrow> derived [''id'', ''resource_id'', ''event_id'', ''start'', ''end'', ''status''] d;
     id' \<leftarrow> required ''id'' (de_uuid (w_uuid f)) kvs;
     resource_id' \<leftarrow> required ''resource_id'' (de_uuid (w_uuid f)) kvs;
     event_id' \<leftarrow> required ''event_id'' (de_uuid (w_uuid f)) kvs;
     start' \<leftarrow> required ''start'' (de_time f) kvs;
     end' \<leftarrow> required ''end'' (de_time f) kvs;
     status' \<leftarrow> required ''status'' (de_enum BookingStatus_variants BookingStatus_ident) kvs;
     Some \<lparr>bk_id = id', bk_resource_id = resource_id', bk_event_id = event_id', bk_start = start',
       bk_end = end', bk_status = status'\<rparr> }"

definition en_SieveScript :: "wire \<Rightarrow> SieveScript \<Rightarrow> json" where
  "en_SieveScript f x = JObj
     [(''id'', en_uuid (sv_id x)),
      (''mailbox_id'', en_uuid (sv_mailbox_id x)),
      (''name'', JStr (sv_name x)),
      (''script'', JStr (sv_script x)),
      (''active'', JBool (sv_active x))]"

definition de_SieveScript :: "wire \<Rightarrow> json \<Rightarrow> SieveScript option" where
  "de_SieveScript f d = do {
     kvs \<leftarrow> derived [''id'', ''mailbox_id'', ''name'', ''script'', ''active''] d;
     id' \<leftarrow> required ''id'' (de_uuid (w_uuid f)) kvs;
     mailbox_id' \<leftarrow> required ''mailbox_id'' (de_uuid (w_uuid f)) kvs;
     name' \<leftarrow> required ''name'' de_string kvs;
     script' \<leftarrow> required ''script'' de_string kvs;
     active' \<leftarrow> required ''active'' de_bool kvs;
     Some \<lparr>sv_id = id', sv_mailbox_id = mailbox_id', sv_name = name', sv_script = script',
       sv_active = active'\<rparr> }"

definition en_ScoringResult :: "wire \<Rightarrow> ScoringResult \<Rightarrow> json" where
  "en_ScoringResult f x = JObj
     [(''message_id'', en_uuid (sc_message_id x)),
      (''tenant_id'', en_uuid (sc_tenant_id x)),
      (''spam_score'', json_f64 (sc_spam_score x)),
      (''spam_threshold'', json_f64 (sc_spam_threshold x)),
      (''is_spam'', JBool (sc_is_spam x)),
      (''virus'', JBool (sc_virus x)),
      (''phishing_score'', json_f64 (sc_phishing_score x)),
      (''dmarc_result'', en_option (en_enum DmarcResult_ident) (sc_dmarc_result x)),
      (''action'', en_enum ScoringAction_ident (sc_action x))]"

definition de_ScoringResult :: "wire \<Rightarrow> json \<Rightarrow> ScoringResult option" where
  "de_ScoringResult f d = do {
     kvs \<leftarrow> derived [''message_id'', ''tenant_id'', ''spam_score'', ''spam_threshold'', ''is_spam'',
       ''virus'', ''phishing_score'', ''dmarc_result'', ''action''] d;
     message_id' \<leftarrow> required ''message_id'' (de_uuid (w_uuid f)) kvs;
     tenant_id' \<leftarrow> required ''tenant_id'' (de_uuid (w_uuid f)) kvs;
     spam_score' \<leftarrow> required ''spam_score'' de_f64 kvs;
     spam_threshold' \<leftarrow> required ''spam_threshold'' de_f64 kvs;
     is_spam' \<leftarrow> required ''is_spam'' de_bool kvs;
     virus' \<leftarrow> required ''virus'' de_bool kvs;
     phishing_score' \<leftarrow> required ''phishing_score'' de_f64 kvs;
     dmarc_result' \<leftarrow> nullable ''dmarc_result'' (de_enum DmarcResult_variants DmarcResult_ident) kvs;
     action' \<leftarrow> required ''action'' (de_enum ScoringAction_variants ScoringAction_ident) kvs;
     Some \<lparr>sc_message_id = message_id', sc_tenant_id = tenant_id', sc_spam_score = spam_score',
       sc_spam_threshold = spam_threshold', sc_is_spam = is_spam', sc_virus = virus',
       sc_phishing_score = phishing_score', sc_dmarc_result = dmarc_result', sc_action = action'\<rparr> }"

definition en_ThreatIntelObservation :: "wire \<Rightarrow> ThreatIntelObservation \<Rightarrow> json" where
  "en_ThreatIntelObservation f x = JObj
     [(''id'', en_uuid (tio_id x)),
      (''tenant_id'', en_uuid (tio_tenant_id x)),
      (''indicator_type'', en_enum ThreatIndicatorType_ident (tio_indicator_type x)),
      (''indicator_value'', JStr (tio_indicator_value x)),
      (''severity'', en_enum ThreatSeverity_ident (tio_severity x)),
      (''source'', JStr (tio_source x)),
      (''observed_at'', en_time f (tio_observed_at x))]"

definition de_ThreatIntelObservation :: "wire \<Rightarrow> json \<Rightarrow> ThreatIntelObservation option" where
  "de_ThreatIntelObservation f d = do {
     kvs \<leftarrow> derived [''id'', ''tenant_id'', ''indicator_type'', ''indicator_value'', ''severity'',
       ''source'', ''observed_at''] d;
     id' \<leftarrow> required ''id'' (de_uuid (w_uuid f)) kvs;
     tenant_id' \<leftarrow> required ''tenant_id'' (de_uuid (w_uuid f)) kvs;
     indicator_type' \<leftarrow> required ''indicator_type'' (de_enum ThreatIndicatorType_variants ThreatIndicatorType_ident) kvs;
     indicator_value' \<leftarrow> required ''indicator_value'' de_string kvs;
     severity' \<leftarrow> required ''severity'' (de_enum ThreatSeverity_variants ThreatSeverity_ident) kvs;
     source' \<leftarrow> required ''source'' de_string kvs;
     observed_at' \<leftarrow> required ''observed_at'' (de_time f) kvs;
     Some \<lparr>tio_id = id', tio_tenant_id = tenant_id', tio_indicator_type = indicator_type',
       tio_indicator_value = indicator_value', tio_severity = severity', tio_source = source',
       tio_observed_at = observed_at'\<rparr> }"

definition en_BackupJob :: "wire \<Rightarrow> BackupJob \<Rightarrow> json" where
  "en_BackupJob f x = JObj
     [(''id'', en_uuid (bj_id x)),
      (''tenant_id'', en_uuid (bj_tenant_id x)),
      (''account_id'', en_option en_uuid (bj_account_id x)),
      (''status'', en_enum BackupStatus_ident (bj_status x)),
      (''progress_percent'', en_word (bj_progress_percent x)),
      (''message_count'', en_word (bj_message_count x)),
      (''message_progress'', en_word (bj_message_progress x)),
      (''started_at'', en_time f (bj_started_at x)),
      (''completed_at'', en_option (en_time f) (bj_completed_at x))]"

definition de_BackupJob :: "wire \<Rightarrow> json \<Rightarrow> BackupJob option" where
  "de_BackupJob f d = do {
     kvs \<leftarrow> derived [''id'', ''tenant_id'', ''account_id'', ''status'', ''progress_percent'',
       ''message_count'', ''message_progress'', ''started_at'', ''completed_at''] d;
     id' \<leftarrow> required ''id'' (de_uuid (w_uuid f)) kvs;
     tenant_id' \<leftarrow> required ''tenant_id'' (de_uuid (w_uuid f)) kvs;
     account_id' \<leftarrow> nullable ''account_id'' (de_uuid (w_uuid f)) kvs;
     status' \<leftarrow> required ''status'' (de_enum BackupStatus_variants BackupStatus_ident) kvs;
     progress_percent' \<leftarrow> required ''progress_percent'' de_word kvs;
     message_count' \<leftarrow> required ''message_count'' de_word kvs;
     message_progress' \<leftarrow> required ''message_progress'' de_word kvs;
     started_at' \<leftarrow> required ''started_at'' (de_time f) kvs;
     completed_at' \<leftarrow> nullable ''completed_at'' (de_time f) kvs;
     Some \<lparr>bj_id = id', bj_tenant_id = tenant_id', bj_account_id = account_id', bj_status = status',
       bj_progress_percent = progress_percent', bj_message_count = message_count',
       bj_message_progress = message_progress', bj_started_at = started_at', bj_completed_at = completed_at'\<rparr> }"

definition en_TokenInfo :: "wire \<Rightarrow> TokenInfo \<Rightarrow> json" where
  "en_TokenInfo f x = JObj
     [(''tenant_id'', en_uuid (ti_tenant_id x)),
      (''account_id'', en_uuid (ti_account_id x)),
      (''email'', JStr (ti_email x)),
      (''display_name'', JStr (ti_display_name x)),
      (''is_admin'', JBool (ti_is_admin x)),
      (''mfa_enabled'', JBool (ti_mfa_enabled x))]"

definition de_TokenInfo :: "wire \<Rightarrow> json \<Rightarrow> TokenInfo option" where
  "de_TokenInfo f d = do {
     kvs \<leftarrow> derived [''tenant_id'', ''account_id'', ''email'', ''display_name'', ''is_admin'',
       ''mfa_enabled''] d;
     tenant_id' \<leftarrow> required ''tenant_id'' (de_uuid (w_uuid f)) kvs;
     account_id' \<leftarrow> required ''account_id'' (de_uuid (w_uuid f)) kvs;
     email' \<leftarrow> required ''email'' de_string kvs;
     display_name' \<leftarrow> required ''display_name'' de_string kvs;
     is_admin' \<leftarrow> required ''is_admin'' de_bool kvs;
     mfa_enabled' \<leftarrow> required ''mfa_enabled'' de_bool kvs;
     Some \<lparr>ti_tenant_id = tenant_id', ti_account_id = account_id', ti_email = email',
       ti_display_name = display_name', ti_is_admin = is_admin', ti_mfa_enabled = mfa_enabled'\<rparr> }"

definition en_AppPassword :: "wire \<Rightarrow> AppPassword \<Rightarrow> json" where
  "en_AppPassword f x = JObj
     [(''id'', en_uuid (ap_id x)),
      (''account_id'', en_uuid (ap_account_id x)),
      (''tenant_id'', en_uuid (ap_tenant_id x)),
      (''name'', JStr (ap_name x)),
      (''created_at'', en_time f (ap_created_at x)),
      (''expires_at'', en_option (en_time f) (ap_expires_at x)),
      (''last_used_at'', en_option (en_time f) (ap_last_used_at x))]"

definition de_AppPassword :: "wire \<Rightarrow> json \<Rightarrow> AppPassword option" where
  "de_AppPassword f d = do {
     kvs \<leftarrow> derived [''id'', ''account_id'', ''tenant_id'', ''name'', ''created_at'', ''expires_at'',
       ''last_used_at''] d;
     id' \<leftarrow> required ''id'' (de_uuid (w_uuid f)) kvs;
     account_id' \<leftarrow> required ''account_id'' (de_uuid (w_uuid f)) kvs;
     tenant_id' \<leftarrow> required ''tenant_id'' (de_uuid (w_uuid f)) kvs;
     name' \<leftarrow> required ''name'' de_string kvs;
     created_at' \<leftarrow> required ''created_at'' (de_time f) kvs;
     expires_at' \<leftarrow> nullable ''expires_at'' (de_time f) kvs;
     last_used_at' \<leftarrow> nullable ''last_used_at'' (de_time f) kvs;
     Some \<lparr>ap_id = id', ap_account_id = account_id', ap_tenant_id = tenant_id', ap_name = name',
       ap_created_at = created_at', ap_expires_at = expires_at', ap_last_used_at = last_used_at'\<rparr> }"

definition en_SessionInfo :: "wire \<Rightarrow> SessionInfo \<Rightarrow> json" where
  "en_SessionInfo f x = JObj
     [(''id'', en_uuid (si_id x)),
      (''account_id'', en_uuid (si_account_id x)),
      (''tenant_id'', en_uuid (si_tenant_id x)),
      (''device'', en_option JStr (si_device x)),
      (''ip'', en_option JStr (si_ip x)),
      (''created_at'', en_time f (si_created_at x)),
      (''last_activity'', en_time f (si_last_activity x)),
      (''is_active'', JBool (si_is_active x))]"

definition de_SessionInfo :: "wire \<Rightarrow> json \<Rightarrow> SessionInfo option" where
  "de_SessionInfo f d = do {
     kvs \<leftarrow> derived [''id'', ''account_id'', ''tenant_id'', ''device'', ''ip'', ''created_at'',
       ''last_activity'', ''is_active''] d;
     id' \<leftarrow> required ''id'' (de_uuid (w_uuid f)) kvs;
     account_id' \<leftarrow> required ''account_id'' (de_uuid (w_uuid f)) kvs;
     tenant_id' \<leftarrow> required ''tenant_id'' (de_uuid (w_uuid f)) kvs;
     device' \<leftarrow> nullable ''device'' de_string kvs;
     ip' \<leftarrow> nullable ''ip'' de_string kvs;
     created_at' \<leftarrow> required ''created_at'' (de_time f) kvs;
     last_activity' \<leftarrow> required ''last_activity'' (de_time f) kvs;
     is_active' \<leftarrow> required ''is_active'' de_bool kvs;
     Some \<lparr>si_id = id', si_account_id = account_id', si_tenant_id = tenant_id', si_device = device',
       si_ip = ip', si_created_at = created_at', si_last_activity = last_activity', si_is_active = is_active'\<rparr> }"

definition en_ProviderContext :: "wire \<Rightarrow> ProviderContext \<Rightarrow> json" where
  "en_ProviderContext f x = JObj
     [(''tenant_id'', en_uuid (ctx_tenant_id x)),
      (''account_id'', en_option en_uuid (ctx_account_id x))]"

definition de_ProviderContext :: "wire \<Rightarrow> json \<Rightarrow> ProviderContext option" where
  "de_ProviderContext f d = do {
     kvs \<leftarrow> derived [''tenant_id'', ''account_id''] d;
     tenant_id' \<leftarrow> required ''tenant_id'' (de_uuid (w_uuid f)) kvs;
     account_id' \<leftarrow> nullable ''account_id'' (de_uuid (w_uuid f)) kvs;
     Some \<lparr>ctx_tenant_id = tenant_id', ctx_account_id = account_id'\<rparr> }"

section \<open>Pages\<close>

text \<open>The generic answers, over any type with a JSON form.\<close>

definition en_Page :: "('a \<Rightarrow> json) \<Rightarrow> 'a Page \<Rightarrow> json" where
  "en_Page en x = JObj
     [(''items'', en_vec en (pg_items x)),
      (''next_cursor'', en_option JStr (pg_next_cursor x)),
      (''has_more'', JBool (pg_has_more x))]"

definition de_Page :: "(json \<Rightarrow> 'a option) \<Rightarrow> json \<Rightarrow> 'a Page option" where
  "de_Page de d = do {
     kvs \<leftarrow> derived [''items'', ''next_cursor'', ''has_more''] d;
     items' \<leftarrow> required ''items'' (de_vec de) kvs;
     next_cursor' \<leftarrow> nullable ''next_cursor'' de_string kvs;
     has_more' \<leftarrow> required ''has_more'' de_bool kvs;
     Some \<lparr>pg_items = items', pg_next_cursor = next_cursor', pg_has_more = has_more'\<rparr> }"

definition en_ListResponse :: "('a \<Rightarrow> json) \<Rightarrow> 'a ListResponse \<Rightarrow> json" where
  "en_ListResponse en x = JObj [(''items'', en_vec en (ls_items x))]"

definition de_ListResponse :: "(json \<Rightarrow> 'a option) \<Rightarrow> json \<Rightarrow> 'a ListResponse option" where
  "de_ListResponse de d = do {
     kvs \<leftarrow> derived [''items''] d;
     items' \<leftarrow> required ''items'' (de_vec de) kvs;
     Some \<lparr>ls_items = items'\<rparr> }"

context json_codec
begin

lemma page_decodes: "list_all sound (pg_items x) \<Longrightarrow> de_Page de (en_Page en x) = Some x"
  by (simp add: en_Page_def de_Page_def derived_struct codec_laws vec_decodes)

lemma list_response_decodes: "list_all sound (ls_items x) \<Longrightarrow> de_ListResponse de (en_ListResponse en x) = Some x"
  by (simp add: en_ListResponse_def de_ListResponse_def derived_struct vec_decodes)

end

section \<open>Every struct keeps its interface\<close>

interpretation tenant_doc: json_codec "en_Tenant f" "de_Tenant f" "\<lambda>x. wire_ok f" for f
  by unfold_locales (auto simp: en_Tenant_def de_Tenant_def derived_struct codec_laws)

interpretation account_doc: json_codec "en_Account f" "de_Account f" "\<lambda>x. wire_ok f" for f
  by unfold_locales (auto simp: en_Account_def de_Account_def derived_struct codec_laws)

interpretation mailbox_flags_doc: json_codec "en_MailboxFlags f" "de_MailboxFlags f" "\<lambda>x. wire_ok f" for f
  by unfold_locales (auto simp: en_MailboxFlags_def de_MailboxFlags_def derived_struct codec_laws)

interpretation mailbox_doc: json_codec "en_Mailbox f" "de_Mailbox f" "\<lambda>x. wire_ok f" for f
  by unfold_locales (auto simp: en_Mailbox_def de_Mailbox_def derived_struct codec_laws mailbox_flags_doc.decodes)

interpretation message_flags_doc: json_codec "en_MessageFlags f" "de_MessageFlags f" "\<lambda>x. wire_ok f" for f
  by unfold_locales (auto simp: en_MessageFlags_def de_MessageFlags_def derived_struct codec_laws)

interpretation message_doc: json_codec "en_Message f" "de_Message f" "\<lambda>x. wire_ok f" for f
  by unfold_locales (auto simp: en_Message_def de_Message_def derived_struct codec_laws message_flags_doc.decodes)

interpretation quarantine_item_doc: json_codec "en_QuarantineItem f" "de_QuarantineItem f" "\<lambda>x. wire_ok f \<and> is_finite (tq_spam_score x)" for f
  by unfold_locales (auto simp: en_QuarantineItem_def de_QuarantineItem_def derived_struct codec_laws)

interpretation search_result_doc: json_codec "en_SearchResult f" "de_SearchResult f" "\<lambda>x. wire_ok f" for f
  by unfold_locales (auto simp: en_SearchResult_def de_SearchResult_def derived_struct codec_laws)

interpretation blob_ref_doc: json_codec "en_BlobRef f" "de_BlobRef f" "\<lambda>x. wire_ok f" for f
  by unfold_locales (auto simp: en_BlobRef_def de_BlobRef_def derived_struct codec_laws)

interpretation smtp_config_doc: json_codec "en_SmtpConfig f" "de_SmtpConfig f" "\<lambda>x. wire_ok f" for f
  by unfold_locales (auto simp: en_SmtpConfig_def de_SmtpConfig_def derived_struct codec_laws)

interpretation mailbox_config_doc: json_codec "en_MailboxConfig f" "de_MailboxConfig f" "\<lambda>x. wire_ok f" for f
  by unfold_locales (auto simp: en_MailboxConfig_def de_MailboxConfig_def derived_struct codec_laws)

interpretation rspamd_config_doc: json_codec "en_RspamdConfig f" "de_RspamdConfig f" "\<lambda>x. wire_ok f" for f
  by unfold_locales (auto simp: en_RspamdConfig_def de_RspamdConfig_def derived_struct codec_laws)

interpretation tenant_resource_quota_doc: json_codec "en_TenantResourceQuota f" "de_TenantResourceQuota f" "\<lambda>x. wire_ok f" for f
  by unfold_locales (auto simp: en_TenantResourceQuota_def de_TenantResourceQuota_def derived_struct codec_laws)

interpretation tenant_config_doc: json_codec "en_TenantConfig f" "de_TenantConfig f" "\<lambda>x. wire_ok f" for f
  by unfold_locales (auto simp: en_TenantConfig_def de_TenantConfig_def derived_struct codec_laws smtp_config_doc.decodes mailbox_config_doc.decodes rspamd_config_doc.decodes tenant_resource_quota_doc.decodes)

interpretation raw_message_doc: json_codec "en_RawMessage f" "de_RawMessage f" "\<lambda>x. wire_ok f \<and> listed f (raw_headers x)" for f
  by unfold_locales (auto simp: en_RawMessage_def de_RawMessage_def derived_struct codec_laws)

interpretation attachment_doc: json_codec "en_Attachment f" "de_Attachment f" "\<lambda>x. wire_ok f" for f
  by unfold_locales (auto simp: en_Attachment_def de_Attachment_def derived_struct codec_laws)

interpretation calendar_event_doc: json_codec "en_CalendarEvent f" "de_CalendarEvent f" "\<lambda>x. wire_ok f" for f
  by unfold_locales (auto simp: en_CalendarEvent_def de_CalendarEvent_def derived_struct codec_laws)

interpretation contact_doc: json_codec "en_Contact f" "de_Contact f" "\<lambda>x. wire_ok f" for f
  by unfold_locales (auto simp: en_Contact_def de_Contact_def derived_struct codec_laws)

interpretation resource_doc: json_codec "en_Resource f" "de_Resource f" "\<lambda>x. wire_ok f" for f
  by unfold_locales (auto simp: en_Resource_def de_Resource_def derived_struct codec_laws)

interpretation resource_booking_doc: json_codec "en_ResourceBooking f" "de_ResourceBooking f" "\<lambda>x. wire_ok f" for f
  by unfold_locales (auto simp: en_ResourceBooking_def de_ResourceBooking_def derived_struct codec_laws)

interpretation sieve_script_doc: json_codec "en_SieveScript f" "de_SieveScript f" "\<lambda>x. wire_ok f" for f
  by unfold_locales (auto simp: en_SieveScript_def de_SieveScript_def derived_struct codec_laws)

interpretation scoring_result_doc: json_codec "en_ScoringResult f" "de_ScoringResult f" "\<lambda>x. wire_ok f \<and> is_finite (sc_spam_score x) \<and> is_finite (sc_spam_threshold x) \<and> is_finite (sc_phishing_score x)" for f
  by unfold_locales (auto simp: en_ScoringResult_def de_ScoringResult_def derived_struct codec_laws)

interpretation threat_intel_observation_doc: json_codec "en_ThreatIntelObservation f" "de_ThreatIntelObservation f" "\<lambda>x. wire_ok f" for f
  by unfold_locales (auto simp: en_ThreatIntelObservation_def de_ThreatIntelObservation_def derived_struct codec_laws)

interpretation backup_job_doc: json_codec "en_BackupJob f" "de_BackupJob f" "\<lambda>x. wire_ok f" for f
  by unfold_locales (auto simp: en_BackupJob_def de_BackupJob_def derived_struct codec_laws)

interpretation token_info_doc: json_codec "en_TokenInfo f" "de_TokenInfo f" "\<lambda>x. wire_ok f" for f
  by unfold_locales (auto simp: en_TokenInfo_def de_TokenInfo_def derived_struct codec_laws)

interpretation app_password_doc: json_codec "en_AppPassword f" "de_AppPassword f" "\<lambda>x. wire_ok f" for f
  by unfold_locales (auto simp: en_AppPassword_def de_AppPassword_def derived_struct codec_laws)

interpretation session_info_doc: json_codec "en_SessionInfo f" "de_SessionInfo f" "\<lambda>x. wire_ok f" for f
  by unfold_locales (auto simp: en_SessionInfo_def de_SessionInfo_def derived_struct codec_laws)

interpretation provider_context_doc: json_codec "en_ProviderContext f" "de_ProviderContext f" "\<lambda>x. wire_ok f" for f
  by unfold_locales (auto simp: en_ProviderContext_def de_ProviderContext_def derived_struct codec_laws)

lemmas struct_decodes = tenant_doc.decodes account_doc.decodes mailbox_flags_doc.decodes mailbox_doc.decodes message_flags_doc.decodes
  message_doc.decodes quarantine_item_doc.decodes search_result_doc.decodes blob_ref_doc.decodes
  smtp_config_doc.decodes mailbox_config_doc.decodes rspamd_config_doc.decodes tenant_resource_quota_doc.decodes
  tenant_config_doc.decodes raw_message_doc.decodes attachment_doc.decodes calendar_event_doc.decodes
  contact_doc.decodes resource_doc.decodes resource_booking_doc.decodes sieve_script_doc.decodes
  scoring_result_doc.decodes threat_intel_observation_doc.decodes backup_job_doc.decodes token_info_doc.decodes
  app_password_doc.decodes session_info_doc.decodes provider_context_doc.decodes

end
