(* ===== verification/Webmail.thy ===== *)
theory Webmail
  imports Html HttpRouting
begin

text \<open>
  \<open>crates/webmail\<close>: the prototype of the webmail, its views (\<open>app.rs\<close>), its routes and its process
  (\<open>main.rs\<close>). What the router of leptos puts in the place of \<open>Outlet\<close> and what the handler of leptos_axum
  answers for other files are the work of those crates; the first is an argument, the second an answer of
  its own.
\<close>

section \<open>Views\<close>

definition AppShell :: "html list \<Rightarrow> html" where
  "AppShell children =
     elc ''div'' ''app''
       [elc ''header'' ''app-header''
          [elc ''nav'' ''nav''
             [El ''a'' [(''href'', ''/'')] [Txt ''Mailbox''],
              El ''a'' [(''href'', ''/compose'')] [Txt ''Compose''],
              El ''a'' [(''href'', ''/contacts'')] [Txt ''Contacts''],
              El ''a'' [(''href'', ''/settings'')] [Txt ''Settings'']]],
        elc ''main'' ''app-main'' children]"

definition App :: "html list \<Rightarrow> html" where
  "App outlet = AppShell outlet"

definition InboxPage :: "html list" where
  "InboxPage = [el0 ''h1'' [Txt ''Inbox''], el0 ''p'' [Txt (''Message list loading'' @ ellipsis)]]"

definition ComposePage :: "html list" where
  "ComposePage =
     [el0 ''h1'' [Txt ''Compose''],
      el0 ''form''
        [el0 ''label'' [Txt ''To''],
         El ''input'' [(''type'', ''email''), (''placeholder'', ''user@example.com'')] [],
         el0 ''label'' [Txt ''Subject''],
         El ''input'' [(''type'', ''text''), (''placeholder'', ''Subject'')] [],
         El ''textarea'' [(''rows'', ''10''), (''style'', ''width:100%''), (''placeholder'', ''Body'')] [],
         El ''button'' [(''type'', ''submit'')] [Txt ''Send'']]]"

definition ContactsPage :: "html list" where
  "ContactsPage = [el0 ''h1'' [Txt ''Contacts''], el0 ''p'' [Txt (''Contact list loading'' @ ellipsis)]]"

definition SettingsPage :: "html list" where
  "SettingsPage = [el0 ''h1'' [Txt ''Settings''], el0 ''p'' [Txt (''Account settings loading'' @ ellipsis)]]"

text \<open>The document the fallback renders.\<close>

definition shell :: "html list \<Rightarrow> html list" where
  "shell outlet =
     [Doctype, El ''html'' [(''lang'', ''en'')] [el0 ''head'' [El ''meta'' [(''charset'', ''utf-8'')] []], el0 ''body'' [App outlet]]]"

section \<open>Backend helpers\<close>

definition fetch_accounts :: "uuid \<Rightarrow> string + 'account list" where
  "fetch_accounts tenant_id = Inl ''Not yet wired''"

definition fetch_mailboxes :: "uuid \<Rightarrow> uuid \<Rightarrow> string + 'mailbox list" where
  "fetch_mailboxes tenant_id account_id = Inl ''Not yet wired''"

section \<open>Routes\<close>

text \<open>
  The two kinds of path the router has: a path itself, and \<open>prefix/{*name}\<close>, which takes at least one
  character more than \<open>prefix/\<close>. At most one route matches here. A known path asked with another method
  is answered 405.
\<close>

datatype path_pattern = Exact string | Wildcard string

fun path_matches :: "path_pattern \<Rightarrow> string \<Rightarrow> bool" where
  "path_matches (Exact p) path \<longleftrightarrow> path = p"
| "path_matches (Wildcard p) path \<longleftrightarrow> (case strip_prefix (p @ ''/'') path of Some (_ # _) \<Rightarrow> True | _ \<Rightarrow> False)"

datatype webmail_answer = RenderApp | ServerFn string | HealthOk string | NotAllowed | Fallback

definition webmail_routes :: "(path_pattern \<times> http_method \<times> (string \<Rightarrow> webmail_answer)) list" where
  "webmail_routes =
     [(Exact ''/'', GET, \<lambda>_. RenderApp),
      (Exact ''/compose'', GET, \<lambda>_. RenderApp),
      (Exact ''/contacts'', GET, \<lambda>_. RenderApp),
      (Wildcard ''/settings'', GET, \<lambda>_. RenderApp),
      (Wildcard ''/api'', POST, ServerFn),
      (Exact ''/health'', GET, \<lambda>_. HealthOk ''ok'')]"

definition webmail_answer_to :: "http_method \<Rightarrow> string \<Rightarrow> webmail_answer" where
  "webmail_answer_to m path =
     (case find (\<lambda>(p, _). path_matches p path) webmail_routes of
        None \<Rightarrow> Fallback
      | Some (_, m', handler) \<Rightarrow> if served_method m = m' then handler path else NotAllowed)"

section \<open>The process\<close>

definition webmail_listen_addr :: "environment \<Rightarrow> string" where
  "webmail_listen_addr env =
     ''0.0.0.0:'' @ nat_text (case Option.bind (env ''PORT'') (parse_unsigned 16) of None \<Rightarrow> 3000 | Some p \<Rightarrow> p)"

definition webmail_main :: "os \<Rightarrow> environment \<Rightarrow> ((unit, unit) process, string, unit) comp" where
  "webmail_main os env =
     (let addr = webmail_listen_addr env in
      case os_bind os addr of
        Inl e \<Rightarrow> fail e
      | Inr _ \<Rightarrow> tryb (emit (Serving ''webmail'' addr ())) (\<lambda>_. from_result (os_serve os)))"

lemma wildcard_iff: "path_matches (Wildcard p) path \<longleftrightarrow> (\<exists>c rest. path = p @ ''/'' @ c # rest)"
proof -
  have "strip_prefix (p @ ''/'') path = Some r \<longleftrightarrow> path = p @ ''/'' @ r" for r
    by (simp add: strip_prefix_Some_iff)
  then show ?thesis
    by (cases "strip_prefix (p @ ''/'') path") (auto split: list.splits)
qed

end
