(* ===== verification/FrontierProperties.thy ===== *)
theory FrontierProperties
  imports ProviderTraits TypesJson Webmail ControlPlane AbuseApi
begin

text \<open>
  The frontier of the system: the shared domain types, the adapters that do not reach their backends yet,
  and the prototype of the webmail.
\<close>

section \<open>The domain types\<close>

text \<open>The wire names of every enum of the domain types round-trip: a variant is decoded from its snake
  case name and from no other, so no two variants of an enum share a name.\<close>

theorem wire_names_roundtrip:
  "(decode_variant TenantStatus_variants TenantStatus_ident s = Some v1 \<longleftrightarrow> encode_variant TenantStatus_ident v1 = s)
   \<and> (decode_variant AccountStatus_variants AccountStatus_ident s = Some v2 \<longleftrightarrow> encode_variant AccountStatus_ident v2 = s)
   \<and> (decode_variant QuarantineStatus_variants QuarantineStatus_ident s = Some v3 \<longleftrightarrow> encode_variant QuarantineStatus_ident v3 = s)
   \<and> (decode_variant QuarantineDecision_variants QuarantineDecision_ident s = Some v4 \<longleftrightarrow> encode_variant QuarantineDecision_ident v4 = s)
   \<and> (decode_variant BookingStatus_variants BookingStatus_ident s = Some v5 \<longleftrightarrow> encode_variant BookingStatus_ident v5 = s)
   \<and> (decode_variant DmarcResult_variants DmarcResult_ident s = Some v6 \<longleftrightarrow> encode_variant DmarcResult_ident v6 = s)
   \<and> (decode_variant ScoringAction_variants ScoringAction_ident s = Some v7 \<longleftrightarrow> encode_variant ScoringAction_ident v7 = s)
   \<and> (decode_variant ThreatIndicatorType_variants ThreatIndicatorType_ident s = Some v8
       \<longleftrightarrow> encode_variant ThreatIndicatorType_ident v8 = s)
   \<and> (decode_variant ThreatSeverity_variants ThreatSeverity_ident s = Some v9 \<longleftrightarrow> encode_variant ThreatSeverity_ident v9 = s)
   \<and> (decode_variant BackupStatus_variants BackupStatus_ident s = Some va \<longleftrightarrow> encode_variant BackupStatus_ident va = s)
   \<and> (decode_variant ExportFormat_variants ExportFormat_ident s = Some vb \<longleftrightarrow> encode_variant ExportFormat_ident vb = s)"
  by (simp add: tenant_status.decode_iff account_status.decode_iff quarantine_status.decode_iff quarantine_decision.decode_iff
      booking_status.decode_iff dmarc_result.decode_iff scoring_action.decode_iff threat_indicator_type.decode_iff
      threat_severity.decode_iff backup_status.decode_iff export_format.decode_iff)









section \<open>The adapters\<close>

text \<open>The adapters keep nothing, and only some of them say so: what was stored, created, booked or
  installed with success is missing from every later reading, an uploaded blob reads back empty, a quarantined
  message is not listed, and every code passes the second factor.\<close>

theorem adapters_keep_nothing:
  "tryb (mail_store_message p ctx msg) (mail_get_message p ctx a) ids = (Inl not_implemented, \<lambda>n. ids (Suc n))
   \<and> tryb (mail_create_mailbox p ctx a nm up) (\<lambda>_. mail_list_mailboxes p ctx a) ids = (Inr [], \<lambda>n. ids (Suc n))
   \<and> tryb (mail_create_account p ctx email dn) (\<lambda>_. mail_list_accounts p ctx cur k) ids = (Inr \<lparr>ls_items = []\<rparr>, \<lambda>n. ids (Suc n))
   \<and> tryb (mail_create_event p ctx ev) (mail_get_event p ctx) ids = (Inl not_implemented, \<lambda>n. ids (Suc n))
   \<and> tryb (mail_create_contact p ctx con) (\<lambda>_. mail_list_contacts p ctx a) ids = (Inr [], \<lambda>n. ids (Suc n))
   \<and> tryb (mail_install_sieve_script p ctx sv) (\<lambda>_. mail_list_sieve_scripts p ctx mb) ids = (Inr [], ids)
   \<and> tryb (storage_upload st ctx content ct fn) (\<lambda>i. storage_download st ctx (uuid_text i)) ids = (Inr [], \<lambda>n. ids (Suc n))
   \<and> tryb (storage_upload st ctx content ct fn) (\<lambda>i. storage_metadata st ctx (uuid_text i)) ids = (Inl not_implemented, \<lambda>n. ids (Suc n))
   \<and> tryb (backup_start_backup b ctx acc) (backup_get_backup_status b ctx) ids = (Inl not_implemented, \<lambda>n. ids (Suc n))
   \<and> tryb (abuse_quarantine_message r ctx m why sc) (\<lambda>_. abuse_list_quarantine r ctx a cur k) ids = (Inr no_page, \<lambda>n. ids (Suc n))
   \<and> tryb (identity_create_session i ctx a dev ip) (identity_validate_session i) ids = (Inl not_implemented, \<lambda>n. ids (Suc n))
   \<and> tryb (search_index_message t ctx message doc) (\<lambda>_. search_search t ctx q f to su d1 d2 k) ids = (Inr no_page, ids)
   \<and> identity_verify_mfa i ctx a code ids = (Inr True, ids)"
  by (simp add: stub_defs tryb_def new_v4_def ok_def fail_def)

section \<open>The webmail\<close>

text \<open>Of the four links of the navigation three lead to the application; \<open>/settings\<close>, and \<open>/settings/\<close>
  with it, is served by no route and falls through to the file handler, while every longer path below it
  is the application.\<close>

theorem webmail_navigation:
  "links (App []) = [''/'', ''/compose'', ''/contacts'', ''/settings'']
   \<and> map (webmail_answer_to GET) (links (App [])) = [RenderApp, RenderApp, RenderApp, Fallback]
   \<and> webmail_answer_to GET ''/settings/'' = Fallback
   \<and> webmail_answer_to GET (''/settings/'' @ c # rest) = RenderApp
   \<and> webmail_answer_to POST (''/api/'' @ c # rest) = ServerFn (''/api/'' @ c # rest)
   \<and> webmail_answer_to GET ''/health'' = HealthOk ''ok''"
  by (simp add: links_def App_def AppShell_def webmail_answer_to_def webmail_routes_def)

end
