(* ===== verification/SourceTests.thy ===== *)
theory SourceTests
  imports SettingsDocument
begin

text \<open>
  The test modules of \<open>admin-api/src/models.rs\<close>, \<open>config-compiler/src/render.rs\<close>, \<open>config-schema/src/lib.rs\<close>
  and \<open>wrappers/src/sesame_client.rs\<close>: a test is a condition, true when all its assertions hold, on whatever
  it takes from other crates, and each is shown to pass. They tie the definitions to the expectations the
  authors wrote down; the properties do not depend on them.
\<close>

section \<open>Input checks\<close>

definition slug_rules :: bool where
  "slug_rules \<longleftrightarrow>
     is_ok (validate_slug ''acme'') \<and> is_ok (validate_slug ''acme-corp-2'')
   \<and> \<not> is_ok (validate_slug ''a'') \<and> \<not> is_ok (validate_slug ''-acme'') \<and> \<not> is_ok (validate_slug ''acme-'')
   \<and> \<not> is_ok (validate_slug ''Acme'') \<and> \<not> is_ok (validate_slug ''acme corp'')"

definition fqdn_rules :: bool where
  "fqdn_rules \<longleftrightarrow>
     is_ok (validate_fqdn ''example.com'') \<and> is_ok (validate_fqdn ''mail.acme-corp.co.uk'')
   \<and> \<not> is_ok (validate_fqdn ''localhost'') \<and> \<not> is_ok (validate_fqdn ''-bad.com'') \<and> \<not> is_ok (validate_fqdn ''bad-.com'')
   \<and> \<not> is_ok (validate_fqdn [])"

definition local_part_rules :: bool where
  "local_part_rules \<longleftrightarrow>
     is_ok (validate_local_part ''charles'') \<and> is_ok (validate_local_part ''charles.sibbald+test'')
   \<and> \<not> is_ok (validate_local_part []) \<and> \<not> is_ok (validate_local_part ''.charles'')
   \<and> \<not> is_ok (validate_local_part ''charles.'') \<and> \<not> is_ok (validate_local_part ''Charles'')"

definition policy_of :: "f64 \<Rightarrow> f64 \<Rightarrow> f64 \<Rightarrow> SetAbusePolicy" where
  "policy_of rej add grey = \<lparr>sp_reject = rej, sp_add_header = add, sp_greylist = grey\<rparr>"

definition policy_rules :: bool where
  "policy_rules \<longleftrightarrow>
     is_ok (validate_policy (policy_of (Finite 15) (Finite 6) (Finite 4)))
   \<and> \<not> is_ok (validate_policy (policy_of (Finite 4) (Finite 6) (Finite 15)))
   \<and> \<not> is_ok (validate_policy (policy_of (Finite 6) (Finite 6) (Finite 4)))
   \<and> \<not> is_ok (validate_policy (policy_of (Finite 15) (Finite 6) (Finite 0)))
   \<and> \<not> is_ok (validate_policy (policy_of NaN (Finite 6) (Finite 4)))"

lemmas validation_defs = validate_slug_def validate_fqdn_def label_ok_def validate_local_part_def slug_char_def alnum_def
  local_char_def ascii_lower_def ascii_digit_def starts_with_def ends_with_def Let_def

lemma input_tests_pass: slug_rules fqdn_rules local_part_rules policy_rules
  by (simp_all add: slug_rules_def fqdn_rules_def local_part_rules_def policy_rules_def validation_defs policy_of_def
      validate_policy_def)

section \<open>The configuration compiler\<close>

definition sample :: "TenantPolicy list" where
  "sample =
     [\<lparr>tp_slug = ''acme-corp'', tp_settings_id = settings_id ''acme-corp'', tp_domains = [''acme.example'', ''mail.acme.example''],
       tp_reject = REJECT, tp_add_header = ADD_HEADER, tp_greylist = GREYLIST\<rparr>,
      \<lparr>tp_slug = ''globex'', tp_settings_id = settings_id ''globex'', tp_domains = [''globex.example''],
       tp_reject = Finite 20, tp_add_header = Finite 8, tp_greylist = Finite 5\<rparr>]"

text \<open>\<open>str::contains\<close>.\<close>

fun contains :: "string \<Rightarrow> string \<Rightarrow> bool" where
  "contains [] p \<longleftrightarrow> p = []"
| "contains (c # s) p \<longleftrightarrow> strip_prefix p (c # s) \<noteq> None \<or> contains s p"

definition settings_id_is_ucl_safe :: bool where
  "settings_id_is_ucl_safe \<longleftrightarrow> settings_id ''acme-corp'' = ''tenant_acme_corp''"

definition rendered_doc_passes_its_own_schema :: "jsonschema \<Rightarrow> bool" where
  "rendered_doc_passes_its_own_schema js \<longleftrightarrow> is_ok (validate_json js settings_schema (render_doc sample))"

definition empty_desired_state_still_validates :: "jsonschema \<Rightarrow> bool" where
  "empty_desired_state_still_validates js \<longleftrightarrow> is_ok (validate_json js settings_schema (render_doc []))"

definition ucl_contains_domains_and_settings_ids :: "(f64 \<Rightarrow> string) \<Rightarrow> bool" where
  "ucl_contains_domains_and_settings_ids fmt \<longleftrightarrow>
     (let ucl = render_ucl fmt sample in
        contains ucl ''tenant_acme_corp {''
      \<and> contains ucl ([dquote] @ ''/@acme'' @ [backslash] @ ''.example$/'' @ [dquote] @ '', ''
          @ [dquote] @ ''/@mail'' @ [backslash] @ ''.acme'' @ [backslash] @ ''.example$/'' @ [dquote])
      \<and> contains ucl ''tenant_globex {'')"

definition ucl_reflects_per_tenant_thresholds :: "(f64 \<Rightarrow> string) \<Rightarrow> bool" where
  "ucl_reflects_per_tenant_thresholds fmt \<longleftrightarrow>
     (let ucl = render_ucl fmt sample in
        contains ucl ''reject = 15'' \<and> contains ucl ''reject = 20'' \<and> contains ucl ''greylist = 5'')"

lemma contains_iff: "contains s p \<longleftrightarrow> (\<exists>a b. s = a @ p @ b)"
proof (induction s)
  case Nil
  then show ?case by auto
next
  case (Cons c s)
  have "(\<exists>a b. c # s = a @ p @ b) \<longleftrightarrow> (\<exists>b. c # s = p @ b) \<or> (\<exists>a b. s = a @ p @ b)"
    by (metis append_Cons append_Nil list.exhaust list.inject)
  then show ?case
    using Cons.IH by (auto simp: strip_prefix_Some_iff)
qed

lemma contains_intro: "s = a @ p @ b \<Longrightarrow> contains s p"
  by (auto simp: contains_iff)

text \<open>The rendering of the sample ends with the block of the second tenant, after that of the first.\<close>

lemma contains_append: "contains s p \<Longrightarrow> contains (a @ s) p" "contains s p \<Longrightarrow> contains (s @ b) p"
  by (auto simp: contains_iff) (metis append.assoc)+

lemma sample_blocks:
  "render_ucl fmt sample = ucl_header @ ucl_block fmt (sample ! 0) @ ucl_block fmt (sample ! Suc 0)"
  by (simp add: render_ucl_def sample_def)

lemma settings_id_test_passes: settings_id_is_ucl_safe
  by (simp add: settings_id_is_ucl_safe_def settings_id_def replace_char_def)

lemma schema_tests_pass:
  assumes "standard_jsonschema rx js"
  shows "rendered_doc_passes_its_own_schema js" "empty_desired_state_still_validates js"
proof -
  have "list_all policy_renderable sample"
    by (simp add: sample_def policy_renderable_def settings_id_ok_def settings_id_def replace_char_def id_char_def
        REJECT_def ADD_HEADER_def GREYLIST_def ascii_lower_def ascii_digit_def)
  then have "js_ok rx settings_schema (render_doc sample)" "js_ok rx settings_schema (render_doc [])"
    using assms by (simp_all add: render_doc_ok standard_jsonschema_def)
  then show "rendered_doc_passes_its_own_schema js" "empty_desired_state_still_validates js"
    by (simp_all add: rendered_doc_passes_its_own_schema_def empty_desired_state_still_validates_def
        validate_standard [OF assms, symmetric])
qed

text \<open>What every block contains.\<close>

lemma block_contains:
  "contains (ucl_block fmt p) (tp_settings_id p @ '' {'')"
  "contains (ucl_block fmt p) (join '', '' (map rcpt_pattern (tp_domains p)))"
  "contains (ucl_block fmt p) (''reject = '' @ fmt (tp_reject p))"
  "contains (ucl_block fmt p) (''greylist = '' @ fmt (tp_greylist p))"
proof -
  note segments = ucl_block_segments [of fmt p "[]", unfolded append_Nil2]
  show "contains (ucl_block fmt p) (tp_settings_id p @ '' {'')"
    by (rule contains_intro [where a = "[]"]) (simp add: ucl_block_def)
  show "contains (ucl_block fmt p) (join '', '' (map rcpt_pattern (tp_domains p)))"
    by (rule contains_intro [where a = "tp_settings_id p @ CHR '' '' # seg1"]) (simp add: segments)
  show "contains (ucl_block fmt p) (''reject = '' @ fmt (tp_reject p))"
    by (rule contains_intro [where a = "tp_settings_id p @ CHR '' '' # seg1 @ join '', '' (map rcpt_pattern (tp_domains p))
        @ CHR '']'' # '';'' @ nl @ ''  apply {'' @ nl @ ''    actions {'' @ nl @ ''      ''"]) (simp add: segments seg2_def)
  show "contains (ucl_block fmt p) (''greylist = '' @ fmt (tp_greylist p))"
    by (rule contains_intro [where a = "tp_settings_id p @ CHR '' '' # seg1 @ join '', '' (map rcpt_pattern (tp_domains p))
        @ CHR '']'' # seg2 @ fmt (tp_reject p) @ CHR '';'' # seg3 @ fmt (tp_add_header p) @ CHR '';'' # nl @ ''      ''"])
      (simp add: segments seg4_def)
qed

lemma sample_fields:
  "tp_settings_id (sample ! 0) = ''tenant_acme_corp''" "tp_settings_id (sample ! Suc 0) = ''tenant_globex''"
  "tp_domains (sample ! 0) = [''acme.example'', ''mail.acme.example'']"
  "tp_reject (sample ! 0) = Finite 15" "tp_reject (sample ! Suc 0) = Finite 20" "tp_greylist (sample ! Suc 0) = Finite 5"
  by (simp_all add: sample_def settings_id_def replace_char_def REJECT_def)

lemma sample_contains:
  "contains (ucl_block fmt (sample ! 0)) x \<or> contains (ucl_block fmt (sample ! Suc 0)) x \<Longrightarrow> contains (render_ucl fmt sample) x"
  by (auto simp: sample_blocks contains_append)

lemma ucl_domains_pass: "ucl_contains_domains_and_settings_ids fmt"
proof -
  have patterns: "join '', '' (map rcpt_pattern (tp_domains (sample ! 0)))
     = [dquote] @ ''/@acme'' @ [backslash] @ ''.example$/'' @ [dquote] @ '', ''
          @ [dquote] @ ''/@mail'' @ [backslash] @ ''.acme'' @ [backslash] @ ''.example$/'' @ [dquote]"
    by (simp add: sample_fields rcpt_pattern_def replace_char_def)
  show ?thesis
    unfolding ucl_contains_domains_and_settings_ids_def Let_def patterns [symmetric]
    using block_contains(1,2) [of fmt "sample ! 0"] block_contains(1) [of fmt "sample ! Suc 0"]
    by (simp add: sample_contains sample_fields(1,2))
qed

lemma ucl_thresholds_pass:
  assumes "fmt (Finite 15) = ''15''" "fmt (Finite 20) = ''20''" "fmt (Finite 5) = ''5''"
  shows "ucl_reflects_per_tenant_thresholds fmt"
  using block_contains(3) [of fmt "sample ! 0"] block_contains(3,4) [of fmt "sample ! Suc 0"] assms
  by (simp add: ucl_reflects_per_tenant_thresholds_def Let_def sample_contains sample_fields)

section \<open>The schema validator\<close>

definition test_schema :: json where
  "test_schema = JObj
     [(''type'', JStr ''object''),
      (''required'', JArr [JStr ''version'', JStr ''items'']),
      (''properties'', JObj
        [(''version'', JObj [(''type'', JStr ''integer''), (''minimum'', JInt 1)]),
         (''items'', JObj
            [(''type'', JStr ''array''), (''minItems'', JInt 1),
             (''items'', JObj
                [(''type'', JStr ''object''), (''required'', JArr [JStr ''name'']),
                 (''properties'', JObj [(''name'', JObj [(''type'', JStr ''string''), (''minLength'', JInt 1)])])])])])]"

definition one_item :: json where
  "one_item = JArr [JObj [(''name'', JStr ''a'')]]"

definition valid_document_passes :: "jsonschema \<Rightarrow> bool" where
  "valid_document_passes js \<longleftrightarrow>
     is_ok (validate_json js test_schema (JObj [(''version'', JInt 1), (''items'', one_item)]))"

definition missing_required_field_fails :: "jsonschema \<Rightarrow> bool" where
  "missing_required_field_fails js \<longleftrightarrow>
     (let err = (case validate_json js test_schema (JObj [(''items'', one_item)]) of Inl e \<Rightarrow> e | Inr _ \<Rightarrow> [])
      in err \<noteq> [] \<and> contains err ''version'')"

definition wrong_type_fails :: "jsonschema \<Rightarrow> bool" where
  "wrong_type_fails js \<longleftrightarrow>
     \<not> is_ok (validate_json js test_schema (JObj [(''version'', JStr ''one''), (''items'', one_item)]))"

definition empty_array_violates_min_items :: "jsonschema \<Rightarrow> bool" where
  "empty_array_violates_min_items js \<longleftrightarrow>
     \<not> is_ok (validate_json js test_schema (JObj [(''version'', JInt 1), (''items'', JArr [])]))"

text \<open>The documented behaviour of the crate on this schema: the keywords decide, and a missing property is named.\<close>

definition conforming :: "(string \<Rightarrow> string \<Rightarrow> bool) \<Rightarrow> json \<Rightarrow> jsonschema \<Rightarrow> bool" where
  "conforming rx schema js \<longleftrightarrow> (\<exists>v. js schema = Inr v \<and> (\<forall>x. v x = [] \<longleftrightarrow> js_ok rx schema x))"

definition names_missing :: "json \<Rightarrow> jsonschema \<Rightarrow> bool" where
  "names_missing schema js \<longleftrightarrow> (\<forall>v fs name. js schema = Inr v \<longrightarrow> map_of fs name = None
     \<longrightarrow> (\<exists>kws names. schema = JObj kws \<and> map_of kws ''required'' = Some (JArr names) \<and> JStr name \<in> set names)
     \<longrightarrow> (\<exists>violation \<in> set (v (JObj fs)). contains (fst violation) name))"

lemma validate_conforming:
  assumes "conforming rx schema js"
  shows "is_ok (validate_json js schema x) \<longleftrightarrow> js_ok rx schema x"
proof -
  from assms obtain v where "js schema = Inr v" "v x = [] \<longleftrightarrow> js_ok rx schema x"
    by (auto simp: conforming_def)
  then show ?thesis by (cases "v x") (simp_all add: validate_json_def)
qed

lemma contains_join: "x \<in> set xs \<Longrightarrow> contains x p \<Longrightarrow> contains (join sep xs) p"
proof (induction xs rule: induct_list012)
  case (3 y z zs)
  then show ?case
    by (cases "x = y") (simp_all add: contains_append)
qed simp_all

theorem schema_validator_tests_pass:
  assumes conf: "conforming rx test_schema js" and names: "names_missing test_schema js"
  shows "valid_document_passes js \<and> missing_required_field_fails js \<and> wrong_type_fails js \<and> empty_array_violates_min_items js"
proof -
  note evaluate = test_schema_def one_item_def js_simple_def js_type_def
  let ?doc = "JObj [(''items'', one_item)]"
  from conf obtain v where v: "js test_schema = Inr v" by (auto simp: conforming_def)
  have "\<exists>violation \<in> set (v ?doc). contains (fst violation) ''version''"
  proof (rule names [unfolded names_missing_def, rule_format, OF v])
    show "map_of [(''items'', one_item)] ''version'' = None" by simp
    show "\<exists>kws names. test_schema = JObj kws \<and> map_of kws ''required'' = Some (JArr names) \<and> JStr ''version'' \<in> set names"
      by (simp add: test_schema_def)
  qed
  then obtain e path where e: "(e, path) \<in> set (v ?doc)" "contains e ''version''" by auto
  let ?err = "join ''; '' (map (\<lambda>(e, path). e @ '' (at '' @ path @ '')'') (v ?doc))"
  have "contains ?err ''version''"
    using e contains_append(2) [OF e(2)] by (intro contains_join [of "e @ '' (at '' @ path @ '')''"]) force+
  moreover have "validate_json js test_schema ?doc = Inl ?err"
    using v e(1) by (cases "v ?doc") (simp_all add: validate_json_def)
  moreover from calculation have "?err \<noteq> []" by auto
  ultimately have "missing_required_field_fails js"
    by (simp add: missing_required_field_fails_def)
  moreover have "valid_document_passes js" "wrong_type_fails js" "empty_array_violates_min_items js"
    unfolding valid_document_passes_def wrong_type_fails_def empty_array_violates_min_items_def validate_conforming [OF conf]
    by (simp_all add: evaluate)
  ultimately show ?thesis by simp
qed

section \<open>The sesame client\<close>

definition config_absent_when_env_unset :: "(string \<Rightarrow> string option) \<Rightarrow> bool" where
  "config_absent_when_env_unset env \<longleftrightarrow> sesame_from_env (env(''SESAME_LOGIN_URL'' := None)) = None"

lemma sesame_test_passes: "config_absent_when_env_unset env"
  by (simp add: config_absent_when_env_unset_def sesame_from_env_def env_nonblank_def)

end
