(* ===== verification/AuthTests.thy ===== *)
theory AuthTests
  imports AuthProperties
begin

text \<open>
  The test modules of \<open>og-auth/src/lib.rs\<close> and \<open>mock.rs\<close>. A test is a condition on what it draws from
  outside (key pair, clocks, network, the other crates), true when all its assertions hold; the theorems say
  for which worlds it passes, which is for all that keep the laws of cryptography and a running clock.
\<close>

section \<open>The tests of the verification\<close>

definition test_tenant :: string where
  "test_tenant = ''11111111-1111-1111-1111-111111111111''"

definition sign_header :: "string \<Rightarrow> json" where
  "sign_header kid = value_of (JObj [(''alg'', JStr ''EdDSA''), (''typ'', JStr ''at+jwt''), (''kid'', JStr kid)])"

definition sign_payload :: "int \<Rightarrow> string \<Rightarrow> json" where
  "sign_payload expiry isr = value_of (JObj
     [(''sub'', JStr ''client:abc''), (''exp'', JInt expiry), (''iss'', JStr isr), (''tenant_id'', JStr test_tenant),
      (''sx'', JObj [(''roles'', JArr [JStr ''admin''])])])"

definition sign_token :: "mint_prims \<Rightarrow> bytes \<Rightarrow> string \<Rightarrow> int \<Rightarrow> string \<Rightarrow> string" where
  "sign_token mp kp kid expiry isr =
     (let h = b64_encode mp (json_text mp (sign_header kid));
          p = b64_encode mp (json_text mp (sign_payload expiry isr));
          signing_input = h @ ''.'' @ p;
          sig = ed25519_sign mp kp signing_input
      in h @ ''.'' @ p @ ''.'' @ b64_encode mp sig)"

text \<open>An authenticator whose cache was filled at the instant \<open>t\<close> with the one key.\<close>

definition authenticator_with :: "mint_prims \<Rightarrow> bytes \<Rightarrow> string \<Rightarrow> string option \<Rightarrow> time \<Rightarrow> Authenticator" where
  "authenticator_with mp kp kid isr t =
     (authenticator_new \<lparr>jwks_url = Some ''http://unused'', issuer = isr, cache_ttl = from_secs 600\<rparr>)
       \<lparr>auth_cache := Some \<lparr>keys = [kid \<mapsto> public_key mp kp], fetched_at = t\<rparr>\<rparr>"

definition auth_verify :: "prims \<Rightarrow> Authenticator \<Rightarrow> auth_world \<Rightarrow> string \<Rightarrow> AuthError + Caller" where
  "auth_verify ps auth w tok = fst (verify ps (auth_cfg auth) w tok (auth_cache auth))"

text \<open>What a test draws: the key pair, the clock when it makes its token, the instant of its cache, and the
  world in which it verifies. An expiry beyond \<open>i64\<close> panics, and the test fails.\<close>

record test_run =
  tr_kp :: bytes
  tr_clock :: "nat option"
  tr_instant :: time
  tr_world :: auth_world

definition valid_token_verifies :: "prims \<Rightarrow> mint_prims \<Rightarrow> test_run \<Rightarrow> bool" where
  "valid_token_verifies ps mp r \<longleftrightarrow>
     (let auth = authenticator_with mp (tr_kp r) ''test-kid'' (Some ''https://idam.example.com'') (tr_instant r);
          expiry = now_unix (tr_clock r) + 300
      in i64_ok expiry
       \<and> (case auth_verify ps auth (tr_world r) (sign_token mp (tr_kp r) ''test-kid'' expiry ''https://idam.example.com'') of
            Inl _ \<Rightarrow> False
          | Inr c \<Rightarrow> subject c = ''client:abc'' \<and> roles c = [''admin''] \<and> caller_tenant_id c \<noteq> None))"

definition quoted :: "string \<Rightarrow> string" where
  "quoted s = CHR 0x22 # s @ [CHR 0x22]"

definition evil_claims :: bytes where
  "evil_claims = ''{'' @ quoted ''sub'' @ '':'' @ quoted ''attacker'' @ '','' @ quoted ''exp'' @ '':9999999999}''"

definition tampered_payload_rejected :: "prims \<Rightarrow> mint_prims \<Rightarrow> test_run \<Rightarrow> bool" where
  "tampered_payload_rejected ps mp r \<longleftrightarrow>
     (let auth = authenticator_with mp (tr_kp r) ''test-kid'' None (tr_instant r);
          expiry = now_unix (tr_clock r) + 300;
          parts = split_on (CHR ''.'') (sign_token mp (tr_kp r) ''test-kid'' expiry ''x'');
          tampered = join ''.'' (parts[1 := b64_encode mp evil_claims])
      in i64_ok expiry \<and> 1 < length parts \<and> auth_verify ps auth (tr_world r) tampered = Inl BadSignature)"

definition expired_token_rejected :: "prims \<Rightarrow> mint_prims \<Rightarrow> test_run \<Rightarrow> bool" where
  "expired_token_rejected ps mp r \<longleftrightarrow>
     (let auth = authenticator_with mp (tr_kp r) ''test-kid'' None (tr_instant r);
          tok = sign_token mp (tr_kp r) ''test-kid'' (now_unix (tr_clock r) - 10) ''x''
      in auth_verify ps auth (tr_world r) tok = Inl Expired)"

definition wrong_issuer_rejected :: "prims \<Rightarrow> mint_prims \<Rightarrow> test_run \<Rightarrow> bool" where
  "wrong_issuer_rejected ps mp r \<longleftrightarrow>
     (let auth = authenticator_with mp (tr_kp r) ''test-kid'' (Some ''https://expected'') (tr_instant r);
          expiry = now_unix (tr_clock r) + 300;
          tok = sign_token mp (tr_kp r) ''test-kid'' expiry ''https://attacker''
      in i64_ok expiry \<and> auth_verify ps auth (tr_world r) tok = Inl IssuerMismatch)"

definition unknown_kid_rejected :: "prims \<Rightarrow> mint_prims \<Rightarrow> test_run \<Rightarrow> bool" where
  "unknown_kid_rejected ps mp r \<longleftrightarrow>
     (let auth = authenticator_with mp (tr_kp r) ''test-kid'' None (tr_instant r);
          expiry = now_unix (tr_clock r) + 300;
          tok = sign_token mp (tr_kp r) ''other-kid'' expiry ''x''
      in i64_ok expiry \<and> \<not> is_ok (auth_verify ps auth (tr_world r) tok))"

definition dev_fallback_uses_x_actor :: "prims \<Rightarrow> auth_world \<Rightarrow> bool" where
  "dev_fallback_uses_x_actor ps w \<longleftrightarrow>
     (let auth = authenticator_new \<lparr>jwks_url = None, issuer = None, cache_ttl = from_secs 1\<rparr>;
          hs = [''x-actor'' \<mapsto> ''charles@dev'']
      in case fst (caller ps (auth_cfg auth) w hs (auth_cache auth)) of
           Inl _ \<Rightarrow> False | Inr c \<Rightarrow> subject c = ''charles@dev'')"

text \<open>
  The world the tests are written for. The other crates keep their laws on the documents of the tests, the
  signature of the token does not fit the evil claims, nothing answers at the key endpoint, and the
  verification happens within five minutes of the making of the token.
\<close>

definition test_docs :: "int \<Rightarrow> json list" where
  "test_docs now =
     [sign_header ''test-kid'', sign_header ''other-kid'', sign_payload (now + 300) ''https://idam.example.com'',
      sign_payload (now + 300) ''x'', sign_payload (now - 10) ''x'', sign_payload (now + 300) ''https://attacker'']"

definition evil_input :: "mint_prims \<Rightarrow> string" where
  "evil_input mp = b64_encode mp (json_text mp (sign_header ''test-kid'')) @ ''.'' @ b64_encode mp evil_claims"

definition signed_input :: "mint_prims \<Rightarrow> string \<Rightarrow> int \<Rightarrow> string \<Rightarrow> string" where
  "signed_input mp kid expiry isr =
     b64_encode mp (json_text mp (sign_header kid)) @ ''.'' @ b64_encode mp (json_text mp (sign_payload expiry isr))"

definition fair_run :: "prims \<Rightarrow> mint_prims \<Rightarrow> test_run \<Rightarrow> bool" where
  "fair_run ps mp r \<longleftrightarrow>
     (let now = now_unix (tr_clock r); w = tr_world r in
        suite_ok ps mp \<and> reads_back (parse_json ps) (json_text mp) (test_docs now)
      \<and> uuid_parse_str ps test_tenant \<noteq> None
      \<and> \<not> ed25519_verify ps (public_key mp (tr_kp r)) (evil_input mp)
            (ed25519_sign mp (tr_kp r) (signed_input mp ''test-kid'' (now + 300) ''x''))
      \<and> \<not> is_ok (fetch w ''http://unused'')
      \<and> i64_ok (now + 300) \<and> now \<le> now_unix (since_epoch w) \<and> now_unix (since_epoch w) \<le> now + 300
      \<and> at_lookup w - tr_instant r \<le> from_secs 600)"

section \<open>They pass\<close>

text \<open>Verification of any three segments with a key that is cached.\<close>

lemma verify_segments:
  assumes "CHR ''.'' \<notin> set h" "CHR ''.'' \<notin> set p" "CHR ''.'' \<notin> set s"
    and "decode_header ps h = Some \<lparr>alg = ''EdDSA'', hdr_kid = kid\<rparr>" "b64_decode ps s = Some sig"
    and "cached cfg cache (at_lookup w) kid = Some k"
  shows "fst (verify ps cfg w (h @ ''.'' @ p @ ''.'' @ s) cache) =
    (if \<not> ed25519_verify ps k (h @ ''.'' @ p) sig then Inl BadSignature
     else case decode_claims ps p of None \<Rightarrow> Inl Malformed
        | Some claims \<Rightarrow> check_claims ps cfg (now_unix (since_epoch w)) claims)"
proof -
  have "split_on (CHR ''.'') (h @ ''.'' @ p @ ''.'' @ s) = [h, p, s]"
    using assms(1-3) by (simp add: split_on_append split_on_none)
  then show ?thesis
    using assms(4-6)
    by (simp add: verify_def tryb_def from_result_def key_for_def fail_def ok_or_def split: option.splits)
qed

lemma sign_header_read: "de_header (sign_header kid) = Some \<lparr>alg = ''EdDSA'', hdr_kid = kid\<rparr>"
  by (simp add: de_header_def sign_header_def struct_fields_distinct)

lemma sign_payload_read:
  "i64_ok e \<Longrightarrow> de_claims (sign_payload e isr) = Some \<lparr>sub = ''client:abc'', exp = e, iss = isr,
     claim_tenant_id = Some test_tenant, sx_roles = Some [''admin'']\<rparr>"
  by (simp add: de_claims_def sign_payload_def struct_fields_distinct de_sx_def de_i64_def i64_ok_def)

lemma sign_token_segments:
  "sign_token mp kp kid e isr = b64_encode mp (json_text mp (sign_header kid)) @ ''.''
     @ b64_encode mp (json_text mp (sign_payload e isr)) @ ''.'' @ b64_encode mp (ed25519_sign mp kp (signed_input mp kid e isr))"
  by (simp add: sign_token_def signed_input_def Let_def)

lemma authenticator_with_simps [simp]:
  "auth_cfg (authenticator_with mp kp kid isr t) = \<lparr>jwks_url = Some ''http://unused'', issuer = isr, cache_ttl = from_secs 600\<rparr>"
  "auth_cache (authenticator_with mp kp kid isr t) = Some \<lparr>keys = [kid \<mapsto> public_key mp kp], fetched_at = t\<rparr>"
  by (simp_all add: authenticator_with_def)

lemma signed_verifies:
  assumes "suite_ok ps mp" "at_lookup w - t \<le> from_secs 600" "i64_ok e"
    and "parse_json ps (json_text mp (sign_header kid)) = Some (sign_header kid)"
    and "parse_json ps (json_text mp (sign_payload e isr)) = Some (sign_payload e isr)"
  shows "auth_verify ps (authenticator_with mp kp kid want t) w (sign_token mp kp kid e isr) =
    (if e \<noteq> 0 \<and> e < now_unix (since_epoch w) then Inl Expired
     else if want \<noteq> None \<and> want \<noteq> Some isr then Inl IssuerMismatch
     else Inr \<lparr>subject = ''client:abc'', caller_tenant_id = uuid_parse_str ps test_tenant, roles = [''admin'']\<rparr>)"
proof -
  let ?cfg = "\<lparr>jwks_url = Some ''http://unused'', issuer = want, cache_ttl = from_secs 600\<rparr>"
  let ?cache = "Some \<lparr>keys = [kid \<mapsto> public_key mp kp], fetched_at = t\<rparr>"
  have dec: "b64_decode ps (b64_encode mp x) = Some x" and nd: "CHR ''.'' \<notin> set (b64_encode mp x)" for x
    using assms(1) by (simp_all add: suite_ok_def)
  have ver: "ed25519_verify ps (public_key mp kp) m (ed25519_sign mp kp m)" for m
    using assms(1) by (simp add: suite_ok_def)
  have hit: "cached ?cfg ?cache (at_lookup w) kid = Some (public_key mp kp)"
    using assms(2) by (simp add: cached_def)
  have hdr: "decode_header ps (b64_encode mp (json_text mp (sign_header kid))) = Some \<lparr>alg = ''EdDSA'', hdr_kid = kid\<rparr>"
    using assms(4) by (simp add: decode_header_def decode_json_def dec sign_header_read)
  have clm: "decode_claims ps (b64_encode mp (json_text mp (sign_payload e isr))) = Some \<lparr>sub = ''client:abc'', exp = e,
      iss = isr, claim_tenant_id = Some test_tenant, sx_roles = Some [''admin'']\<rparr>"
    using assms(3,5) by (simp add: decode_claims_def decode_json_def dec sign_payload_read)
  have "auth_verify ps (authenticator_with mp kp kid want t) w (sign_token mp kp kid e isr) =
      fst (verify ps ?cfg w (sign_token mp kp kid e isr) ?cache)"
    by (simp add: auth_verify_def)
  also have "\<dots> = check_claims ps ?cfg (now_unix (since_epoch w)) \<lparr>sub = ''client:abc'', exp = e,
      iss = isr, claim_tenant_id = Some test_tenant, sx_roles = Some [''admin'']\<rparr>"
    unfolding sign_token_segments verify_segments [OF nd nd nd hdr dec hit] clm
    by (simp add: signed_input_def ver)
  also have "\<dots> = (if e \<noteq> 0 \<and> e < now_unix (since_epoch w) then Inl Expired
     else if want \<noteq> None \<and> want \<noteq> Some isr then Inl IssuerMismatch
     else Inr \<lparr>subject = ''client:abc'', caller_tenant_id = uuid_parse_str ps test_tenant, roles = [''admin'']\<rparr>)"
    by (auto simp: check_claims_def split: option.splits)
  finally show ?thesis .
qed

lemma fair_runD:
  assumes "fair_run ps mp r"
  shows "suite_ok ps mp" "\<And>d. d \<in> set (test_docs (now_unix (tr_clock r))) \<Longrightarrow> parse_json ps (json_text mp d) = Some d"
    "\<exists>v. uuid_parse_str ps test_tenant = Some v"
    "\<not> ed25519_verify ps (public_key mp (tr_kp r)) (evil_input mp)
       (ed25519_sign mp (tr_kp r) (signed_input mp ''test-kid'' (now_unix (tr_clock r) + 300) ''x''))"
    "\<exists>e. fetch (tr_world r) ''http://unused'' = Inl e"
    "i64_ok (now_unix (tr_clock r) + 300)" "i64_ok (now_unix (tr_clock r) - 10)"
    "now_unix (tr_clock r) \<le> now_unix (since_epoch (tr_world r))"
    "now_unix (since_epoch (tr_world r)) \<le> now_unix (tr_clock r) + 300"
    "at_lookup (tr_world r) - tr_instant r \<le> from_secs 600"
proof -
  have "0 \<le> now_unix (tr_clock r)" by (simp add: now_unix_def split: option.splits)
  with assms show "i64_ok (now_unix (tr_clock r) - 10)" by (simp add: fair_run_def Let_def i64_ok_def)
qed (use assms in \<open>auto simp: fair_run_def Let_def reads_back_def list_all_iff is_ok_def split: sum.splits\<close>)

lemma test_docs_mem:
  "sign_header ''test-kid'' \<in> set (test_docs n)" "sign_header ''other-kid'' \<in> set (test_docs n)"
  "sign_payload (n + 300) ''https://idam.example.com'' \<in> set (test_docs n)" "sign_payload (n + 300) ''x'' \<in> set (test_docs n)"
  "sign_payload (n - 10) ''x'' \<in> set (test_docs n)" "sign_payload (n + 300) ''https://attacker'' \<in> set (test_docs n)"
  by (simp_all add: test_docs_def)

lemma tampered_passes:
  assumes fair: "fair_run ps mp r"
  shows "tampered_payload_rejected ps mp r"
proof -
  let ?e = "now_unix (tr_clock r) + 300"
  let ?h = "b64_encode mp (json_text mp (sign_header ''test-kid''))"
  let ?p = "b64_encode mp (json_text mp (sign_payload ?e ''x''))"
  let ?sig = "ed25519_sign mp (tr_kp r) (signed_input mp ''test-kid'' ?e ''x'')"
  note f = fair_runD [OF fair]
  have dec: "b64_decode ps (b64_encode mp x) = Some x" and nd: "CHR ''.'' \<notin> set (b64_encode mp x)" for x
    using f(1) by (simp_all add: suite_ok_def)
  have parts: "split_on (CHR ''.'') (sign_token mp (tr_kp r) ''test-kid'' ?e ''x'') = [?h, ?p, b64_encode mp ?sig]"
    by (simp add: sign_token_segments split_on_append split_on_none nd)
  have hdr: "decode_header ps ?h = Some \<lparr>alg = ''EdDSA'', hdr_kid = ''test-kid''\<rparr>"
    using f(2) [OF test_docs_mem(1)] by (simp add: decode_header_def decode_json_def dec sign_header_read)
  have hit: "cached \<lparr>jwks_url = Some ''http://unused'', issuer = None, cache_ttl = from_secs 600\<rparr>
      (Some \<lparr>keys = [''test-kid'' \<mapsto> public_key mp (tr_kp r)], fetched_at = tr_instant r\<rparr>) (at_lookup (tr_world r)) ''test-kid''
      = Some (public_key mp (tr_kp r))"
    using f(10) by (simp add: cached_def)
  have "auth_verify ps (authenticator_with mp (tr_kp r) ''test-kid'' None (tr_instant r)) (tr_world r)
      (?h @ ''.'' @ b64_encode mp evil_claims @ ''.'' @ b64_encode mp ?sig) = Inl BadSignature"
    unfolding auth_verify_def authenticator_with_simps verify_segments [OF nd nd nd hdr dec hit]
    using f(4) by (simp add: evil_input_def)
  with f(6) show ?thesis by (simp add: tampered_payload_rejected_def parts)
qed

lemma unknown_kid_passes:
  assumes fair: "fair_run ps mp r"
  shows "unknown_kid_rejected ps mp r"
proof -
  note f = fair_runD [OF fair]
  from f(5) obtain e where e: "fetch (tr_world r) ''http://unused'' = Inl e" by blast
  then have miss: "\<not> is_ok (fst (key_for ps \<lparr>jwks_url = Some ''http://unused'', issuer = None, cache_ttl = from_secs 600\<rparr>
      (tr_world r) ''other-kid'' (Some \<lparr>keys = [''test-kid'' \<mapsto> public_key mp (tr_kp r)], fetched_at = tr_instant r\<rparr>)))"
    by (simp add: key_for_def cached_def refresh_def fetch_jwks_def tryb_def)
  have dec: "b64_decode ps (b64_encode mp x) = Some x" and nd: "CHR ''.'' \<notin> set (b64_encode mp x)" for x
    using f(1) by (simp_all add: suite_ok_def)
  have hdr: "decode_header ps (b64_encode mp (json_text mp (sign_header ''other-kid''))) = Some \<lparr>alg = ''EdDSA'', hdr_kid = ''other-kid''\<rparr>"
    using f(2) [OF test_docs_mem(2)] by (simp add: decode_header_def decode_json_def dec sign_header_read)
  have "split_on (CHR ''.'') (sign_token mp kp ''other-kid'' x isr) = [b64_encode mp (json_text mp (sign_header ''other-kid'')),
      b64_encode mp (json_text mp (sign_payload x isr)), b64_encode mp (ed25519_sign mp kp (signed_input mp ''other-kid'' x isr))]"
    for kp x isr
    by (simp add: sign_token_segments split_on_append split_on_none nd)
  with miss hdr f(6) show ?thesis
    by (auto simp: unknown_kid_rejected_def Let_def auth_verify_def verify_def tryb_def from_result_def ok_or_def
        split: sum.splits prod.splits)
qed

text \<open>Every test passes in a fair run, but for one second in 1970: a token that expires at the second 0 is taken for
  one without expiry, so \<open>expired_token_rejected\<close> fails when the clock stands at 10.\<close>

theorem auth_tests_pass:
  assumes fair: "fair_run ps mp r"
  shows "valid_token_verifies ps mp r \<and> tampered_payload_rejected ps mp r
    \<and> (expired_token_rejected ps mp r \<longleftrightarrow> now_unix (tr_clock r) \<noteq> 10)
    \<and> wrong_issuer_rejected ps mp r \<and> unknown_kid_rejected ps mp r"
proof -
  note f = fair_runD [OF fair] and verified = signed_verifies [OF fair_runD(1,10) [OF fair]]
  from f(3) obtain v where v: "uuid_parse_str ps test_tenant = Some v" by blast
  have "valid_token_verifies ps mp r"
    using f(6,8,9) verified [OF f(6) f(2) [OF test_docs_mem(1)] f(2) [OF test_docs_mem(3)], of _ "Some ''https://idam.example.com''"]
    by (simp add: valid_token_verifies_def Let_def v)
  moreover have "expired_token_rejected ps mp r \<longleftrightarrow> now_unix (tr_clock r) \<noteq> 10"
    using f(8) verified [OF f(7) f(2) [OF test_docs_mem(1)] f(2) [OF test_docs_mem(5)], of _ None]
    by (simp add: expired_token_rejected_def Let_def)
  moreover have "wrong_issuer_rejected ps mp r"
    using f(6,8,9) verified [OF f(6) f(2) [OF test_docs_mem(1)] f(2) [OF test_docs_mem(6)], of _ "Some ''https://expected''"]
    by (simp add: wrong_issuer_rejected_def Let_def)
  ultimately show ?thesis using tampered_passes [OF fair] unknown_kid_passes [OF fair] by simp
qed

theorem dev_fallback_passes:
  assumes "header_to_str ps ''charles@dev'' = Some ''charles@dev''"
  shows "dev_fallback_uses_x_actor ps w"
  using assms by (simp add: dev_fallback_uses_x_actor_def caller_def enforcing_def Let_def ok_def)

text \<open>Fair runs exist: the texts of the documents may be numerals of a table of them.\<close>

definition table_mint :: "json list \<Rightarrow> mint_prims" where
  "table_mint docs = demo_mint\<lparr>json_text := \<lambda>d. replicate (length (takeWhile ((\<noteq>) d) docs)) (CHR ''i'')\<rparr>"

definition table_prims :: "json list \<Rightarrow> prims" where
  "table_prims docs = (demo_prims 1)\<lparr>parse_json := (\<lambda>b. if length b < length docs then Some (docs ! length b) else None),
     uuid_parse_str := (\<lambda>s. Some 1)\<rparr>"

lemma fair_run_exists:
  "fair_run (table_prims (test_docs 100)) (table_mint (test_docs 100))
     \<lparr>tr_kp = ''k'', tr_clock = Some 100, tr_instant = 0, tr_world = (demo_auth_world 101)\<lparr>fetch := (\<lambda>_. Inl ''refused'')\<rparr>\<rparr>"
proof -
  let ?docs = "test_docs 100"
  have table: "length (takeWhile ((\<noteq>) d) ?docs) < length ?docs \<and> ?docs ! length (takeWhile ((\<noteq>) d) ?docs) = d"
    if "d \<in> set ?docs" for d
  proof -
    have "takeWhile ((\<noteq>) d) ?docs \<noteq> ?docs"
      using that by (auto simp: takeWhile_eq_all_conv)
    then have "length (takeWhile ((\<noteq>) d) ?docs) < length ?docs"
      by (metis append_eq_conv_conj le_neq_implies_less length_takeWhile_le takeWhile_dropWhile_id take_all_iff order_refl)
    with nth_length_takeWhile [of "(\<noteq>) d" ?docs] show ?thesis by simp
  qed
  have "reads_back (parse_json (table_prims ?docs)) (json_text (table_mint ?docs)) ?docs"
    using table by (simp add: reads_back_def list_all_iff table_prims_def table_mint_def)
  moreover have "suite_ok (table_prims ?docs) (table_mint ?docs)"
    using demo_suite [of 1] by (simp add: suite_ok_def table_prims_def table_mint_def)
  moreover have "signed_input (table_mint ?docs) ''test-kid'' 400 ''x'' \<noteq> evil_input (table_mint ?docs)"
    by (simp add: signed_input_def evil_input_def evil_claims_def table_mint_def demo_mint_def test_docs_def)
  ultimately show ?thesis
    by (simp add: fair_run_def Let_def now_unix_def i64_ok_def from_secs_def)
      (simp add: table_prims_def table_mint_def demo_prims_def demo_mint_def)
qed

section \<open>The tests of the mock provider\<close>

text \<open>The provider is made by \<open>mock_new\<close>; \<open>bound\<close> is what binding its listener answers. The world serves at the
  provider's address what the provider serves.\<close>

definition end_to_end_fetch_and_verify :: "prims \<Rightarrow> mint_prims \<Rightarrow> MockIdp option \<Rightarrow> string + string \<Rightarrow> nat option \<Rightarrow> auth_world \<Rightarrow> bool" where
  "end_to_end_fetch_and_verify ps mp made bound clk w \<longleftrightarrow>
     (case (made, bound) of
        (Some idp, Inr addr) \<Rightarrow>
          (case mock_serve mp idp (Inr addr :: string + string) of
             Inl _ \<Rightarrow> False
           | Inr (base, app) \<Rightarrow>
               (let auth = authenticator_new \<lparr>jwks_url = Some (base @ ''/.well-known/jwks.json''),
                      issuer = Some ''https://idam.example.com'', cache_ttl = from_secs 600\<rparr>
                in case mint mp idp clk ''client:ci'' test_tenant [''admin''] 300 of
                     None \<Rightarrow> False
                   | Some tok \<Rightarrow>
                       (case fst (caller_bearer ps (auth_cfg auth) (w\<lparr>fetch := (\<lambda>u.
                            if u = base @ jwks_path then Inr (snd (snd (app ''GET'' jwks_path))) else fetch w u)\<rparr>)
                            tok (auth_cache auth)) of
                          Inl _ \<Rightarrow> False
                        | Inr c \<Rightarrow> subject c = ''client:ci'' \<and> roles c = [''admin''])))
      | _ \<Rightarrow> False)"

theorem end_to_end_passes:
  assumes suite: "suite_ok ps mp"
    and made: "mock_new pkcs8 from_pkcs8 ''ci-kid'' ''https://idam.example.com'' = Some idp"
    and texts: "reads_back (parse_json ps) (json_text mp) [jwks_document mp idp, mint_header idp,
      mint_payload idp (now_unix clk) ''client:ci'' test_tenant [''admin''] 300]"
    and times: "i64_ok (now_unix clk + 300)" "now_unix (since_epoch w) \<le> now_unix clk + 300"
      "at_recheck w - at_store w \<le> from_secs 600"
  shows "end_to_end_fetch_and_verify ps mp (Some idp) (Inr addr) clk w"
proof -
  have isr: "mock_issuer idp = ''https://idam.example.com''"
    using made by (auto simp: mock_new_def split: bind_splits)
  obtain tok where m: "mint mp idp clk ''client:ci'' test_tenant [''admin''] 300 = Some tok"
    using times(1) by (simp add: mint_def Let_def)
  let ?w = "w\<lparr>fetch := (\<lambda>u. if u = ''http://'' @ addr @ jwks_path then Inr (jwks_json mp idp) else fetch w u)\<rparr>"
  have "fst (verify ps \<lparr>jwks_url = Some (''http://'' @ addr @ jwks_path), issuer = Some ''https://idam.example.com'',
      cache_ttl = from_secs 600\<rparr> ?w tok None) =
    (if now_unix clk + 300 \<noteq> 0 \<and> now_unix clk + 300 < now_unix (since_epoch ?w) then Inl Expired
      else Inr \<lparr>subject = ''client:ci'', caller_tenant_id = uuid_parse_str ps test_tenant, roles = [''admin'']\<rparr>)"
    by (subst minted_verifies [OF suite m texts, where u = "''http://'' @ addr @ jwks_path"]) (use times(3) isr in auto)
  with m times(2) show ?thesis
    by (simp add: end_to_end_fetch_and_verify_def mock_serve_def mock_app_def caller_bearer_def jwks_path_def cong: if_cong)
qed

definition at_key :: "string \<Rightarrow> json option \<Rightarrow> json option" where
  "at_key k d = (case d of Some (JObj kvs) \<Rightarrow> map_of kvs k | _ \<Rightarrow> None)"

definition at_index :: "nat \<Rightarrow> json option \<Rightarrow> json option" where
  "at_index i d = (case d of Some (JArr xs) \<Rightarrow> if i < length xs then Some (xs ! i) else None | _ \<Rightarrow> None)"

definition jwks_uses_rfc8037_casing :: "prims \<Rightarrow> mint_prims \<Rightarrow> MockIdp option \<Rightarrow> bool" where
  "jwks_uses_rfc8037_casing ps mp made \<longleftrightarrow>
     (case made of
        None \<Rightarrow> False
      | Some idp \<Rightarrow>
          (case parse_json ps (jwks_json mp idp) of
             None \<Rightarrow> False
           | Some doc \<Rightarrow>
               at_key ''kty'' (at_index 0 (at_key ''keys'' (Some doc))) = Some (JStr ''OKP'')
             \<and> at_key ''crv'' (at_index 0 (at_key ''keys'' (Some doc))) = Some (JStr ''Ed25519'')))"

theorem jwks_casing_passes:
  assumes "mock_new pkcs8 from_pkcs8 ''k'' ''iss'' = Some idp"
    and "reads_back (parse_json ps) (json_text mp) [jwks_document mp idp]"
  shows "jwks_uses_rfc8037_casing ps mp (Some idp)"
  using assms(2)
  by (simp add: jwks_uses_rfc8037_casing_def reads_back_def jwks_json_def at_key_def at_index_def jwks_document_def mock_jwk_def)

end
